(* ===== verification/Prelude.thy ===== *)
theory Prelude
  imports Main "HOL-Library.AList" "HOL-Library.Char_ord" "HOL-Library.List_Lexorder"
    "HOL-Library.Word" "HOL-Library.Multiset"
begin

text \<open>
  Shared vocabulary of the development: Go maps as association lists with distinct keys
  (the list order is one order in which Go may range over the map), Go's 64-bit signed
  arithmetic, results of Go functions that return a value and an error, byte-string
  helpers of the \<open>strings\<close> and \<open>slices\<close> packages, and the generic lemmas the component
  theories rest on.
\<close>

named_theorems go_defs \<open>definitions of pure Go helpers that proofs unfold together\<close>
named_theorems go_set \<open>element sets of the list-producing helpers\<close>

section \<open>Go maps\<close>

type_synonym ('k, 'v) gomap = "('k \<times> 'v) list"
type_synonym tagmap = "(string, string) gomap"

text \<open>A Go map holds each key once.\<close>

abbreviation wf_map :: "('k, 'v) gomap \<Rightarrow> bool" where
  "wf_map m \<equiv> distinct (map fst m)"

text \<open>
  \<open>lo.Assign\<close> merges maps from left to right, so an entry of a later map wins.
\<close>

definition assign2 :: "('k, 'v) gomap \<Rightarrow> ('k, 'v) gomap \<Rightarrow> ('k, 'v) gomap" where
  "assign2 m n = fold (\<lambda>(k, v). AList.update k v) n m"

definition assign :: "('k, 'v) gomap list \<Rightarrow> ('k, 'v) gomap" where
  "assign ms = fold (\<lambda>n m. assign2 m n) ms []"

lemma map_of_assign2: "wf_map n \<Longrightarrow> map_of (assign2 m n) = map_of m ++ map_of n"
proof (induction n arbitrary: m)
  case Nil
  then show ?case by (simp add: assign2_def)
next
  case (Cons p n)
  obtain k v where p: "p = (k, v)" by (cases p)
  from Cons.prems p have k: "map_of n k = None"
    by (simp add: map_of_eq_None_iff)
  have "map_of (assign2 m (p # n)) = map_of (AList.update k v m) ++ map_of n"
    using Cons by (simp add: assign2_def p)
  also have "\<dots> = map_of m ++ map_of (p # n)"
    using k by (auto simp: p update_conv' map_add_def fun_eq_iff split: option.splits)
  finally show ?case .
qed

lemma wf_assign2 [simp]: "wf_map m \<Longrightarrow> wf_map (assign2 m n)"
  unfolding assign2_def
proof (induction n arbitrary: m)
  case Nil
  then show ?case by simp
next
  case (Cons p n)
  then show ?case by (cases p) (simp add: distinct_update)
qed

lemma assign2_Nil [simp]: "assign2 m [] = m"
  by (simp add: assign2_def)

lemma wf_assign [simp]: "wf_map (assign ms)"
proof -
  have "wf_map m \<Longrightarrow> wf_map (fold (\<lambda>n m. assign2 m n) ms m)" for m :: "('a, 'b) gomap"
    by (induction ms arbitrary: m) auto
  then show ?thesis by (simp add: assign_def)
qed

lemma map_of_assign:
  assumes "\<forall>m \<in> set ms. wf_map m"
  shows "map_of (assign ms) = fold (\<lambda>n m. m ++ map_of n) ms Map.empty"
proof -
  have "map_of (fold (\<lambda>n m. assign2 m n) ms m) = fold (\<lambda>n m. m ++ map_of n) ms (map_of m)" for m
    using assms by (induction ms arbitrary: m) (auto simp: map_of_assign2)
  then show ?thesis by (simp add: assign_def)
qed

lemma wf_map_in_iff: "wf_map m \<Longrightarrow> (k, v) \<in> set m \<longleftrightarrow> map_of m k = Some v"
  by (auto simp: map_of_is_SomeI dest: map_of_SomeD)

lemma wf_map_perm_map_of:
  assumes "wf_map m" "mset m' = mset m"
  shows "wf_map m'" "map_of m' = map_of m"
proof -
  from assms(2) have "mset (map fst m') = mset (map fst m)" by (metis mset_map)
  with assms(1) show wf: "wf_map m'" by (metis mset_eq_imp_distinct_iff)
  have "set m' = set m" using assms(2) by (metis set_mset_mset)
  with wf assms(1) show "map_of m' = map_of m" by (metis map_of_inject_set)
qed

text \<open>\<open>delete(m, k)\<close> for every key of a list.\<close>

definition delete_keys :: "'k list \<Rightarrow> ('k, 'v) gomap \<Rightarrow> ('k, 'v) gomap" where
  "delete_keys ks m = fold AList.delete ks m"

lemma map_of_delete_keys: "map_of (delete_keys ks m) k = (if k \<in> set ks then None else map_of m k)"
  unfolding delete_keys_def
  by (induction ks arbitrary: m) (auto simp: delete_conv')

lemma wf_delete_keys [simp]: "wf_map m \<Longrightarrow> wf_map (delete_keys ks m)"
  unfolding delete_keys_def
  by (induction ks arbitrary: m) (auto simp: distinct_delete)

section \<open>Range order\<close>

text \<open>
  Go ranges over a map in an unspecified order. A \<^emph>\<open>range order\<close> is a function that picks
  the order; every definition that ranges over a map takes it as an argument, so a theorem
  that quantifies over it holds for every order. The language promises that each entry is
  visited once.
\<close>

type_synonym range_order = "tagmap \<Rightarrow> tagmap"

definition range_ok :: "range_order \<Rightarrow> bool" where
  "range_ok rng \<longleftrightarrow> (\<forall>m. mset (rng m) = mset m)"

lemma range_ok_set [simp]: "range_ok rng \<Longrightarrow> set (rng m) = set m"
  by (metis range_ok_def set_mset_mset)

lemma range_ok_id: "range_ok (\<lambda>m. m)"
  by (simp add: range_ok_def)

lemma range_ok_rev: "range_ok rev"
  by (simp add: range_ok_def)

section \<open>64-bit signed integers\<close>

text \<open>\<open>time.Duration\<close> is an \<open>int64\<close>: products wrap around, \<open>time.Until\<close> saturates.\<close>

definition wrap64 :: "int \<Rightarrow> int" where
  "wrap64 x = (x + 2 ^ 63) mod 2 ^ 64 - 2 ^ 63"

definition sat64 :: "int \<Rightarrow> int" where
  "sat64 x = max (- (2 ^ 63)) (min (2 ^ 63 - 1) x)"

lemma wrap64_id: "- (2 ^ 63) \<le> x \<Longrightarrow> x < 2 ^ 63 \<Longrightarrow> wrap64 x = x"
  by (simp add: wrap64_def)

lemma sat64_le_0 [simp]: "sat64 x \<le> 0 \<longleftrightarrow> x \<le> 0"
  by (simp add: sat64_def min_le_iff_disj)

lemma wrap64_signed_word: "wrap64 x = sint (word_of_int x :: 64 word)"
  by (simp add: wrap64_def sint_uint uint_word_of_int signed_take_bit_eq_take_bit_shift
      take_bit_eq_mod mod_simps)

section \<open>Byte strings\<close>

text \<open>\<open>strings.IndexRune\<close> for an ASCII rune: the first position, or -1.\<close>

definition IndexRune :: "string \<Rightarrow> char \<Rightarrow> int" where
  "IndexRune s c = (if c \<in> set s then int (length (takeWhile (\<lambda>x. x \<noteq> c) s)) else -1)"

definition HasPrefix :: "string \<Rightarrow> string \<Rightarrow> bool" where
  "HasPrefix s p \<longleftrightarrow> take (length p) s = p"

fun strings_Join :: "string list \<Rightarrow> string \<Rightarrow> string" where
  "strings_Join [] sep = []"
| "strings_Join [x] sep = x"
| "strings_Join (x # xs) sep = x @ sep @ strings_Join xs sep"

fun strings_Contains :: "string \<Rightarrow> string \<Rightarrow> bool" where
  "strings_Contains [] sub \<longleftrightarrow> sub = []"
| "strings_Contains (c # s) sub \<longleftrightarrow> take (length sub) (c # s) = sub \<or> strings_Contains s sub"

text \<open>\<open>strconv.Itoa\<close> and \<open>%d\<close>.\<close>

fun show_nat :: "nat \<Rightarrow> string" where
  "show_nat n = (if n < 10 then [char_of (48 + n)] else show_nat (n div 10) @ [char_of (48 + n mod 10)])"

declare show_nat.simps [simp del]

definition Itoa :: "int \<Rightarrow> string" where
  "Itoa i = (if i < 0 then ''-'' @ show_nat (nat (- i)) else show_nat (nat i))"

lemma strings_Contains_append: "strings_Contains (xs @ sub @ ys) sub"
proof (induction xs)
  case Nil
  show ?case
  proof (cases "sub @ ys")
    case (Cons c s)
    have "take (length sub) (sub @ ys) = sub" by simp
    with Cons show ?thesis by simp
  qed simp
qed simp

lemma strings_Contains_self: "strings_Contains s s"
  using strings_Contains_append [of "[]" s "[]"] by simp

section \<open>Lists\<close>

lemma find_SomeD: "find P xs = Some x \<Longrightarrow> x \<in> set xs \<and> P x"
  by (auto simp: find_Some_iff)

section \<open>Sorting and removing duplicates\<close>

text \<open>\<open>slices.Sort\<close> sorts strings by bytes, as \<open>sort\<close> does with the lexicographic order.\<close>

lemma sort_perm: "mset xs = mset ys \<Longrightarrow> sort xs = sort (ys :: 'a :: linorder list)"
  by (metis properties_for_sort sorted_sort mset_sort)

lemma sort_distinct_set:
  "distinct xs \<Longrightarrow> distinct ys \<Longrightarrow> set xs = set ys \<Longrightarrow> sort xs = sort (ys :: 'a :: linorder list)"
  by (metis set_eq_iff_mset_eq_distinct sort_perm)

end
