(* ===== verification/ApiTypes.thy ===== *)
theory ApiTypes
  imports Complex_Main Prelude
begin

text \<open>
  The Kubernetes objects the provider works on: the LinodeNodeClass of
  pkg/apis/v1alpha1/linodenodeclass.go and linodenodeclass_status.go field by field, and, of
  Karpenter's NodeClaim, NodePool, InstanceType and Offering, the fields the provider reads
  or writes. Pointers are options, \<open>omitempty\<close> strings are strings, times are integers
  (nanoseconds), a \<open>resource.Quantity\<close> is its exact value and a price the exact value of the
  float64.
\<close>

type_synonym quantity = rat
type_synonym resource_list = "(string, quantity) gomap"

section \<open>LinodeNodeClass\<close>

record InstanceDisk =
  DiskID :: int
  DiskSize :: quantity
  DiskLabel :: string
  Filesystem :: string

record InstanceDisks =
  SDB :: "InstanceDisk option"
  SDC :: "InstanceDisk option"
  SDD :: "InstanceDisk option"
  SDE :: "InstanceDisk option"
  SDF :: "InstanceDisk option"
  SDG :: "InstanceDisk option"
  SDH :: "InstanceDisk option"

record InstanceConfiguration =
  Kernel :: string

record PlacementGroupOptions =
  PlacementGroupID :: int
  CompliantOnly :: "bool option"

record IPv6CreateOptions =
  EnableSLAAC :: "bool option"
  EnableRanges :: "bool option"
  IsPublicIPv6 :: "bool option"

record KubeletConfiguration =
  ClusterDNS :: "string list"
  MaxPods :: "int option"
  PodsPerCore :: "int option"
  SystemReserved :: tagmap
  KubeReserved :: tagmap
  EvictionHard :: "tagmap option"
  EvictionSoft :: "tagmap option"
  EvictionSoftGracePeriod :: "(string, int) gomap"
  EvictionMaxPodGracePeriod :: "int option"
  CPUCFSQuota :: "bool option"

record LinodeNodeClassSpec =
  AuthorizedKeys :: "string list"
  AuthorizedUsers :: "string list"
  Image :: string
  BackupsEnabled :: bool
  SpecTags :: "string list"
  FirewallID :: "int option"
  OSDisk :: "InstanceDisk option"
  DataDisks :: "InstanceDisks option"
  DiskEncryption :: string
  Configuration :: "InstanceConfiguration option"
  PlacementGroup :: "PlacementGroupOptions option"
  VPCID :: "int option"
  IPv6Options :: "IPv6CreateOptions option"
  SwapSize :: "int option"
  Kubelet :: "KubeletConfiguration option"
  LKEK8sVersion :: "string option"

text \<open>A status condition, as operatorpkg keeps it.\<close>

datatype cond_status = CondTrue | CondFalse | CondUnknown

record condition =
  CondStatus :: cond_status
  CondReason :: string
  CondMessage :: string
  ObservedGeneration :: int

record LinodeImage =
  ImageID :: string
  Deprecated :: bool
  ImageLabel :: string

record LinodeNodeClass =
  NodeClassName :: string
  NodeClassUID :: string
  Generation :: int
  NodeClassAnnotations :: tagmap
  Finalizers :: "string list"
  NodeClassDeletion :: "int option"
  Spec :: LinodeNodeClassSpec
  LinodeImages :: "LinodeImage list"
  Conditions :: "(string, condition) gomap"

section \<open>Karpenter objects\<close>

record taint =
  TaintKey :: string
  TaintValue :: string
  TaintEffect :: string

record NodeSelectorRequirement =
  SelKey :: string
  SelOperator :: string
  SelValues :: "string list"
  SelMinValues :: "int option"

text \<open>
  \<open>CreationTimestamp\<close> is the time itself: a zero timestamp is \<open>None\<close>. \<open>DriftedCondition\<close>
  says whether the NodeClaim carries a Drifted condition.
\<close>

record NodeClaim =
  NodeClaimName :: string
  NodeClaimUID :: string
  NodeClaimLabels :: tagmap
  NodeClaimAnnotations :: tagmap
  NodeClassRef :: "string option"
  Requirements :: "NodeSelectorRequirement list"
  ResourceRequests :: resource_list
  Taints :: "taint list"
  ProviderID :: string
  StatusNodeName :: string
  StatusImageID :: string
  Capacity :: resource_list
  Allocatable :: resource_list
  CreationTimestamp :: "int option"
  DeletionTimestamp :: "int option"
  DriftedCondition :: bool

definition emptyNodeClaim :: NodeClaim where
  "emptyNodeClaim = \<lparr>NodeClaimName = [], NodeClaimUID = [], NodeClaimLabels = [], NodeClaimAnnotations = [],
     NodeClassRef = None, Requirements = [], ResourceRequests = [], Taints = [], ProviderID = [],
     StatusNodeName = [], StatusImageID = [], Capacity = [], Allocatable = [],
     CreationTimestamp = None, DeletionTimestamp = None, DriftedCondition = False\<rparr>"

record NodePool =
  NodePoolName :: string
  NodePoolUID :: string
  NodePoolClassRef :: "string option"

text \<open>A requirement of an instance type or an offering: a key and its allowed values.\<close>

record requirement =
  ReqKey :: string
  ReqValues :: "string list"

type_synonym requirements = "(string, requirement) gomap"

record offering =
  OffRequirements :: requirements
  Price :: rat
  Available :: bool

record overhead =
  OverKubeReserved :: resource_list
  OverSystemReserved :: resource_list
  OverEvictionThreshold :: resource_list

datatype device_attribute = AttributeString string | AttributeVersion string

record device =
  DeviceName :: string
  DeviceAttributes :: "(string, device_attribute) gomap"
  DeviceCapacity :: "(string, quantity) gomap"

record slice_template =
  SliceDriver :: string
  SlicePool :: string
  SliceDevices :: "device list"

record instance_type =
  ItName :: string
  ItRequirements :: requirements
  ItOfferings :: "offering list"
  ItCapacity :: resource_list
  ItOverhead :: overhead
  ItDynamicResources :: "slice_template list"

text \<open>Reading a missing key of a Go map gives the zero value, here the empty string.\<close>

definition labelOf :: "tagmap \<Rightarrow> string \<Rightarrow> string" where
  "labelOf m k = (case map_of m k of Some v \<Rightarrow> v | None \<Rightarrow> [])"

end
