(* ===== verification/GoErrors.thy ===== *)
theory GoErrors
  imports Prelude
begin

text \<open>
  Go error values and the predicates the provider asks of them. An error built by
  \<open>fmt.Errorf\<close> keeps its format string, its string operands and the errors it wraps with
  \<open>%w\<close>, so that \<open>errors.Is\<close> and \<open>errors.As\<close> are the standard library's walk over the
  wrapped errors. The error types of linodego, Karpenter and the Kubernetes client are
  constructors; the functions those packages export on errors are not under \<open>src/\<close> and are
  the fields of the record \<open>lib\<close>.
\<close>

section \<open>Error values\<close>

text \<open>
  Package-level error variables: the six of lke.go and utils.go, then those of the standard
  library that \<open>IsRetryableError\<close> compares with.
\<close>

datatype sentinel =
    ErrNodesProvisioning | ErrNoClaimableInstance | ErrClaimFailed | ErrPoolScaleFailed
  | ErrCreateTimeout | ErrInstanceNotFound
  | ErrHandlerTimeout | OsErrDeadlineExceeded | ContextDeadlineExceeded | ContextCanceled
  | ErrUnexpectedEOF

datatype kube_reason = KubeNotFound | KubeConflict | KubeOther

text \<open>
  The body of an API error response as \<open>json.Unmarshal\<close> into \<open>linodego.APIError\<close> reads it:
  the list of (field, reason) pairs, or \<open>None\<close> when it cannot be read or parsed.
\<close>

type_synonym api_body = "(string \<times> string) list option"

datatype err =
    Sentinel sentinel
  | LinodeErr int string "api_body option"
  | NetErr bool "err list"
  | Errorf string "string list" "err list"
  | PoolRequestErr err
  | CreateErr err string string
  | InsufficientCapacityErr err
  | NodeClaimNotFoundErr err
  | NodeClassNotReadyErr err
  | KubeErr kube_reason string
  | TerminalErr err

type_synonym 'a res = "err + 'a"

text \<open>A Go function that returns only an error: \<open>None\<close> is \<open>nil\<close>.\<close>

type_synonym nilerr = "err option"

section \<open>errors.Is and errors.As\<close>

text \<open>The \<open>Unwrap\<close> methods: the errors directly below one.\<close>

fun unwrap :: "err \<Rightarrow> err list" where
  "unwrap (NetErr t es) = es"
| "unwrap (Errorf f as es) = es"
| "unwrap (PoolRequestErr e) = [e]"
| "unwrap (CreateErr e r m) = [e]"
| "unwrap (InsufficientCapacityErr e) = [e]"
| "unwrap (NodeClaimNotFoundErr e) = [e]"
| "unwrap (NodeClassNotReadyErr e) = [e]"
| "unwrap (TerminalErr e) = [e]"
| "unwrap _ = []"

lemma unwrap_size: "e' \<in> set (unwrap e) \<Longrightarrow> size e' < size e"
  by (cases e) (auto dest: size_list_estimation' [where f = size] simp: less_Suc_eq_le
      intro: size_list_estimation' [where f = size])

fun find_map :: "('a \<Rightarrow> 'b option) \<Rightarrow> 'a list \<Rightarrow> 'b option" where
  "find_map f [] = None"
| "find_map f (x # xs) = (case f x of Some y \<Rightarrow> Some y | None \<Rightarrow> find_map f xs)"

lemma find_map_cong [fundef_cong]:
  "xs = ys \<Longrightarrow> (\<And>x. x \<in> set ys \<Longrightarrow> f x = g x) \<Longrightarrow> find_map f xs = find_map g ys"
proof (induction ys arbitrary: xs)
  case (Cons y ys)
  then show ?case by (auto split: option.splits)
qed simp

lemma find_map_Some: "find_map f xs = Some y \<Longrightarrow> \<exists>x \<in> set xs. f x = Some y"
  by (induction xs) (auto split: option.splits)

lemma find_map_None: "find_map f xs = None \<longleftrightarrow> (\<forall>x \<in> set xs. f x = None)"
  by (induction xs) (auto split: option.splits)

text \<open>
  \<open>errors.As\<close>: the first error of the tree, in pre-order, for which \<open>m\<close> holds something;
  \<open>m\<close> recognises the target type.
\<close>

function errors_As :: "(err \<Rightarrow> 'a option) \<Rightarrow> err \<Rightarrow> 'a option" where
  "errors_As m e = (case m e of Some x \<Rightarrow> Some x | None \<Rightarrow> find_map (errors_As m) (unwrap e))"
  by pat_completeness auto
termination
  by (relation "measure (size \<circ> snd)") (auto dest: unwrap_size)

declare errors_As.simps [simp del]

lemma errors_As_here [simp]: "m e = Some x \<Longrightarrow> errors_As m e = Some x"
  by (subst errors_As.simps) simp

lemma errors_As_below: "m e = None \<Longrightarrow> errors_As m e = find_map (errors_As m) (unwrap e)"
  by (subst errors_As.simps) simp

definition errors_Is :: "err \<Rightarrow> sentinel \<Rightarrow> bool" where
  "errors_Is e s \<longleftrightarrow> errors_As (\<lambda>x. if x = Sentinel s then Some () else None) e \<noteq> None"

lemma errors_Is_rec:
  "errors_Is e s \<longleftrightarrow> e = Sentinel s \<or> (\<exists>e' \<in> set (unwrap e). errors_Is e' s)"
proof (cases "e = Sentinel s")
  case False
  let ?m = "\<lambda>x. if x = Sentinel s then Some () else None"
  from False have "errors_As ?m e = find_map (errors_As ?m) (unwrap e)"
    by (simp add: errors_As_below)
  then have "errors_Is e s \<longleftrightarrow> \<not> (\<forall>e' \<in> set (unwrap e). errors_As ?m e' = None)"
    unfolding errors_Is_def by (simp only: find_map_None)
  with False show ?thesis by (auto simp only: errors_Is_def)
qed (simp add: errors_Is_def)

lemma errors_Is_simps [simp]:
  "errors_Is (Sentinel t) s \<longleftrightarrow> t = s"
  "\<not> errors_Is (LinodeErr c m b') s"
  "errors_Is (Errorf f as es) s \<longleftrightarrow> (\<exists>e \<in> set es. errors_Is e s)"
  "errors_Is (NetErr b es) s \<longleftrightarrow> (\<exists>e \<in> set es. errors_Is e s)"
  "errors_Is (PoolRequestErr e) s \<longleftrightarrow> errors_Is e s"
  "errors_Is (CreateErr e r m) s \<longleftrightarrow> errors_Is e s"
  "errors_Is (InsufficientCapacityErr e) s \<longleftrightarrow> errors_Is e s"
  "errors_Is (NodeClaimNotFoundErr e) s \<longleftrightarrow> errors_Is e s"
  "errors_Is (NodeClassNotReadyErr e) s \<longleftrightarrow> errors_Is e s"
  "errors_Is (TerminalErr e) s \<longleftrightarrow> errors_Is e s"
  "\<not> errors_Is (KubeErr k m) s"
  by (simp_all add: errors_Is_rec [of "Sentinel t" s]
      errors_Is_rec [of "LinodeErr c m b'" s]
      errors_Is_rec [of "Errorf f as es" s]
      errors_Is_rec [of "NetErr b es" s]
      errors_Is_rec [of "PoolRequestErr e" s]
      errors_Is_rec [of "CreateErr e r m" s]
      errors_Is_rec [of "InsufficientCapacityErr e" s]
      errors_Is_rec [of "NodeClaimNotFoundErr e" s]
      errors_Is_rec [of "NodeClassNotReadyErr e" s]
      errors_Is_rec [of "TerminalErr e" s]
      errors_Is_rec [of "KubeErr k m" s])

text \<open>The target types the provider asks for.\<close>

fun is_linode :: "err \<Rightarrow> (int \<times> string \<times> api_body option) option" where
  "is_linode (LinodeErr c m r) = Some (c, m, r)"
| "is_linode _ = None"

fun is_pool_request :: "err \<Rightarrow> err option" where
  "is_pool_request (PoolRequestErr e) = Some e"
| "is_pool_request _ = None"

fun is_create :: "err \<Rightarrow> (err \<times> string) option" where
  "is_create (CreateErr e r m) = Some (e, r)"
| "is_create _ = None"

text \<open>
  \<open>net.Error\<close> is an interface: network errors implement it, and so do the two deadline
  errors of the standard library, whose \<open>Timeout()\<close> is true.
\<close>

fun is_net :: "err \<Rightarrow> bool option" where
  "is_net (NetErr t es) = Some t"
| "is_net (Sentinel OsErrDeadlineExceeded) = Some True"
| "is_net (Sentinel ContextDeadlineExceeded) = Some True"
| "is_net _ = None"

fun is_ice :: "err \<Rightarrow> unit option" where
  "is_ice (InsufficientCapacityErr e) = Some ()"
| "is_ice _ = None"

fun is_nodeclaim_not_found :: "err \<Rightarrow> unit option" where
  "is_nodeclaim_not_found (NodeClaimNotFoundErr e) = Some ()"
| "is_nodeclaim_not_found _ = None"

section \<open>Error functions of the libraries\<close>

text \<open>
  linodego's \<open>ErrHasStatus\<close>, \<open>IsNotFound\<close> and the code \<open>ErrorFromError\<close>; Karpenter's
  \<open>IsInsufficientCapacityError\<close> and \<open>IsNodeClaimNotFoundError\<close>; the Kubernetes client's
  \<open>IsNotFound\<close> and \<open>IsConflict\<close>.
\<close>

record lib =
  ErrHasStatus :: "err \<Rightarrow> int list \<Rightarrow> bool"
  IsNotFound :: "err \<Rightarrow> bool"
  ErrorFromError :: int
  IsInsufficientCapacityError :: "err \<Rightarrow> bool"
  IsNodeClaimNotFoundError :: "err \<Rightarrow> bool"
  KubeIsNotFound :: "err \<Rightarrow> bool"
  KubeIsConflict :: "err \<Rightarrow> bool"

text \<open>
  What the packages document: a status check finds the first API error in the tree and
  compares its code; the Karpenter and Kubernetes predicates look for their own error type.
\<close>

definition lib_ok :: "lib \<Rightarrow> bool" where
  "lib_ok L \<longleftrightarrow>
     (\<forall>e cs. ErrHasStatus L e cs \<longleftrightarrow> (\<exists>c m r. errors_As is_linode e = Some (c, m, r) \<and> c \<in> set cs)) \<and>
     (\<forall>e. IsNotFound L e \<longleftrightarrow> ErrHasStatus L e [404]) \<and>
     (\<forall>e. IsInsufficientCapacityError L e \<longleftrightarrow> errors_As is_ice e \<noteq> None) \<and>
     (\<forall>e. IsNodeClaimNotFoundError L e \<longleftrightarrow> errors_As is_nodeclaim_not_found e \<noteq> None) \<and>
     (\<forall>e. KubeIsNotFound L e \<longleftrightarrow> errors_As (\<lambda>x. case x of KubeErr KubeNotFound t \<Rightarrow> Some () | _ \<Rightarrow> None) e \<noteq> None) \<and>
     (\<forall>e. KubeIsConflict L e \<longleftrightarrow> errors_As (\<lambda>x. case x of KubeErr KubeConflict t \<Rightarrow> Some () | _ \<Rightarrow> None) e \<noteq> None)"

text \<open>A library that does what is documented, to instantiate the parameter with.\<close>

definition documented_lib :: lib where
  "documented_lib = \<lparr>
     ErrHasStatus = (\<lambda>e cs. case errors_As is_linode e of Some (c, m, r) \<Rightarrow> c \<in> set cs | None \<Rightarrow> False),
     IsNotFound = (\<lambda>e. case errors_As is_linode e of Some (c, m, r) \<Rightarrow> c = 404 | None \<Rightarrow> False),
     ErrorFromError = 2,
     IsInsufficientCapacityError = (\<lambda>e. errors_As is_ice e \<noteq> None),
     IsNodeClaimNotFoundError = (\<lambda>e. errors_As is_nodeclaim_not_found e \<noteq> None),
     KubeIsNotFound = (\<lambda>e. errors_As (\<lambda>x. case x of KubeErr KubeNotFound t \<Rightarrow> Some () | _ \<Rightarrow> None) e \<noteq> None),
     KubeIsConflict = (\<lambda>e. errors_As (\<lambda>x. case x of KubeErr KubeConflict t \<Rightarrow> Some () | _ \<Rightarrow> None) e \<noteq> None)\<rparr>"

lemma documented_lib_ok: "lib_ok documented_lib"
  by (auto simp: lib_ok_def documented_lib_def split: option.splits)

section \<open>Retryable errors\<close>

text \<open>utils.go, \<open>IsRetryableError\<close>: a network timeout, one of six HTTP statuses or a
  wrapped transport error, or one of four deadline and stream errors.\<close>

definition IsRetryableError :: "lib \<Rightarrow> err \<Rightarrow> bool" where
  "IsRetryableError L e \<longleftrightarrow>
     errors_As is_net e = Some True \<or>
     ErrHasStatus L e [429, 500, 502, 504, 503, 408, ErrorFromError L] \<or>
     errors_Is e ErrHandlerTimeout \<or> errors_Is e OsErrDeadlineExceeded \<or>
     errors_Is e ContextDeadlineExceeded \<or> errors_Is e ErrUnexpectedEOF"

text \<open>lke.go, \<open>isRetryableCreateError\<close>.\<close>

definition isRetryableCreateError :: "err \<Rightarrow> bool" where
  "isRetryableCreateError e \<longleftrightarrow>
     errors_Is e ErrNodesProvisioning \<or> errors_Is e ErrNoClaimableInstance \<or>
     errors_Is e ErrClaimFailed \<or> errors_Is e ErrPoolScaleFailed"

text \<open>\<open>cloudprovider.IgnoreNodeClaimNotFoundError\<close> and \<open>client.IgnoreNotFound\<close>.\<close>

definition IgnoreNodeClaimNotFoundError :: "lib \<Rightarrow> nilerr \<Rightarrow> nilerr" where
  "IgnoreNodeClaimNotFoundError L e =
     (case e of Some x \<Rightarrow> if IsNodeClaimNotFoundError L x then None else Some x | None \<Rightarrow> None)"

definition IgnoreNotFound :: "lib \<Rightarrow> nilerr \<Rightarrow> nilerr" where
  "IgnoreNotFound L e = (case e of Some x \<Rightarrow> if KubeIsNotFound L x then None else Some x | None \<Rightarrow> None)"

section \<open>Looking through wrappers\<close>

lemma errors_As_wrap [simp]:
  "errors_As is_linode (LinodeErr c m b) = Some (c, m, b)"
  "errors_As is_linode (Errorf f as es) = find_map (errors_As is_linode) es"
  "errors_As is_linode (PoolRequestErr e) = errors_As is_linode e"
  "errors_As is_linode (CreateErr e r m) = errors_As is_linode e"
  "errors_As is_linode (InsufficientCapacityErr e) = errors_As is_linode e"
  "errors_As is_linode (NodeClaimNotFoundErr e) = errors_As is_linode e"
  "errors_As is_linode (Sentinel s) = None"
  by (simp_all add: errors_As_below split: option.splits)

lemma errors_As_ice [simp]:
  "errors_As is_ice (InsufficientCapacityErr e) = Some ()"
  "errors_As is_ice (Errorf f as es) = find_map (errors_As is_ice) es"
  "errors_As is_ice (PoolRequestErr e) = errors_As is_ice e"
  "errors_As is_ice (CreateErr e r m) = errors_As is_ice e"
  "errors_As is_ice (NodeClaimNotFoundErr e) = errors_As is_ice e"
  "errors_As is_ice (Sentinel s) = None"
  "errors_As is_ice (LinodeErr c m b) = None"
  by (simp_all add: errors_As_below split: option.splits)

lemma errors_As_ncnf [simp]:
  "errors_As is_nodeclaim_not_found (NodeClaimNotFoundErr e) = Some ()"
  "errors_As is_nodeclaim_not_found (Errorf f as es) = find_map (errors_As is_nodeclaim_not_found) es"
  "errors_As is_nodeclaim_not_found (PoolRequestErr e) = errors_As is_nodeclaim_not_found e"
  "errors_As is_nodeclaim_not_found (CreateErr e r m) = errors_As is_nodeclaim_not_found e"
  "errors_As is_nodeclaim_not_found (LinodeErr c m b) = None"
  "errors_As is_nodeclaim_not_found (Sentinel s) = None"
  by (simp_all add: errors_As_below split: option.splits)

lemma errors_As_pool [simp]:
  "errors_As is_pool_request (PoolRequestErr e) = Some e"
  "errors_As is_pool_request (Errorf f as es) = find_map (errors_As is_pool_request) es"
  "errors_As is_pool_request (CreateErr e r m) = errors_As is_pool_request e"
  "errors_As is_pool_request (InsufficientCapacityErr e) = errors_As is_pool_request e"
  "errors_As is_pool_request (NodeClaimNotFoundErr e) = errors_As is_pool_request e"
  "errors_As is_pool_request (Sentinel s) = None"
  "errors_As is_pool_request (LinodeErr c m b) = None"
  by (simp_all add: errors_As_below split: option.splits)

lemma errors_As_net [simp]:
  "errors_As is_net (NetErr t es) = Some t"
  "errors_As is_net (Errorf f as es) = find_map (errors_As is_net) es"
  "errors_As is_net (PoolRequestErr e) = errors_As is_net e"
  "errors_As is_net (CreateErr e r m) = errors_As is_net e"
  "errors_As is_net (LinodeErr c m b) = None"
  by (simp_all add: errors_As_below split: option.splits)

lemma lib_okD:
  assumes "lib_ok L"
  shows "ErrHasStatus L e cs \<longleftrightarrow> (\<exists>c m r. errors_As is_linode e = Some (c, m, r) \<and> c \<in> set cs)"
    and "IsNotFound L e \<longleftrightarrow> ErrHasStatus L e [404]"
    and "IsInsufficientCapacityError L e \<longleftrightarrow> errors_As is_ice e \<noteq> None"
    and "IsNodeClaimNotFoundError L e \<longleftrightarrow> errors_As is_nodeclaim_not_found e \<noteq> None"
  using assms by (auto simp: lib_ok_def)

end
