(* ===== verification/LinodeApi.thy ===== *)
theory LinodeApi
  imports ApiTypes GoErrors
begin

text \<open>
  The Linode API as pkg/linode/sdk.go declares it (\<open>LinodeAPI\<close>): the linodego structures
  the provider reads and writes, and the interface as a record of operations on an
  abstract world. The client and the Linode service are not under \<open>src/\<close>, so every
  definition that talks to them takes the record as an argument, together with the clock
  and the context (\<open>runtime\<close>). \<open>logged\<close> puts a recorder in front of any client:
  theorems about which requests an operation sends are about the log it leaves.
\<close>

section \<open>linodego structures\<close>

record LinodeInstance =
  LiID :: int
  LiCreated :: "int option"
  LiRegion :: string
  LiImage :: string
  LiGroup :: string
  LiLabel :: string
  LiType :: string
  LiStatus :: string
  LiWatchdogEnabled :: bool
  LiTags :: "string list"
  LiPlacementGroup :: "int option"
  LiDiskEncryption :: string
  LiInterfaceGeneration :: string
  LiLKEClusterID :: int

record LKENodePoolLinode =
  NodeID :: string
  NodeInstanceID :: int

record LKENodePoolTaint =
  LkeTaintKey :: string
  LkeTaintValue :: string
  LkeTaintEffect :: string

record LKENodePool =
  PoolID :: int
  PoolType :: string
  PoolCount :: int
  PoolTags :: "string list"
  PoolLabels :: tagmap
  PoolTaints :: "LKENodePoolTaint list"
  PoolLinodes :: "LKENodePoolLinode list"
  PoolK8sVersion :: "string option"
  PoolUpdateStrategy :: "string option"

record LKECluster =
  ClusterID :: int
  ClusterLabel :: string
  ClusterRegion :: string
  ClusterK8sVersion :: string
  ClusterTierName :: string

record LinodeType =
  LtID :: string
  LtClass :: string
  LtMemory :: int
  LtVCPUs :: int
  LtGPUs :: int
  LtAcceleratedDevices :: int
  LtDisk :: int
  LtTransfer :: int
  LtNetworkOut :: int
  LtHourly :: "rat option"

record RegionAvailability =
  AvRegion :: string
  AvPlan :: string
  AvAvailable :: bool

record InstanceCreateOptions =
  OptLabel :: string
  OptRegion :: string
  OptType :: string
  OptRootPass :: string
  OptAuthorizedKeys :: "string list"
  OptAuthorizedUsers :: "string list"
  OptImage :: string
  OptBackupsEnabled :: bool
  OptTags :: "string list"
  OptDiskEncryption :: string
  OptSwapSize :: "int option"
  OptFirewallID :: int
  OptPlacementGroup :: "(int \<times> bool option) option"

record LKENodePoolCreateOptions =
  CreateCount :: int
  CreateType :: string
  CreatePoolTags :: "string list"
  CreateLabels :: tagmap
  CreateTaints :: "LKENodePoolTaint list"
  CreateK8sVersion :: "string option"
  CreateUpdateStrategy :: "string option"

text \<open>A zero \<open>Count\<close> is left out of the request.\<close>

record LKENodePoolUpdateOptions =
  UpdateCount :: int
  UpdateK8sVersion :: "string option"
  UpdateStrategy :: "string option"

text \<open>
  A list filter: the fields \<open>Filter.AddField\<close> was called with, in order. The JSON the client
  makes of it is the library's.
\<close>

datatype filter_op = FilterContains | FilterEq

type_synonym api_filter = "(filter_op \<times> string \<times> string list) list"

section \<open>The client interface\<close>

record 'w linode_api =
  ListTypes :: "'w \<Rightarrow> LinodeType list res \<times> 'w"
  GetType :: "string \<Rightarrow> 'w \<Rightarrow> LinodeType res \<times> 'w"
  GetRegionAvailability :: "string \<Rightarrow> 'w \<Rightarrow> RegionAvailability list res \<times> 'w"
  GetInstance :: "int \<Rightarrow> 'w \<Rightarrow> LinodeInstance res \<times> 'w"
  DeleteInstance :: "int \<Rightarrow> 'w \<Rightarrow> nilerr \<times> 'w"
  ListInstances :: "api_filter \<Rightarrow> 'w \<Rightarrow> LinodeInstance list res \<times> 'w"
  CreateTag :: "int list \<Rightarrow> string \<Rightarrow> 'w \<Rightarrow> nilerr \<times> 'w"
  CreateInstance :: "InstanceCreateOptions \<Rightarrow> 'w \<Rightarrow> LinodeInstance res \<times> 'w"
  UpdateInstance :: "int \<Rightarrow> string list \<Rightarrow> 'w \<Rightarrow> LinodeInstance res \<times> 'w"
  GetLKECluster :: "int \<Rightarrow> 'w \<Rightarrow> LKECluster res \<times> 'w"
  ListLKEClusters :: "api_filter \<Rightarrow> 'w \<Rightarrow> LKECluster list res \<times> 'w"
  CreateLKENodePool :: "int \<Rightarrow> LKENodePoolCreateOptions \<Rightarrow> 'w \<Rightarrow> LKENodePool res \<times> 'w"
  ListLKENodePools :: "int \<Rightarrow> 'w \<Rightarrow> LKENodePool list res \<times> 'w"
  GetLKENodePool :: "int \<Rightarrow> int \<Rightarrow> 'w \<Rightarrow> LKENodePool res \<times> 'w"
  UpdateLKENodePool :: "int \<Rightarrow> int \<Rightarrow> LKENodePoolUpdateOptions \<Rightarrow> 'w \<Rightarrow> LKENodePool res \<times> 'w"
  DeleteLKENodePool :: "int \<Rightarrow> int \<Rightarrow> 'w \<Rightarrow> nilerr \<times> 'w"
  DeleteLKENodePoolNode :: "int \<Rightarrow> string \<Rightarrow> 'w \<Rightarrow> nilerr \<times> 'w"

text \<open>
  The clock (\<open>time.Now\<close>, \<open>time.Sleep\<close>), the error of the context (\<open>ctx.Err\<close>) and fresh
  identifiers (\<open>uuid.NewString\<close>).
\<close>

record 'w runtime =
  Now :: "'w \<Rightarrow> int"
  Sleep :: "int \<Rightarrow> 'w \<Rightarrow> 'w"
  CtxErr :: "'w \<Rightarrow> nilerr"
  NewUUID :: "'w \<Rightarrow> string \<times> 'w"

text \<open>
  Time does not run backwards during a request, and a sleep takes at least as long as it was
  asked to. Only the theorems about deadlines need it.
\<close>

definition clock_ok :: "'w linode_api \<Rightarrow> 'w runtime \<Rightarrow> bool" where
  "clock_ok a rt \<longleftrightarrow>
     (\<forall>d w. Now rt w + d \<le> Now rt (Sleep rt d w)) \<and>
     (\<forall>r w. Now rt w \<le> Now rt (snd (GetRegionAvailability a r w))) \<and>
     (\<forall>i w. Now rt w \<le> Now rt (snd (GetInstance a i w))) \<and>
     (\<forall>f w. Now rt w \<le> Now rt (snd (ListInstances a f w))) \<and>
     (\<forall>i ts w. Now rt w \<le> Now rt (snd (UpdateInstance a i ts w))) \<and>
     (\<forall>c os w. Now rt w \<le> Now rt (snd (CreateLKENodePool a c os w))) \<and>
     (\<forall>c w. Now rt w \<le> Now rt (snd (ListLKENodePools a c w))) \<and>
     (\<forall>c i w. Now rt w \<le> Now rt (snd (GetLKENodePool a c i w))) \<and>
     (\<forall>c i os w. Now rt w \<le> Now rt (snd (UpdateLKENodePool a c i os w)))"

section \<open>Recording the requests\<close>

text \<open>The requests that change something.\<close>

datatype request =
    DeleteInstanceReq int
  | CreateTagReq "int list" string
  | CreateInstanceReq InstanceCreateOptions
  | UpdateInstanceReq int "string list"
  | CreatePoolReq int LKENodePoolCreateOptions
  | UpdatePoolReq int int LKENodePoolUpdateOptions
  | DeletePoolReq int int
  | DeleteNodeReq int string

text \<open>
  What the client saw: a reply the provider acts on, some other read (or a read that
  failed), or a changing request and whether it succeeded.
\<close>

datatype event =
    Asked
  | ListedPools int "LKENodePool list"
  | GotInstance int LinodeInstance
  | ListedInstances api_filter "LinodeInstance list"
  | Sent request bool

type_synonym log = "event list"

definition recorded :: "('r \<Rightarrow> event) \<Rightarrow> ('w \<Rightarrow> 'r \<times> 'w) \<Rightarrow> 'w \<times> log \<Rightarrow> 'r \<times> ('w \<times> log)" where
  "recorded ev f wl = (case f (fst wl) of (r, w) \<Rightarrow> (r, (w, snd wl @ [ev r])))"

definition asked :: "'r \<Rightarrow> event" where "asked r = Asked"
definition reply :: "('a \<Rightarrow> event) \<Rightarrow> 'a res \<Rightarrow> event" where
  "reply ev r = (case r of Inl e \<Rightarrow> Asked | Inr x \<Rightarrow> ev x)"
definition sent :: "request \<Rightarrow> 'a res \<Rightarrow> event" where "sent q r = Sent q (\<not> isl r)"
definition sentnil :: "request \<Rightarrow> nilerr \<Rightarrow> event" where "sentnil q e = Sent q (e = None)"

definition logged :: "'w linode_api \<Rightarrow> ('w \<times> log) linode_api" where
  "logged a = \<lparr>
     ListTypes = recorded asked (ListTypes a),
     GetType = (\<lambda>t. recorded asked (GetType a t)),
     GetRegionAvailability = (\<lambda>r. recorded asked (GetRegionAvailability a r)),
     GetInstance = (\<lambda>i. recorded (reply (GotInstance i)) (GetInstance a i)),
     DeleteInstance = (\<lambda>i. recorded (sentnil (DeleteInstanceReq i)) (DeleteInstance a i)),
     ListInstances = (\<lambda>f. recorded (reply (ListedInstances f)) (ListInstances a f)),
     CreateTag = (\<lambda>is l. recorded (sentnil (CreateTagReq is l)) (CreateTag a is l)),
     CreateInstance = (\<lambda>os. recorded (sent (CreateInstanceReq os)) (CreateInstance a os)),
     UpdateInstance = (\<lambda>i ts. recorded (sent (UpdateInstanceReq i ts)) (UpdateInstance a i ts)),
     GetLKECluster = (\<lambda>c. recorded asked (GetLKECluster a c)),
     ListLKEClusters = (\<lambda>f. recorded asked (ListLKEClusters a f)),
     CreateLKENodePool = (\<lambda>c os. recorded (sent (CreatePoolReq c os)) (CreateLKENodePool a c os)),
     ListLKENodePools = (\<lambda>c. recorded (reply (ListedPools c)) (ListLKENodePools a c)),
     GetLKENodePool = (\<lambda>c i. recorded asked (GetLKENodePool a c i)),
     UpdateLKENodePool = (\<lambda>c i os. recorded (sent (UpdatePoolReq c i os)) (UpdateLKENodePool a c i os)),
     DeleteLKENodePool = (\<lambda>c i. recorded (sentnil (DeletePoolReq c i)) (DeleteLKENodePool a c i)),
     DeleteLKENodePoolNode = (\<lambda>c n. recorded (sentnil (DeleteNodeReq c n)) (DeleteLKENodePoolNode a c n))\<rparr>"

definition logged_rt :: "'w runtime \<Rightarrow> ('w \<times> log) runtime" where
  "logged_rt rt = \<lparr>
     Now = (\<lambda>wl. Now rt (fst wl)),
     Sleep = (\<lambda>d wl. (Sleep rt d (fst wl), snd wl)),
     CtxErr = (\<lambda>wl. CtxErr rt (fst wl)),
     NewUUID = (\<lambda>wl. case NewUUID rt (fst wl) of (u, w) \<Rightarrow> (u, (w, snd wl)))\<rparr>"

lemma recorded_log: "recorded ev f wl = (r, wl') \<Longrightarrow> snd wl' = snd wl @ [ev r]"
  by (auto simp: recorded_def split: prod.splits)

lemma clock_ok_logged: "clock_ok a rt \<Longrightarrow> clock_ok (logged a) (logged_rt rt)"
  by (simp add: clock_ok_def logged_def logged_rt_def recorded_def case_prod_beta)

text \<open>Events that only read, and those that send a changing request.\<close>

fun is_read :: "event \<Rightarrow> bool" where
  "is_read (Sent q ok) = False"
| "is_read _ = True"

fun is_sent :: "event \<Rightarrow> bool" where
  "is_sent (Sent q ok) = True"
| "is_sent _ = False"

lemma is_read_reply [simp]: "is_read (reply (GotInstance i) r)" "is_read (reply (ListedInstances f) r3)"
   "is_read (reply (ListedPools c) r4)"
  by (auto simp: reply_def split: sum.splits)

text \<open>A stretch of the log that only reads.\<close>

definition reads :: "log \<Rightarrow> bool" where
  "reads l = list_all is_read l"

lemma reads_simps [simp]:
  "reads []" "reads (ev # l) = (is_read ev \<and> reads l)" "reads (l @ l') = (reads l \<and> reads l')"
  by (auto simp: reads_def)

lemma is_sent_iff: "is_sent ev \<longleftrightarrow> \<not> is_read ev"
  by (cases ev) simp_all

lemma is_sent_sent [simp]: "is_sent (sent q r)" "is_sent (sentnil q e)" "\<not> is_read (sent q r)" "\<not> is_read (sentnil q e)"
  "\<not> is_sent (reply (GotInstance i) r1)" "\<not> is_sent (reply (ListedInstances f) r3)" "\<not> is_sent (reply (ListedPools c) r4)"
  by (auto simp: sent_def sentnil_def reply_def split: sum.splits)

lemma reads_sent: "reads l \<Longrightarrow> filter is_sent l = []"
  by (induction l) (auto simp: is_sent_iff)

end
