(* ===== verification/GoCache.thy ===== *)
theory GoCache
  imports Prelude
begin

text \<open>
  The cache library github.com/patrickmn/go-cache is not under \<open>src/\<close>: a cache is a value of
  an abstract type with the operations the provider calls, the record \<open>cache_ops\<close>, and every
  definition that uses a cache takes the operations as an argument. \<open>cache_ok\<close> states what the
  library documents: an item is visible from the moment it is set until its default
  expiration has passed, \<open>Delete\<close> and \<open>Flush\<close> remove items, and an expired item stays stored
  until the janitor's \<open>DeleteExpired\<close> evicts it. The timed map at the end satisfies it and
  instantiates the parameter in the witnesses.
\<close>

section \<open>The operations\<close>

text \<open>
  \<open>CGet\<close> and \<open>CSet\<close> (\<open>SetDefault\<close>) take the current time; \<open>CHas\<close> holds while an item is stored,
  expired or not; \<open>CKeys\<close> lists the keys of \<open>Items()\<close>; \<open>CEvict\<close> is one run of the janitor and
  returns the evicted keys.
\<close>

record ('c, 'v) cache_ops =
  CGet :: "'c \<Rightarrow> int \<Rightarrow> string \<Rightarrow> 'v option"
  CSet :: "'c \<Rightarrow> int \<Rightarrow> string \<Rightarrow> 'v \<Rightarrow> 'c"
  CDelete :: "'c \<Rightarrow> string \<Rightarrow> 'c"
  CFlush :: "'c \<Rightarrow> 'c"
  CHas :: "'c \<Rightarrow> string \<Rightarrow> bool"
  CKeys :: "'c \<Rightarrow> int \<Rightarrow> string list"
  CEvict :: "'c \<Rightarrow> int \<Rightarrow> 'c \<times> string list"

definition cache_ok :: "('c, 'v) cache_ops \<Rightarrow> int \<Rightarrow> bool" where
  "cache_ok co ttl \<longleftrightarrow>
     (\<forall>c t k v t' k'. CGet co (CSet co c t k v) t' k' =
        (if k' = k then (if t' \<le> t + ttl then Some v else None) else CGet co c t' k')) \<and>
     (\<forall>c k t k'. CGet co (CDelete co c k) t k' = (if k' = k then None else CGet co c t k')) \<and>
     (\<forall>c t k. CGet co (CFlush co c) t k = None) \<and>
     (\<forall>c t t' k v. t \<le> t' \<longrightarrow> CGet co c t' k = Some v \<longrightarrow> CGet co c t k = Some v) \<and>
     (\<forall>c t k. CGet co c t k \<noteq> None \<longrightarrow> CHas co c k) \<and>
     (\<forall>c t k v k'. CHas co (CSet co c t k v) k' \<longleftrightarrow> k' = k \<or> CHas co c k') \<and>
     (\<forall>c k k'. CHas co (CDelete co c k) k' \<longleftrightarrow> k' \<noteq> k \<and> CHas co c k') \<and>
     (\<forall>c k. \<not> CHas co (CFlush co c) k) \<and>
     (\<forall>c t. set (CKeys co c t) = {k. CGet co c t k \<noteq> None}) \<and>
     (\<forall>c t. distinct (snd (CEvict co c t))) \<and>
     (\<forall>c t k. k \<in> set (snd (CEvict co c t)) \<longrightarrow> CHas co c k \<and> CGet co c t k = None) \<and>
     (\<forall>c t k. CHas co (fst (CEvict co c t)) k \<longleftrightarrow> CHas co c k \<and> k \<notin> set (snd (CEvict co c t))) \<and>
     (\<forall>c t t' k. t \<le> t' \<longrightarrow> CGet co (fst (CEvict co c t)) t' k = CGet co c t' k)"

lemma cache_okD:
  assumes "cache_ok co ttl"
  shows CGet_CSet: "CGet co (CSet co c t k v) t' k' =
        (if k' = k then (if t' \<le> t + ttl then Some v else None) else CGet co c t' k')"
    and CGet_CDelete: "CGet co (CDelete co c k) t k' = (if k' = k then None else CGet co c t k')"
    and CGet_CFlush: "CGet co (CFlush co c) t k = None"
    and CGet_antimono: "t \<le> t' \<Longrightarrow> CGet co c t' k = Some v \<Longrightarrow> CGet co c t k = Some v"
    and CHas_CGet: "CGet co c t k = Some v \<Longrightarrow> CHas co c k"
    and CHas_CSet: "CHas co (CSet co c t k v) k' \<longleftrightarrow> k' = k \<or> CHas co c k'"
    and CHas_CDelete: "CHas co (CDelete co c k) k' \<longleftrightarrow> k' \<noteq> k \<and> CHas co c k'"
    and set_CKeys: "set (CKeys co c t) = {k. CGet co c t k \<noteq> None}"
    and distinct_CEvict: "distinct (snd (CEvict co c t))"
    and CEvict_expired: "k \<in> set (snd (CEvict co c t)) \<Longrightarrow> CHas co c k \<and> CGet co c t k = None"
    and CHas_CEvict: "CHas co (fst (CEvict co c t)) k \<longleftrightarrow> CHas co c k \<and> k \<notin> set (snd (CEvict co c t))"
    and CGet_CEvict: "t \<le> t' \<Longrightarrow> CGet co (fst (CEvict co c t)) t' k = CGet co c t' k"
  using assms unfolding cache_ok_def by (blast | metis option.distinct(1))+

section \<open>A timed map\<close>

type_synonym 'v timed = "(string, 'v \<times> int) gomap"

definition timed_get :: "'v timed \<Rightarrow> int \<Rightarrow> string \<Rightarrow> 'v option" where
  "timed_get c t k = (case map_of c k of Some (v, e) \<Rightarrow> if t \<le> e then Some v else None | None \<Rightarrow> None)"

definition timed_ops :: "int \<Rightarrow> ('v timed, 'v) cache_ops" where
  "timed_ops ttl = \<lparr>
     CGet = timed_get,
     CSet = (\<lambda>c t k v. AList.update k (v, t + ttl) c),
     CDelete = (\<lambda>c k. AList.delete k c),
     CFlush = (\<lambda>c. []),
     CHas = (\<lambda>c k. map_of c k \<noteq> None),
     CKeys = (\<lambda>c t. filter (\<lambda>k. timed_get c t k \<noteq> None) (map fst c)),
     CEvict = (\<lambda>c t. let ks = remdups (filter (\<lambda>k. timed_get c t k = None) (map fst c))
                     in (fold AList.delete ks c, ks))\<rparr>"

lemma map_of_fold_delete: "map_of (fold AList.delete ks c) k = (if k \<in> set ks then None else map_of c k)"
  using map_of_delete_keys [of ks c k] by (simp add: delete_keys_def)

lemma timed_ops_ok: "cache_ok (timed_ops ttl) ttl"
proof -
  have keys: "timed_get c t k \<noteq> None \<Longrightarrow> k \<in> fst ` set c" for c :: "'v timed" and t k
    by (auto simp: timed_get_def split: option.splits dest!: map_of_SomeD intro: rev_image_eqI)
  have has: "map_of c k \<noteq> None \<longleftrightarrow> k \<in> fst ` set c" for c :: "'v timed" and k
    by (simp add: map_of_eq_None_iff)
  have evict: "t \<le> t' \<Longrightarrow> timed_get (fold AList.delete (remdups (filter (\<lambda>k. timed_get c t k = None) (map fst c))) c) t' k
      = timed_get c t' k" for c :: "'v timed" and t t' k
    by (auto simp: timed_get_def map_of_fold_delete split: option.splits if_splits)
  show ?thesis
    unfolding cache_ok_def
  proof (intro conjI allI impI)
    fix c :: "'v timed" and t :: int and k
    assume "CGet (timed_ops ttl) c t k \<noteq> None"
    then show "CHas (timed_ops ttl) c k"
      by (auto simp: timed_ops_def timed_get_def split: option.splits)
  next
    fix c :: "'v timed" and t :: int
    show "set (CKeys (timed_ops ttl) c t) = {k. CGet (timed_ops ttl) c t k \<noteq> None}"
      using keys [of c t] by (auto simp: timed_ops_def)
  next
    fix c :: "'v timed" and t :: int and k
    assume "k \<in> set (snd (CEvict (timed_ops ttl) c t))"
    then show "CHas (timed_ops ttl) c k" and "CGet (timed_ops ttl) c t k = None"
      using has [of c k] by (auto simp: timed_ops_def Let_def)
  next
    fix c :: "'v timed" and t t' :: int and k
    assume "t \<le> t'"
    then show "CGet (timed_ops ttl) (fst (CEvict (timed_ops ttl) c t)) t' k = CGet (timed_ops ttl) c t' k"
      using evict [of t t' c k] by (simp add: timed_ops_def Let_def)
  qed (auto simp: timed_ops_def timed_get_def update_conv' delete_conv' Let_def map_of_fold_delete
      split: option.splits if_splits)
qed

text \<open>A cache that holds nothing, as \<open>cache.New\<close> returns it.\<close>

definition empty_cache :: "('c, 'v) cache_ops \<Rightarrow> 'c \<Rightarrow> bool" where
  "empty_cache co c \<longleftrightarrow> (\<forall>k. \<not> CHas co c k)"

lemma empty_cache_CGet: "cache_ok co ttl \<Longrightarrow> empty_cache co c \<Longrightarrow> CGet co c t k = None"
  using CHas_CGet unfolding empty_cache_def by (metis not_Some_eq)

lemma timed_ops_empty: "empty_cache (timed_ops ttl) []"
  by (simp add: empty_cache_def timed_ops_def)

end
