(* ===== verification/ProviderIds.thy ===== *)
theory ProviderIds
  imports GoErrors
begin

text \<open>
  Provider ids and numbers: \<open>ParseInstanceID\<close> and \<open>PrettySlice\<close> of pkg/utils/utils.go, and
  \<open>strconv.Atoi\<close>, with the round trip from an instance id through
  \<open>linode://<id>\<close> and back.
\<close>

section \<open>strconv.Atoi\<close>

fun digits_val :: "nat \<Rightarrow> string \<Rightarrow> nat option" where
  "digits_val acc [] = Some acc"
| "digits_val acc (c # cs) =
     (let d = of_char c :: nat
      in if 48 \<le> d \<and> d \<le> 57 then digits_val (10 * acc + (d - 48)) cs else None)"

definition Atoi :: "string \<Rightarrow> int option" where
  "Atoi s =
     (let neg = (case s of c # _ \<Rightarrow> c = CHR ''-'' | [] \<Rightarrow> False);
          ds = (case s of c # cs \<Rightarrow> if c = CHR ''-'' \<or> c = CHR ''+'' then cs else s | [] \<Rightarrow> [])
      in if ds = [] then None
         else case digits_val 0 ds of
           None \<Rightarrow> None
         | Some n \<Rightarrow> let i = (if neg then - int n else int n)
                    in if - (2 ^ 63) \<le> i \<and> i < 2 ^ 63 then Some i else None)"

lemma digits_val_append:
  "digits_val acc (xs @ ys) = (case digits_val acc xs of None \<Rightarrow> None | Some a \<Rightarrow> digits_val a ys)"
  by (induction acc xs rule: digits_val.induct) (auto simp: Let_def)

lemma digits_val_digit: "d < 10 \<Longrightarrow> digits_val acc [char_of (48 + d)] = Some (10 * acc + d)"
  by (simp add: of_char_of)

lemma digits_val_show_nat: "digits_val 0 (show_nat n) = Some n"
proof (induction n rule: show_nat.induct)
  case (1 n)
  show ?case
  proof (cases "n < 10")
    case True
    then show ?thesis using digits_val_digit [of n 0] by (simp add: show_nat.simps [of n])
  next
    case False
    with 1 have "digits_val 0 (show_nat n) = Some (10 * (n div 10) + n mod 10)"
      using digits_val_digit [of "n mod 10"]
      by (simp add: show_nat.simps [of n] digits_val_append del: digits_val.simps)
    then show ?thesis by simp
  qed
qed

lemma show_nat_not_Nil [simp]: "show_nat n \<noteq> []"
  by (subst show_nat.simps) simp

lemma show_nat_digits: "c \<in> set (show_nat n) \<Longrightarrow> 48 \<le> (of_char c :: nat) \<and> (of_char c :: nat) \<le> 57"
proof (induction n rule: show_nat.induct)
  case (1 n)
  then show ?case
    by (cases "n < 10") (auto simp: show_nat.simps [of n] of_char_of)
qed

lemma Atoi_Itoa: "- (2 ^ 63) \<le> i \<Longrightarrow> i < 2 ^ 63 \<Longrightarrow> Atoi (Itoa i) = Some i"
proof -
  assume i: "- (2 ^ 63) \<le> i" "i < 2 ^ 63"
  have hd: "hd (show_nat n) \<noteq> CHR ''-'' \<and> hd (show_nat n) \<noteq> CHR ''+''" for n
    using show_nat_digits [of "hd (show_nat n)" n] by (auto simp: hd_in_set)
  show ?thesis
  proof (cases "i < 0")
    case True
    then show ?thesis using i by (simp add: Atoi_def Itoa_def digits_val_show_nat Let_def)
  next
    case False
    obtain c cs where c: "show_nat (nat i) = c # cs" by (cases "show_nat (nat i)") auto
    have "digits_val 0 (c # cs) = Some (nat i)" using digits_val_show_nat [of "nat i"] c by simp
    with False i hd [of "nat i"] c show ?thesis
      by (simp add: Atoi_def Itoa_def Let_def del: digits_val.simps)
  qed
qed

lemma Itoa_inj: "Itoa i = Itoa j \<longleftrightarrow> i = j"
proof
  assume eq: "Itoa i = Itoa j"
  have pos: "m = n" if "show_nat m = show_nat n" for m n
    using arg_cong [OF that, of "digits_val 0"] by (simp add: digits_val_show_nat)
  have neg: "show_nat m \<noteq> CHR ''-'' # s" for m s
    using show_nat_digits [of "CHR ''-''" m] by auto
  show "i = j"
  proof (cases "i < 0"; cases "j < 0")
    assume "i < 0" "j < 0"
    with eq pos [of "nat (- i)" "nat (- j)"] show "i = j" by (simp add: Itoa_def)
  next
    assume "i < 0" "\<not> j < 0"
    with eq neg [of "nat j"] show "i = j" by (simp add: Itoa_def) metis
  next
    assume "\<not> i < 0" "j < 0"
    with eq neg show "i = j" by (simp add: Itoa_def)
  next
    assume "\<not> i < 0" "\<not> j < 0"
    with eq pos [of "nat i" "nat j"] show "i = j" by (simp add: Itoa_def)
  qed
qed simp

section \<open>ParseInstanceID\<close>

text \<open>\<open>strings.Split\<close> on one character.\<close>

fun split_on :: "char \<Rightarrow> string \<Rightarrow> string list" where
  "split_on c [] = [[]]"
| "split_on c (x # xs) =
     (if x = c then [] # split_on c xs
      else case split_on c xs of l # ls \<Rightarrow> (x # l) # ls | [] \<Rightarrow> [[x]])"

text \<open>
  The pattern \<open>(?P<Provider>.*)://(?P<InstanceID>.*)\<close>: the dot does not match a newline and
  both stars are greedy, so the match lies in the first line that holds \<open>://\<close> and the id is
  what follows the last \<open>://\<close> of that line.
\<close>

fun after_last_sep :: "string \<Rightarrow> string option" where
  "after_last_sep [] = None"
| "after_last_sep (c # cs) =
     (case after_last_sep cs of
        Some r \<Rightarrow> Some r
      | None \<Rightarrow> if take 3 (c # cs) = ''://'' then Some (drop 3 (c # cs)) else None)"

definition ParseInstanceID :: "string \<Rightarrow> string res" where
  "ParseInstanceID providerID =
     (case find_map after_last_sep (split_on (CHR 0x0A) providerID) of
        None \<Rightarrow> Inl (Errorf ''provider id does not match known format'' [providerID] [])
      | Some i \<Rightarrow> Inr i)"

text \<open>cloudprovider.go, \<open>fmt.Sprintf("linode://%d", inst.ID)\<close>.\<close>

definition providerIDOf :: "int \<Rightarrow> string" where
  "providerIDOf i = ''linode://'' @ Itoa i"

lemma providerIDOf_inj [simp]: "providerIDOf i = providerIDOf j \<longleftrightarrow> i = j"
  by (simp add: providerIDOf_def Itoa_inj)

lemma after_last_sep_None: "CHR ''/'' \<notin> set s \<Longrightarrow> after_last_sep s = None"
proof (induction s)
  case (Cons c s)
  have "take 3 (c # s) \<noteq> ''://''"
    using Cons.prems by (auto dest!: arg_cong [where f = set] dest: in_set_takeD)
  with Cons show ?case by simp
qed simp

lemma split_on_notin: "c \<notin> set s \<Longrightarrow> split_on c s = [s]"
  by (induction s) auto

lemma split_on_sep: "c \<notin> set xs \<Longrightarrow> split_on c (xs @ c # ys) = xs # split_on c ys"
  by (induction xs) auto

lemma Itoa_chars: "c \<in> set (Itoa i) \<Longrightarrow> c = CHR ''-'' \<or> 48 \<le> (of_char c :: nat) \<and> (of_char c :: nat) \<le> 57"
  using show_nat_digits by (auto simp: Itoa_def split: if_splits)

lemma ParseInstanceID_providerIDOf: "ParseInstanceID (providerIDOf i) = Inr (Itoa i)"
proof -
  have slash: "CHR ''/'' \<notin> set (Itoa i)" and nl: "CHR 0x0A \<notin> set (Itoa i)"
    using Itoa_chars by fastforce+
  have "split_on (CHR 0x0A) (providerIDOf i) = [providerIDOf i]"
    using nl by (intro split_on_notin) (simp add: providerIDOf_def)
  moreover have "after_last_sep (''/'' @ Itoa i) = None"
    using slash after_last_sep_None [OF slash]
    by (cases "Itoa i") (auto split: option.splits)
  then have "after_last_sep (providerIDOf i) = Some (Itoa i)"
    using after_last_sep_None [OF slash] by (simp add: providerIDOf_def)
  ultimately show ?thesis by (simp add: ParseInstanceID_def)
qed

section \<open>PrettySlice\<close>

text \<open>\<open>fmt.Fprint\<close> of an element is the element itself: the callers pass strings.\<close>

fun pretty_from :: "int \<Rightarrow> int \<Rightarrow> nat \<Rightarrow> string list \<Rightarrow> string" where
  "pretty_from maxItems n i [] = []"
| "pretty_from maxItems n i (elem # s) =
     (if int i > maxItems - 1 then '' and '' @ Itoa (n - int i) @ '' other(s)''
      else (if i > 0 then '', '' else []) @ elem @ pretty_from maxItems n (Suc i) s)"

definition PrettySlice :: "string list \<Rightarrow> int \<Rightarrow> string" where
  "PrettySlice s maxItems = pretty_from maxItems (int (length s)) 0 s"

end
