(* ===== verification/Unavailable.thy ===== *)
theory Unavailable
  imports GoCache ProviderIds
begin

text \<open>
  pkg/cache/unavailableofferings.go: the instance types and regions the provider has recently
  failed to launch. Both caches hand out sequence numbers, by which the offerings cache of
  the instance type provider notices a change. A janitor run and \<open>Delete\<close> call the
  \<open>OnEvicted\<close> hook for each evicted key; \<open>Flush\<close> does not. A panic is \<open>None\<close>.
\<close>

definition UnavailableOfferingsTTL :: int where
  "UnavailableOfferingsTTL = 3 * 60 * 10 ^ 9"

record 'c UnavailableOfferings =
  offeringCache :: 'c
  offeringCacheSeqNum :: "string \<rightharpoonup> 64 word"
  regionCache :: 'c
  regionCacheSeqNum :: "64 word"

type_synonym 'c mark_ops = "('c, unit) cache_ops"

definition NewUnavailableOfferings :: "'c \<Rightarrow> 'c UnavailableOfferings" where
  "NewUnavailableOfferings ec = \<lparr>offeringCache = ec, offeringCacheSeqNum = Map.empty,
     regionCache = ec, regionCacheSeqNum = 0\<rparr>"

definition offeringKey :: "string \<Rightarrow> string \<Rightarrow> string" where
  "offeringKey instanceType region = instanceType @ '':'' @ region"

definition seqNumOf :: "(string \<rightharpoonup> 64 word) \<Rightarrow> string \<Rightarrow> 64 word" where
  "seqNumOf m k = (case m k of Some v \<Rightarrow> v | None \<Rightarrow> 0)"

definition bumpSeqNum :: "string \<Rightarrow> (string \<rightharpoonup> 64 word) \<Rightarrow> (string \<rightharpoonup> 64 word)" where
  "bumpSeqNum k m = m(k \<mapsto> seqNumOf m k + 1)"

definition SeqNum :: "'c UnavailableOfferings \<Rightarrow> string \<Rightarrow> 64 word" where
  "SeqNum u instanceType = seqNumOf (offeringCacheSeqNum u) instanceType + regionCacheSeqNum u"

definition IsUnavailable :: "'c mark_ops \<Rightarrow> 'c UnavailableOfferings \<Rightarrow> int \<Rightarrow> string \<Rightarrow> string \<Rightarrow> bool" where
  "IsUnavailable co u now instanceType region \<longleftrightarrow>
     CGet co (offeringCache u) now (offeringKey instanceType region) \<noteq> None \<or>
     CGet co (regionCache u) now region \<noteq> None"

definition MarkUnavailable :: "'c mark_ops \<Rightarrow> 'c UnavailableOfferings \<Rightarrow> int \<Rightarrow> string \<Rightarrow> string \<Rightarrow> 'c UnavailableOfferings" where
  "MarkUnavailable co u now instanceType region =
     u\<lparr>offeringCache := CSet co (offeringCache u) now (offeringKey instanceType region) (),
       offeringCacheSeqNum := bumpSeqNum instanceType (offeringCacheSeqNum u)\<rparr>"

definition MarkRegionUnavailable :: "'c mark_ops \<Rightarrow> 'c UnavailableOfferings \<Rightarrow> int \<Rightarrow> string \<Rightarrow> 'c UnavailableOfferings" where
  "MarkRegionUnavailable co u now region =
     u\<lparr>regionCache := CSet co (regionCache u) now region (),
       regionCacheSeqNum := regionCacheSeqNum u + 1\<rparr>"

text \<open>The \<open>OnEvicted\<close> hook of the offering cache.\<close>

definition onOfferingEvicted :: "string \<Rightarrow> (string \<rightharpoonup> 64 word) \<Rightarrow> (string \<rightharpoonup> 64 word) option" where
  "onOfferingEvicted k m =
     (let elems = split_on (CHR '':'') k
      in if length elems \<noteq> 2 then None else Some (bumpSeqNum (elems ! 0) m))"

fun onOfferingsEvicted :: "string list \<Rightarrow> (string \<rightharpoonup> 64 word) \<Rightarrow> (string \<rightharpoonup> 64 word) option" where
  "onOfferingsEvicted [] m = Some m"
| "onOfferingsEvicted (k # ks) m =
     (case onOfferingEvicted k m of None \<Rightarrow> None | Some m' \<Rightarrow> onOfferingsEvicted ks m')"

definition uoDelete :: "'c mark_ops \<Rightarrow> 'c UnavailableOfferings \<Rightarrow> string \<Rightarrow> string \<Rightarrow> 'c UnavailableOfferings option" where
  "uoDelete co u instanceType region =
     (let k = offeringKey instanceType region
      in map_option (\<lambda>m. u\<lparr>offeringCache := CDelete co (offeringCache u) k, offeringCacheSeqNum := m\<rparr>)
           (onOfferingsEvicted (if CHas co (offeringCache u) k then [k] else []) (offeringCacheSeqNum u)))"

definition uoFlush :: "'c mark_ops \<Rightarrow> 'c UnavailableOfferings \<Rightarrow> 'c UnavailableOfferings" where
  "uoFlush co u = u\<lparr>offeringCache := CFlush co (offeringCache u), regionCache := CFlush co (regionCache u)\<rparr>"

text \<open>One run of each cache's janitor.\<close>

definition sweepOfferings :: "'c mark_ops \<Rightarrow> 'c UnavailableOfferings \<Rightarrow> int \<Rightarrow> 'c UnavailableOfferings option" where
  "sweepOfferings co u now =
     (let (c, ks) = CEvict co (offeringCache u) now
      in map_option (\<lambda>m. u\<lparr>offeringCache := c, offeringCacheSeqNum := m\<rparr>)
           (onOfferingsEvicted ks (offeringCacheSeqNum u)))"

definition sweepRegions :: "'c mark_ops \<Rightarrow> 'c UnavailableOfferings \<Rightarrow> int \<Rightarrow> 'c UnavailableOfferings" where
  "sweepRegions co u now =
     (let (c, ks) = CEvict co (regionCache u) now
      in u\<lparr>regionCache := c, regionCacheSeqNum := regionCacheSeqNum u + of_nat (length ks)\<rparr>)"

section \<open>Keys\<close>

definition plain_name :: "string \<Rightarrow> bool" where
  "plain_name s \<longleftrightarrow> CHR '':'' \<notin> set s"

lemma split_offeringKey:
  "plain_name i \<Longrightarrow> plain_name r \<Longrightarrow> split_on (CHR '':'') (offeringKey i r) = [i, r]"
  by (simp add: plain_name_def offeringKey_def split_on_sep split_on_notin)

lemma offeringKey_inj:
  assumes "plain_name i" "plain_name i'"
  shows "offeringKey i r = offeringKey i' r' \<longleftrightarrow> i = i' \<and> r = r'"
proof
  assume "offeringKey i r = offeringKey i' r'"
  then have "split_on (CHR '':'') (offeringKey i r) = split_on (CHR '':'') (offeringKey i' r')"
    by (rule arg_cong)
  with assms have "i = i'" by (simp add: plain_name_def offeringKey_def split_on_sep)
  with \<open>offeringKey i r = _\<close> show "i = i' \<and> r = r'" by (simp add: offeringKey_def)
qed simp

lemma seqNumOf_bump [simp]: "seqNumOf (bumpSeqNum k m) k' = seqNumOf m k' + (if k' = k then 1 else 0)"
  by (simp add: seqNumOf_def bumpSeqNum_def)

text \<open>Every stored key is one that \<open>offeringKey\<close> builds from plain names.\<close>

definition keys_ok :: "'c mark_ops \<Rightarrow> 'c UnavailableOfferings \<Rightarrow> bool" where
  "keys_ok co u \<longleftrightarrow>
     (\<forall>k. CHas co (offeringCache u) k \<longrightarrow> (\<exists>i r. plain_name i \<and> plain_name r \<and> k = offeringKey i r))"

section \<open>Histories\<close>

text \<open>
  What the program does to the marks: the two kinds of mark, \<open>Delete\<close>, and the janitors.
\<close>

datatype uo_event =
    MarkType string string int
  | MarkRegion string int
  | Unmark string string
  | SweepTypes int
  | SweepRegions int

fun uo_step :: "'c mark_ops \<Rightarrow> uo_event \<Rightarrow> 'c UnavailableOfferings \<Rightarrow> 'c UnavailableOfferings option" where
  "uo_step co (MarkType i r t) u = Some (MarkUnavailable co u t i r)"
| "uo_step co (MarkRegion r t) u = Some (MarkRegionUnavailable co u t r)"
| "uo_step co (Unmark i r) u = uoDelete co u i r"
| "uo_step co (SweepTypes t) u = sweepOfferings co u t"
| "uo_step co (SweepRegions t) u = Some (sweepRegions co u t)"

fun uo_run :: "'c mark_ops \<Rightarrow> uo_event list \<Rightarrow> 'c UnavailableOfferings \<Rightarrow> 'c UnavailableOfferings option" where
  "uo_run co [] u = Some u"
| "uo_run co (ev # evs) u = (case uo_step co ev u of None \<Rightarrow> None | Some u' \<Rightarrow> uo_run co evs u')"

fun uo_plain :: "uo_event \<Rightarrow> bool" where
  "uo_plain (MarkType i r t) \<longleftrightarrow> plain_name i \<and> plain_name r"
| "uo_plain (Unmark i r) \<longleftrightarrow> plain_name i \<and> plain_name r"
| "uo_plain _ \<longleftrightarrow> True"

fun uo_before :: "int \<Rightarrow> uo_event \<Rightarrow> bool" where
  "uo_before now (SweepTypes t) \<longleftrightarrow> t \<le> now"
| "uo_before now (SweepRegions t) \<longleftrightarrow> t \<le> now"
| "uo_before now _ \<longleftrightarrow> True"

text \<open>How many marks an event sets, deletes or evicts that concern an instance type.\<close>

fun uo_changes :: "'c mark_ops \<Rightarrow> string \<Rightarrow> uo_event \<Rightarrow> 'c UnavailableOfferings \<Rightarrow> nat" where
  "uo_changes co it (MarkType i r t) u = (if i = it then 1 else 0)"
| "uo_changes co it (MarkRegion r t) u = 1"
| "uo_changes co it (Unmark i r) u = (if i = it \<and> CHas co (offeringCache u) (offeringKey i r) then 1 else 0)"
| "uo_changes co it (SweepTypes t) u =
     length (filter (\<lambda>k. hd (split_on (CHR '':'') k) = it) (snd (CEvict co (offeringCache u) t)))"
| "uo_changes co it (SweepRegions t) u = length (snd (CEvict co (regionCache u) t))"

fun uo_churn :: "'c mark_ops \<Rightarrow> string \<Rightarrow> uo_event list \<Rightarrow> 'c UnavailableOfferings \<Rightarrow> nat" where
  "uo_churn co it [] u = 0"
| "uo_churn co it (ev # evs) u = uo_changes co it ev u +
     (case uo_step co ev u of None \<Rightarrow> 0 | Some u' \<Rightarrow> uo_churn co it evs u')"

lemma onOfferingsEvicted_ok:
  assumes "\<forall>k \<in> set ks. \<exists>i r. plain_name i \<and> plain_name r \<and> k = offeringKey i r"
  shows "\<exists>m'. onOfferingsEvicted ks m = Some m' \<and>
    (\<forall>it. seqNumOf m' it = seqNumOf m it +
       of_nat (length (filter (\<lambda>k. hd (split_on (CHR '':'') k) = it) ks)))"
  using assms
proof (induction ks arbitrary: m)
  case (Cons k ks)
  then obtain i r where k: "plain_name i" "plain_name r" "k = offeringKey i r" by auto
  from Cons.IH [of "bumpSeqNum i m"] Cons.prems k show ?case
    by (auto simp: onOfferingEvicted_def split_offeringKey)
qed simp

lemma uo_step_ok:
  assumes co: "cache_ok co ttl" and u: "keys_ok co u" and ev: "uo_plain ev" and it: "plain_name it"
  shows "\<exists>u'. uo_step co ev u = Some u' \<and> keys_ok co u' \<and>
    SeqNum u' it = SeqNum u it + of_nat (uo_changes co it ev u) \<and>
    (uo_changes co it ev u = 0 \<longrightarrow> (\<forall>t r. uo_before t ev \<longrightarrow>
       IsUnavailable co u' t it r = IsUnavailable co u t it r))"
proof (cases ev)
  case (MarkType i r t)
  then show ?thesis using u ev it
    by (auto simp: keys_ok_def MarkUnavailable_def SeqNum_def IsUnavailable_def CHas_CSet [OF co]
        CGet_CSet [OF co] offeringKey_inj)
next
  case (MarkRegion r t)
  then show ?thesis using u
    by (simp add: keys_ok_def MarkRegionUnavailable_def SeqNum_def)
next
  case (Unmark i r)
  then have p: "plain_name i" "plain_name r" using ev by simp_all
  have gone: "CGet co (offeringCache u) t (offeringKey i r) = None"
    if "\<not> CHas co (offeringCache u) (offeringKey i r)" for t
    using that CHas_CGet [OF co] by (metis not_Some_eq)
  show ?thesis using u Unmark p it gone
    by (auto simp: keys_ok_def uoDelete_def SeqNum_def IsUnavailable_def CHas_CDelete [OF co]
        CGet_CDelete [OF co] offeringKey_inj onOfferingEvicted_def split_offeringKey Let_def)
next
  case (SweepTypes t)
  obtain c ks where c: "CEvict co (offeringCache u) t = (c, ks)" by (cases "CEvict co (offeringCache u) t")
  have ks: "\<forall>k \<in> set ks. \<exists>i r. plain_name i \<and> plain_name r \<and> k = offeringKey i r"
    using u CEvict_expired [OF co, of _ "offeringCache u" t] c by (simp add: keys_ok_def)
  obtain m' where m': "onOfferingsEvicted ks (offeringCacheSeqNum u) = Some m'"
    "seqNumOf m' it = seqNumOf (offeringCacheSeqNum u) it +
       of_nat (length (filter (\<lambda>k. hd (split_on (CHR '':'') k) = it) ks))"
    using onOfferingsEvicted_ok [OF ks] by blast
  show ?thesis
    using u SweepTypes c m' CHas_CEvict [OF co, of "offeringCache u" t] CGet_CEvict [OF co, of t _ "offeringCache u"]
    by (auto simp: keys_ok_def sweepOfferings_def SeqNum_def IsUnavailable_def)
next
  case (SweepRegions t)
  obtain c ks where c: "CEvict co (regionCache u) t = (c, ks)" by (cases "CEvict co (regionCache u) t")
  show ?thesis
    using u SweepRegions c CGet_CEvict [OF co, of t _ "regionCache u"]
    by (auto simp: keys_ok_def sweepRegions_def SeqNum_def IsUnavailable_def)
qed

text \<open>C12: The sequence number of an instance type tells every change of its marks: along any
  history of marks, deletions and janitor runs nothing panics, the number advances by exactly
  the number of marks set, deleted or evicted for the type or for a region, and if it
  did not advance then no region's availability of the type has changed. An offering list
  cached under the number is therefore never out of date (as long as fewer than 2^64 changes
  lie between the two readings).\<close>

lemma SeqNum_tells_changes:
  assumes "cache_ok co UnavailableOfferingsTTL" and "keys_ok co u" and "\<forall>ev \<in> set evs. uo_plain ev"
    and "plain_name it"
  shows "\<exists>u'. uo_run co evs u = Some u' \<and> keys_ok co u' \<and>
    SeqNum u' it = SeqNum u it + of_nat (uo_churn co it evs u) \<and>
    (SeqNum u' it = SeqNum u it \<and> uo_churn co it evs u < 2 ^ 64 \<longrightarrow>
     (\<forall>t r. (\<forall>ev \<in> set evs. uo_before t ev) \<longrightarrow>
       IsUnavailable co u' t it r = IsUnavailable co u t it r))"
proof -
  have *: "\<exists>u'. uo_run co evs u = Some u' \<and> keys_ok co u' \<and>
    SeqNum u' it = SeqNum u it + of_nat (uo_churn co it evs u) \<and>
    (uo_churn co it evs u = 0 \<longrightarrow> (\<forall>t r. (\<forall>ev \<in> set evs. uo_before t ev) \<longrightarrow>
       IsUnavailable co u' t it r = IsUnavailable co u t it r))"
    using assms(2,3)
  proof (induction evs arbitrary: u)
    case (Cons ev evs)
    then obtain u1 where u1: "uo_step co ev u = Some u1" "keys_ok co u1"
      "SeqNum u1 it = SeqNum u it + of_nat (uo_changes co it ev u)"
      "uo_changes co it ev u = 0 \<longrightarrow> (\<forall>t r. uo_before t ev \<longrightarrow>
         IsUnavailable co u1 t it r = IsUnavailable co u t it r)"
      using uo_step_ok [OF assms(1) _ _ assms(4), of u ev] by auto
    with Cons.IH [OF u1(2)] Cons.prems(2) show ?case by (auto simp: add.assoc)
  qed simp
  then obtain u' where u': "uo_run co evs u = Some u'" "keys_ok co u'"
    "SeqNum u' it = SeqNum u it + of_nat (uo_churn co it evs u)"
    "uo_churn co it evs u = 0 \<longrightarrow> (\<forall>t r. (\<forall>ev \<in> set evs. uo_before t ev) \<longrightarrow>
       IsUnavailable co u' t it r = IsUnavailable co u t it r)"
    by (elim exE conjE) (rule that)
  have "uo_churn co it evs u = 0" if "SeqNum u' it = SeqNum u it" "uo_churn co it evs u < 2 ^ 64"
  proof -
    from that(1) u'(3) have "(of_nat (uo_churn co it evs u) :: 64 word) = 0" by simp
    then have "2 ^ 64 dvd uo_churn co it evs u" by (simp add: word_of_nat_eq_0_iff)
    with that(2) show ?thesis using dvd_imp_le by fastforce
  qed
  with u' show ?thesis by (intro exI [of _ u']) auto
qed

lemma SeqNum_tells_changes_witness:
  "\<exists>u'. uo_run (timed_ops UnavailableOfferingsTTL) [MarkType ''g6'' ''us-east'' 0, SweepTypes UnavailableOfferingsTTL]
       (NewUnavailableOfferings []) = Some u' \<and> SeqNum u' ''g7'' = 0"
proof -
  let ?u = "NewUnavailableOfferings [] :: unit timed UnavailableOfferings"
  have "keys_ok (timed_ops UnavailableOfferingsTTL) ?u"
    by (simp add: keys_ok_def NewUnavailableOfferings_def timed_ops_def)
  from SeqNum_tells_changes [OF timed_ops_ok this, of "[MarkType ''g6'' ''us-east'' 0, SweepTypes UnavailableOfferingsTTL]" "''g7''"]
  show ?thesis
    by (auto simp: plain_name_def NewUnavailableOfferings_def SeqNum_def seqNumOf_def timed_ops_def
        sweepOfferings_def MarkUnavailable_def timed_get_def)
qed

text \<open>Marking an instance type in a region makes exactly that pair unavailable, for
  three minutes from the mark and no longer than that, and marking a region makes every type in
  it unavailable and no type anywhere else: what other failures marked is kept.\<close>

lemma marks_are_exact:
  assumes "cache_ok co UnavailableOfferingsTTL" "plain_name i" "plain_name i'" "now \<le> t"
  shows "(IsUnavailable co (MarkUnavailable co u now i r) t i' r' \<longleftrightarrow>
       (if i' = i \<and> r' = r then t \<le> now + UnavailableOfferingsTTL \<or> CGet co (regionCache u) t r \<noteq> None
        else IsUnavailable co u t i' r')) \<and>
     (IsUnavailable co (MarkRegionUnavailable co u now r) t i' r' \<longleftrightarrow>
       (if r' = r then t \<le> now + UnavailableOfferingsTTL \<or> CGet co (offeringCache u) t (offeringKey i' r) \<noteq> None
        else IsUnavailable co u t i' r'))"
  using assms(2,3)
  by (auto simp: CGet_CSet [OF assms(1)] IsUnavailable_def MarkUnavailable_def MarkRegionUnavailable_def offeringKey_inj)

lemma marks_are_exact_witness:
  "IsUnavailable (timed_ops UnavailableOfferingsTTL)
     (MarkUnavailable (timed_ops UnavailableOfferingsTTL) (NewUnavailableOfferings []) 5 ''g6'' ''us-east'') 7 ''g6'' ''us-east''"
  using marks_are_exact [OF timed_ops_ok, of "''g6''" "''g6''" 5 7 "NewUnavailableOfferings []" "''us-east''" "''us-east''"]
  by (simp add: plain_name_def UnavailableOfferingsTTL_def)

end
