(* ===== verification/Labels.thy ===== *)
theory Labels
  imports Prelude
begin

text \<open>
  Label, annotation and tag keys: pkg/apis/apis.go and pkg/apis/v1alpha1/labels.go. The two
  keys of Karpenter core (group \<open>karpenter.sh\<close>) are as the vendored CRDs of pkg/apis/crds
  spell them.
\<close>

definition Group :: string where "Group = ''karpenter.k8s.linode''"
definition CompatibilityGroup :: string where "CompatibilityGroup = ''compatibility.'' @ Group"
definition coreGroup :: string where "coreGroup = ''karpenter.sh''"
definition NodePoolLabelKey :: string where "NodePoolLabelKey = coreGroup @ ''/nodepool''"
definition CapacityTypeLabelKey :: string where "CapacityTypeLabelKey = coreGroup @ ''/capacity-type''"
definition LabelTopologyZone :: string where "LabelTopologyZone = ''topology.kubernetes.io/zone''"

definition TerminationFinalizer :: string where "TerminationFinalizer = Group @ ''/termination''"
definition AnnotationInstanceTagged :: string where "AnnotationInstanceTagged = Group @ ''/tagged''"
definition AnnotationLastAppliedUserTags :: string where
  "AnnotationLastAppliedUserTags = Group @ ''/last-applied-user-tags''"
definition NodeClaimTagKey :: string where "NodeClaimTagKey = coreGroup @ ''/nodeclaim''"
definition NameTagKey :: string where "NameTagKey = ''Name''"
definition LabelNodeClass :: string where "LabelNodeClass = Group @ ''/linodenodeclass''"
definition AnnotationLinodeNodeClassHash :: string where
  "AnnotationLinodeNodeClassHash = Group @ ''/linodenodeclass-hash''"
definition AnnotationLinodeNodeClassHashVersion :: string where
  "AnnotationLinodeNodeClassHashVersion = Group @ ''/linodenodeclass-hash-version''"
definition LKEClusterNameTagKey :: string where "LKEClusterNameTagKey = ''lke-cluster-name''"
definition AnnotationClusterNameTaggedCompatability :: string where
  "AnnotationClusterNameTaggedCompatability = CompatibilityGroup @ ''/cluster-name-tagged''"
definition LabelLKEManaged :: string where "LabelLKEManaged = Group @ ''/lke-managed''"

lemmas label_defs = Group_def CompatibilityGroup_def coreGroup_def NodePoolLabelKey_def
  CapacityTypeLabelKey_def LabelTopologyZone_def TerminationFinalizer_def
  AnnotationInstanceTagged_def AnnotationLastAppliedUserTags_def NodeClaimTagKey_def NameTagKey_def
  LabelNodeClass_def AnnotationLinodeNodeClassHash_def AnnotationLinodeNodeClassHashVersion_def
  LKEClusterNameTagKey_def AnnotationClusterNameTaggedCompatability_def LabelLKEManaged_def

lemma label_neqs [simp]:
  "NodePoolLabelKey \<noteq> LabelLKEManaged" "LabelLKEManaged \<noteq> NodePoolLabelKey"
  "NodeClaimTagKey \<noteq> NodePoolLabelKey" "NodePoolLabelKey \<noteq> NodeClaimTagKey"
  "NodeClaimTagKey \<noteq> LabelLKEManaged" "LabelLKEManaged \<noteq> NodeClaimTagKey"
  "AnnotationLinodeNodeClassHash \<noteq> AnnotationLinodeNodeClassHashVersion"
  "AnnotationLinodeNodeClassHashVersion \<noteq> AnnotationLinodeNodeClassHash"
  "AnnotationInstanceTagged \<noteq> AnnotationClusterNameTaggedCompatability"
  "AnnotationClusterNameTaggedCompatability \<noteq> AnnotationInstanceTagged"
  "NameTagKey \<noteq> LKEClusterNameTagKey" "LKEClusterNameTagKey \<noteq> NameTagKey"
  by (simp_all add: label_defs)

lemma length_NodeClaimTagKey [simp]: "length NodeClaimTagKey = 22"
  by (simp add: label_defs)

end
