(* ===== verification/Tags.thy ===== *)
theory Tags
  imports Labels GoErrors ApiTypes
begin

unbundle bit_operations_syntax

text \<open>
  The tag helpers of pkg/utils/utils.go: \<open>key=value\<close> tags as a Go map, opaque tags, the
  NodeClaim ownership tag with its length bound, tag validation, and the parsing of provider
  ids. Every function is the translation of the Go function of the same name.
\<close>

section \<open>Key-value and opaque tags\<close>

definition splitTag :: "string \<Rightarrow> (string \<times> string) option" where
  "splitTag tag =
     (let index = IndexRune tag (CHR ''='')
      in if index \<le> 0 \<or> index = int (length tag) - 1 then None
         else Some (take (nat index) tag, drop (nat index + 1) tag))"

definition TagListToMap :: "string list \<Rightarrow> tagmap" where
  "TagListToMap tags =
     fold (\<lambda>tag m. case splitTag tag of None \<Rightarrow> m | Some (k, v) \<Rightarrow> AList.update k v m) tags []"

text \<open>\<open>fmt.Sprintf("%s=%s", k, v)\<close>.\<close>

definition kvTag :: "string \<Rightarrow> string \<Rightarrow> string" where
  "kvTag k v = k @ ''='' @ v"

definition MapToTagList :: "range_order \<Rightarrow> tagmap \<Rightarrow> string list" where
  "MapToTagList rng m = map (\<lambda>(k, v). kvTag k v) (rng m)"

fun dedupe_from :: "string list \<Rightarrow> string list \<Rightarrow> string list" where
  "dedupe_from seen [] = []"
| "dedupe_from seen (tag # tags) =
     (if tag = [] then dedupe_from seen tags
      else if tag \<in> set seen then dedupe_from seen tags
      else tag # dedupe_from (tag # seen) tags)"

definition DedupeTags :: "string list \<Rightarrow> string list" where
  "DedupeTags tags = dedupe_from [] tags"

definition OpaqueTags :: "string list \<Rightarrow> string list" where
  "OpaqueTags tags = filter (\<lambda>tag. splitTag tag = None) tags"

subsection \<open>splitTag\<close>

lemma IndexRune_kv: "CHR ''='' \<notin> set k \<Longrightarrow> IndexRune (k @ CHR ''='' # v) (CHR ''='') = int (length k)"
proof -
  assume k: "CHR ''='' \<notin> set k"
  then have "takeWhile (\<lambda>x. x \<noteq> CHR ''='') (k @ CHR ''='' # v) = k"
    by (induction k) auto
  then show ?thesis by (simp add: IndexRune_def)
qed

lemma splitTag_kvTag:
  "k \<noteq> [] \<Longrightarrow> v \<noteq> [] \<Longrightarrow> CHR ''='' \<notin> set k \<Longrightarrow> splitTag (kvTag k v) = Some (k, v)"
  by (simp add: splitTag_def kvTag_def IndexRune_kv)

lemma splitTag_SomeD:
  assumes "splitTag tag = Some (k, v)"
  shows "tag = kvTag k v" "k \<noteq> []" "v \<noteq> []" "CHR ''='' \<notin> set k"
proof -
  from assms have "CHR ''='' \<in> set tag"
    by (auto simp: splitTag_def IndexRune_def Let_def split: if_splits)
  then obtain ys zs where tag: "tag = ys @ CHR ''='' # zs" and ys: "CHR ''='' \<notin> set ys"
    by (meson split_list_first)
  from assms have "k = ys" "v = zs" "ys \<noteq> []" "zs \<noteq> []"
    by (auto simp: splitTag_def tag IndexRune_kv [OF ys] Let_def split: if_splits)
  with tag ys show "tag = kvTag k v" "k \<noteq> []" "v \<noteq> []" "CHR ''='' \<notin> set k"
    by (simp_all add: kvTag_def)
qed

lemma splitTag_Some_iff:
  "splitTag tag = Some (k, v) \<longleftrightarrow>
     tag = kvTag k v \<and> k \<noteq> [] \<and> v \<noteq> [] \<and> CHR ''='' \<notin> set k"
  using splitTag_kvTag splitTag_SomeD by metis

lemma kvTag_not_empty [simp]: "kvTag k v \<noteq> []"
  by (simp add: kvTag_def)

lemma splitTag_inj: "splitTag s = Some kv \<Longrightarrow> splitTag t = Some kv \<Longrightarrow> s = t"
  by (cases kv) (auto simp: splitTag_Some_iff)

subsection \<open>TagListToMap and MapToTagList\<close>

text \<open>A pair that survives being printed as a tag and read back.\<close>

definition valid_kv :: "string \<times> string \<Rightarrow> bool" where
  "valid_kv kv \<longleftrightarrow> fst kv \<noteq> [] \<and> snd kv \<noteq> [] \<and> CHR ''='' \<notin> set (fst kv)"

lemma splitTag_eq_Some: "splitTag tag = Some kv \<longleftrightarrow> tag = kvTag (fst kv) (snd kv) \<and> valid_kv kv"
  by (cases kv) (simp add: splitTag_Some_iff valid_kv_def)

lemma splitTag_valid [simp]: "valid_kv (k, v) \<Longrightarrow> splitTag (kvTag k v) = Some (k, v)"
  by (simp add: splitTag_eq_Some)

lemma kvTag_inj:
  "valid_kv (k, v) \<Longrightarrow> valid_kv (k', v') \<Longrightarrow> kvTag k v = kvTag k' v' \<longleftrightarrow> k = k' \<and> v = v'"
  by (metis splitTag_valid option.inject prod.inject)

definition put_tag :: "string \<Rightarrow> tagmap \<Rightarrow> tagmap" where
  "put_tag tag m = (case splitTag tag of None \<Rightarrow> m | Some (k, v) \<Rightarrow> AList.update k v m)"

lemma TagListToMap_fold: "TagListToMap tags = fold put_tag tags []"
  by (simp add: TagListToMap_def put_tag_def [abs_def])

lemma map_of_fold_put_tag:
  "map_of (fold put_tag tags m) = map_of m ++ map_of (fold put_tag tags [])"
proof (induction tags rule: rev_induct)
  case (snoc tag tags)
  then show ?case
    by (auto simp: put_tag_def update_conv' map_add_def fun_eq_iff split: option.splits)
qed simp

lemma wf_TagListToMap [simp]: "wf_map (TagListToMap tags)"
proof (induction tags rule: rev_induct)
  case (snoc tag tags)
  then show ?case
    by (auto simp: TagListToMap_fold put_tag_def distinct_update split: option.splits)
qed (simp add: TagListToMap_fold)

lemma map_of_TagListToMap_append:
  "map_of (TagListToMap (xs @ ys)) = map_of (TagListToMap xs) ++ map_of (TagListToMap ys)"
  by (simp add: TagListToMap_fold) (rule map_of_fold_put_tag)

lemma map_of_TagListToMap_snoc:
  "map_of (TagListToMap (xs @ [t])) =
     (case splitTag t of None \<Rightarrow> map_of (TagListToMap xs)
      | Some (k, v) \<Rightarrow> (map_of (TagListToMap xs))(k \<mapsto> v))"
  by (auto simp: TagListToMap_fold put_tag_def update_conv' split: option.splits)

lemma map_of_TagListToMap_SomeD:
  "map_of (TagListToMap tags) k = Some v \<Longrightarrow> kvTag k v \<in> set tags \<and> valid_kv (k, v)"
proof (induction tags arbitrary: v rule: rev_induct)
  case (snoc t tags)
  show ?case
  proof (cases "splitTag t")
    case None
    with snoc show ?thesis by (auto simp: map_of_TagListToMap_snoc)
  next
    case (Some kv)
    then show ?thesis using snoc
      by (cases kv; cases "fst kv = k") (auto simp: map_of_TagListToMap_snoc splitTag_eq_Some)
  qed
qed (simp add: TagListToMap_fold)

lemma dom_TagListToMap: "dom (map_of (TagListToMap tags)) = {k. \<exists>v. kvTag k v \<in> set tags \<and> valid_kv (k, v)}"
proof (induction tags rule: rev_induct)
  case (snoc t tags)
  show ?case
  proof (cases "splitTag t")
    case None
    then have "\<not> (t = kvTag k v \<and> valid_kv (k, v))" for k v
      by auto
    with None snoc show ?thesis by (auto simp: map_of_TagListToMap_snoc)
  next
    case (Some kv)
    obtain k v where kv: "kv = (k, v)" by (cases kv)
    have *: "kvTag k' v' = t \<and> valid_kv (k', v') \<longleftrightarrow> k' = k \<and> v' = v" for k' v'
      using Some kv by (auto simp: splitTag_eq_Some kvTag_inj)
    have "{x. \<exists>w. kvTag x w \<in> set (tags @ [t]) \<and> valid_kv (x, w)} =
        insert k {x. \<exists>w. kvTag x w \<in> set tags \<and> valid_kv (x, w)}"
      using * by auto
    then show ?thesis using Some kv snoc
      by (simp only: map_of_TagListToMap_snoc option.case prod.case dom_fun_upd option.distinct if_False)
  qed
qed (simp add: TagListToMap_fold)

lemma entries_TagListToMap_valid: "kv \<in> set (TagListToMap tags) \<Longrightarrow> valid_kv kv"
  using wf_map_in_iff [OF wf_TagListToMap, of "fst kv" "snd kv" tags]
    map_of_TagListToMap_SomeD [of tags "fst kv" "snd kv"] by simp

lemma set_MapToTagList [go_set]:
  "range_ok rng \<Longrightarrow> set (MapToTagList rng m) = (\<lambda>(k, v). kvTag k v) ` set m"
  by (simp add: MapToTagList_def)

lemma map_of_TagListToMap_kvs:
  assumes "wf_map m" "\<forall>kv \<in> set m. valid_kv kv"
  shows "map_of (TagListToMap (map (\<lambda>(k, v). kvTag k v) m)) = map_of m"
  using assms
proof (induction m)
  case (Cons kv m)
  obtain k v where kv: "kv = (k, v)" by (cases kv)
  from Cons.prems kv have nk: "map_of m k = None" by (simp add: map_of_eq_None_iff)
  have "map_of (TagListToMap ([kvTag k v] @ map (\<lambda>(k, v). kvTag k v) m)) = [k \<mapsto> v] ++ map_of m"
    using Cons kv
    by (simp only: map_of_TagListToMap_append) (simp add: TagListToMap_fold put_tag_def)
  with nk kv show ?case by (auto simp: map_add_def fun_eq_iff split: option.splits)
qed (simp add: TagListToMap_fold)

lemma map_of_TagListToMap_range:
  assumes "range_ok rng" "wf_map m" "\<forall>kv \<in> set m. valid_kv kv"
  shows "map_of (TagListToMap (MapToTagList rng m)) = map_of m"
proof -
  have m: "mset (rng m) = mset m" using assms(1) by (simp add: range_ok_def)
  note p = wf_map_perm_map_of [OF assms(2) m]
  have "\<forall>kv \<in> set (rng m). valid_kv kv" using assms(1,3) by simp
  with p show ?thesis unfolding MapToTagList_def by (simp add: map_of_TagListToMap_kvs)
qed

lemma distinct_MapToTagList:
  assumes "range_ok rng" "wf_map m" "\<forall>kv \<in> set m. valid_kv kv"
  shows "distinct (MapToTagList rng m)"
proof -
  have m: "mset (rng m) = mset m" using assms(1) by (simp add: range_ok_def)
  have "distinct (rng m)"
    using wf_map_perm_map_of(1) [OF assms(2) m] by (simp add: distinct_map)
  moreover have "inj_on (\<lambda>(k, v). kvTag k v) (set (rng m))"
    using assms(1,3) by (auto simp: inj_on_def kvTag_inj)
  ultimately show ?thesis by (simp add: MapToTagList_def distinct_map)
qed

subsection \<open>DedupeTags and OpaqueTags\<close>

lemma set_dedupe_from: "set (dedupe_from seen tags) = set tags - {[]} - set seen"
  by (induction seen tags rule: dedupe_from.induct) auto

lemma distinct_dedupe_from: "distinct (dedupe_from seen tags)"
  by (induction seen tags rule: dedupe_from.induct) (auto simp: set_dedupe_from)

lemma set_DedupeTags [simp]: "set (DedupeTags tags) = set tags - {[]}"
  by (simp add: DedupeTags_def set_dedupe_from)

lemma distinct_DedupeTags [simp]: "distinct (DedupeTags tags)"
  by (simp add: DedupeTags_def distinct_dedupe_from)

lemma dedupe_from_id:
  "distinct tags \<Longrightarrow> [] \<notin> set tags \<Longrightarrow> set tags \<inter> set seen = {} \<Longrightarrow> dedupe_from seen tags = tags"
  by (induction seen tags rule: dedupe_from.induct) auto

lemma DedupeTags_id: "distinct tags \<Longrightarrow> [] \<notin> set tags \<Longrightarrow> DedupeTags tags = tags"
  by (simp add: DedupeTags_def dedupe_from_id)

lemma set_OpaqueTags [go_set]: "set (OpaqueTags tags) = {t \<in> set tags. splitTag t = None}"
  by (simp add: OpaqueTags_def)

lemma remdups_snoc: "remdups (ys @ [x]) = filter (\<lambda>t. t \<noteq> x) (remdups ys) @ [x]"
  by (induction ys) auto

lemma dedupe_from_first_occurrences:
  "dedupe_from seen tags = filter (\<lambda>t. t \<notin> set seen) (rev (remdups (rev (filter (\<lambda>t. t \<noteq> []) tags))))"
proof (induction seen tags rule: dedupe_from.induct)
  case (2 seen tag tags)
  show ?case
    using 2 by (auto simp: remdups_snoc rev_filter filter_filter intro: filter_cong)
qed simp

end
