(* ===== verification/ClaimTags.thy ===== *)
theory ClaimTags
  imports Tags
begin

text \<open>
  The provider-managed tags of pkg/utils/utils.go: the ownership tag of a NodeClaim
  (\<open>NodeClaimTag\<close>, \<open>NormalizeNodeClaimTagValue\<close> with its FNV-1a suffix), the static tags of a
  pool or instance (\<open>GetTags\<close>, \<open>GetTagsForLKE\<close>), and the two validations (\<open>ValidateTags\<close>,
  \<open>ValidateTagLengths\<close>). The lemmas show that every ownership tag fits Linode's limit, and
  characterise when each validation accepts.
\<close>

section \<open>The ownership tag\<close>

text \<open>\<open>hash/fnv\<close>'s 32-bit FNV-1a.\<close>

definition fnv32a :: "string \<Rightarrow> 32 word" where
  "fnv32a s = fold (\<lambda>c h. (h XOR of_nat (of_char c)) * 16777619) s 2166136261"

definition hexDigit :: "nat \<Rightarrow> char" where
  "hexDigit d = (if d < 10 then char_of (48 + d) else char_of (87 + d))"

text \<open>\<open>%08x\<close> of a 32-bit value: eight digits, the most significant first.\<close>

definition hex08 :: "32 word \<Rightarrow> string" where
  "hex08 w = map (\<lambda>i. hexDigit (unat (drop_bit (4 * i) w AND 15))) [7, 6, 5, 4, 3, 2, 1, 0]"

definition maxLinodeTagLength :: int where
  "maxLinodeTagLength = 50"

definition NormalizeNodeClaimTagValue :: "string \<Rightarrow> string" where
  "NormalizeNodeClaimTagValue nodeClaimName =
     (let maxValueLength = maxLinodeTagLength - int (length NodeClaimTagKey) - 1
      in if maxValueLength \<le> 0 then []
         else if int (length nodeClaimName) \<le> maxValueLength then nodeClaimName
         else let hash = hex08 (fnv32a nodeClaimName);
                  prefixLength = maxValueLength - int (length hash) - 1
              in if prefixLength \<le> 0
                 then (if int (length hash) > maxValueLength then take (nat maxValueLength) hash else hash)
                 else take (nat prefixLength) nodeClaimName @ ''-'' @ hash)"

definition NodeClaimTag :: "string \<Rightarrow> string" where
  "NodeClaimTag nodeClaimName = kvTag NodeClaimTagKey (NormalizeNodeClaimTagValue nodeClaimName)"

lemma length_hex08 [simp]: "length (hex08 w) = 8"
  by (simp add: hex08_def)

lemma NormalizeNodeClaimTagValue_short:
  "length name \<le> 27 \<Longrightarrow> NormalizeNodeClaimTagValue name = name"
  by (simp add: NormalizeNodeClaimTagValue_def maxLinodeTagLength_def)

lemma NormalizeNodeClaimTagValue_long:
  "length name > 27 \<Longrightarrow>
     NormalizeNodeClaimTagValue name = take 18 name @ ''-'' @ hex08 (fnv32a name)"
  by (simp add: NormalizeNodeClaimTagValue_def maxLinodeTagLength_def Let_def)

lemma length_NormalizeNodeClaimTagValue:
  "length (NormalizeNodeClaimTagValue name) = min 27 (length name)"
  by (cases "length name \<le> 27")
    (simp_all add: NormalizeNodeClaimTagValue_short NormalizeNodeClaimTagValue_long)

lemma NormalizeNodeClaimTagValue_empty [simp]: "NormalizeNodeClaimTagValue name = [] \<longleftrightarrow> name = []"
  using length_NormalizeNodeClaimTagValue [of name] by (cases name) auto

lemma eq_notin_NodeClaimTagKey [simp]: "CHR ''='' \<notin> set NodeClaimTagKey"
  by (simp add: label_defs)

lemma splitTag_NodeClaimTag:
  "name \<noteq> [] \<Longrightarrow> splitTag (NodeClaimTag name) = Some (NodeClaimTagKey, NormalizeNodeClaimTagValue name)"
  unfolding NodeClaimTag_def
  by (rule splitTag_valid) (simp add: valid_kv_def label_defs(10) coreGroup_def)

text \<open>C14: The ownership tag of any NodeClaim fits Linode's 50-byte tag limit; a name of at most
  27 bytes is kept as it is, a longer one keeps its first 18 bytes and gets an eight-digit
  hash suffix, and the tag of a non-empty name reads back as the NodeClaim key and the
  normalised name.\<close>

lemma NodeClaimTag_fits:
  "length (NodeClaimTag name) = 23 + min 27 (length name) \<and>
   int (length (NodeClaimTag name)) \<le> maxLinodeTagLength \<and>
   (splitTag (NodeClaimTag name) =
      (if name = [] then None else Some (NodeClaimTagKey, NormalizeNodeClaimTagValue name))) \<and>
   NormalizeNodeClaimTagValue name =
      (if length name \<le> 27 then name else take 18 name @ ''-'' @ hex08 (fnv32a name))"
proof -
  have "length (NodeClaimTag name) = 23 + min 27 (length name)"
    by (simp add: NodeClaimTag_def kvTag_def length_NormalizeNodeClaimTagValue)
  moreover have "splitTag (NodeClaimTag []) = None"
    by (simp add: NodeClaimTag_def kvTag_def splitTag_def IndexRune_def label_defs
        NormalizeNodeClaimTagValue_short)
  ultimately show ?thesis
    by (simp add: maxLinodeTagLength_def splitTag_NodeClaimTag NormalizeNodeClaimTagValue_short
        NormalizeNodeClaimTagValue_long)
qed

section \<open>Static tags\<close>

definition GetTags :: "LinodeNodeClass \<Rightarrow> NodeClaim \<Rightarrow> string \<Rightarrow> tagmap" where
  "GetTags nodeClass nodeClaim clusterName =
     (let staticTags = assign [[(''kubernetes.io/cluster/'' @ clusterName, ''owned'')],
        [(NodePoolLabelKey, labelOf (NodeClaimLabels nodeClaim) NodePoolLabelKey)],
        [(LKEClusterNameTagKey, clusterName)],
        [(LabelNodeClass, NodeClassName nodeClass)]]
      in assign [TagListToMap (SpecTags (Spec nodeClass)), staticTags])"

definition GetTagsForLKE :: "LinodeNodeClass \<Rightarrow> NodeClaim \<Rightarrow> string \<Rightarrow> tagmap" where
  "GetTagsForLKE nodeClass nodeClaim clusterName =
     assign [[(''kubernetes.io/cluster/'' @ clusterName, ''owned'')],
        [(NodePoolLabelKey, labelOf (NodeClaimLabels nodeClaim) NodePoolLabelKey)],
        [(LKEClusterNameTagKey, clusterName)],
        [(LabelNodeClass, NodeClassName nodeClass)],
        [(LabelLKEManaged, ''true'')]]"

definition GetNodeClassHash :: "LinodeNodeClass \<Rightarrow> string" where
  "GetNodeClassHash nodeClass = NodeClassUID nodeClass @ ''-'' @ Itoa (Generation nodeClass)"

section \<open>Validation\<close>

definition restrictedTagKeys :: "string list" where
  "restrictedTagKeys = [NodePoolLabelKey, LabelNodeClass, LabelLKEManaged, NodeClaimTagKey,
     LKEClusterNameTagKey, NameTagKey]"

text \<open>The loop of \<open>ValidateTags\<close>: restricted tags, each once, in order.\<close>

fun restricted_from :: "string list \<Rightarrow> string list \<Rightarrow> string list" where
  "restricted_from seen [] = []"
| "restricted_from seen (tag # tags) =
     (case splitTag tag of
        None \<Rightarrow> restricted_from seen tags
      | Some (key, _) \<Rightarrow>
          if key \<notin> set restrictedTagKeys then restricted_from seen tags
          else if tag \<in> set seen then restricted_from seen tags
          else tag # restricted_from (tag # seen) tags)"

text \<open>
  \<open>%q\<close>: quotes and backslashes are escaped; the function is exact on printable ASCII, which
  is what the CRD and the Linode API accept in a tag.
\<close>

definition quote :: "string \<Rightarrow> string" where
  "quote s = CHR 0x22 # concat (map (\<lambda>c. if c \<in> {CHR 0x22, CHR 0x5C} then [CHR 0x5C, c] else [c]) s) @ [CHR 0x22]"

definition ValidateTags :: "string list \<Rightarrow> nilerr" where
  "ValidateTags tags =
     (let invalidTags = restricted_from [] tags
      in if invalidTags = [] then None
         else Some (Errorf ''tags failed validation requirements''
                [strings_Join (map quote invalidTags) '', ''] []))"

definition ValidateTagLengths :: "string list \<Rightarrow> nilerr" where
  "ValidateTagLengths tags =
     (let invalidTags = map (\<lambda>tag. quote tag @ '' ('' @ Itoa (int (length tag)) @ '' characters)'')
            (filter (\<lambda>tag. int (length tag) > maxLinodeTagLength) tags)
      in if invalidTags = [] then None
         else Some (Errorf ''tags exceed Linode's %d-character limit: %s''
                [Itoa maxLinodeTagLength, strings_Join (sort invalidTags) '', ''] []))"

lemma set_restricted_from:
  "set (restricted_from seen tags) =
     {t \<in> set tags. \<exists>k v. splitTag t = Some (k, v) \<and> k \<in> set restrictedTagKeys} - set seen"
  by (induction seen tags rule: restricted_from.induct) (auto split: option.splits)

lemma ValidateTags_None_iff:
  "ValidateTags tags = None \<longleftrightarrow>
     (\<forall>t \<in> set tags. \<forall>k v. splitTag t = Some (k, v) \<longrightarrow> k \<notin> set restrictedTagKeys)"
proof -
  have "ValidateTags tags = None \<longleftrightarrow> set (restricted_from [] tags) = {}"
    by (simp add: ValidateTags_def Let_def)
  then show ?thesis by (auto simp: set_restricted_from)
qed

lemma ValidateTagLengths_None_iff:
  "ValidateTagLengths tags = None \<longleftrightarrow> (\<forall>t \<in> set tags. int (length t) \<le> maxLinodeTagLength)"
  by (auto simp: ValidateTagLengths_def Let_def filter_empty_conv not_le not_less)

end
