(* ===== verification/InstanceSelection.thy ===== *)
theory InstanceSelection
  imports LinodeApi Unavailable ClaimTags
begin

text \<open>
  What both instance providers share: the internal instance (pkg/providers/instance/types.go),
  the compatible-available filter (instance/filter/filter.go), and the helpers of
  pkg/utils/utils.go that choose an instance type, record a failed launch and look an
  instance up by tag. Karpenter's scheduling package is the record \<open>sched\<close>. A nil
  dereference is \<open>None\<close>; the theorem at the end shows it cannot happen after the filter.
\<close>

section \<open>The internal instance\<close>

record Instance =
  InstID :: int
  InstCreated :: "int option"
  InstRegion :: string
  InstImage :: string
  InstGroup :: string
  InstLabel :: string
  InstType :: string
  InstStatus :: string
  InstWatchdogEnabled :: bool
  InstTags :: "string list"
  InstPlacementGroup :: "int option"
  InstDiskEncryption :: string
  InstInterfaceGeneration :: string

definition NewInstance :: "LinodeInstance \<Rightarrow> Instance" where
  "NewInstance i = \<lparr>InstID = LiID i, InstCreated = LiCreated i, InstRegion = LiRegion i,
     InstImage = LiImage i, InstGroup = LiGroup i, InstLabel = LiLabel i, InstType = LiType i,
     InstStatus = LiStatus i, InstWatchdogEnabled = LiWatchdogEnabled i, InstTags = LiTags i,
     InstPlacementGroup = LiPlacementGroup i, InstDiskEncryption = LiDiskEncryption i,
     InstInterfaceGeneration = LiInterfaceGeneration i\<rparr>"

definition NewLKEInstance :: "int \<Rightarrow> string \<Rightarrow> string list \<Rightarrow> string \<Rightarrow> int option \<Rightarrow> Instance" where
  "NewLKEInstance instanceID instanceType tags region created =
     \<lparr>InstID = instanceID, InstCreated = created, InstRegion = region, InstImage = [], InstGroup = [],
      InstLabel = [], InstType = instanceType, InstStatus = [], InstWatchdogEnabled = False,
      InstTags = tags, InstPlacementGroup = None, InstDiskEncryption = [], InstInterfaceGeneration = []\<rparr>"

section \<open>Choosing an instance type\<close>

text \<open>
  Of Karpenter: \<open>Requirements.IsCompatible\<close> (with undefined well-known labels allowed) of the
  requirements built from the NodeClaim's, \<open>resources.Fits\<close>, \<open>InstanceType.Allocatable\<close>,
  \<open>Offerings.Compatible\<close>, \<open>Offerings.Available\<close> and \<open>Offerings.Cheapest\<close> (nil when there is
  none).
\<close>

record sched =
  IsCompatible :: "NodeSelectorRequirement list \<Rightarrow> requirements \<Rightarrow> bool"
  Fits :: "resource_list \<Rightarrow> resource_list \<Rightarrow> bool"
  AllocatableOf :: "instance_type \<Rightarrow> resource_list"
  CompatibleOf :: "NodeSelectorRequirement list \<Rightarrow> offering list \<Rightarrow> offering list"
  AvailableOf :: "offering list \<Rightarrow> offering list"
  CheapestOf :: "offering list \<Rightarrow> offering option"

text \<open>Documented: the selections return some of the offerings, and the cheapest is one of least price.\<close>

definition sched_ok :: "sched \<Rightarrow> bool" where
  "sched_ok S \<longleftrightarrow>
     (\<forall>r os. set (CompatibleOf S r os) \<subseteq> set os) \<and>
     (\<forall>os. set (AvailableOf S os) = {f \<in> set os. Available f}) \<and>
     (\<forall>os. os \<noteq> [] \<longrightarrow> (\<exists>f \<in> set os. CheapestOf S os = Some f \<and> (\<forall>f' \<in> set os. Price f \<le> Price f'))) \<and>
     CheapestOf S [] = None"

definition compatibleAvailable :: "sched \<Rightarrow> NodeSelectorRequirement list \<Rightarrow> resource_list \<Rightarrow> instance_type \<Rightarrow> bool" where
  "compatibleAvailable S reqs requests i =
     (if \<not> IsCompatible S reqs (ItRequirements i) then False
      else if \<not> Fits S requests (AllocatableOf S i) then False
      else if length (AvailableOf S (CompatibleOf S reqs (ItOfferings i))) = 0 then False
      else True)"

definition FilterReject :: "sched \<Rightarrow> NodeSelectorRequirement list \<Rightarrow> resource_list \<Rightarrow> instance_type list \<Rightarrow>
    instance_type list \<times> instance_type list" where
  "FilterReject S reqs requests its =
     (filter (compatibleAvailable S reqs requests) its,
      filter (\<lambda>i. \<not> compatibleAvailable S reqs requests i) its)"

definition FilterInstanceTypes :: "sched \<Rightarrow> instance_type list \<Rightarrow> NodeClaim \<Rightarrow> instance_type list res" where
  "FilterInstanceTypes S its nc =
     (let (remaining, rejected) = FilterReject S (Requirements nc) (ResourceRequests nc) its
      in if remaining = []
         then Inl (InsufficientCapacityErr (Errorf ''all requested instance types were unavailable during launch'' [] []))
         else Inr remaining)"

definition cheapestPrice :: "sched \<Rightarrow> instance_type \<Rightarrow> rat option" where
  "cheapestPrice S it = map_option Price (CheapestOf S (ItOfferings it))"

fun cheapest_from :: "sched \<Rightarrow> instance_type \<Rightarrow> instance_type list \<Rightarrow> instance_type option" where
  "cheapest_from S c [] = Some c"
| "cheapest_from S c (it # its) =
     (case (cheapestPrice S it, cheapestPrice S c) of
        (Some p, Some q) \<Rightarrow> cheapest_from S (if p < q then it else c) its
      | _ \<Rightarrow> None)"

definition CheapestInstanceType :: "sched \<Rightarrow> instance_type list \<Rightarrow> instance_type res option" where
  "CheapestInstanceType S its =
     (case its of
        [] \<Rightarrow> Some (Inl (InsufficientCapacityErr (Errorf ''no available instance types after filtering'' [] [])))
      | it # _ \<Rightarrow> map_option Inr (cheapest_from S it its))"

section \<open>Recording a failed launch\<close>

definition UpdateUnavailableOfferingsCache :: "lib \<Rightarrow> 'u mark_ops \<Rightarrow> int \<Rightarrow> nilerr \<Rightarrow> string \<Rightarrow> instance_type \<Rightarrow>
    'u UnavailableOfferings \<Rightarrow> 'u UnavailableOfferings" where
  "UpdateUnavailableOfferingsCache L co now err region it u =
     (case err of
        None \<Rightarrow> u
      | Some e \<Rightarrow>
          if ErrHasStatus L e [400] then MarkUnavailable co u now (ItName it) region
          else if ErrHasStatus L e [502, 504, 500, 503] then MarkRegionUnavailable co u now region
          else u)"

section \<open>Finding an instance by tag\<close>

definition LookupInstanceByTag :: "'w linode_api \<Rightarrow> string \<Rightarrow> 'w \<Rightarrow> LinodeInstance res \<times> 'w" where
  "LookupInstanceByTag a tag w =
     (case ListInstances a [(FilterContains, ''tags'', [tag])] w of
        (Inl e, w) \<Rightarrow> (Inl e, w)
      | (Inr instances, w) \<Rightarrow>
          (case instances of
             [] \<Rightarrow> (Inl (Errorf ''instance tagged %q not found: %w'' [quote tag] [Sentinel ErrInstanceNotFound]), w)
           | i # _ \<Rightarrow> (Inr i, w)))"

section \<open>Properties\<close>

lemma compatibleAvailable_offered:
  assumes "sched_ok S" "compatibleAvailable S reqs requests it"
  shows "\<exists>f \<in> set (ItOfferings it). Available f"
proof -
  from assms(2) have "AvailableOf S (CompatibleOf S reqs (ItOfferings it)) \<noteq> []"
    by (simp add: compatibleAvailable_def split: if_splits)
  then have "set (AvailableOf S (CompatibleOf S reqs (ItOfferings it))) \<noteq> {}" by simp
  with assms(1) show ?thesis by (auto simp: sched_ok_def)
qed

lemma cheapestPrice_least:
  assumes "sched_ok S" "f \<in> set (ItOfferings it)"
  shows "\<exists>p. cheapestPrice S it = Some p \<and> p \<le> Price f"
proof -
  have "ItOfferings it \<noteq> []" using assms(2) by auto
  with assms show ?thesis unfolding sched_ok_def cheapestPrice_def by fastforce
qed

lemma cheapest_from_spec:
  assumes "\<forall>it \<in> set (c # its). cheapestPrice S it \<noteq> None"
  shows "\<exists>c'. cheapest_from S c its = Some c' \<and> c' \<in> set (c # its) \<and>
    (\<forall>it \<in> set (c # its). the (cheapestPrice S c') \<le> the (cheapestPrice S it))"
  using assms
proof (induction its arbitrary: c)
  case (Cons it its)
  then obtain p q where pq: "cheapestPrice S it = Some p" "cheapestPrice S c = Some q" by auto
  let ?c = "if p < q then it else c"
  from Cons.IH [of ?c] Cons.prems obtain c' where c': "cheapest_from S ?c its = Some c'"
    "c' \<in> set (?c # its)" "\<forall>it \<in> set (?c # its). the (cheapestPrice S c') \<le> the (cheapestPrice S it)"
    by fastforce
  moreover have "the (cheapestPrice S ?c) \<le> p" "the (cheapestPrice S ?c) \<le> q"
    using pq by auto
  moreover have "the (cheapestPrice S c') \<le> the (cheapestPrice S ?c)" using c'(3) by simp
  ultimately show ?case using pq by (fastforce split: if_splits)
qed simp

text \<open>The instance type a Create launches: the filter, then the cheapest.\<close>

definition chooseInstanceType :: "sched \<Rightarrow> instance_type list \<Rightarrow> NodeClaim \<Rightarrow> instance_type res option" where
  "chooseInstanceType S its nc =
     (case FilterInstanceTypes S its nc of
        Inl e \<Rightarrow> Some (Inl e)
      | Inr filtered \<Rightarrow> CheapestInstanceType S filtered)"

text \<open>C13: Choosing an instance type never dereferences nil: it fails, with an insufficient
  capacity error, exactly when no offered type is compatible, large enough and available, and
  otherwise returns a type that is, whose cheapest offering costs no more than any offering of
  any other such type.\<close>

lemma chooses_cheapest_launchable:
  assumes "sched_ok S"
  shows "case chooseInstanceType S its nc of
      None \<Rightarrow> False
    | Some (Inl e) \<Rightarrow> (\<exists>e'. e = InsufficientCapacityErr e') \<and>
        (\<forall>it \<in> set its. \<not> compatibleAvailable S (Requirements nc) (ResourceRequests nc) it)
    | Some (Inr it) \<Rightarrow> it \<in> set its \<and> compatibleAvailable S (Requirements nc) (ResourceRequests nc) it \<and>
        (\<exists>p. cheapestPrice S it = Some p \<and>
          (\<forall>it' \<in> set its. compatibleAvailable S (Requirements nc) (ResourceRequests nc) it' \<longrightarrow>
            (\<forall>f \<in> set (ItOfferings it'). p \<le> Price f)))"
proof -
  let ?ok = "compatibleAvailable S (Requirements nc) (ResourceRequests nc)"
  show ?thesis
  proof (cases "filter ?ok its")
    case Nil
    then show ?thesis
      by (simp add: chooseInstanceType_def FilterInstanceTypes_def FilterReject_def filter_empty_conv)
  next
    case (Cons c cs)
    have mem: "set (c # cs) = {it \<in> set its. ?ok it}" by (simp flip: Cons)
    have price: "\<forall>it \<in> set (c # cs). cheapestPrice S it \<noteq> None"
      using compatibleAvailable_offered [OF assms] cheapestPrice_least [OF assms] mem by blast
    then have "\<forall>it \<in> set (c # c # cs). cheapestPrice S it \<noteq> None" by simp
    from cheapest_from_spec [OF this] obtain c' where c': "cheapest_from S c (c # cs) = Some c'"
      "c' \<in> set (c # cs)" "\<forall>it \<in> set (c # cs). the (cheapestPrice S c') \<le> the (cheapestPrice S it)"
      by auto
    obtain p where p: "cheapestPrice S c' = Some p" using price c'(2) by blast
    have least: "p \<le> Price f" if "it' \<in> set (c # cs)" "f \<in> set (ItOfferings it')" for it' f
      using cheapestPrice_least [OF assms that(2)] c'(3) that(1) p by fastforce
    have "chooseInstanceType S its nc = Some (Inr c')"
      using c'(1) Cons
      by (simp add: chooseInstanceType_def FilterInstanceTypes_def FilterReject_def CheapestInstanceType_def)
    with c'(2) p least mem show ?thesis by auto
  qed
qed

section \<open>A scheduler for the witnesses\<close>

fun cheapest_offering :: "offering list \<Rightarrow> offering option" where
  "cheapest_offering [] = None"
| "cheapest_offering (f # fs) =
     (case cheapest_offering fs of
        None \<Rightarrow> Some f
      | Some g \<Rightarrow> if Price g < Price f then Some g else Some f)"

definition label_sched :: sched where
  "label_sched = \<lparr>
     IsCompatible = (\<lambda>sel r. \<forall>q \<in> set sel. case map_of r (SelKey q) of
        Some v \<Rightarrow> list_ex (\<lambda>x. x \<in> set (ReqValues v)) (SelValues q) | None \<Rightarrow> True),
     Fits = (\<lambda>req av. \<forall>(k, n) \<in> set req. case map_of av k of Some m \<Rightarrow> n \<le> m | None \<Rightarrow> n \<le> 0),
     AllocatableOf = ItCapacity,
     CompatibleOf = (\<lambda>sel. filter (\<lambda>f. \<forall>q \<in> set sel. case map_of (OffRequirements f) (SelKey q) of
        Some v \<Rightarrow> list_ex (\<lambda>x. x \<in> set (ReqValues v)) (SelValues q) | None \<Rightarrow> True)),
     AvailableOf = filter Available,
     CheapestOf = cheapest_offering\<rparr>"

lemma cheapest_offering_ok:
  "os \<noteq> [] \<Longrightarrow> \<exists>f \<in> set os. cheapest_offering os = Some f \<and> (\<forall>f' \<in> set os. Price f \<le> Price f')"
proof (induction os)
  case (Cons f fs)
  show ?case
  proof (cases "fs = []")
    case False
    with Cons.IH obtain g where g: "g \<in> set fs" "cheapest_offering fs = Some g"
      "\<forall>f' \<in> set fs. Price g \<le> Price f'" by blast
    then show ?thesis by (cases "Price g < Price f") (auto simp: not_less)
  qed simp
qed simp

lemma label_sched_ok: "sched_ok label_sched"
  using cheapest_offering_ok by (auto simp: sched_ok_def label_sched_def)

definition sampleType :: "string \<Rightarrow> rat \<Rightarrow> instance_type" where
  "sampleType name p = \<lparr>ItName = name, ItRequirements = [],
     ItOfferings = [\<lparr>OffRequirements = [], Price = p, Available = True\<rparr>], ItCapacity = [],
     ItOverhead = \<lparr>OverKubeReserved = [], OverSystemReserved = [], OverEvictionThreshold = []\<rparr>, ItDynamicResources = []\<rparr>"

lemma sampleType_launchable:
  "compatibleAvailable label_sched (Requirements emptyNodeClaim) (ResourceRequests emptyNodeClaim) (sampleType n p)"
  by (simp add: emptyNodeClaim_def sampleType_def compatibleAvailable_def label_sched_def)

lemma sampleType_offers: "ItOfferings (sampleType n p) = [\<lparr>OffRequirements = [], Price = p, Available = True\<rparr>]"
  by (simp add: sampleType_def)

lemma chooses_cheapest_launchable_witness:
  "\<exists>it p. chooseInstanceType label_sched [sampleType ''g6-b'' 3, sampleType ''g6-a'' 2] emptyNodeClaim = Some (Inr it) \<and>
     cheapestPrice label_sched it = Some p \<and> p \<le> 2"
  using chooses_cheapest_launchable [OF label_sched_ok,
      of "[sampleType ''g6-b'' 3, sampleType ''g6-a'' 2]" emptyNodeClaim]
  by (auto simp: sampleType_launchable sampleType_offers split: option.splits sum.splits)

end
