(* ===== verification/Backoff.thy ===== *)
theory Backoff
  imports GoCache GoErrors
begin

text \<open>
  The backoff tracker of pkg/utils/utils.go (\<open>BackoffTracker\<close>): consecutive failures per key
  with an exponentially growing delay, kept in a cache whose entries expire after an hour.
  The interface the LKE provider relies on is the locale \<open>backoff_gate\<close>, and the tracker
  interprets it.
\<close>

section \<open>The tracker\<close>

record backoffEntry =
  failures :: int
  delay :: int
  retryAt :: int
  lastErr :: err

record 'b BackoffTracker =
  entries :: 'b
  base :: int
  maxDelay :: int

type_synonym 'b backoff_ops = "('b, backoffEntry) cache_ops"

text \<open>The empty cache \<open>cache.New(time.Hour, 10*time.Minute)\<close> is the argument.\<close>

definition NewBackoffTracker :: "'b \<Rightarrow> int \<Rightarrow> int \<Rightarrow> 'b BackoffTracker" where
  "NewBackoffTracker ec b m = \<lparr>entries = ec, base = b, maxDelay = m\<rparr>"

definition hour :: int where
  "hour = 3600 * 10 ^ 9"

text \<open>\<open>Duration.Round(time.Second)\<close> of a positive duration, halves away from zero.\<close>

definition roundSecond :: "int \<Rightarrow> int" where
  "roundSecond d = (d + 500000000) div 10 ^ 9 * 10 ^ 9"

definition Check :: "'b backoff_ops \<Rightarrow> 'b BackoffTracker \<Rightarrow> int \<Rightarrow> string \<Rightarrow> string \<Rightarrow> nilerr" where
  "Check co b now key what =
     (case CGet co (entries b) now key of
        None \<Rightarrow> None
      | Some entry \<Rightarrow>
          let remaining = sat64 (retryAt entry - now)
          in if remaining \<le> 0 then None
             else Some (Errorf ''%s is backing off for %s after %d failed attempts: %w''
                     [what, Itoa (roundSecond remaining), Itoa (failures entry)] [lastErr entry]))"

definition RecordFailure :: "'b backoff_ops \<Rightarrow> 'b BackoffTracker \<Rightarrow> int \<Rightarrow> string \<Rightarrow> err \<Rightarrow> 'b BackoffTracker" where
  "RecordFailure co b now key e =
     (let (n, d) = (case CGet co (entries b) now key of
                      None \<Rightarrow> (1, base b)
                    | Some prev \<Rightarrow> (failures prev + 1, min (wrap64 (delay prev * 2)) (maxDelay b)))
      in b\<lparr>entries := CSet co (entries b) now key
              \<lparr>failures = n, delay = d, retryAt = now + d, lastErr = e\<rparr>\<rparr>)"

definition Clear :: "'b backoff_ops \<Rightarrow> 'b BackoffTracker \<Rightarrow> string \<Rightarrow> 'b BackoffTracker" where
  "Clear co b key = b\<lparr>entries := CDelete co (entries b) key\<rparr>"

lemma backoff_frame [simp]:
  "base (RecordFailure co b now key e) = base b"
  "maxDelay (RecordFailure co b now key e) = maxDelay b"
  "base (Clear co b key) = base b"
  "maxDelay (Clear co b key) = maxDelay b"
  by (simp_all add: RecordFailure_def Clear_def split: prod.splits)

text \<open>The configuration in which no delay overflows an \<open>int64\<close> when doubled.\<close>

definition tracker_cfg :: "'b BackoffTracker \<Rightarrow> bool" where
  "tracker_cfg b \<longleftrightarrow> 0 < base b \<and> base b < 2 ^ 62 \<and> 0 < maxDelay b \<and> maxDelay b < 2 ^ 62"

text \<open>The entry at a key, and what every entry satisfies: its delay is one the tracker can set.\<close>

definition entry_at :: "'b backoff_ops \<Rightarrow> 'b BackoffTracker \<Rightarrow> int \<Rightarrow> string \<Rightarrow> backoffEntry option" where
  "entry_at co b now key = CGet co (entries b) now key"

definition tracker_inv :: "'b backoff_ops \<Rightarrow> 'b BackoffTracker \<Rightarrow> bool" where
  "tracker_inv co b \<longleftrightarrow>
     (\<forall>now key en. entry_at co b now key = Some en \<longrightarrow>
        1 \<le> failures en \<and> 0 < delay en \<and> delay en \<le> max (base b) (maxDelay b))"

definition backoff_invar :: "'b backoff_ops \<Rightarrow> 'b BackoffTracker \<Rightarrow> bool" where
  "backoff_invar co b \<longleftrightarrow> cache_ok co hour \<and> tracker_cfg b \<and> tracker_inv co b"

lemma entry_at_Clear:
  "cache_ok co hour \<Longrightarrow> entry_at co (Clear co b key) now key' = (if key' = key then None else entry_at co b now key')"
  by (simp add: entry_at_def Clear_def CGet_CDelete)

text \<open>What the next failure of a key records.\<close>

definition next_entry :: "'b BackoffTracker \<Rightarrow> backoffEntry option \<Rightarrow> int \<Rightarrow> err \<Rightarrow> backoffEntry" where
  "next_entry b prev now e =
     (let d = (case prev of None \<Rightarrow> base b | Some p \<Rightarrow> min (2 * delay p) (maxDelay b))
      in \<lparr>failures = (case prev of None \<Rightarrow> 1 | Some p \<Rightarrow> failures p + 1),
          delay = d, retryAt = now + d, lastErr = e\<rparr>)"

lemma tracker_invD:
  "tracker_inv co b \<Longrightarrow> entry_at co b now key = Some en \<Longrightarrow>
     1 \<le> failures en \<and> 0 < delay en \<and> delay en \<le> max (base b) (maxDelay b)"
  by (simp add: tracker_inv_def)

lemma entry_at_RecordFailure:
  assumes "backoff_invar co b"
  shows "entry_at co (RecordFailure co b now key e) now' key' =
    (if key' = key then (if now' \<le> now + hour then Some (next_entry b (entry_at co b now key) now e) else None)
     else entry_at co b now' key')"
proof -
  have ok: "cache_ok co hour" and cfg: "tracker_cfg b" and inv: "tracker_inv co b"
    using assms by (simp_all add: backoff_invar_def)
  have "wrap64 (delay p * 2) = 2 * delay p" if "entry_at co b now key = Some p" for p
    using tracker_invD [OF inv that] cfg
    by (subst wrap64_id) (auto simp: tracker_cfg_def)
  then show ?thesis
    by (auto simp: entry_at_def RecordFailure_def next_entry_def CGet_CSet [OF ok] Let_def split: option.splits)
qed

lemma backoff_invar_Clear: "backoff_invar co b \<Longrightarrow> backoff_invar co (Clear co b key)"
  by (auto simp: backoff_invar_def tracker_inv_def tracker_cfg_def entry_at_Clear)

lemma next_entry_bounds:
  assumes "tracker_cfg b"
    and "\<And>p. prev = Some p \<Longrightarrow> 1 \<le> failures p \<and> 0 < delay p"
  shows "1 \<le> failures (next_entry b prev now e)" "0 < delay (next_entry b prev now e)"
    "delay (next_entry b prev now e) \<le> max (base b) (maxDelay b)"
    "retryAt (next_entry b prev now e) = now + delay (next_entry b prev now e)"
  using assms by (auto simp: next_entry_def tracker_cfg_def Let_def split: option.splits)

lemma backoff_invar_RecordFailure:
  assumes "backoff_invar co b"
  shows "backoff_invar co (RecordFailure co b now key e)"
proof -
  note cfg = assms [unfolded backoff_invar_def, THEN conjunct2, THEN conjunct1]
  note inv = assms [unfolded backoff_invar_def, THEN conjunct2, THEN conjunct2]
  have nb: "1 \<le> failures p \<and> 0 < delay p" if "entry_at co b now key = Some p" for p
    using tracker_invD [OF inv that] by simp
  have "tracker_inv co (RecordFailure co b now key e)"
    unfolding tracker_inv_def entry_at_RecordFailure [OF assms] backoff_frame
    using next_entry_bounds [OF cfg nb] tracker_invD [OF inv] by (auto split: if_splits)
  with assms show ?thesis by (simp add: backoff_invar_def tracker_cfg_def)
qed


lemma NewBackoffTracker_simps [simp]:
  "base (NewBackoffTracker ec b m) = b" "maxDelay (NewBackoffTracker ec b m) = m"
  "entries (NewBackoffTracker ec b m) = ec"
  by (simp_all add: NewBackoffTracker_def)

lemma NewBackoffTracker_invar:
  assumes "cache_ok co hour" "empty_cache co ec" "0 < b" "b < 2 ^ 62" "0 < m" "m < 2 ^ 62"
  shows "backoff_invar co (NewBackoffTracker ec b m)"
    and "entry_at co (NewBackoffTracker ec b m) now key = None"
  using assms empty_cache_CGet [OF assms(1,2)]
  by (simp_all add: backoff_invar_def tracker_cfg_def tracker_inv_def entry_at_def)

lemmas timed_tracker = NewBackoffTracker_invar [OF timed_ops_ok timed_ops_empty]

lemma Check_None_iff: "Check co b now key what = None \<longleftrightarrow>
    (case entry_at co b now key of None \<Rightarrow> True | Some en \<Rightarrow> retryAt en \<le> now)"
  by (simp add: Check_def entry_at_def Let_def split: option.splits)

section \<open>The gate the LKE provider relies on\<close>

text \<open>
  What a caller of \<open>Check\<close>, \<open>RecordFailure\<close> and \<open>Clear\<close> needs of them: a cleared key is open, a
  key that has just failed is closed and reopens once and for all, and no operation
  touches another key.
\<close>

locale backoff_gate =
  fixes blocked :: "'s \<Rightarrow> int \<Rightarrow> string \<Rightarrow> bool"
    and fail :: "'s \<Rightarrow> int \<Rightarrow> string \<Rightarrow> err \<Rightarrow> 's"
    and reset :: "'s \<Rightarrow> string \<Rightarrow> 's"
    and invar :: "'s \<Rightarrow> bool"
  assumes invar_fail: "invar s \<Longrightarrow> invar (fail s t k e)"
    and invar_reset: "invar s \<Longrightarrow> invar (reset s k)"
    and reset_opens: "invar s \<Longrightarrow> \<not> blocked (reset s k) t k"
    and reset_other: "invar s \<Longrightarrow> k' \<noteq> k \<Longrightarrow> blocked (reset s k) t k' = blocked s t k'"
    and fail_blocks: "invar s \<Longrightarrow> blocked (fail s t k e) t k"
    and fail_other: "invar s \<Longrightarrow> k' \<noteq> k \<Longrightarrow> blocked (fail s t k e) t' k' = blocked s t' k'"
    and stays_open: "invar s \<Longrightarrow> t \<le> t' \<Longrightarrow> blocked s t' k \<Longrightarrow> blocked s t k"

text \<open>A history of recorded failures and clears, and its effect.\<close>

datatype gate_event = Failed int string err | Cleared string

fun event_key :: "gate_event \<Rightarrow> string" where
  "event_key (Failed t k e) = k"
| "event_key (Cleared k) = k"

fun gate_step :: "('s \<Rightarrow> int \<Rightarrow> string \<Rightarrow> err \<Rightarrow> 's) \<Rightarrow> ('s \<Rightarrow> string \<Rightarrow> 's) \<Rightarrow> gate_event \<Rightarrow> 's \<Rightarrow> 's" where
  "gate_step fl rs (Failed t k e) s = fl s t k e"
| "gate_step fl rs (Cleared k) s = rs s k"

context backoff_gate
begin

lemma invar_run: "invar s \<Longrightarrow> invar (fold (gate_step fail reset) evs s)"
proof (induction evs arbitrary: s)
  case (Cons ev evs)
  then show ?case by (cases ev) (simp_all add: invar_fail invar_reset)
qed simp

lemma run_other:
  "invar s \<Longrightarrow> k \<notin> event_key ` set evs \<Longrightarrow> blocked (fold (gate_step fail reset) evs s) t k = blocked s t k"
proof (induction evs arbitrary: s)
  case (Cons ev evs)
  then show ?case
    by (cases ev) (auto simp: invar_fail invar_reset fail_other reset_other)
qed simp

text \<open>Only a failure of the key itself, recorded after its last clear, can close a key.\<close>

lemma open_since_clear:
  assumes "invar s" "k \<notin> event_key ` set evs'"
  shows "\<not> blocked (fold (gate_step fail reset) (evs @ Cleared k # evs') s) t k"
proof -
  let ?s = "reset (fold (gate_step fail reset) evs s) k"
  have "invar ?s" using assms(1) by (simp add: invar_run invar_reset)
  then have "blocked (fold (gate_step fail reset) evs' ?s) t k = blocked ?s t k"
    by (rule run_other [OF _ assms(2)])
  with assms(1) show ?thesis by (simp add: reset_opens invar_run)
qed

lemma closed_since_failure:
  assumes "invar s" "k \<notin> event_key ` set evs'"
  shows "blocked (fold (gate_step fail reset) (evs @ Failed t k e # evs') s) t k"
proof -
  let ?s = "fail (fold (gate_step fail reset) evs s) t k e"
  have "invar ?s" using assms(1) by (simp add: invar_run invar_fail)
  then have "blocked (fold (gate_step fail reset) evs' ?s) t k = blocked ?s t k"
    by (rule run_other [OF _ assms(2)])
  with assms(1) show ?thesis by (simp add: fail_blocks invar_run)
qed

end

definition backing_off :: "'b backoff_ops \<Rightarrow> 'b BackoffTracker \<Rightarrow> int \<Rightarrow> string \<Rightarrow> bool" where
  "backing_off co b now key \<longleftrightarrow> Check co b now key [] \<noteq> None"

lemma Check_what: "Check co b now key what = None \<longleftrightarrow> Check co b now key what' = None"
  by (simp add: Check_None_iff)

lemma backing_off_iff:
  "backing_off co b now key \<longleftrightarrow> (\<exists>en. entry_at co b now key = Some en \<and> now < retryAt en)"
  by (auto simp: backing_off_def Check_None_iff split: option.splits)

interpretation tracker: backoff_gate "backing_off co" "RecordFailure co" "Clear co" "backoff_invar co" for co
proof unfold_locales
  fix s :: "'a BackoffTracker" and t t' k k' e
  assume inv: "backoff_invar co s"
  show "backoff_invar co (RecordFailure co s t k e)" by (rule backoff_invar_RecordFailure [OF inv])
  show "backoff_invar co (Clear co s k)" by (rule backoff_invar_Clear [OF inv])
  have ok: "cache_ok co hour" and cfg: "tracker_cfg s" and tinv: "tracker_inv co s"
    using inv by (simp_all add: backoff_invar_def)
  show "\<not> backing_off co (Clear co s k) t k"
    by (simp add: backing_off_iff entry_at_Clear [OF ok])
  show "backing_off co (Clear co s k) t k' = backing_off co s t k'" if "k' \<noteq> k"
    using that by (simp add: backing_off_iff entry_at_Clear [OF ok])
  show "backing_off co (RecordFailure co s t k e) t k"
    using next_entry_bounds(2,4) [OF cfg, of "entry_at co s t k" t e] tracker_invD [OF tinv]
    by (auto simp: backing_off_iff entry_at_RecordFailure [OF inv] hour_def)
  show "backing_off co (RecordFailure co s t k e) t' k' = backing_off co s t' k'" if "k' \<noteq> k"
    using that by (simp add: backing_off_iff entry_at_RecordFailure [OF inv])
  show "backing_off co s t k" if "t \<le> t'" "backing_off co s t' k"
    using that CGet_antimono [OF ok] by (fastforce simp: backing_off_iff entry_at_def)
qed

section \<open>Properties\<close>

text \<open>Consecutive failures of one key, each within an hour of the one before.\<close>

fun fail_run :: "'b backoff_ops \<Rightarrow> string \<Rightarrow> (int \<times> err) list \<Rightarrow> 'b BackoffTracker \<Rightarrow> 'b BackoffTracker" where
  "fail_run co key [] b = b"
| "fail_run co key ((t, e) # fs) b = fail_run co key fs (RecordFailure co b t key e)"

fun within_hour :: "(int \<times> err) list \<Rightarrow> bool" where
  "within_hour ((t, e) # (t', e') # fs) \<longleftrightarrow> t' \<le> t + hour \<and> within_hour ((t', e') # fs)"
| "within_hour _ \<longleftrightarrow> True"

lemma fail_run_entry:
  assumes "backoff_invar co b"
    and "entry_at co b (fst f) key = Some p" and "within_hour (f # fs)"
    and "failures p = int n" and "min (2 * delay p) (maxDelay b) = min (base b * 2 ^ Suc m) (maxDelay b)"
    and "now \<le> fst (last (f # fs)) + hour"
  shows "\<exists>en. entry_at co (fail_run co key (f # fs) b) now key = Some en \<and>
     failures en = int (n + length (f # fs)) \<and>
     delay en = min (base b * 2 ^ (m + length (f # fs))) (maxDelay b) \<and>
     retryAt en = fst (last (f # fs)) + delay en \<and> lastErr en = snd (last (f # fs))"
  using assms
proof (induction fs arbitrary: f b p n m)
  case Nil
  obtain t e where f: "f = (t, e)" by (cases f)
  have "0 < maxDelay b" using Nil.prems(1) by (simp add: backoff_invar_def tracker_cfg_def)
  with Nil.prems show ?case
    by (auto simp: f entry_at_RecordFailure next_entry_def Let_def)
next
  case (Cons g fs)
  obtain t e where f: "f = (t, e)" by (cases f)
  obtain t' e' where g: "g = (t', e')" by (cases g)
  let ?b = "RecordFailure co b t key e"
  have mx: "0 < maxDelay b" using Cons.prems(1) by (simp add: backoff_invar_def tracker_cfg_def)
  let ?q = "next_entry b (Some p) t e"
  have "entry_at co ?b (fst g) key = Some ?q"
    using Cons.prems by (simp add: f g entry_at_RecordFailure)
  moreover have "failures ?q = int (Suc n)"
    "min (2 * delay ?q) (maxDelay ?b) = min (base ?b * 2 ^ Suc (Suc m)) (maxDelay ?b)"
    using Cons.prems(4,5) mx by (auto simp: next_entry_def Let_def)
  moreover have "within_hour (g # fs)" "now \<le> fst (last (g # fs)) + hour"
    using Cons.prems(3,6) by (simp_all add: f g)
  ultimately show ?case
    using Cons.IH [of ?b g ?q "Suc n" "Suc m"] backoff_invar_RecordFailure [OF Cons.prems(1), of t key e]
    by (simp add: f)
qed


text \<open>The delay after the last of \<open>n\<close> consecutive failures, and the entry they leave.\<close>

definition delayAfter :: "'b BackoffTracker \<Rightarrow> nat \<Rightarrow> int" where
  "delayAfter b n = (if n = 1 then base b else min (base b * 2 ^ (n - 1)) (maxDelay b))"

lemma failures_entry:
  assumes inv: "backoff_invar co b" and none: "entry_at co b (fst (hd fs)) key = None"
    and fs: "fs \<noteq> []" "within_hour fs" and now: "now \<le> fst (last fs) + hour"
  shows "\<exists>en. entry_at co (fail_run co key fs b) now key = Some en \<and> failures en = int (length fs) \<and>
     delay en = delayAfter b (length fs) \<and> retryAt en = fst (last fs) + delayAfter b (length fs) \<and> lastErr en = snd (last fs)"
proof -
  obtain t e gs where f: "fs = (t, e) # gs" using fs(1) by (cases fs) auto
  let ?p = "next_entry b None t e"
  have e0: "entry_at co (RecordFailure co b t key e) t' key = (if t' \<le> t + hour then Some ?p else None)" for t'
    using none by (simp add: f entry_at_RecordFailure [OF inv])
  show ?thesis
  proof (cases gs)
    case Nil
    then show ?thesis using now by (simp add: f e0 next_entry_def delayAfter_def Let_def)
  next
    case (Cons g gs')
    let ?b = "RecordFailure co b t key e"
    have "entry_at co ?b (fst g) key = Some ?p" "within_hour (g # gs')"
      "now \<le> fst (last (g # gs')) + hour"
      using fs(2) now by (cases g; simp add: f Cons e0)+
    moreover have "failures ?p = int 1" "min (2 * delay ?p) (maxDelay ?b) = min (base ?b * 2 ^ Suc 0) (maxDelay ?b)"
      by (simp_all add: next_entry_def Let_def mult.commute)
    moreover have "last ((t, e) # g # gs') = last (g # gs')" by simp
    ultimately show ?thesis
      using fail_run_entry [of co ?b g key ?p gs' 1 0 now] backoff_invar_RecordFailure [OF inv, of t key e]
      by (auto simp: f Cons delayAfter_def simp del: last.simps)
  qed
qed

text \<open>C0: The k-th consecutive failure of a key (each recorded within the hour the cache keeps
  the one before) closes the key for the base delay when k is 1 and for
  min(base * 2^(k-1), maxDelay) when k is larger, counted from that failure: while the entry
  is kept, \<open>Check\<close> refuses an attempt exactly before that instant, and its error names the
  k failures and wraps the last one.\<close>

lemma consecutive_failures_delay:
  assumes inv: "backoff_invar co b" and none: "entry_at co b (fst (hd fs)) key = None"
    and fs: "fs \<noteq> []" "within_hour fs" and now: "now \<le> fst (last fs) + hour"
    and d: "d = (if length fs = 1 then base b else min (base b * 2 ^ (length fs - 1)) (maxDelay b))"
  shows "(Check co (fail_run co key fs b) now key what = None \<longleftrightarrow> fst (last fs) + d \<le> now) \<and>
    (fst (last fs) + d - now \<le> 0 \<or>
     Check co (fail_run co key fs b) now key what =
       Some (Errorf ''%s is backing off for %s after %d failed attempts: %w''
         [what, Itoa (roundSecond (sat64 (fst (last fs) + d - now))), Itoa (int (length fs))]
         [snd (last fs)]))"
proof -
  have "d = delayAfter b (length fs)" by (simp add: d delayAfter_def)
  with failures_entry [OF inv none fs now] obtain en where "entry_at co (fail_run co key fs b) now key = Some en"
    "failures en = int (length fs)" "retryAt en = fst (last fs) + d" "lastErr en = snd (last fs)" by auto
  then show ?thesis by (auto simp: Check_def entry_at_def Let_def split: if_splits)
qed

lemma consecutive_failures_delay_witness:
  "Check (timed_ops hour) (fail_run (timed_ops hour) ''p'' [(0, Sentinel ErrPoolScaleFailed), (40, Sentinel ErrClaimFailed)]
     (NewBackoffTracker [] 30 480)) 100 ''p'' ''pool'' = None"
proof -
  have "40 \<le> hour" "100 \<le> 40 + hour" by (simp_all add: hour_def)
  then show ?thesis
    by (intro consecutive_failures_delay [where d = 60, THEN conjunct1, THEN iffD2])
      (simp_all add: timed_tracker)
qed

section \<open>Histories\<close>

text \<open>Two trackers that agree on a key stay so, whatever is recorded for other keys.\<close>

abbreviation run_history :: "'b backoff_ops \<Rightarrow> gate_event list \<Rightarrow> 'b BackoffTracker \<Rightarrow> 'b BackoffTracker" where
  "run_history co evs b \<equiv> fold (gate_step (RecordFailure co) (Clear co)) evs b"

definition agree :: "'b backoff_ops \<Rightarrow> string \<Rightarrow> 'b BackoffTracker \<Rightarrow> 'b BackoffTracker \<Rightarrow> bool" where
  "agree co k b b' \<longleftrightarrow> backoff_invar co b \<and> backoff_invar co b' \<and> base b = base b' \<and> maxDelay b = maxDelay b' \<and>
     (\<forall>t. entry_at co b t k = entry_at co b' t k)"

lemma agree_step:
  assumes "agree co k b b'"
  shows "event_key ev = k \<Longrightarrow> agree co k (gate_step (RecordFailure co) (Clear co) ev b) (gate_step (RecordFailure co) (Clear co) ev b')"
    and "event_key ev \<noteq> k \<Longrightarrow> agree co k (gate_step (RecordFailure co) (Clear co) ev b) b'"
proof -
  have inv: "backoff_invar co b" "backoff_invar co b'" using assms by (simp_all add: agree_def)
  then have ok: "cache_ok co hour" by (simp add: backoff_invar_def)
  note facts = entry_at_RecordFailure [OF inv(1)] entry_at_RecordFailure [OF inv(2)] entry_at_Clear [OF ok]
    backoff_invar_RecordFailure [OF inv(1)] backoff_invar_RecordFailure [OF inv(2)] backoff_invar_Clear [OF inv(1)] backoff_invar_Clear [OF inv(2)]
  show "event_key ev = k \<Longrightarrow> agree co k (gate_step (RecordFailure co) (Clear co) ev b) (gate_step (RecordFailure co) (Clear co) ev b')"
    using assms by (cases ev) (auto simp: agree_def facts next_entry_def split: option.split)
  show "event_key ev \<noteq> k \<Longrightarrow> agree co k (gate_step (RecordFailure co) (Clear co) ev b) b'"
    using assms by (cases ev) (auto simp: agree_def facts)
qed

lemma agree_history: "agree co k b b' \<Longrightarrow> agree co k (run_history co evs b) (run_history co (filter (\<lambda>ev. event_key ev = k) evs) b')"
  by (induction evs arbitrary: b b') (simp_all add: agree_step)

lemma agree_Check: "agree co k b b' \<Longrightarrow> Check co b t k what = Check co b' t k what"
  by (simp add: agree_def Check_def entry_at_def)

lemma own_failures: "run_history co (map (\<lambda>(t, e). Failed t k e) fs) b = fail_run co k fs b"
  by (induction fs arbitrary: b) auto

text \<open>C11: Whatever was recorded, for whatever keys, what \<open>Check\<close> answers for a key depends on the failures and clears of
  this key only, and in exactly this way: if the failures of the key since it was last cleared are \<open>fs\<close>, each within the
  hour the cache keeps the one before, then the key is open if there are none, and else it is closed until the delay that
  belongs to their number has passed since the last of them. Failures of one node pool or one LKE node never delay another.\<close>

lemma gate_history:
  assumes inv: "backoff_invar co b"
  shows "Check co (run_history co evs b) now k what = Check co (run_history co (filter (\<lambda>ev. event_key ev = k) evs) b) now k what \<and>
    (filter (\<lambda>ev. event_key ev = k) evs = past @ Cleared k # map (\<lambda>(t, e). Failed t k e) fs \<longrightarrow> within_hour fs \<longrightarrow>
      (fs \<noteq> [] \<longrightarrow> now \<le> fst (last fs) + hour) \<longrightarrow>
      (Check co (run_history co evs b) now k what = None \<longleftrightarrow> fs = [] \<or> fst (last fs) + delayAfter b (length fs) \<le> now))"
proof (intro conjI impI)
  have "agree co k b b" using inv by (simp add: agree_def)
  then show same: "Check co (run_history co evs b) now k what = Check co (run_history co (filter (\<lambda>ev. event_key ev = k) evs) b) now k what"
    by (intro agree_Check agree_history)
  assume own: "filter (\<lambda>ev. event_key ev = k) evs = past @ Cleared k # map (\<lambda>(t, e). Failed t k e) fs"
    and fs: "within_hour fs" "fs \<noteq> [] \<longrightarrow> now \<le> fst (last fs) + hour"
  let ?b = "Clear co (run_history co past b) k"
  have inv': "backoff_invar co (run_history co past b)" by (rule tracker.invar_run [OF inv])
  then have "cache_ok co hour" by (simp add: backoff_invar_def)
  then have none: "entry_at co ?b t k = None" for t by (simp add: entry_at_Clear)
  have frame: "base (run_history co evs b) = base b \<and> maxDelay (run_history co evs b) = maxDelay b" for evs b
  proof (induction evs arbitrary: b)
    case (Cons ev evs)
    then show ?case by (cases ev) simp_all
  qed simp
  then have delay: "delayAfter ?b n = delayAfter b n" for n by (simp add: delayAfter_def)
  have run: "run_history co (filter (\<lambda>ev. event_key ev = k) evs) b = fail_run co k fs ?b"
    by (simp add: own own_failures)
  show "Check co (run_history co evs b) now k what = None \<longleftrightarrow> fs = [] \<or> fst (last fs) + delayAfter b (length fs) \<le> now"
  proof (cases "fs = []")
    case True
    with same none show ?thesis by (simp add: run Check_None_iff)
  next
    case False
    with failures_entry [OF backoff_invar_Clear [OF inv'] none False fs(1), of now] fs(2)
    obtain en where "entry_at co (fail_run co k fs ?b) now k = Some en" "retryAt en = fst (last fs) + delayAfter b (length fs)"
      by (auto simp: delay)
    with same False show ?thesis by (simp add: run Check_None_iff)
  qed
qed

lemma gate_history_witness:
  "Check (timed_ops hour) (run_history (timed_ops hour)
     [Failed 0 ''p'' (Sentinel ErrClaimFailed), Cleared ''p'', Failed 3 ''p'' (Sentinel ErrClaimFailed),
      Failed 5 ''q'' (Sentinel ErrClaimFailed), Failed 7 ''p'' (Sentinel ErrClaimFailed)]
     (NewBackoffTracker [] 30 480)) 66 ''p'' ''pool'' \<noteq> None"
proof -
  have "(7 :: int) \<le> 3 + hour" "66 \<le> 7 + hour" by (simp_all add: hour_def)
  then show ?thesis
    using gate_history [where co = "timed_ops hour" and b = "NewBackoffTracker [] 30 480" and now = 66 and k = "''p''"
        and what = "''pool''" and past = "[Failed 0 ''p'' (Sentinel ErrClaimFailed)]"
        and fs = "[(3, Sentinel ErrClaimFailed), (7, Sentinel ErrClaimFailed)]"
        and evs = "[Failed 0 ''p'' (Sentinel ErrClaimFailed), Cleared ''p'', Failed 3 ''p'' (Sentinel ErrClaimFailed),
          Failed 5 ''q'' (Sentinel ErrClaimFailed), Failed 7 ''p'' (Sentinel ErrClaimFailed)]", THEN conjunct2]
    by (simp add: timed_tracker delayAfter_def)
qed

end
