(* ===== verification/LkePools.thy ===== *)
theory LkePools
  imports InstanceSelection Backoff
begin

text \<open>
  pkg/providers/lke/lke.go, first part: the provider's configuration and state, and the
  steps of a Create other than the loop itself: finding or creating the LKE node pool,
  finding a claimable instance, claiming it and verifying the claim.
\<close>

section \<open>Configuration and state\<close>

record ProviderConfig =
  CreateDeadline :: int
  TagVerificationTimeout :: int
  RetryDelay :: int
  BackoffBase :: int
  BackoffMax :: int

text \<open>
  The fields of \<open>DefaultProvider\<close> that never change, and the parameters of the model: the
  client and clock, the error functions and scheduling package, the operations of the three
  kinds of cache, and the order in which Go ranges over a map of tags.
\<close>

record ('w, 'c, 'b, 'u) lke =
  clusterID :: int
  clusterTier :: string
  clusterName :: string
  region :: string
  config :: ProviderConfig
  client :: "'w linode_api"
  rt :: "'w runtime"
  errlib :: lib
  scheduling :: sched
  nodeOps :: "('c, Instance) cache_ops"
  backoffOps :: "'b backoff_ops"
  markOps :: "'u mark_ops"
  rangeOrder :: range_order

text \<open>The state: the world behind the client, and the caches and trackers of the provider.\<close>

record ('w, 'c, 'b, 'u) lke_state =
  world :: 'w
  nodeCache :: 'c
  deleteBackoff :: "'b BackoffTracker"
  poolBackoff :: "'b BackoffTracker"
  unavailable :: "'u UnavailableOfferings"

definition seconds :: "int \<Rightarrow> int" where
  "seconds n = n * 10 ^ 9"

definition withDefaults :: "ProviderConfig \<Rightarrow> ProviderConfig" where
  "withDefaults c = \<lparr>
     CreateDeadline = (if CreateDeadline c = 0 then seconds 10 else CreateDeadline c),
     TagVerificationTimeout = (if TagVerificationTimeout c = 0 then seconds 4 else TagVerificationTimeout c),
     RetryDelay = (if RetryDelay c = 0 then seconds 2 else RetryDelay c),
     BackoffBase = (if BackoffBase c = 0 then seconds 10 else BackoffBase c),
     BackoffMax = (if BackoffMax c = 0 then seconds 300 else BackoffMax c)\<rparr>"

text \<open>\<open>NewDefaultProvider\<close>, the state part: two fresh trackers; the caches are handed in.\<close>

definition NewLkeState :: "ProviderConfig \<Rightarrow> 'w \<Rightarrow> 'c \<Rightarrow> 'b \<Rightarrow> 'u UnavailableOfferings \<Rightarrow> ('w, 'c, 'b, 'u) lke_state" where
  "NewLkeState cfg w nodePoolCache ec u =
     (let c = withDefaults cfg
      in \<lparr>world = w, nodeCache = nodePoolCache,
          deleteBackoff = NewBackoffTracker ec (BackoffBase c) (BackoffMax c),
          poolBackoff = NewBackoffTracker ec (BackoffBase c) (BackoffMax c),
          unavailable = u\<rparr>)"

definition enterprise :: string where "enterprise = ''enterprise''"
definition onRecycle :: string where "onRecycle = ''on_recycle''"

text \<open>A request to the API, on the whole state.\<close>

definition req :: "('w \<Rightarrow> 'a \<times> 'w) \<Rightarrow> ('w, 'c, 'b, 'u) lke_state \<Rightarrow> 'a \<times> ('w, 'c, 'b, 'u) lke_state" where
  "req f s = (case f (world s) of (r, w) \<Rightarrow> (r, s\<lparr>world := w\<rparr>))"

definition nowOf :: "('w, 'c, 'b, 'u) lke \<Rightarrow> ('w, 'c, 'b, 'u) lke_state \<Rightarrow> int" where
  "nowOf p s = Now (rt p) (world s)"

definition sleepFor :: "('w, 'c, 'b, 'u) lke \<Rightarrow> int \<Rightarrow> ('w, 'c, 'b, 'u) lke_state \<Rightarrow> ('w, 'c, 'b, 'u) lke_state" where
  "sleepFor p d s = s\<lparr>world := Sleep (rt p) d (world s)\<rparr>"

definition MarkTypeUnavailable :: "('w, 'c, 'b, 'u) lke \<Rightarrow> string \<Rightarrow> ('w, 'c, 'b, 'u) lke_state \<Rightarrow> ('w, 'c, 'b, 'u) lke_state" where
  "MarkTypeUnavailable p instanceType s =
     s\<lparr>unavailable := MarkUnavailable (markOps p) (unavailable s) (nowOf p s) instanceType (region p)\<rparr>"

section \<open>Node pools\<close>

definition makePoolKey :: "string \<Rightarrow> string \<Rightarrow> string" where
  "makePoolKey karpenterNodePoolName instanceType = karpenterNodePoolName @ ''|'' @ instanceType"

definition isKarpenterManagedPool :: "LKENodePool \<Rightarrow> bool" where
  "isKarpenterManagedPool pool =
     (let tags = TagListToMap (PoolTags pool)
      in map_of tags NodePoolLabelKey \<noteq> None \<and> map_of tags LabelLKEManaged \<noteq> None)"

definition matchesPoolKey :: "LKENodePool \<Rightarrow> string \<Rightarrow> string \<Rightarrow> bool" where
  "matchesPoolKey pool instanceType nodePoolName =
     (if PoolType pool \<noteq> instanceType then False
      else if \<not> isKarpenterManagedPool pool then False
      else labelOf (TagListToMap (PoolTags pool)) NodePoolLabelKey = nodePoolName)"

definition planUnavailableReason :: "string \<Rightarrow> string" where
  "planUnavailableReason instanceType =
     ''The Linode plan '' @ instanceType @ '' is not currently available in the selected region''"

definition isPlanUnavailableError :: "lib \<Rightarrow> err \<Rightarrow> string \<Rightarrow> bool" where
  "isPlanUnavailableError L e instanceType =
     (if \<not> ErrHasStatus L e [400] then False
      else case errors_As is_linode e of
        Some (_, _, Some (Some [(field, reason)])) \<Rightarrow>
          field = ''type'' \<and> HasPrefix reason (planUnavailableReason instanceType)
      | _ \<Rightarrow> False)"

definition convertToLkeTaints :: "taint list \<Rightarrow> LKENodePoolTaint list" where
  "convertToLkeTaints ts = map (\<lambda>t. \<lparr>LkeTaintKey = TaintKey t, LkeTaintValue = TaintValue t,
     LkeTaintEffect = TaintEffect t\<rparr>) ts"

definition lkeLabelsFromNodeClaim :: "NodeClaim \<Rightarrow> tagmap" where
  "lkeLabelsFromNodeClaim nc = filter (\<lambda>(k, v). k \<noteq> LabelTopologyZone) (NodeClaimLabels nc)"

definition reconcilePoolVersion :: "('w, 'c, 'b, 'u) lke \<Rightarrow> LinodeNodeClass \<Rightarrow> LKENodePool \<Rightarrow>
    ('w, 'c, 'b, 'u) lke_state \<Rightarrow> nilerr \<times> ('w, 'c, 'b, 'u) lke_state" where
  "reconcilePoolVersion p nodeClass pool s =
     (case LKEK8sVersion (Spec nodeClass) of
        None \<Rightarrow> (None, s)
      | Some v \<Rightarrow>
          if PoolK8sVersion pool = Some v then (None, s)
          else case req (UpdateLKENodePool (client p) (clusterID p) (PoolID pool)
                  \<lparr>UpdateCount = 0, UpdateK8sVersion = Some v, UpdateStrategy = Some onRecycle\<rparr>) s of
            (Inl e, s) \<Rightarrow> (Some (Errorf ''updating node pool %d kubernetes version: %w'' [Itoa (PoolID pool)] [e]), s)
          | (Inr _, s) \<Rightarrow>
              (None, s\<lparr>nodeCache := CDelete (nodeOps p) (nodeCache s)
                 (Itoa (clusterID p) @ ''-'' @ Itoa (PoolID pool))\<rparr>))"

definition poolCreateOptions :: "('w, 'c, 'b, 'u) lke \<Rightarrow> LinodeNodeClass \<Rightarrow> NodeClaim \<Rightarrow> tagmap \<Rightarrow> string \<Rightarrow>
    LKENodePoolCreateOptions" where
  "poolCreateOptions p nodeClass nodeClaim tags instanceType =
     \<lparr>CreateCount = 1, CreateType = instanceType,
      CreatePoolTags = DedupeTags (MapToTagList (rangeOrder p) tags),
      CreateLabels = lkeLabelsFromNodeClaim nodeClaim,
      CreateTaints = convertToLkeTaints (Taints nodeClaim),
      CreateK8sVersion = LKEK8sVersion (Spec nodeClass),
      CreateUpdateStrategy = (if clusterTier p = enterprise then Some onRecycle else None)\<rparr>"

text \<open>The result, whether a pool was created (the pointer argument), and the state.\<close>

definition findOrCreatePool :: "('w, 'c, 'b, 'u) lke \<Rightarrow> LinodeNodeClass \<Rightarrow> NodeClaim \<Rightarrow> tagmap \<Rightarrow> string \<Rightarrow> bool \<Rightarrow>
    ('w, 'c, 'b, 'u) lke_state \<Rightarrow> LKENodePool res \<times> bool \<times> ('w, 'c, 'b, 'u) lke_state" where
  "findOrCreatePool p nodeClass nodeClaim tags instanceType createdPool s =
     (case req (ListLKENodePools (client p) (clusterID p)) s of
        (Inl e, s) \<Rightarrow> (Inl (Errorf ''listing node pools: %w'' [] [e]), createdPool, s)
      | (Inr pools, s) \<Rightarrow>
        (case find (\<lambda>pool. matchesPoolKey pool instanceType (labelOf (NodeClaimLabels nodeClaim) NodePoolLabelKey)) pools of
           Some pool \<Rightarrow>
             (case reconcilePoolVersion p nodeClass pool s of
                (Some e, s) \<Rightarrow> (Inl e, createdPool, s)
              | (None, s) \<Rightarrow> (Inr pool, createdPool, s))
         | None \<Rightarrow>
             (case req (CreateLKENodePool (client p) (clusterID p)
                     (poolCreateOptions p nodeClass nodeClaim tags instanceType)) s of
                (Inl e, s) \<Rightarrow>
                  let e = Errorf ''creating node pool: %w'' [] [e]
                  in if isPlanUnavailableError (errlib p) e instanceType
                     then (Inl (InsufficientCapacityErr
                             (Errorf ''creating LKE node pool for instance type %s, %w'' [instanceType] [e])),
                           createdPool, MarkTypeUnavailable p instanceType s)
                     else (Inl e, createdPool, s)
              | (Inr pool, s) \<Rightarrow> (Inr pool, True, s))))"

section \<open>Finding a claimable instance\<close>

definition unclaimed :: "LinodeInstance \<Rightarrow> bool" where
  "unclaimed i \<longleftrightarrow> map_of (TagListToMap (LiTags i)) NodeClaimTagKey = None"

fun scanNodes :: "('w, 'c, 'b, 'u) lke \<Rightarrow> bool \<Rightarrow> LKENodePoolLinode list \<Rightarrow>
    ('w, 'c, 'b, 'u) lke_state \<Rightarrow> LinodeInstance res \<times> ('w, 'c, 'b, 'u) lke_state" where
  "scanNodes p nodesProvisioning [] s =
     (Inl (Sentinel (if nodesProvisioning then ErrNodesProvisioning else ErrNoClaimableInstance)), s)"
| "scanNodes p nodesProvisioning (node # nodes) s =
     (if NodeInstanceID node = 0 then scanNodes p True nodes s
      else case req (GetInstance (client p) (NodeInstanceID node)) s of
        (Inl e, s) \<Rightarrow>
          if IsNotFound (errlib p) e then scanNodes p nodesProvisioning nodes s
          else (Inl (Errorf ''getting instance %d: %w'' [Itoa (NodeInstanceID node)] [e]), s)
      | (Inr i, s) \<Rightarrow> if unclaimed i then (Inr i, s) else scanNodes p nodesProvisioning nodes s)"

definition findClaimableInstanceStandard :: "('w, 'c, 'b, 'u) lke \<Rightarrow> LKENodePool \<Rightarrow>
    ('w, 'c, 'b, 'u) lke_state \<Rightarrow> LinodeInstance res \<times> ('w, 'c, 'b, 'u) lke_state" where
  "findClaimableInstanceStandard p pool s =
     (case req (GetLKENodePool (client p) (clusterID p) (PoolID pool)) s of
        (Inl e, s) \<Rightarrow> (Inl (Errorf ''getting node pool %d: %w'' [Itoa (PoolID pool)] [e]), s)
      | (Inr freshPool, s) \<Rightarrow> scanNodes p False (PoolLinodes freshPool) s)"

definition findClaimableInstanceEnterprise :: "('w, 'c, 'b, 'u) lke \<Rightarrow> LKENodePool \<Rightarrow>
    ('w, 'c, 'b, 'u) lke_state \<Rightarrow> LinodeInstance res \<times> ('w, 'c, 'b, 'u) lke_state" where
  "findClaimableInstanceEnterprise p pool s =
     (case req (ListInstances (client p)
             [(FilterContains, ''tags'', [''nodepool='' @ Itoa (PoolID pool)]),
              (FilterContains, ''tags'', [''lke'' @ Itoa (clusterID p)]),
              (FilterContains, ''tags'', [kvTag LabelLKEManaged ''true''])]) s of
        (Inl e, s) \<Rightarrow> (Inl (Errorf ''listing instances: %w'' [] [e]), s)
      | (Inr instances, s) \<Rightarrow>
          (case find (\<lambda>i. LiType i = PoolType pool \<and> unclaimed i) instances of
             Some i \<Rightarrow> (Inr i, s)
           | None \<Rightarrow> (Inl (Sentinel ErrNoClaimableInstance), s)))"

definition findClaimableInstance :: "('w, 'c, 'b, 'u) lke \<Rightarrow> LKENodePool \<Rightarrow>
    ('w, 'c, 'b, 'u) lke_state \<Rightarrow> LinodeInstance res \<times> ('w, 'c, 'b, 'u) lke_state" where
  "findClaimableInstance p pool s =
     (if clusterTier p = enterprise then findClaimableInstanceEnterprise p pool s
      else findClaimableInstanceStandard p pool s)"

section \<open>Claiming an instance\<close>

text \<open>The tags a claim writes.\<close>

definition claimTags :: "range_order \<Rightarrow> string list \<Rightarrow> string list \<Rightarrow> string list \<Rightarrow> string \<Rightarrow> string list" where
  "claimTags rng instanceTags poolTags specTags nodeClaimName =
     (let newTags = assign [TagListToMap instanceTags, TagListToMap poolTags, TagListToMap specTags,
            [(NodeClaimTagKey, NormalizeNodeClaimTagValue nodeClaimName)]];
          finalTags = MapToTagList rng newTags @ OpaqueTags instanceTags;
          finalTags = finalTags @ OpaqueTags specTags
      in sort (DedupeTags finalTags))"

text \<open>
  The polling loop of \<open>verifyTagsApplied\<close>. It stops because time passes; \<open>None\<close> would be a
  loop that never ends.
\<close>

partial_function (option) verifyLoop :: "('w, 'c, 'b, 'u) lke \<Rightarrow> int \<Rightarrow> string \<Rightarrow> int \<Rightarrow>
    ('w, 'c, 'b, 'u) lke_state \<Rightarrow> (LinodeInstance res \<times> ('w, 'c, 'b, 'u) lke_state) option" where
  "verifyLoop p instanceID expectedTag deadline s =
     (if \<not> nowOf p s < deadline
      then Some (Inl (Errorf ''timed out verifying tags on instance %d'' [Itoa instanceID] []), s)
      else case CtxErr (rt p) (world s) of
        Some e \<Rightarrow> Some (Inl e, s)
      | None \<Rightarrow>
        (case req (GetInstance (client p) instanceID) s of
           (Inl e, s) \<Rightarrow>
             if IsRetryableError (errlib p) e \<or> IsNotFound (errlib p) e
             then verifyLoop p instanceID expectedTag deadline (sleepFor p (RetryDelay (config p)) s)
             else Some (Inl (Errorf ''getting instance %d: %w'' [Itoa instanceID] [e]), s)
         | (Inr inst, s) \<Rightarrow>
             if expectedTag \<in> set (LiTags inst) then Some (Inr inst, s)
             else verifyLoop p instanceID expectedTag deadline (sleepFor p (RetryDelay (config p)) s)))"

declare verifyLoop.simps [code]

definition verifyTagsApplied :: "('w, 'c, 'b, 'u) lke \<Rightarrow> int \<Rightarrow> string \<Rightarrow>
    ('w, 'c, 'b, 'u) lke_state \<Rightarrow> (LinodeInstance res \<times> ('w, 'c, 'b, 'u) lke_state) option" where
  "verifyTagsApplied p instanceID nodeClaimName s =
     verifyLoop p instanceID (NodeClaimTag nodeClaimName)
       (nowOf p s + TagVerificationTimeout (config p)) s"

definition claimInstance :: "('w, 'c, 'b, 'u) lke \<Rightarrow> LinodeInstance \<Rightarrow> NodeClaim \<Rightarrow> LinodeNodeClass \<Rightarrow> LKENodePool \<Rightarrow>
    ('w, 'c, 'b, 'u) lke_state \<Rightarrow> (LinodeInstance res \<times> ('w, 'c, 'b, 'u) lke_state) option" where
  "claimInstance p i nodeClaim nodeClass pool s =
     (case req (UpdateInstance (client p) (LiID i)
             (claimTags (rangeOrder p) (LiTags i) (PoolTags pool) (SpecTags (Spec nodeClass)) (NodeClaimName nodeClaim))) s of
        (Inl e, s) \<Rightarrow> Some (Inl (Errorf ''updating instance tags: %w'' [] [e]), s)
      | (Inr _, s) \<Rightarrow> verifyTagsApplied p (LiID i) (NodeClaimName nodeClaim) s)"

end
