(* ===== verification/LkeCreate.thy ===== *)
theory LkeCreate
  imports LkePools
begin

text \<open>
  pkg/providers/lke/lke.go, second part: \<open>Create\<close>. Its loop repeats \<open>attemptCreate\<close> until an
  instance is claimed, a permanent error occurs or the deadline passes. The pointers
  \<open>createdPool\<close> and \<open>scaledOnce\<close> are threaded as booleans, and the deferred
  \<open>recordPoolFailure\<close> runs on every return of the loop.
\<close>

section \<open>Looking up the NodeClaim's instance\<close>

definition cacheNode :: "('w, 'c, 'b, 'u) lke \<Rightarrow> Instance \<Rightarrow> ('w, 'c, 'b, 'u) lke_state \<Rightarrow> ('w, 'c, 'b, 'u) lke_state" where
  "cacheNode p n s = s\<lparr>nodeCache := CSet (nodeOps p) (nodeCache s) (nowOf p s) (Itoa (InstID n)) n\<rparr>"

definition lkeInstanceOf :: "('w, 'c, 'b, 'u) lke \<Rightarrow> LinodeInstance \<Rightarrow> Instance" where
  "lkeInstanceOf p i = NewLKEInstance (LiID i) (LiType i) (LiTags i) (region p) (LiCreated i)"

definition hydrateInstanceFromLinode :: "('w, 'c, 'b, 'u) lke \<Rightarrow> LinodeInstance \<Rightarrow>
    ('w, 'c, 'b, 'u) lke_state \<Rightarrow> Instance \<times> ('w, 'c, 'b, 'u) lke_state" where
  "hydrateInstanceFromLinode p i s =
     (case CGet (nodeOps p) (nodeCache s) (nowOf p s) (Itoa (LiID i)) of
        Some cached \<Rightarrow> (cached, s)
      | None \<Rightarrow> (lkeInstanceOf p i, cacheNode p (lkeInstanceOf p i) s))"

definition lookupExistingInstance :: "('w, 'c, 'b, 'u) lke \<Rightarrow> NodeClaim \<Rightarrow>
    ('w, 'c, 'b, 'u) lke_state \<Rightarrow> Instance res \<times> ('w, 'c, 'b, 'u) lke_state" where
  "lookupExistingInstance p nodeClaim s =
     (case req (LookupInstanceByTag (client p) (NodeClaimTag (NodeClaimName nodeClaim))) s of
        (Inl e, s) \<Rightarrow> (Inl e, s)
      | (Inr i, s) \<Rightarrow> (case hydrateInstanceFromLinode p i s of (inst, s) \<Rightarrow> (Inr inst, s)))"

definition resolveCreateInstanceType :: "('w, 'c, 'b, 'u) lke \<Rightarrow> instance_type list \<Rightarrow> NodeClaim \<Rightarrow> string res option" where
  "resolveCreateInstanceType p instanceTypes nodeClaim =
     (case FilterInstanceTypes (scheduling p) instanceTypes nodeClaim of
        Inl e \<Rightarrow> Some (Inl e)
      | Inr filtered \<Rightarrow>
          (case CheapestInstanceType (scheduling p) filtered of
             None \<Rightarrow> None
           | Some (Inl e) \<Rightarrow> Some (Inl e)
           | Some (Inr it) \<Rightarrow> Some (Inr (ItName it))))"

section \<open>One attempt\<close>

definition checkPlanAvailability :: "('w, 'c, 'b, 'u) lke \<Rightarrow> string \<Rightarrow>
    ('w, 'c, 'b, 'u) lke_state \<Rightarrow> nilerr \<times> ('w, 'c, 'b, 'u) lke_state" where
  "checkPlanAvailability p instanceType s =
     (case req (GetRegionAvailability (client p) (region p)) s of
        (Inl e, s) \<Rightarrow> (None, s)
      | (Inr availability, s) \<Rightarrow>
          (case find (\<lambda>a. AvPlan a = instanceType) availability of
             Some a \<Rightarrow>
               if AvAvailable a then (None, s)
               else (Some (InsufficientCapacityErr (Errorf ''instance type %s is not available in region %s''
                       [instanceType, region p] [])), MarkTypeUnavailable p instanceType s)
           | None \<Rightarrow> (Some (InsufficientCapacityErr (Errorf ''instance type %s is not available in region %s''
                       [instanceType, region p] [])), MarkTypeUnavailable p instanceType s)))"

text \<open>What an attempt returns: its result and the two booleans.\<close>

type_synonym ('w, 'c, 'b, 'u) attempt =
  "(Instance res \<times> bool \<times> bool \<times> ('w, 'c, 'b, 'u) lke_state) option"

definition scalePool :: "('w, 'c, 'b, 'u) lke \<Rightarrow> string \<Rightarrow> LKENodePool \<Rightarrow> bool \<Rightarrow> bool \<Rightarrow>
    ('w, 'c, 'b, 'u) lke_state \<Rightarrow> ('w, 'c, 'b, 'u) attempt" where
  "scalePool p instanceType pool createdPool scaledOnce s =
     (if createdPool \<or> scaledOnce then Some (Inl (Sentinel ErrNoClaimableInstance), createdPool, scaledOnce, s)
      else case checkPlanAvailability p instanceType s of
        (Some e, s) \<Rightarrow> Some (Inl e, createdPool, scaledOnce, s)
      | (None, s) \<Rightarrow>
        (case req (UpdateLKENodePool (client p) (clusterID p) (PoolID pool)
                \<lparr>UpdateCount = PoolCount pool + 1, UpdateK8sVersion = None, UpdateStrategy = None\<rparr>) s of
           (Inl e, s) \<Rightarrow>
             if \<not> IsRetryableError (errlib p) e
             then Some (Inl (CreateErr (Errorf ''scaling LKE node pool %d: %w'' [Itoa (PoolID pool)] [e])
                    ''NodePoolScaleFailed'' ''Failed to scale LKE node pool %d: %s''), createdPool, scaledOnce, s)
             else Some (Inl (PoolRequestErr (Errorf ''%w: scaling LKE node pool %d: %w'' [Itoa (PoolID pool)]
                    [Sentinel ErrPoolScaleFailed, e])), createdPool, scaledOnce, s)
         | (Inr _, s) \<Rightarrow> Some (Inl (Sentinel ErrNoClaimableInstance), createdPool, True, s)))"

definition attemptCreate :: "('w, 'c, 'b, 'u) lke \<Rightarrow> LinodeNodeClass \<Rightarrow> NodeClaim \<Rightarrow> tagmap \<Rightarrow> string \<Rightarrow>
    bool \<Rightarrow> bool \<Rightarrow> ('w, 'c, 'b, 'u) lke_state \<Rightarrow> ('w, 'c, 'b, 'u) attempt" where
  "attemptCreate p nodeClass nodeClaim tags instanceType createdPool scaledOnce s =
     (case lookupExistingInstance p nodeClaim s of
        (Inr existing, s) \<Rightarrow> Some (Inr existing, createdPool, scaledOnce, s)
      | (Inl e, s) \<Rightarrow>
        if \<not> errors_Is e ErrInstanceNotFound then Some (Inl e, createdPool, scaledOnce, s)
        else case findOrCreatePool p nodeClass nodeClaim tags instanceType createdPool s of
          (Inl e, createdPool, s) \<Rightarrow>
            if IsInsufficientCapacityError (errlib p) e then Some (Inl e, createdPool, scaledOnce, s)
            else Some (Inl (CreateErr (PoolRequestErr e) ''NodePoolCreationFailed''
                   ''Failed to find or create LKE node pool: %s''), createdPool, scaledOnce, s)
        | (Inr pool, createdPool, s) \<Rightarrow>
          (case findClaimableInstance p pool s of
             (Inl e, s) \<Rightarrow>
               if \<not> isRetryableCreateError e then Some (Inl e, createdPool, scaledOnce, s)
               else scalePool p instanceType pool createdPool scaledOnce s
           | (Inr claimable, s) \<Rightarrow>
             (case claimInstance p claimable nodeClaim nodeClass pool s of
                None \<Rightarrow> None
              | Some (Inl e, s) \<Rightarrow>
                  Some (Inl (Errorf ''%w: claiming instance %d: %w'' [Itoa (LiID claimable)]
                          [Sentinel ErrClaimFailed, e]), createdPool, scaledOnce, s)
              | Some (Inr claimed, s) \<Rightarrow>
                  let inst = NewLKEInstance (LiID claimed) (PoolType pool) (LiTags claimed) (region p) (LiCreated claimed)
                  in Some (Inr inst, createdPool, scaledOnce, cacheNode p inst s))))"

section \<open>The loop\<close>

text \<open>The pool failure behind an attempt's error; a pool that answered clears its backoff.\<close>

definition observePoolAttempt :: "('w, 'c, 'b, 'u) lke \<Rightarrow> string \<Rightarrow> nilerr \<Rightarrow>
    ('w, 'c, 'b, 'u) lke_state \<Rightarrow> nilerr \<times> ('w, 'c, 'b, 'u) lke_state" where
  "observePoolAttempt p poolKey err s =
     (case err of
        Some e \<Rightarrow>
          (case errors_As is_pool_request e of
             Some reqErr \<Rightarrow> (Some reqErr, s)
           | None \<Rightarrow>
               if errors_Is e ErrNoClaimableInstance
               then (None, s\<lparr>poolBackoff := Clear (backoffOps p) (poolBackoff s) poolKey\<rparr>)
               else (None, s))
      | None \<Rightarrow> (None, s\<lparr>poolBackoff := Clear (backoffOps p) (poolBackoff s) poolKey\<rparr>))"

definition recordPoolFailure :: "('w, 'c, 'b, 'u) lke \<Rightarrow> string \<Rightarrow> nilerr \<Rightarrow>
    ('w, 'c, 'b, 'u) lke_state \<Rightarrow> ('w, 'c, 'b, 'u) lke_state" where
  "recordPoolFailure p poolKey poolErr s =
     (case poolErr of
        Some e \<Rightarrow>
          if IsRetryableError (errlib p) e
          then s\<lparr>poolBackoff := RecordFailure (backoffOps p) (poolBackoff s) (nowOf p s) poolKey e\<rparr>
          else s
      | None \<Rightarrow> s)"

definition createTimeoutErr :: "string \<Rightarrow> err \<Rightarrow> err" where
  "createTimeoutErr nodeClaimName lastRetryErr =
     CreateErr (Errorf ''%w for nodeclaim %s: %w'' [nodeClaimName] [Sentinel ErrCreateTimeout, lastRetryErr])
       ''NodePoolProvisioning'' ''Timed out waiting for LKE instance to become available: %s''"

text \<open>
  The loop returns the result, the pool failure of the last attempt and the state;
  \<open>None\<close> would be a loop that never ends.
\<close>

partial_function (option) createLoop :: "('w, 'c, 'b, 'u) lke \<Rightarrow> LinodeNodeClass \<Rightarrow> NodeClaim \<Rightarrow> tagmap \<Rightarrow> string \<Rightarrow> string \<Rightarrow>
    int \<Rightarrow> bool \<Rightarrow> bool \<Rightarrow> err \<Rightarrow> nilerr \<Rightarrow> ('w, 'c, 'b, 'u) lke_state \<Rightarrow>
    (Instance res \<times> nilerr \<times> ('w, 'c, 'b, 'u) lke_state) option" where
  "createLoop p nodeClass nodeClaim tags instanceType poolKey deadline createdPool scaledOnce lastRetryErr poolErr s =
     (if \<not> nowOf p s < deadline
      then Some (Inl (createTimeoutErr (NodeClaimName nodeClaim) lastRetryErr), poolErr, s)
      else case CtxErr (rt p) (world s) of
        Some e \<Rightarrow> Some (Inl e, poolErr, s)
      | None \<Rightarrow>
        (case attemptCreate p nodeClass nodeClaim tags instanceType createdPool scaledOnce s of
           None \<Rightarrow> None
         | Some (Inr inst, createdPool, scaledOnce, s) \<Rightarrow>
             (case observePoolAttempt p poolKey None s of (poolErr, s) \<Rightarrow> Some (Inr inst, poolErr, s))
         | Some (Inl e, createdPool, scaledOnce, s) \<Rightarrow>
             (case observePoolAttempt p poolKey (Some e) s of
                (poolErr, s) \<Rightarrow>
                  if isRetryableCreateError e \<or> IsRetryableError (errlib p) e
                  then createLoop p nodeClass nodeClaim tags instanceType poolKey deadline createdPool scaledOnce
                         (if \<not> errors_Is e ErrNoClaimableInstance then e else lastRetryErr) poolErr
                         (sleepFor p (RetryDelay (config p)) s)
                  else Some (Inl e, poolErr, s))))"

declare createLoop.simps [code]

text \<open>\<open>Create\<close>. \<open>None\<close>: a nil dereference while choosing a type, or a loop without end.\<close>

definition Create :: "('w, 'c, 'b, 'u) lke \<Rightarrow> LinodeNodeClass \<Rightarrow> NodeClaim \<Rightarrow> tagmap \<Rightarrow> instance_type list \<Rightarrow>
    ('w, 'c, 'b, 'u) lke_state \<Rightarrow> (Instance res \<times> ('w, 'c, 'b, 'u) lke_state) option" where
  "Create p nodeClass nodeClaim tags instanceTypes s =
     (case ValidateTagLengths (MapToTagList (rangeOrder p) tags) of
        Some e \<Rightarrow> Some (Inl (CreateErr e ''NodePoolTagValidationFailed'' ''LKE node pool tag validation failed: %s''), s)
      | None \<Rightarrow>
        (case resolveCreateInstanceType p instanceTypes nodeClaim of
           None \<Rightarrow> None
         | Some (Inl e) \<Rightarrow> Some (Inl e, s)
         | Some (Inr instanceType) \<Rightarrow>
           (case lookupExistingInstance p nodeClaim s of
              (Inr existing, s) \<Rightarrow> Some (Inr existing, s)
            | (Inl e, s) \<Rightarrow>
              if \<not> errors_Is e ErrInstanceNotFound then Some (Inl e, s)
              else
                let poolKey = makePoolKey (labelOf (NodeClaimLabels nodeClaim) NodePoolLabelKey) instanceType
                in (case Check (backoffOps p) (poolBackoff s) (nowOf p s) poolKey (''LKE node pool '' @ poolKey) of
                      Some e \<Rightarrow> Some (Inl (CreateErr e ''NodePoolBackingOff''
                                  ''Backing off after repeated LKE node pool API failures: %s''), s)
                    | None \<Rightarrow>
                        (case createLoop p nodeClass nodeClaim tags instanceType poolKey
                               (nowOf p s + CreateDeadline (config p)) False False
                               (Sentinel ErrNoClaimableInstance) None s of
                           None \<Rightarrow> None
                         | Some (r, poolErr, s) \<Rightarrow> Some (r, recordPoolFailure p poolKey poolErr s))))))"

section \<open>The two backoff trackers\<close>

text \<open>What no request and no cache operation touches.\<close>

definition backs :: "('w, 'c, 'b, 'u) lke_state \<Rightarrow> 'b BackoffTracker \<times> 'b BackoffTracker" where
  "backs s = (deleteBackoff s, poolBackoff s)"

lemma backs_simps [simp]:
  "backs (s\<lparr>world := w\<rparr>) = backs s" "backs (s\<lparr>nodeCache := c\<rparr>) = backs s"
  "backs (s\<lparr>unavailable := u\<rparr>) = backs s" "backs (sleepFor p d s) = backs s"
  "backs (cacheNode p n s) = backs s" "backs (MarkTypeUnavailable p it s) = backs s"
  by (simp_all add: backs_def sleepFor_def cacheNode_def MarkTypeUnavailable_def)

lemma backs_req [simp]: "backs (snd (req f s)) = backs s"
  by (simp add: req_def split: prod.splits)

lemma backs_reqD: "req f s = (r, s') \<Longrightarrow> backs s' = backs s"
  by (metis backs_req snd_conv)

end
