(* ===== verification/LkeCreateAudit.thy ===== *)
theory LkeCreateAudit
  imports LkeCreate
begin

text \<open>
  Which requests \<open>Create\<close> sends, whatever the client answers: theorems about the log of a
  recorded client. \<open>create_audit\<close> is the abstract specification: it accepts a log exactly
  when every changing request in it was justified by the replies before it and by
  what the call had already sent.
\<close>

section \<open>The specification\<close>

fun creates_pool :: "event \<Rightarrow> bool" where
  "creates_pool (Sent (CreatePoolReq c opts) ok) = ok"
| "creates_pool _ = False"

text \<open>A scale-up request, as opposed to a version update.\<close>

fun scales_pool :: "event \<Rightarrow> bool" where
  "scales_pool (Sent (UpdatePoolReq c i opts) ok) = (ok \<and> UpdateK8sVersion opts = None)"
| "scales_pool _ = False"

text \<open>The pools of the cluster as the latest listing showed them.\<close>

fun latest :: "int \<Rightarrow> event \<Rightarrow> LKENodePool list \<Rightarrow> LKENodePool list" where
  "latest c (ListedPools c' ps) pools = (if c' = c then ps else pools)"
| "latest c _ pools = pools"

text \<open>
  \<open>prev\<close> is the event before, \<open>pools\<close> what the latest listing showed, \<open>grown\<close> says whether this call has already created or
  scaled a pool.
\<close>

fun justified :: "int \<Rightarrow> string \<Rightarrow> string \<Rightarrow> string \<Rightarrow> event option \<Rightarrow> LKENodePool list \<Rightarrow> bool \<Rightarrow> event \<Rightarrow> bool" where
  "justified c it np name prev pools grown (Sent (CreatePoolReq c' opts) ok) =
     (case prev of
        Some (ListedPools c'' ps) \<Rightarrow>
          c' = c \<and> c'' = c \<and> (\<forall>pool \<in> set ps. \<not> matchesPoolKey pool it np) \<and>
          CreateType opts = it \<and> CreateCount opts = 1
      | _ \<Rightarrow> False)"
| "justified c it np name prev pools grown (Sent (UpdatePoolReq c' i opts) ok) =
     (if UpdateK8sVersion opts = None
      then c' = c \<and> \<not> grown \<and>
        (\<exists>pool \<in> set pools. PoolID pool = i \<and> matchesPoolKey pool it np \<and> UpdateCount opts = PoolCount pool + 1)
      else case prev of
        Some (ListedPools c'' ps) \<Rightarrow>
          c' = c \<and> c'' = c \<and> UpdateCount opts = 0 \<and> (\<exists>pool \<in> set ps. PoolID pool = i \<and> matchesPoolKey pool it np)
      | _ \<Rightarrow> False)"
| "justified c it np name prev pools grown (Sent (UpdateInstanceReq i tags) ok) =
     (NodeClaimTag name \<in> set tags \<and>
      (case prev of
         Some (GotInstance i' inst) \<Rightarrow> LiID inst = i \<and> unclaimed inst
       | Some (ListedInstances f insts) \<Rightarrow> (\<exists>inst \<in> set insts. LiID inst = i \<and> unclaimed inst)
       | _ \<Rightarrow> False))"
| "justified c it np name prev pools grown (Sent _ ok) = False"
| "justified c it np name prev pools grown _ = True"

fun create_audit :: "int \<Rightarrow> string \<Rightarrow> string \<Rightarrow> string \<Rightarrow> event option \<Rightarrow> LKENodePool list \<Rightarrow> bool \<Rightarrow> log \<Rightarrow> bool" where
  "create_audit c it np name prev pools grown [] = True"
| "create_audit c it np name prev pools grown (ev # l) =
     (justified c it np name prev pools grown ev \<and>
      create_audit c it np name (Some ev) (latest c ev pools) (grown \<or> creates_pool ev \<or> scales_pool ev) l)"

definition grew :: "log \<Rightarrow> bool" where
  "grew l = list_ex (\<lambda>ev. creates_pool ev \<or> scales_pool ev) l"

lemma grew_simps [simp]:
  "\<not> grew []" "grew (ev # l) = (creates_pool ev \<or> scales_pool ev \<or> grew l)"
  "grew (l @ l') = (grew l \<or> grew l')"
  by (auto simp: grew_def)

lemma create_audit_append:
  "create_audit c it np name prev pools grown (l @ l') \<longleftrightarrow>
     create_audit c it np name prev pools grown l \<and>
     create_audit c it np name (if l = [] then prev else Some (last l)) (fold (latest c) l pools) (grown \<or> grew l) l'"
  by (induction l arbitrary: prev pools grown) (auto simp: ac_simps)

text \<open>An audited log scales at most once, and only before any other growth.\<close>

lemma audit_no_scale: "create_audit c it np name prev pools True l \<Longrightarrow> filter scales_pool l = []"
proof (induction l arbitrary: prev pools)
  case (Cons ev l)
  then have "\<not> scales_pool ev"
    by (cases ev; cases "\<exists>q ok. ev = Sent q ok") (auto elim!: scales_pool.elims)
  with Cons.prems Cons.IH show ?case by auto
qed simp

lemma audit_one_scale: "create_audit c it np name prev pools grown l \<Longrightarrow> length (filter scales_pool l) \<le> 1"
proof (induction l arbitrary: prev pools grown)
  case (Cons ev l)
  then show ?case
    by (cases "scales_pool ev") (auto dest: audit_no_scale)
qed simp

section \<open>The log of each step\<close>

definition logOf :: "('w \<times> log, 'c, 'b, 'u) lke_state \<Rightarrow> log" where
  "logOf s = snd (world s)"

definition recording :: "('w \<times> log, 'c, 'b, 'u) lke \<Rightarrow> bool" where
  "recording p \<longleftrightarrow> (\<exists>a r. client p = logged a \<and> rt p = logged_rt r)"

lemma req_recorded: "req (recorded ev f) s = (r, s') \<Longrightarrow> logOf s' = logOf s @ [ev r]"
  by (auto simp: req_def logOf_def recorded_def split: prod.splits)

lemma logOf_simps [simp]:
  "logOf (s\<lparr>nodeCache := c\<rparr>) = logOf s" "logOf (s\<lparr>deleteBackoff := b\<rparr>) = logOf s"
  "logOf (s\<lparr>poolBackoff := b\<rparr>) = logOf s" "logOf (s\<lparr>unavailable := u\<rparr>) = logOf s"
  by (simp_all add: logOf_def)

lemma logOf_sleepFor [simp]: "recording p \<Longrightarrow> logOf (sleepFor p d s) = logOf s"
  by (auto simp: recording_def logOf_def sleepFor_def logged_rt_def)

lemma logOf_cacheNode [simp]: "logOf (cacheNode p n s) = logOf s"
  by (simp add: cacheNode_def)

lemma logOf_MarkTypeUnavailable [simp]: "logOf (MarkTypeUnavailable p it s) = logOf s"
  by (simp add: MarkTypeUnavailable_def)

text \<open>What one request adds to the log of a recording client.\<close>

lemma req_log:
  assumes "recording p"
  shows "req (GetRegionAvailability (client p) g) s = (r1, s') \<Longrightarrow> logOf s' = logOf s @ [Asked]"
    and "req (GetInstance (client p) i) s = (r2, s') \<Longrightarrow> logOf s' = logOf s @ [reply (GotInstance i) r2]"
    and "req (ListInstances (client p) f) s = (r3, s') \<Longrightarrow> logOf s' = logOf s @ [reply (ListedInstances f) r3]"
    and "req (UpdateInstance (client p) i ts) s = (r4, s') \<Longrightarrow> logOf s' = logOf s @ [sent (UpdateInstanceReq i ts) r4]"
    and "req (CreateLKENodePool (client p) c os) s = (r5, s') \<Longrightarrow> logOf s' = logOf s @ [sent (CreatePoolReq c os) r5]"
    and "req (ListLKENodePools (client p) c) s = (r6, s') \<Longrightarrow> logOf s' = logOf s @ [reply (ListedPools c) r6]"
    and "req (GetLKENodePool (client p) c i) s = (r7, s') \<Longrightarrow> logOf s' = logOf s @ [Asked]"
    and "req (UpdateLKENodePool (client p) c i uo) s = (r8, s') \<Longrightarrow> logOf s' = logOf s @ [sent (UpdatePoolReq c i uo) r8]"
    and "req (DeleteLKENodePool (client p) c i) s = (e1, s') \<Longrightarrow> logOf s' = logOf s @ [sentnil (DeletePoolReq c i) e1]"
    and "req (DeleteLKENodePoolNode (client p) c n) s = (e2, s') \<Longrightarrow> logOf s' = logOf s @ [sentnil (DeleteNodeReq c n) e2]"
    and "req (LookupInstanceByTag (client p) tag) s = (r9, s') \<Longrightarrow>
       \<exists>ev. logOf s' = logOf s @ [ev] \<and> is_read ev"
  using assms unfolding recording_def
  by (auto simp: logged_def asked_def reply_def LookupInstanceByTag_def req_def recorded_def logOf_def
      dest!: req_recorded split: prod.splits sum.splits list.splits)

lemma justified_read: "is_read ev \<Longrightarrow> justified c it np name prev pools grown ev"
  by (cases ev) auto

lemma not_grows_read: "is_read ev \<Longrightarrow> \<not> creates_pool ev" "is_read ev \<Longrightarrow> \<not> scales_pool ev"
  by (cases ev; simp)+

lemma reads_audit: "reads l \<Longrightarrow> create_audit c it np name prev pools grown l \<and> \<not> grew l"
  by (induction l arbitrary: prev pools) (auto simp: justified_read not_grows_read)

text \<open>
  A stretch of a Create, from a state to a state, whose log the audit accepts whatever
  came before it; the booleans say whether the call has grown a pool.
\<close>

definition audited :: "('w \<times> log, 'c, 'b, 'u) lke \<Rightarrow> NodeClaim \<Rightarrow> string \<Rightarrow> bool \<Rightarrow> ('w \<times> log, 'c, 'b, 'u) lke_state \<Rightarrow>
    bool \<Rightarrow> ('w \<times> log, 'c, 'b, 'u) lke_state \<Rightarrow> bool" where
  "audited p nc it g s g' s' \<longleftrightarrow> (\<exists>l. logOf s' = logOf s @ l \<and> (g' \<longleftrightarrow> g \<or> grew l) \<and>
     (\<forall>prev pools. create_audit (clusterID p) it (labelOf (NodeClaimLabels nc) NodePoolLabelKey) (NodeClaimName nc) prev pools g l))"

lemma audited_refl [simp]: "audited p nc it g s g s"
  by (auto simp: audited_def)

lemma audited_cong: "logOf s2 = logOf s1 \<Longrightarrow> audited p nc it g s g' s2 \<longleftrightarrow> audited p nc it g s g' s1"
  by (simp add: audited_def)

lemma audited_trans: "audited p nc it g s g1 s1 \<Longrightarrow> audited p nc it g1 s1 g2 s2 \<Longrightarrow> audited p nc it g s g2 s2"
proof -
  assume "audited p nc it g s g1 s1" "audited p nc it g1 s1 g2 s2"
  then obtain l l' where "logOf s1 = logOf s @ l" "g1 \<longleftrightarrow> g \<or> grew l"
    "\<forall>prev pools. create_audit (clusterID p) it (labelOf (NodeClaimLabels nc) NodePoolLabelKey) (NodeClaimName nc) prev pools g l"
    "logOf s2 = logOf s1 @ l'" "g2 \<longleftrightarrow> g1 \<or> grew l'"
    "\<forall>prev pools. create_audit (clusterID p) it (labelOf (NodeClaimLabels nc) NodePoolLabelKey) (NodeClaimName nc) prev pools g1 l'"
    unfolding audited_def by blast
  then show ?thesis unfolding audited_def
    by (intro exI [of _ "l @ l'"]) (auto simp: create_audit_append)
qed

lemma audited_reads: "logOf s' = logOf s @ l \<Longrightarrow> reads l \<Longrightarrow> audited p nc it g s g s'"
  unfolding audited_def using reads_audit by blast

text \<open>Reads of instances, which list no pools.\<close>

definition no_listing :: "log \<Rightarrow> bool" where
  "no_listing l \<longleftrightarrow> (\<forall>c ps. ListedPools c ps \<notin> set l)"

lemma no_listing_simps [simp]:
  "no_listing []" "no_listing (l @ l') = (no_listing l \<and> no_listing l')"
  "no_listing (Asked # l) = no_listing l" "no_listing (GotInstance n i # l) = no_listing l"
  "no_listing (ListedInstances f is # l) = no_listing l" "no_listing (reply (GotInstance n) x # l) = no_listing l"
  "no_listing (reply (ListedInstances f) y # l) = no_listing l"
  by (auto simp: no_listing_def reply_def split: sum.splits)

lemma latest_kept: "no_listing l \<Longrightarrow> fold (latest c) l pools = pools"
proof (induction l)
  case (Cons ev l)
  then have "latest c ev pools = pools" by (cases ev) (auto simp: no_listing_def)
  with Cons show ?case by (auto simp: no_listing_def)
qed simp

lemma scanNodes_log:
  assumes "recording p" "scanNodes p np nodes s = (r, s')"
  shows "\<exists>l. logOf s' = logOf s @ l \<and> reads l \<and> no_listing l \<and>
    (\<forall>i. r = Inr i \<longrightarrow> unclaimed i \<and> l \<noteq> [] \<and> (\<exists>n. last l = GotInstance n i))"
  using assms(2)
proof (induction nodes arbitrary: np s)
  case (Cons node nodes)
  show ?case
  proof (cases "NodeInstanceID node = 0")
    case True
    with Cons show ?thesis by simp
  next
    case False
    obtain r1 s1 where r1: "req (GetInstance (client p) (NodeInstanceID node)) s = (r1, s1)"
      by fastforce
    note log1 = req_log(2) [OF assms(1) r1]
    show ?thesis
    proof (cases "\<exists>i. r1 = Inr i \<and> unclaimed i")
      case True
      with Cons.prems False r1 log1 show ?thesis
        by (auto simp: reply_def)
    next
      case 2: False
      then have "logOf s' = logOf s1 \<and> isl r \<or> scanNodes p np nodes s1 = (r, s')"
        using Cons.prems False r1 by (auto split: sum.splits if_splits)
      then show ?thesis
      proof
        assume "logOf s' = logOf s1 \<and> isl r"
        with log1 show ?thesis by (cases r) auto
      next
        assume "scanNodes p np nodes s1 = (r, s')"
        from Cons.IH [OF this] obtain l where "logOf s' = logOf s1 @ l" "reads l" "no_listing l"
          "\<forall>i. r = Inr i \<longrightarrow> unclaimed i \<and> l \<noteq> [] \<and> (\<exists>n. last l = GotInstance n i)" by blast
        with log1 show ?thesis
          by (intro exI [of _ "reply (GotInstance (NodeInstanceID node)) r1 # l"]) auto
      qed
    qed
  qed
qed auto

lemma findClaimableInstance_log:
  assumes "recording p" "findClaimableInstance p pool s = (r, s')"
  shows "\<exists>l. logOf s' = logOf s @ l \<and> reads l \<and> no_listing l \<and>
    (\<forall>i. r = Inr i \<longrightarrow> unclaimed i \<and> l \<noteq> [] \<and>
      ((\<exists>n. last l = GotInstance n i) \<or> (\<exists>f is. last l = ListedInstances f is \<and> i \<in> set is)))"
proof (cases "clusterTier p = enterprise")
  case True
  obtain r1 s1 where r1: "req (ListInstances (client p)
     [(FilterContains, ''tags'', [''nodepool='' @ Itoa (PoolID pool)]),
      (FilterContains, ''tags'', [''lke'' @ Itoa (clusterID p)]),
      (FilterContains, ''tags'', [kvTag LabelLKEManaged ''true''])]) s = (r1, s1)" by fastforce
  from req_log(3) [OF assms(1) r1] assms(2) True r1 show ?thesis
    by (auto simp: findClaimableInstance_def findClaimableInstanceEnterprise_def reply_def find_Some_iff
        split: sum.splits option.splits)
next
  case False
  obtain r1 s1 where r1: "req (GetLKENodePool (client p) (clusterID p) (PoolID pool)) s = (r1, s1)" by fastforce
  note log1 = req_log(7) [OF assms(1) r1]
  show ?thesis
  proof (cases r1)
    case (Inl e)
    with assms(2) False r1 log1 show ?thesis
      by (auto simp: findClaimableInstance_def findClaimableInstanceStandard_def)
  next
    case (Inr fp)
    with assms(2) False r1 have "scanNodes p False (PoolLinodes fp) s1 = (r, s')"
      by (simp add: findClaimableInstance_def findClaimableInstanceStandard_def)
    from scanNodes_log [OF assms(1) this] obtain l where "logOf s' = logOf s1 @ l" "reads l" "no_listing l"
      "\<forall>i. r = Inr i \<longrightarrow> unclaimed i \<and> l \<noteq> [] \<and> (\<exists>n. last l = GotInstance n i)" by blast
    with log1 show ?thesis by (intro exI [of _ "Asked # l"]) auto
  qed
qed

lemma reconcilePoolVersion_log:
  assumes "recording p" "reconcilePoolVersion p nodeClass pool s = (e, s')"
  shows "logOf s' = logOf s \<or> (\<exists>v ok. logOf s' = logOf s @ [Sent (UpdatePoolReq (clusterID p) (PoolID pool)
     \<lparr>UpdateCount = 0, UpdateK8sVersion = Some v, UpdateStrategy = Some onRecycle\<rparr>) ok])"
proof (cases "LKEK8sVersion (Spec nodeClass)")
  case (Some v)
  obtain r1 s1 where r1: "req (UpdateLKENodePool (client p) (clusterID p) (PoolID pool)
     \<lparr>UpdateCount = 0, UpdateK8sVersion = Some v, UpdateStrategy = Some onRecycle\<rparr>) s = (r1, s1)" by fastforce
  from req_log(8) [OF assms(1) r1] assms(2) Some r1 show ?thesis
    by (auto simp: reconcilePoolVersion_def sent_def split: if_splits sum.splits)
qed (use assms(2) in \<open>simp add: reconcilePoolVersion_def\<close>)

lemma findOrCreatePool_log:
  assumes "recording p" "findOrCreatePool p nodeClass nodeClaim tags it created s = (r, created', s')"
  shows "\<exists>l. logOf s' = logOf s @ l \<and>
    (\<forall>prev pools grown. create_audit (clusterID p) it (labelOf (NodeClaimLabels nodeClaim) NodePoolLabelKey) name prev pools grown l) \<and>
    (created' \<longleftrightarrow> created \<or> grew l) \<and>
    (\<forall>pool pools. r = Inr pool \<and> \<not> created' \<longrightarrow> pool \<in> set (fold (latest (clusterID p)) l pools) \<and>
       matchesPoolKey pool it (labelOf (NodeClaimLabels nodeClaim) NodePoolLabelKey))"
proof -
  let ?np = "labelOf (NodeClaimLabels nodeClaim) NodePoolLabelKey"
  obtain r1 s1 where r1: "req (ListLKENodePools (client p) (clusterID p)) s = (r1, s1)" by fastforce
  note log1 = req_log(6) [OF assms(1) r1]
  show ?thesis
  proof (cases r1)
    case (Inl e)
    with assms(2) r1 log1 show ?thesis by (auto simp: findOrCreatePool_def reply_def)
  next
    case (Inr pools)
    show ?thesis
    proof (cases "find (\<lambda>pool. matchesPoolKey pool it ?np) pools")
      case (Some pool)
      obtain e2 s2 where r2: "reconcilePoolVersion p nodeClass pool s1 = (e2, s2)" by fastforce
      from Some have pool: "pool \<in> set pools" "matchesPoolKey pool it ?np" by (auto simp: find_Some_iff)
      from assms(2) r1 Inr Some r2 have "s' = s2" "created' = created" "isl r \<or> r = Inr pool"
        by (auto simp: findOrCreatePool_def split: option.splits)
      with reconcilePoolVersion_log [OF assms(1) r2] log1 Inr pool show ?thesis
        by (auto simp: reply_def)
    next
      case None
      let ?opts = "poolCreateOptions p nodeClass nodeClaim tags it"
      obtain r2 s2 where r2: "req (CreateLKENodePool (client p) (clusterID p) ?opts) s1 = (r2, s2)" by fastforce
      from None have no: "\<forall>pool \<in> set pools. \<not> matchesPoolKey pool it ?np" by (auto simp: find_None_iff)
      from assms(2) r1 Inr None r2 have "logOf s' = logOf s2" "created' = (created \<or> \<not> isl r2)" "isl r2 \<longrightarrow> isl r"
        by (auto simp: findOrCreatePool_def Let_def split: sum.splits if_splits)
      with req_log(5) [OF assms(1) r2] log1 Inr no show ?thesis
        by (auto simp: reply_def sent_def poolCreateOptions_def)
    qed
  qed
qed

lemma verifyLoop_log:
  assumes "verifyLoop p i tag d s = Some y" "recording p"
  shows "\<exists>l. logOf (snd y) = logOf s @ l \<and> reads l \<and> (\<forall>inst. fst y = Inr inst \<longrightarrow> tag \<in> set (LiTags inst))"
  using assms
proof (induction rule: verifyLoop.raw_induct [rotated, consumes 1, case_names step])
  case (step loop p i tag d s y)
  obtain r1 s1 where r1: "req (GetInstance (client p) i) s = (r1, s1)" by fastforce
  note log1 = req_log(2) [OF step.prems r1]
  let ?res = "\<lambda>l. logOf (snd y) = logOf s @ l \<and> reads l \<and> (\<forall>inst. fst y = Inr inst \<longrightarrow> tag \<in> set (LiTags inst))"
  consider "?res []" | "?res [reply (GotInstance i) r1]"
    | "loop p i tag d (sleepFor p (RetryDelay (config p)) s1) = Some y"
    using step.hyps by (cases r1) (auto simp: r1 log1 split: if_splits option.splits)
  then show "\<exists>l. ?res l"
  proof cases
    case 3
    from step.IH [OF this step.prems] step.prems obtain l where "logOf (snd y) = logOf s1 @ l" "reads l"
      "\<forall>inst. fst y = Inr inst \<longrightarrow> tag \<in> set (LiTags inst)"
      by auto
    with log1 show ?thesis by (intro exI [of _ "reply (GotInstance i) r1 # l"]) auto
  qed blast+
qed


lemma map_of_claim:
  "map_of (assign [TagListToMap is, TagListToMap ps, TagListToMap ss, [(k, v)]]) =
     ((map_of (TagListToMap is) ++ map_of (TagListToMap ps)) ++ map_of (TagListToMap ss))(k \<mapsto> v)"
  by (subst map_of_assign) (auto simp: map_add_def fun_eq_iff split: option.splits)

lemma claimTags_own:
  assumes "range_ok rng"
  shows "NodeClaimTag name \<in> set (claimTags rng is ps ss name)"
proof -
  let ?m = "assign [TagListToMap is, TagListToMap ps, TagListToMap ss, [(NodeClaimTagKey, NormalizeNodeClaimTagValue name)]]"
  have "(NodeClaimTagKey, NormalizeNodeClaimTagValue name) \<in> set ?m"
    by (rule map_of_SomeD) (simp add: map_of_claim)
  then have "NodeClaimTag name \<in> set (MapToTagList rng ?m)"
    using assms by (force simp: set_MapToTagList NodeClaimTag_def)
  then show ?thesis by (simp add: claimTags_def Let_def NodeClaimTag_def)
qed

lemma claimInstance_log:
  assumes "recording p" "claimInstance p i nodeClaim nodeClass pool s = Some (r, s')"
  shows "\<exists>ok l tags. logOf s' = logOf s @ Sent (UpdateInstanceReq (LiID i) tags) ok # l \<and> reads l \<and>
    tags = claimTags (rangeOrder p) (LiTags i) (PoolTags pool) (SpecTags (Spec nodeClass)) (NodeClaimName nodeClaim) \<and>
    (\<forall>inst. r = Inr inst \<longrightarrow> NodeClaimTag (NodeClaimName nodeClaim) \<in> set (LiTags inst))"
proof -
  let ?tags = "claimTags (rangeOrder p) (LiTags i) (PoolTags pool) (SpecTags (Spec nodeClass)) (NodeClaimName nodeClaim)"
  obtain r1 s1 where r1: "req (UpdateInstance (client p) (LiID i) ?tags) s = (r1, s1)" by fastforce
  note log1 = req_log(4) [OF assms(1) r1]
  show ?thesis
  proof (cases r1)
    case (Inl e)
    with assms(2) r1 log1 show ?thesis by (auto simp: claimInstance_def sent_def)
  next
    case (Inr x)
    with assms(2) r1 have "verifyLoop p (LiID i) (NodeClaimTag (NodeClaimName nodeClaim))
        (nowOf p s1 + TagVerificationTimeout (config p)) s1 = Some (r, s')"
      by (simp add: claimInstance_def verifyTagsApplied_def)
    from verifyLoop_log [OF this assms(1)] log1 show ?thesis by (auto simp: sent_def)
  qed
qed

lemma scalePool_log:
  assumes "recording p" "scalePool p it pool created scaled s = Some (r, created', scaled', s')"
  shows "\<exists>l. logOf s' = logOf s @ l \<and> created' = created \<and> (scaled' \<longleftrightarrow> scaled \<or> grew l) \<and>
    (\<forall>prev pools. (\<not> created \<and> \<not> scaled \<longrightarrow> pool \<in> set pools \<and> matchesPoolKey pool it np) \<longrightarrow>
       create_audit (clusterID p) it np name prev pools (created \<or> scaled) l) \<and> isl r"
proof (cases "created \<or> scaled")
  case True
  with assms(2) show ?thesis by (auto simp: scalePool_def)
next
  case False
  obtain ra sa where ra: "req (GetRegionAvailability (client p) (region p)) s = (ra, sa)" by fastforce
  obtain e1 s1 where e1: "checkPlanAvailability p it s = (e1, s1)" by fastforce
  have log1: "logOf s1 = logOf s @ [Asked]"
    using e1 req_log(1) [OF assms(1) ra] by (auto simp: checkPlanAvailability_def ra split: sum.splits option.splits if_splits)
  let ?opts = "\<lparr>UpdateCount = PoolCount pool + 1, UpdateK8sVersion = None, UpdateStrategy = None\<rparr>"
  obtain r2 s2 where r2: "req (UpdateLKENodePool (client p) (clusterID p) (PoolID pool) ?opts) s1 = (r2, s2)" by fastforce
  show ?thesis
  proof (cases e1)
    case (Some e)
    with assms(2) False e1 log1 show ?thesis by (auto simp: scalePool_def)
  next
    case None
    with assms(2) False e1 r2 have "s' = s2" "created' = created" "scaled' = (\<not> isl r2)" "isl r"
      by (auto simp: scalePool_def split: sum.splits if_splits)
    with req_log(8) [OF assms(1) r2] log1 False show ?thesis by (auto simp: sent_def)
  qed
qed

lemma lookupExistingInstance_log:
  assumes "recording p" "lookupExistingInstance p nodeClaim s = (r, s')"
  shows "\<exists>ev. logOf s' = logOf s @ [ev] \<and> is_read ev"
proof -
  obtain r1 s1 where r1: "req (LookupInstanceByTag (client p) (NodeClaimTag (NodeClaimName nodeClaim))) s = (r1, s1)" by fastforce
  from req_log(11) [OF assms(1) r1] assms(2) show ?thesis
    by (auto simp: lookupExistingInstance_def r1 hydrateInstanceFromLinode_def split: sum.splits option.splits)
qed



text \<open>A claimable instance was found by a read just before, and the claim is justified by it.\<close>

lemma claim_audited:
  assumes rec: "recording p" and rng: "range_ok (rangeOrder p)"
    and find: "findClaimableInstance p pool s = (Inr i, s1)"
    and claim: "claimInstance p i nodeClaim nodeClass pool s1 = Some (r, s')"
  shows "audited p nodeClaim it g s g s'"
proof -
  obtain l1 where l1: "logOf s1 = logOf s @ l1" "reads l1" "unclaimed i" "l1 \<noteq> []"
      "(\<exists>n. last l1 = GotInstance n i) \<or> (\<exists>f is. last l1 = ListedInstances f is \<and> i \<in> set is)"
    using findClaimableInstance_log [OF rec find] by blast
  from claimInstance_log [OF rec claim] obtain ok l tags where
    l2: "logOf s' = logOf s1 @ Sent (UpdateInstanceReq (LiID i) tags) ok # l" "reads l"
      "tags = claimTags (rangeOrder p) (LiTags i) (PoolTags pool) (SpecTags (Spec nodeClass)) (NodeClaimName nodeClaim)"
    by blast
  show ?thesis unfolding audited_def
    using l1 l2 reads_audit [OF l1(2)] reads_audit [OF l2(2)] claimTags_own [OF rng]
    by (intro exI [of _ "l1 @ Sent (UpdateInstanceReq (LiID i) tags) ok # l"])
      (auto simp: create_audit_append)
qed

lemma findOrCreatePool_audited:
  "recording p \<Longrightarrow> findOrCreatePool p nodeClass nc tags it c s = (r, c', s') \<Longrightarrow> audited p nc it (c \<or> sc) s (c' \<or> sc) s'"
  using findOrCreatePool_log [of p nodeClass nc tags it c s r c' s' "NodeClaimName nc"] unfolding audited_def by blast

text \<open>A scale-up follows the listing the pool was found in.\<close>

lemma grow_audited:
  assumes rec: "recording p" and r2: "findOrCreatePool p nodeClass nc tags it c s = (Inr pool, c2, s2)"
    and r3: "findClaimableInstance p pool s2 = (r3, s3)" and r4: "scalePool p it pool c2 sc s3 = Some (r, c', sc', s')"
  shows "audited p nc it (c \<or> sc) s (c' \<or> sc') s'"
proof -
  let ?np = "labelOf (NodeClaimLabels nc) NodePoolLabelKey" and ?c = "clusterID p"
  obtain l2 where l2: "logOf s2 = logOf s @ l2" "c2 \<longleftrightarrow> c \<or> grew l2"
    "\<And>prev pools grown. create_audit ?c it ?np (NodeClaimName nc) prev pools grown l2"
    "\<And>pools. \<not> c2 \<Longrightarrow> pool \<in> set (fold (latest ?c) l2 pools) \<and> matchesPoolKey pool it ?np"
    using findOrCreatePool_log [OF rec r2, of "NodeClaimName nc"] by blast
  obtain l3 where l3: "logOf s3 = logOf s2 @ l3" "reads l3" "no_listing l3"
    using findClaimableInstance_log [OF rec r3] by blast
  obtain l4 where l4: "logOf s' = logOf s3 @ l4" "c' = c2" "sc' \<longleftrightarrow> sc \<or> grew l4"
    "\<And>prev pools. (\<not> c2 \<and> \<not> sc \<longrightarrow> pool \<in> set pools \<and> matchesPoolKey pool it ?np) \<Longrightarrow>
       create_audit ?c it ?np (NodeClaimName nc) prev pools (c2 \<or> sc) l4"
    using scalePool_log [OF rec r4, of ?np "NodeClaimName nc"] by blast
  have "create_audit ?c it ?np (NodeClaimName nc) prev (fold (latest ?c) l2 pools) (c2 \<or> sc) (l3 @ l4)" for prev pools
    using reads_audit [OF l3(2)] l4(4) l2(4) by (simp add: create_audit_append latest_kept [OF l3(3)])
  then have "create_audit ?c it ?np (NodeClaimName nc) prev pools (c \<or> sc) (l2 @ l3 @ l4)" for prev pools
    unfolding create_audit_append [of _ _ _ _ _ _ _ l2] using l2(2,3) by (simp add: disj_ac)
  with l2(1,2) l3(1) l4(1-3) reads_audit [OF l3(2)] show ?thesis
    unfolding audited_def by (intro exI [of _ "l2 @ l3 @ l4"]) auto
qed

lemma attemptCreate_audited:
  assumes rec: "recording p" and rng: "range_ok (rangeOrder p)"
    and run: "attemptCreate p nodeClass nc tags it c sc s = Some (r, c', sc', s')"
  shows "audited p nc it (c \<or> sc) s (c' \<or> sc') s'"
proof -
  obtain r1 s1 where r1: "lookupExistingInstance p nc s = (r1, s1)" by fastforce
  have a1: "audited p nc it (c \<or> sc) s (c \<or> sc) s1"
    using lookupExistingInstance_log [OF rec r1] audited_reads by fastforce
  consider (stop) "s' = s1" "c' = c" "sc' = sc" | (go) e where "r1 = Inl e" "errors_Is e ErrInstanceNotFound"
    using run r1 by (auto simp: attemptCreate_def split: sum.splits if_splits)
  then show ?thesis
  proof cases
    case stop
    with a1 show ?thesis by simp
  next
    case go
    obtain r2 c2 s2 where r2: "findOrCreatePool p nodeClass nc tags it c s1 = (r2, c2, s2)"
      by (metis prod_cases3)
    note a2 = audited_trans [OF a1 findOrCreatePool_audited [OF rec r2]]
    show ?thesis
    proof (cases r2)
      case (Inl e)
      with run go r1 r2 have "s' = s2" "c' = c2" "sc' = sc" by (auto simp: attemptCreate_def split: if_splits)
      with a2 show ?thesis by simp
    next
      case (Inr pool)
      obtain r3 s3 where r3: "findClaimableInstance p pool s2 = (r3, s3)" by fastforce
      have a3: "audited p nc it (c2 \<or> sc) s2 (c2 \<or> sc) s3"
        using findClaimableInstance_log [OF rec r3] audited_reads by blast
      note step = attemptCreate_def r1 go r2 Inr r3
      show ?thesis
      proof (cases r3)
        case (Inl e)
        with run consider "s' = s3" "c' = c2" "sc' = sc"
          | "scalePool p it pool c2 sc s3 = Some (r, c', sc', s')"
          by (cases "isRetryableCreateError e") (simp_all add: step)
        then show ?thesis
        proof cases
          case 1
          with audited_trans [OF a2 a3] show ?thesis by simp
        next
          case 2
          show ?thesis by (rule audited_trans [OF a1 grow_audited [OF rec r2 [unfolded Inr] r3 2]])
        qed
      next
        case i: (Inr i)
        with run obtain r4 s4 where r4: "claimInstance p i nc nodeClass pool s3 = Some (r4, s4)"
          by (cases "claimInstance p i nc nodeClass pool s3") (auto simp: step)
        have "logOf s' = logOf s4 \<and> c' = c2 \<and> sc' = sc"
          using run by (cases r4) (auto simp: step i r4 Let_def)
        with audited_trans [OF a2 claim_audited [OF rec rng _ r4]] r3 i show ?thesis
          by (simp add: audited_cong [of s' s4])
      qed
    qed
  qed
qed

text \<open>The loop: each round is audited under what the rounds before it have grown.\<close>

lemma createLoop_audited:
  assumes "createLoop p nodeClass nc tags it poolKey d c sc le pe s = Some y" "recording p" "range_ok (rangeOrder p)"
  shows "\<exists>g'. audited p nc it (c \<or> sc) s g' (snd (snd y))"
  using assms
proof (induction rule: createLoop.raw_induct [rotated, consumes 1, case_names step])
  case (step loop p nodeClass nc tags it poolKey d c sc le pe s y)
  show ?case
  proof (cases "\<not> nowOf p s < d \<or> CtxErr (rt p) (world s) \<noteq> None")
    case True
    with step.hyps have "snd (snd y) = s" by (auto split: option.splits if_splits)
    then show ?thesis using audited_refl by metis
  next
    case False
    then obtain r1 c1 sc1 s1 where r1: "attemptCreate p nodeClass nc tags it c sc s = Some (r1, c1, sc1, s1)"
      using step.hyps by (cases "attemptCreate p nodeClass nc tags it c sc s") auto
    note a1 = attemptCreate_audited [OF step.prems r1]
    obtain pe2 s2 where r2: "observePoolAttempt p poolKey (case r1 of Inl e \<Rightarrow> Some e | Inr i \<Rightarrow> None) s1 = (pe2, s2)"
      by fastforce
    then have log2: "logOf s2 = logOf s1"
      by (auto simp: observePoolAttempt_def split: option.splits if_splits sum.splits)
    show ?thesis
    proof (cases "snd (snd y) = s2")
      case True
      with a1 log2 show ?thesis using audited_cong [of s2 s1] by metis
    next
      case False': False
      with step.hyps False r1 r2 obtain le' where
        "loop p nodeClass nc tags it poolKey d c1 sc1 le' pe2 (sleepFor p (RetryDelay (config p)) s2) = Some y"
        by (cases r1) (auto split: if_splits)
      from step.IH [OF this step.prems] obtain g' where
        "audited p nc it (c1 \<or> sc1) (sleepFor p (RetryDelay (config p)) s2) g' (snd (snd y))" by blast
      moreover have "audited p nc it (c \<or> sc) s (c1 \<or> sc1) (sleepFor p (RetryDelay (config p)) s2)"
        using a1 log2 step.prems(1) audited_cong [of "sleepFor p (RetryDelay (config p)) s2" s1] by simp
      ultimately show ?thesis using audited_trans by blast
    qed
  qed
qed


lemma logOf_recordPoolFailure [simp]: "logOf (recordPoolFailure p key pe s) = logOf s"
  by (simp add: recordPoolFailure_def split: option.splits)

lemma Create_audited:
  assumes rec: "recording p" and rng: "range_ok (rangeOrder p)"
    and run: "Create p nodeClass nc tags its s = Some (r, s')"
  shows "logOf s' = logOf s \<or>
    (\<exists>it g'. resolveCreateInstanceType p its nc = Some (Inr it) \<and> audited p nc it False s g' s')"
proof -
  obtain r1 s1 where r1: "lookupExistingInstance p nc s = (r1, s1)" by fastforce
  have a1: "audited p nc it False s False s1" for it
    using lookupExistingInstance_log [OF rec r1] audited_reads by fastforce
  show ?thesis
  proof (cases "\<exists>it. resolveCreateInstanceType p its nc = Some (Inr it)")
    case False
    with run show ?thesis by (auto simp: Create_def split: option.splits sum.splits)
  next
    case True
    then obtain it where it: "resolveCreateInstanceType p its nc = Some (Inr it)" by blast
    let ?key = "makePoolKey (labelOf (NodeClaimLabels nc) NodePoolLabelKey) it"
    let ?d = "nowOf p s1 + CreateDeadline (config p)"
    from run it r1 consider "logOf s' = logOf s" | "s' = s1"
      | r2 pe s2 where "createLoop p nodeClass nc tags it ?key ?d False False (Sentinel ErrNoClaimableInstance) None s1 = Some (r2, pe, s2)"
          "s' = recordPoolFailure p ?key pe s2"
      by (auto simp: Create_def Let_def split: option.splits sum.splits if_splits)
    then show ?thesis
    proof cases
      case 3
      from createLoop_audited [OF 3(1) rec rng] obtain g' where "audited p nc it False s1 g' s2" by auto
      from audited_trans [OF a1 this] 3 it show ?thesis using audited_cong [of s' s2] by simp blast
    qed (use a1 it in blast)+
  qed
qed

text \<open>C1: Every changing request that a Create sends is justified, whatever the API answers and
  however often the loop retries. It creates a pool only right after a listing in which no
  pool of the cluster matches the instance type and NodePool, and then one node of that
  type; it updates a version only of a pool it has just listed and that matches; it scales
  up only a pool that its latest listing showed and that matches, by one node over the count shown there, at most once, and
  never after it has already created or scaled one; it writes
  tags only to an instance that it has just read to be unclaimed, and the tags carry the
  NodeClaim's ownership tag; and it sends no delete and no other change.\<close>

lemma Create_requests_justified:
  fixes p :: "('w \<times> log, 'c, 'b, 'u) lke"
  assumes "client p = logged a" "rt p = logged_rt t" "range_ok (rangeOrder p)"
    and "Create p nodeClass nc tags its s = Some (r, s')" and "world s = (w, [])"
  shows "(snd (world s') = [] \<or>
      (\<exists>it. resolveCreateInstanceType p its nc = Some (Inr it) \<and>
        create_audit (clusterID p) it (labelOf (NodeClaimLabels nc) NodePoolLabelKey) (NodeClaimName nc) None [] False
          (snd (world s')))) \<and>
    length (filter scales_pool (snd (world s'))) \<le> 1"
proof -
  have rec: "recording p" using assms(1,2) by (auto simp: recording_def)
  have s: "logOf s = []" using assms(5) by (simp add: logOf_def)
  from Create_audited [OF rec assms(3,4)] s show ?thesis
    by (auto simp: audited_def logOf_def [symmetric] dest!: spec [of _ None] spec [of _ "[]"] dest: audit_one_scale)
qed

end
