(* ===== verification/LkeCreateProps.thy ===== *)
theory LkeCreateProps
  imports LkeCreateAudit
begin

text \<open>
  Create always returns, what it returns, and what it does to the backoff of its pool. The
  deadline theorems need a clock that does not run backwards (\<open>clock_ok\<close>) and a positive
  retry delay, as \<open>NewDefaultProvider\<close> sets it.
\<close>

section \<open>Time passes\<close>

definition clocked :: "('w, 'c, 'b, 'u) lke \<Rightarrow> bool" where
  "clocked p \<longleftrightarrow> clock_ok (client p) (rt p) \<and> 0 < RetryDelay (config p)"

lemma nowOf_simps [simp]:
  "nowOf p (s\<lparr>nodeCache := c\<rparr>) = nowOf p s" "nowOf p (s\<lparr>deleteBackoff := b\<rparr>) = nowOf p s"
  "nowOf p (s\<lparr>poolBackoff := b\<rparr>) = nowOf p s" "nowOf p (s\<lparr>unavailable := u\<rparr>) = nowOf p s"
  "nowOf p (cacheNode p n s) = nowOf p s" "nowOf p (MarkTypeUnavailable p it s) = nowOf p s"
  by (simp_all add: nowOf_def cacheNode_def MarkTypeUnavailable_def)

lemma now_sleepFor: "clocked p \<Longrightarrow> nowOf p s + d \<le> nowOf p (sleepFor p d s)"
  by (simp add: clocked_def clock_ok_def nowOf_def sleepFor_def)

lemma now_req:
  assumes "clocked p"
  shows "req (GetRegionAvailability (client p) g) s = (r1, s') \<Longrightarrow> nowOf p s \<le> nowOf p s'"
    and "req (GetInstance (client p) i) s = (r2, s') \<Longrightarrow> nowOf p s \<le> nowOf p s'"
    and "req (ListInstances (client p) f) s = (r3, s') \<Longrightarrow> nowOf p s \<le> nowOf p s'"
    and "req (UpdateInstance (client p) i ts) s = (r4, s') \<Longrightarrow> nowOf p s \<le> nowOf p s'"
    and "req (CreateLKENodePool (client p) c os) s = (r5, s') \<Longrightarrow> nowOf p s \<le> nowOf p s'"
    and "req (ListLKENodePools (client p) c) s = (r6, s') \<Longrightarrow> nowOf p s \<le> nowOf p s'"
    and "req (GetLKENodePool (client p) c i) s = (r7, s') \<Longrightarrow> nowOf p s \<le> nowOf p s'"
    and "req (UpdateLKENodePool (client p) c i uo) s = (r8, s') \<Longrightarrow> nowOf p s \<le> nowOf p s'"
    and "req (LookupInstanceByTag (client p) tag) s = (r9, s') \<Longrightarrow> nowOf p s \<le> nowOf p s'"
  using assms unfolding clocked_def clock_ok_def
  by (auto simp: req_def nowOf_def LookupInstanceByTag_def split: prod.splits sum.splits list.splits)
    (metis snd_conv)+

text \<open>A loop that sleeps at least a delay in each round gets past any deadline.\<close>

lemma deadline_induct [consumes 1, case_names step]:
  fixes now :: "'s \<Rightarrow> int"
  assumes "0 < d" and step: "\<And>s. (\<And>s'. now s + d \<le> now s' \<Longrightarrow> now s < dl \<Longrightarrow> P s') \<Longrightarrow> P s"
  shows "P s"
proof (induction "nat (dl - now s)" arbitrary: s rule: less_induct)
  case less
  show ?case
    by (rule step, rule less) (use assms(1) in linarith)
qed

lemma verifyLoop_returns:
  assumes "clocked p"
  shows "\<exists>r s'. verifyLoop p i tag dl s = Some (r, s') \<and> nowOf p s \<le> nowOf p s'"
proof -
  have d: "0 < RetryDelay (config p)" using assms by (simp add: clocked_def)
  show ?thesis
  proof (induction s rule: deadline_induct [where now = "nowOf p" and dl = dl, OF d])
    case (1 s)
    obtain r1 s1 where r1: "req (GetInstance (client p) i) s = (r1, s1)" by fastforce
    let ?s2 = "sleepFor p (RetryDelay (config p)) s1"
    have now: "nowOf p s \<le> nowOf p s1" "nowOf p s + RetryDelay (config p) \<le> nowOf p ?s2"
      using now_req(2) [OF assms r1] now_sleepFor [OF assms, of s1 "RetryDelay (config p)"] by linarith+
    with 1 [of ?s2] d show ?case
      by (subst verifyLoop.simps)
        (fastforce simp: r1 split: option.splits sum.splits)
  qed
qed

lemma scanNodes_now:
  assumes "clocked p"
  shows "scanNodes p np nodes s = (r, s') \<Longrightarrow> nowOf p s \<le> nowOf p s'"
proof (induction nodes arbitrary: np s)
  case (Cons node nodes)
  obtain r1 s1 where r1: "req (GetInstance (client p) (NodeInstanceID node)) s = (r1, s1)" by fastforce
  from now_req(2) [OF assms r1] Cons r1 show ?case
    by (cases r1) (fastforce split: if_splits)+
qed simp

lemma findClaimableInstance_now:
  assumes "clocked p"
  shows "findClaimableInstance p pool s = (r, s') \<Longrightarrow> nowOf p s \<le> nowOf p s'"
  using now_req(3,7) [OF assms] scanNodes_now [OF assms]
  by (fastforce simp: findClaimableInstance_def findClaimableInstanceEnterprise_def
      findClaimableInstanceStandard_def split: if_splits prod.splits sum.splits option.splits)

lemma findOrCreatePool_now:
  assumes "clocked p"
  shows "findOrCreatePool p nodeClass nc tags it c s = (r, c', s') \<Longrightarrow> nowOf p s \<le> nowOf p s'"
proof -
  have rv: "nowOf p s \<le> nowOf p s2" if "reconcilePoolVersion p nodeClass pool s = (e, s2)" for pool s e s2
    using that now_req(8) [OF assms]
    by (fastforce simp: reconcilePoolVersion_def split: if_splits prod.splits sum.splits option.splits)
  assume run: "findOrCreatePool p nodeClass nc tags it c s = (r, c', s')"
  obtain r1 s1 where r1: "req (ListLKENodePools (client p) (clusterID p)) s = (r1, s1)" by fastforce
  obtain r2 s2 where r2: "req (CreateLKENodePool (client p) (clusterID p) (poolCreateOptions p nodeClass nc tags it)) s1 = (r2, s2)"
    by fastforce
  have "nowOf p s1 \<le> nowOf p s'"
    using run now_req(5) [OF assms r2] rv
    by (fastforce simp: findOrCreatePool_def r1 r2 Let_def split: if_splits prod.splits sum.splits option.splits)
  with now_req(6) [OF assms r1] show ?thesis by linarith
qed

lemma lookupExistingInstance_now:
  assumes "clocked p" "lookupExistingInstance p nc s = (r, s')"
  shows "nowOf p s \<le> nowOf p s'"
  using assms(2) now_req(9) [OF assms(1)]
  by (fastforce simp: lookupExistingInstance_def hydrateInstanceFromLinode_def
      split: prod.splits sum.splits option.splits)

lemma scalePool_returns:
  assumes "clocked p"
  shows "\<exists>r c' sc' s'. scalePool p it pool c sc s = Some (r, c', sc', s') \<and> nowOf p s \<le> nowOf p s'"
proof -
  obtain ra sa where ra: "req (GetRegionAvailability (client p) (region p)) s = (ra, sa)" by fastforce
  obtain e1 s1 where e1: "checkPlanAvailability p it s = (e1, s1)" by fastforce
  have n1: "nowOf p s \<le> nowOf p s1"
    using e1 now_req(1) [OF assms ra] by (auto simp: checkPlanAvailability_def ra split: sum.splits option.splits if_splits)
  obtain r2 s2 where r2: "req (UpdateLKENodePool (client p) (clusterID p) (PoolID pool)
     \<lparr>UpdateCount = PoolCount pool + 1, UpdateK8sVersion = None, UpdateStrategy = None\<rparr>) s1 = (r2, s2)" by fastforce
  from n1 now_req(8) [OF assms r2] show ?thesis
    by (auto simp: scalePool_def e1 r2 split: option.splits sum.splits)
qed

lemma claimInstance_returns:
  assumes "clocked p"
  shows "\<exists>r s'. claimInstance p i nc nodeClass pool s = Some (r, s') \<and> nowOf p s \<le> nowOf p s'"
proof -
  obtain r1 s1 where r1: "req (UpdateInstance (client p) (LiID i)
     (claimTags (rangeOrder p) (LiTags i) (PoolTags pool) (SpecTags (Spec nodeClass)) (NodeClaimName nc))) s = (r1, s1)" by fastforce
  obtain r2 s2 where r2: "verifyTagsApplied p (LiID i) (NodeClaimName nc) s1 = Some (r2, s2)" "nowOf p s1 \<le> nowOf p s2"
    using verifyLoop_returns [OF assms] unfolding verifyTagsApplied_def by blast
  from now_req(4) [OF assms r1] r2 show ?thesis
    by (auto simp: claimInstance_def r1 split: sum.splits)
qed

lemma attemptCreate_returns:
  assumes "clocked p"
  shows "\<exists>r c' sc' s'. attemptCreate p nodeClass nc tags it c sc s = Some (r, c', sc', s') \<and> nowOf p s \<le> nowOf p s'"
proof -
  obtain r1 s1 where r1: "lookupExistingInstance p nc s = (r1, s1)" by fastforce
  obtain r2 c2 s2 where r2: "findOrCreatePool p nodeClass nc tags it c s1 = (r2, c2, s2)" by (metis prod_cases3)
  note n = lookupExistingInstance_now [OF assms r1] findOrCreatePool_now [OF assms r2]
  show ?thesis
  proof (cases r2)
    case (Inl e)
    with n show ?thesis by (auto simp: attemptCreate_def r1 r2 split: sum.splits)
  next
    case (Inr pool)
    obtain r3 s3 where r3: "findClaimableInstance p pool s2 = (r3, s3)" by fastforce
    note n = n findClaimableInstance_now [OF assms r3]
    obtain r4 c4 sc4 s4 where r4: "scalePool p it pool c2 sc s3 = Some (r4, c4, sc4, s4)" "nowOf p s3 \<le> nowOf p s4"
      using scalePool_returns [OF assms] by blast
    show ?thesis
    proof (cases r3)
      case (Inl e)
      with n r4 show ?thesis by (auto simp: attemptCreate_def r1 r2 Inr r3 split: sum.splits)
    next
      case i: (Inr i)
      obtain r5 s5 where r5: "claimInstance p i nc nodeClass pool s3 = Some (r5, s5)" "nowOf p s3 \<le> nowOf p s5"
        using claimInstance_returns [OF assms] by blast
      with n i show ?thesis by (auto simp: attemptCreate_def r1 r2 Inr r3 Let_def split: sum.splits)
    qed
  qed
qed

lemma observePoolAttempt_now: "observePoolAttempt p key e s = (pe, s') \<Longrightarrow> nowOf p s' = nowOf p s"
  by (auto simp: observePoolAttempt_def split: option.splits if_splits)

lemma createLoop_returns:
  assumes "clocked p"
  shows "\<exists>y. createLoop p nodeClass nc tags it key dl c sc le pe s = Some y"
proof -
  have d: "0 < RetryDelay (config p)" using assms by (simp add: clocked_def)
  show ?thesis
  proof (induction s arbitrary: c sc le pe rule: deadline_induct [where now = "nowOf p" and dl = dl, OF d])
    case (1 s)
    obtain r1 c1 sc1 s1 where r1: "attemptCreate p nodeClass nc tags it c sc s = Some (r1, c1, sc1, s1)" "nowOf p s \<le> nowOf p s1"
      using attemptCreate_returns [OF assms] by blast
    obtain pe2 s2 where r2: "observePoolAttempt p key (case r1 of Inl e \<Rightarrow> Some e | Inr i \<Rightarrow> None) s1 = (pe2, s2)" by fastforce
    have "nowOf p s + RetryDelay (config p) \<le> nowOf p (sleepFor p (RetryDelay (config p)) s2)"
      using r1(2) observePoolAttempt_now [OF r2] now_sleepFor [OF assms, of s2 "RetryDelay (config p)"] by linarith
    note IH = 1 [OF this]
    show ?case
      by (subst createLoop.simps) (use r1 r2 IH in \<open>auto split: option.splits sum.splits\<close>)
  qed
qed

lemma resolveCreateInstanceType_choose:
  "resolveCreateInstanceType p its nc =
     (case chooseInstanceType (scheduling p) its nc of None \<Rightarrow> None | Some (Inl e) \<Rightarrow> Some (Inl e) | Some (Inr it) \<Rightarrow> Some (Inr (ItName it)))"
  by (simp add: resolveCreateInstanceType_def chooseInstanceType_def split: sum.splits)

lemma Create_total:
  assumes "sched_ok (scheduling p)" and "clock_ok (client p) (rt p)" and "0 < RetryDelay (config p)"
  shows "\<exists>r s'. Create p nodeClass nc tags its s = Some (r, s')"
proof -
  have "clocked p" using assms(2,3) by (simp add: clocked_def)
  note loop = createLoop_returns [OF this]
  obtain c where "chooseInstanceType (scheduling p) its nc = Some c"
    using chooses_cheapest_launchable [OF assms(1), of its nc] by (auto split: option.splits)
  then obtain it where it: "resolveCreateInstanceType p its nc = Some it"
    by (cases c) (simp_all add: resolveCreateInstanceType_choose)
  obtain r1 s1 where r1: "lookupExistingInstance p nc s = (r1, s1)" by fastforce
  show ?thesis
  proof (cases it)
    case (Inr i)
    let ?key = "makePoolKey (labelOf (NodeClaimLabels nc) NodePoolLabelKey) i"
    obtain y where "createLoop p nodeClass nc tags i ?key (nowOf p s1 + CreateDeadline (config p)) False False
        (Sentinel ErrNoClaimableInstance) None s1 = Some y"
      using loop by blast
    with it Inr r1 show ?thesis
      by (cases y) (auto simp: Create_def Let_def split: option.splits sum.splits)
  qed (use it in \<open>auto simp: Create_def split: option.splits\<close>)
qed

text \<open>C4: Create always returns: it neither dereferences nil nor loops forever, for any
  answers of the API, as long as time passes and the retry delay is positive.\<close>

lemma Create_returns:
  assumes "sched_ok (scheduling p)" and "clock_ok (client p) (rt p)" and "0 < RetryDelay (config p)"
  shows "\<exists>r s'. Create p nodeClass nc tags its s = Some (r, s')"
  by (rule Create_total [OF assms])

section \<open>What Create does to the backoff trackers\<close>

lemma verifyLoop_backs: "verifyLoop p i tag dl s = Some y \<Longrightarrow> backs (snd y) = backs s"
proof (induction rule: verifyLoop.raw_induct [rotated, consumes 1, case_names step])
  case (step loop p i tag dl s y)
  obtain r1 s1 where r1: "req (GetInstance (client p) i) s = (r1, s1)" by fastforce
  from step.hyps step.IH backs_reqD [OF r1] show ?case
    by (cases r1) (fastforce simp: r1 split: if_splits option.splits)+
qed

lemma scanNodes_backs: "scanNodes p np nodes s = (r, s') \<Longrightarrow> backs s' = backs s"
proof (induction nodes arbitrary: np s)
  case (Cons node nodes)
  obtain r1 s1 where r1: "req (GetInstance (client p) (NodeInstanceID node)) s = (r1, s1)" by fastforce
  from backs_reqD [OF r1] Cons r1 show ?case by (cases r1) (auto split: if_splits)
qed simp

lemma findClaimableInstance_backs: "findClaimableInstance p pool s = (r, s') \<Longrightarrow> backs s' = backs s"
  by (auto simp: findClaimableInstance_def findClaimableInstanceEnterprise_def findClaimableInstanceStandard_def
      dest!: scanNodes_backs backs_reqD split: if_splits prod.splits sum.splits option.splits)

lemma findOrCreatePool_backs: "findOrCreatePool p nodeClass nc tags it c s = (r, c', s') \<Longrightarrow> backs s' = backs s"
  by (auto simp: findOrCreatePool_def reconcilePoolVersion_def Let_def
      dest!: backs_reqD split: if_splits prod.splits sum.splits option.splits)

lemma scalePool_backs: "scalePool p it pool c sc s = Some (r, c', sc', s') \<Longrightarrow> backs s' = backs s"
  by (auto simp: scalePool_def checkPlanAvailability_def
      dest!: backs_reqD split: if_splits prod.splits sum.splits option.splits)

lemma claimInstance_backs: "claimInstance p i nc nodeClass pool s = Some (r, s') \<Longrightarrow> backs s' = backs s"
  by (auto simp: claimInstance_def verifyTagsApplied_def
      dest!: backs_reqD verifyLoop_backs split: prod.splits sum.splits)

lemma lookupExistingInstance_backs: "lookupExistingInstance p nc s = (r, s') \<Longrightarrow> backs s' = backs s"
  by (auto simp: lookupExistingInstance_def hydrateInstanceFromLinode_def
      dest!: backs_reqD split: prod.splits sum.splits option.splits)

lemma attemptCreate_backs:
  assumes "attemptCreate p nodeClass nc tags it c sc s = Some (r, c', sc', s')"
  shows "backs s' = backs s"
  using assms unfolding attemptCreate_def
  by (auto simp: Let_def split: prod.splits sum.splits option.splits if_splits
      dest!: lookupExistingInstance_backs findOrCreatePool_backs findClaimableInstance_backs
        scalePool_backs claimInstance_backs)

text \<open>Failures and clears, as the tracker of the pools records them.\<close>

abbreviation pool_history :: "('w, 'c, 'b, 'u) lke \<Rightarrow> gate_event list \<Rightarrow> 'b BackoffTracker \<Rightarrow> 'b BackoffTracker" where
  "pool_history p evs b \<equiv> fold (gate_step (RecordFailure (backoffOps p)) (Clear (backoffOps p))) evs b"

lemma observePoolAttempt_backs:
  assumes "observePoolAttempt p key e s = (pe, s')"
  shows "\<exists>n. backs s' = (deleteBackoff s, pool_history p (replicate n (Cleared key)) (poolBackoff s))"
    and "e = None \<Longrightarrow> pe = None"
  using assms
  by (auto simp: observePoolAttempt_def backs_def split: option.splits if_splits
      intro: exI [of _ 0] exI [of _ "Suc 0"])

lemma createLoop_backs:
  assumes "createLoop p nodeClass nc tags it key dl c sc le pe s = Some y"
  shows "(\<exists>n. backs (snd (snd y)) = (deleteBackoff s, pool_history p (replicate n (Cleared key)) (poolBackoff s))) \<and>
    (\<forall>inst. fst y = Inr inst \<longrightarrow> fst (snd y) = None)"
  using assms
proof (induction rule: createLoop.raw_induct [rotated, consumes 1, case_names step])
  case (step loop p nodeClass nc tags it key dl c sc le pe s y)
  show ?case
  proof (cases "\<not> nowOf p s < dl \<or> CtxErr (rt p) (world s) \<noteq> None")
    case True
    with step.hyps have "snd (snd y) = s \<and> isl (fst y)" by (auto split: option.splits if_splits)
    then show ?thesis by (auto simp: backs_def intro!: exI [of _ 0])
  next
    case False
    then obtain r1 c1 sc1 s1 where r1: "attemptCreate p nodeClass nc tags it c sc s = Some (r1, c1, sc1, s1)"
      using step.hyps by (cases "attemptCreate p nodeClass nc tags it c sc s") auto
    obtain pe2 s2 where r2: "observePoolAttempt p key (case r1 of Inl e \<Rightarrow> Some e | Inr i \<Rightarrow> None) s1 = (pe2, s2)" by fastforce
    from observePoolAttempt_backs(1) [OF r2] attemptCreate_backs [OF r1] obtain n where
      n: "backs s2 = (deleteBackoff s, pool_history p (replicate n (Cleared key)) (poolBackoff s))"
      by (auto simp: backs_def)
    have stop: ?thesis if "snd (snd y) = s2" "\<forall>inst. fst y = Inr inst \<longrightarrow> fst (snd y) = None"
      using that n by auto
    show ?thesis
    proof (cases r1)
      case (Inr inst)
      with step.hyps False r1 r2 observePoolAttempt_backs(2) [OF r2] show ?thesis by (intro stop) auto
    next
      case (Inl e)
      show ?thesis
      proof (cases "isRetryableCreateError e \<or> IsRetryableError (errlib p) e")
        case retry: True
        let ?s3 = "sleepFor p (RetryDelay (config p)) s2"
        from step.hyps False r1 r2 Inl retry obtain le' where
          "loop p nodeClass nc tags it key dl c1 sc1 le' pe2 ?s3 = Some y" by (auto split: if_splits)
        from step.IH [OF this] obtain m where
          m: "backs (snd (snd y)) = (deleteBackoff ?s3, pool_history p (replicate m (Cleared key)) (poolBackoff ?s3))"
            "\<forall>inst. fst y = Inr inst \<longrightarrow> fst (snd y) = None" by blast
        have "(deleteBackoff ?s3, poolBackoff ?s3) = backs s2" by (simp flip: backs_def)
        with m n show ?thesis
          by (intro conjI exI [of _ "n + m"]) (simp_all add: replicate_add)
      next
        case no: False
        with step.hyps False r1 r2 Inl show ?thesis by (intro stop) auto
      qed
    qed
  qed
qed

definition poolKeyOf :: "NodeClaim \<Rightarrow> string \<Rightarrow> string" where
  "poolKeyOf nc it = makePoolKey (labelOf (NodeClaimLabels nc) NodePoolLabelKey) it"

text \<open>C8: A Create touches the backoff of its own pool only, and whatever the number of
  retries inside the call it records at most one failure there, as the last thing it does:
  the clears of attempts that reached the pool come before. The recorded failure is a
  retryable one, a Create that returns an instance records none, and the delete backoff
  is never touched.\<close>

lemma Create_records_one_failure:
  assumes "Create p nodeClass nc tags its s = Some (r, s')"
  shows "deleteBackoff s' = deleteBackoff s \<and>
    (poolBackoff s' = poolBackoff s \<or>
     (\<exists>it n fs. resolveCreateInstanceType p its nc = Some (Inr it) \<and>
        poolBackoff s' = pool_history p (replicate n (Cleared (poolKeyOf nc it)) @ fs) (poolBackoff s) \<and>
        (fs = [] \<or> (\<exists>t e. fs = [Failed t (poolKeyOf nc it) e] \<and> IsRetryableError (errlib p) e \<and> isl r))))"
proof -
  obtain r1 s1 where r1: "lookupExistingInstance p nc s = (r1, s1)" by fastforce
  note b1 = lookupExistingInstance_backs [OF r1]
  consider "backs s' = backs s"
    | it r2 pe s2 where "resolveCreateInstanceType p its nc = Some (Inr it)"
        "createLoop p nodeClass nc tags it (poolKeyOf nc it) (nowOf p s1 + CreateDeadline (config p)) False False
          (Sentinel ErrNoClaimableInstance) None s1 = Some (r2, pe, s2)"
        "r = r2" "s' = recordPoolFailure p (poolKeyOf nc it) pe s2"
    using assms b1 unfolding Create_def r1 poolKeyOf_def
    by (auto simp: Let_def split: option.splits sum.splits if_splits)
  then show ?thesis
  proof cases
    case 1
    then show ?thesis by (simp add: backs_def)
  next
    case 2
    from createLoop_backs [OF 2(2)] obtain n where n: "backs s2 = (deleteBackoff s1,
        pool_history p (replicate n (Cleared (poolKeyOf nc it))) (poolBackoff s1))"
      "\<forall>inst. r2 = Inr inst \<longrightarrow> pe = None" by auto
    have s2: "deleteBackoff s2 = deleteBackoff s"
      "poolBackoff s2 = pool_history p (replicate n (Cleared (poolKeyOf nc it))) (poolBackoff s)"
      using n(1) b1 by (auto simp: backs_def)
    show ?thesis
    proof (cases "\<exists>e. pe = Some e \<and> IsRetryableError (errlib p) e")
      case True
      then obtain e where e: "pe = Some e" "IsRetryableError (errlib p) e" by blast
      then have "isl r" using n(2) 2(3) by (cases r2) auto
      with e s2 2 show ?thesis
        by (auto simp: recordPoolFailure_def intro!: exI [of _ n] exI [of _ "[Failed (nowOf p s2) (poolKeyOf nc it) e]"])
    next
      case False
      then have "s' = s2" using 2(4) by (auto simp: recordPoolFailure_def split: option.splits)
      with s2 2(1) show ?thesis by (auto intro!: exI [of _ n] exI [of _ "[]"])
    qed
  qed
qed

end
