(* ===== verification/LkeInstances.thy ===== *)
theory LkeInstances
  imports LkeCreateAudit ProviderIds
begin

text \<open>
  pkg/providers/lke/lke.go, third part: reading, tagging and deleting instances (\<open>Get\<close>,
  \<open>List\<close>, \<open>CreateTags\<close>, \<open>UpdateTags\<close>, \<open>Delete\<close>). The lock that \<open>delete\<close> takes around its
  second lookup does nothing in one thread of execution. The specification of \<open>Delete\<close> is
  an audit of its requests, as for \<open>Create\<close>.
\<close>

section \<open>Get and List\<close>

definition notFoundErr :: "err \<Rightarrow> 'a res" where
  "notFoundErr e = Inl (NodeClaimNotFoundErr e)"

definition parsingErr :: err where
  "parsingErr = Errorf ''parsing instance ID: %w'' [] [Errorf ''strconv.Atoi'' [] []]"

definition lkeGet :: "('w, 'c, 'b, 'u) lke \<Rightarrow> string \<Rightarrow> bool \<Rightarrow>
    ('w, 'c, 'b, 'u) lke_state \<Rightarrow> Instance res \<times> ('w, 'c, 'b, 'u) lke_state" where
  "lkeGet p i skipCache s =
     (case (if skipCache then None else CGet (nodeOps p) (nodeCache s) (nowOf p s) i) of
        Some cached \<Rightarrow> (Inr cached, s)
      | None \<Rightarrow>
        (case Atoi i of
           None \<Rightarrow> (notFoundErr parsingErr, s)
         | Some instanceID \<Rightarrow>
           (case req (GetInstance (client p) instanceID) s of
              (Inl e, s) \<Rightarrow>
                if IsNotFound (errlib p) e then (notFoundErr e, s)
                else (Inl (Errorf ''getting instance %d: %w'' [Itoa instanceID] [e]), s)
            | (Inr li, s) \<Rightarrow> let inst = lkeInstanceOf p li in (Inr inst, cacheNode p inst s))))"

definition lkeListFilter :: "('w, 'c, 'b, 'u) lke \<Rightarrow> api_filter" where
  "lkeListFilter p = (FilterContains, ''tags'', [kvTag LabelLKEManaged ''true'']) #
     (if clusterTier p = enterprise then [(FilterContains, ''tags'', [''lke'' @ Itoa (clusterID p)])] else [])"

fun collectInstances :: "('w, 'c, 'b, 'u) lke \<Rightarrow> LinodeInstance list \<Rightarrow>
    ('w, 'c, 'b, 'u) lke_state \<Rightarrow> Instance list \<times> ('w, 'c, 'b, 'u) lke_state" where
  "collectInstances p [] s = ([], s)"
| "collectInstances p (i # is) s =
     (if clusterID p \<noteq> LiLKEClusterID i then collectInstances p is s
      else let inst = lkeInstanceOf p i
           in (case collectInstances p is (cacheNode p inst s) of (result, s) \<Rightarrow> (inst # result, s)))"

definition lkeList :: "('w, 'c, 'b, 'u) lke \<Rightarrow>
    ('w, 'c, 'b, 'u) lke_state \<Rightarrow> Instance list res \<times> ('w, 'c, 'b, 'u) lke_state" where
  "lkeList p s =
     (case req (ListInstances (client p) (lkeListFilter p)) s of
        (Inl e, s) \<Rightarrow> (Inl e, s)
      | (Inr instances, s) \<Rightarrow> (case collectInstances p instances s of (result, s) \<Rightarrow> (Inr result, s)))"

section \<open>Tags\<close>

definition lkeCreateTags :: "('w, 'c, 'b, 'u) lke \<Rightarrow> string \<Rightarrow> tagmap \<Rightarrow>
    ('w, 'c, 'b, 'u) lke_state \<Rightarrow> nilerr \<times> ('w, 'c, 'b, 'u) lke_state" where
  "lkeCreateTags p i tags s =
     (case Atoi i of
        None \<Rightarrow> (Some parsingErr, s)
      | Some instanceID \<Rightarrow>
        (case req (GetInstance (client p) instanceID) s of
           (Inl e, s) \<Rightarrow>
             let e' = Errorf ''getting instance %d: %w'' [Itoa instanceID] [e]
             in if IsNotFound (errlib p) e then (Some (NodeClaimNotFoundErr e'), s) else (Some e', s)
         | (Inr li, s) \<Rightarrow>
           (case req (UpdateInstance (client p) instanceID
                   (DedupeTags (LiTags li @ MapToTagList (rangeOrder p) tags))) s of
              (Inl e, s) \<Rightarrow>
                if IsNotFound (errlib p) e
                then (Some (NodeClaimNotFoundErr (Errorf ''updating instance tags, %w'' [] [e])), s)
                else (Some e, s)
            | (Inr _, s) \<Rightarrow> (None, s))))"

definition lkeUpdateTags :: "('w, 'c, 'b, 'u) lke \<Rightarrow> string \<Rightarrow> string list \<Rightarrow>
    ('w, 'c, 'b, 'u) lke_state \<Rightarrow> nilerr \<times> ('w, 'c, 'b, 'u) lke_state" where
  "lkeUpdateTags p i tags s =
     (case Atoi i of
        None \<Rightarrow> (Some parsingErr, s)
      | Some instanceID \<Rightarrow>
        (case req (UpdateInstance (client p) instanceID tags) s of
           (Inl e, s) \<Rightarrow>
             let e' = Errorf ''updating instance tags, %w'' [] [e]
             in if IsNotFound (errlib p) e then (Some (NodeClaimNotFoundErr e'), s) else (Some e', s)
         | (Inr _, s) \<Rightarrow> (None, s\<lparr>nodeCache := CDelete (nodeOps p) (nodeCache s) i\<rparr>)))"

section \<open>Delete\<close>

definition holdsInstance :: "int \<Rightarrow> LKENodePool \<Rightarrow> bool" where
  "holdsInstance instanceID pool \<longleftrightarrow> (\<exists>node \<in> set (PoolLinodes pool). NodeInstanceID node = instanceID)"

definition findLKENodePoolFromLinodeInstanceID :: "('w, 'c, 'b, 'u) lke \<Rightarrow> int \<Rightarrow>
    ('w, 'c, 'b, 'u) lke_state \<Rightarrow> LKENodePool res \<times> ('w, 'c, 'b, 'u) lke_state" where
  "findLKENodePoolFromLinodeInstanceID p instanceID s =
     (case req (ListLKENodePools (client p) (clusterID p)) s of
        (Inl e, s) \<Rightarrow> if IsNotFound (errlib p) e then (notFoundErr e, s) else (Inl e, s)
      | (Inr pools, s) \<Rightarrow>
          (case find (\<lambda>pool. isKarpenterManagedPool pool \<and> holdsInstance instanceID pool) pools of
             Some pool \<Rightarrow> (Inr pool, s)
           | None \<Rightarrow> (notFoundErr (Errorf ''instance %d not found in any Karpenter-managed pool'' [Itoa instanceID] []), s)))"

definition findNodeInPool :: "LKENodePool \<Rightarrow> int \<Rightarrow> LKENodePoolLinode res" where
  "findNodeInPool pool instanceID =
     (case find (\<lambda>node. NodeInstanceID node = instanceID) (PoolLinodes pool) of
        Some node \<Rightarrow> Inr node
      | None \<Rightarrow> Inl (Errorf ''instance %d not found in lke node pool %d'' [Itoa instanceID, Itoa (PoolID pool)] []))"

definition uncacheNode :: "('w, 'c, 'b, 'u) lke \<Rightarrow> string \<Rightarrow> ('w, 'c, 'b, 'u) lke_state \<Rightarrow> ('w, 'c, 'b, 'u) lke_state" where
  "uncacheNode p i s = s\<lparr>nodeCache := CDelete (nodeOps p) (nodeCache s) i\<rparr>"

text \<open>What follows either delete request: not found becomes a NodeClaimNotFound error.\<close>

definition afterDelete :: "('w, 'c, 'b, 'u) lke \<Rightarrow> string \<Rightarrow> nilerr \<times> ('w, 'c, 'b, 'u) lke_state \<Rightarrow>
    nilerr \<times> ('w, 'c, 'b, 'u) lke_state" where
  "afterDelete p i r =
     (case r of
        (Some e, s) \<Rightarrow>
          if IsNotFound (errlib p) e then (Some (NodeClaimNotFoundErr e), uncacheNode p i s) else (Some e, s)
      | (None, s) \<Rightarrow> (None, uncacheNode p i s))"

text \<open>Both lookups end the same way when they fail.\<close>

definition lookupPool :: "('w, 'c, 'b, 'u) lke \<Rightarrow> string \<Rightarrow> int \<Rightarrow>
    ('w, 'c, 'b, 'u) lke_state \<Rightarrow> LKENodePool res \<times> ('w, 'c, 'b, 'u) lke_state" where
  "lookupPool p i instanceID s =
     (case findLKENodePoolFromLinodeInstanceID p instanceID s of
        (Inl e, s) \<Rightarrow> if IsNodeClaimNotFoundError (errlib p) e then (Inl e, uncacheNode p i s) else (Inl e, s)
      | (Inr pool, s) \<Rightarrow> (Inr pool, s))"

definition deleteInstance :: "('w, 'c, 'b, 'u) lke \<Rightarrow> string \<Rightarrow>
    ('w, 'c, 'b, 'u) lke_state \<Rightarrow> nilerr \<times> ('w, 'c, 'b, 'u) lke_state" where
  "deleteInstance p i s =
     (case Atoi i of
        None \<Rightarrow> (Some (NodeClaimNotFoundErr parsingErr), s)
      | Some instanceID \<Rightarrow>
        (case lookupPool p i instanceID s of
           (Inl e, s) \<Rightarrow> (Some e, s)
         | (Inr _, s) \<Rightarrow>
           (case lookupPool p i instanceID s of
              (Inl e, s) \<Rightarrow> (Some e, s)
            | (Inr pool, s) \<Rightarrow>
                if length (PoolLinodes pool) \<le> 1
                then afterDelete p i (req (DeleteLKENodePool (client p) (clusterID p) (PoolID pool)) s)
                else case findNodeInPool pool instanceID of
                  Inl e \<Rightarrow> (Some (NodeClaimNotFoundErr e), uncacheNode p i s)
                | Inr node \<Rightarrow> afterDelete p i (req (DeleteLKENodePoolNode (client p) (clusterID p) (NodeID node)) s))))"

definition checkDeleteBackoff :: "('w, 'c, 'b, 'u) lke \<Rightarrow> string \<Rightarrow> ('w, 'c, 'b, 'u) lke_state \<Rightarrow> nilerr" where
  "checkDeleteBackoff p i s = Check (backoffOps p) (deleteBackoff s) (nowOf p s) i (''deleting instance '' @ i)"

definition recordDeleteResult :: "('w, 'c, 'b, 'u) lke \<Rightarrow> string \<Rightarrow> nilerr \<Rightarrow>
    ('w, 'c, 'b, 'u) lke_state \<Rightarrow> ('w, 'c, 'b, 'u) lke_state" where
  "recordDeleteResult p i err s =
     (case err of
        None \<Rightarrow> s\<lparr>deleteBackoff := Clear (backoffOps p) (deleteBackoff s) i\<rparr>
      | Some e \<Rightarrow>
          if IsNodeClaimNotFoundError (errlib p) e
          then s\<lparr>deleteBackoff := Clear (backoffOps p) (deleteBackoff s) i\<rparr>
          else if IsRetryableError (errlib p) e
          then s\<lparr>deleteBackoff := RecordFailure (backoffOps p) (deleteBackoff s) (nowOf p s) i e\<rparr>
          else s)"

definition lkeDelete :: "('w, 'c, 'b, 'u) lke \<Rightarrow> string \<Rightarrow>
    ('w, 'c, 'b, 'u) lke_state \<Rightarrow> nilerr \<times> ('w, 'c, 'b, 'u) lke_state" where
  "lkeDelete p i s =
     (case checkDeleteBackoff p i s of
        Some e \<Rightarrow> (Some e, s)
      | None \<Rightarrow> (case deleteInstance p i s of (err, s) \<Rightarrow> (err, recordDeleteResult p i err s)))"

section \<open>The audit of Delete\<close>

text \<open>
  A delete request was justified by the listing just before it: it removes the pool only when
  the instance is the pool's single node, and otherwise removes the node of the instance.
\<close>

fun delete_justified :: "int \<Rightarrow> int \<Rightarrow> event option \<Rightarrow> event \<Rightarrow> bool" where
  "delete_justified c i (Some (ListedPools c' pools)) (Sent (DeletePoolReq c'' k) ok) =
     (c' = c \<and> c'' = c \<and> (\<exists>pool \<in> set pools. PoolID pool = k \<and> isKarpenterManagedPool pool \<and>
        map NodeInstanceID (PoolLinodes pool) = [i]))"
| "delete_justified c i (Some (ListedPools c' pools)) (Sent (DeleteNodeReq c'' n) ok) =
     (c' = c \<and> c'' = c \<and> (\<exists>pool \<in> set pools. isKarpenterManagedPool pool \<and>
        (\<exists>node \<in> set (PoolLinodes pool). NodeID node = n \<and> NodeInstanceID node = i)))"
| "delete_justified c i prev (Sent q ok) = False"
| "delete_justified c i prev ev = True"

fun delete_audit :: "int \<Rightarrow> int \<Rightarrow> event option \<Rightarrow> log \<Rightarrow> bool" where
  "delete_audit c i prev [] = True"
| "delete_audit c i prev (ev # l) = (delete_justified c i prev ev \<and> delete_audit c i (Some ev) l)"

lemma lookupPool_log:
  assumes "recording p" "lookupPool p i n s = (r, s')"
  shows "\<exists>ev. logOf s' = logOf s @ [ev] \<and> is_read ev \<and>
    (\<forall>pool. r = Inr pool \<longrightarrow> isKarpenterManagedPool pool \<and> holdsInstance n pool \<and>
      (\<exists>pools. ev = ListedPools (clusterID p) pools \<and> pool \<in> set pools))"
proof -
  obtain r1 s1 where r1: "req (ListLKENodePools (client p) (clusterID p)) s = (r1, s1)" by fastforce
  from req_log(6) [OF assms(1) r1] assms(2) show ?thesis
    by (auto simp: lookupPool_def findLKENodePoolFromLinodeInstanceID_def r1 notFoundErr_def uncacheNode_def
        reply_def find_Some_iff split: sum.splits option.splits if_splits)
qed

lemma afterDelete_log [simp]: "logOf (snd (afterDelete p i (e, s))) = logOf s"
  by (simp add: afterDelete_def uncacheNode_def split: option.splits)

lemma single_node: "holdsInstance n pool \<Longrightarrow> length (PoolLinodes pool) \<le> 1 \<Longrightarrow> map NodeInstanceID (PoolLinodes pool) = [n]"
  by (cases "PoolLinodes pool") (auto simp: holdsInstance_def)

lemma deleteInstance_log:
  assumes rec: "recording p" and n: "Atoi i = Some n" and run: "deleteInstance p i s = (e, s')"
  shows "\<exists>l. logOf s' = logOf s @ l \<and> (\<forall>prev. delete_audit (clusterID p) n prev l) \<and> length (filter is_sent l) \<le> 1"
proof -
  obtain r1 s1 where r1: "lookupPool p i n s = (r1, s1)" by fastforce
  obtain ev1 where l1: "logOf s1 = logOf s @ [ev1]" "is_read ev1"
    using lookupPool_log [OF rec r1] by (elim exE conjE) (rule that)
  obtain r2 s2 where r2: "lookupPool p i n s1 = (r2, s2)" by fastforce
  obtain ev2 where l2: "logOf s2 = logOf s1 @ [ev2]" "is_read ev2" "\<forall>pool. r2 = Inr pool \<longrightarrow>
      isKarpenterManagedPool pool \<and> holdsInstance n pool \<and>
      (\<exists>pools. ev2 = ListedPools (clusterID p) pools \<and> pool \<in> set pools)"
    using lookupPool_log [OF rec r2] by (elim exE conjE) (rule that)
  have read: "is_read ev \<Longrightarrow> delete_justified c k prev ev \<and> \<not> is_sent ev" for ev c k prev
    by (cases ev) auto
  note step = run [unfolded deleteInstance_def n option.case r1 prod.case]
  consider "logOf s' = logOf s1" | "logOf s' = logOf s2"
    | pool e3 s3 where "r2 = Inr pool" "length (PoolLinodes pool) \<le> 1"
        "req (DeleteLKENodePool (client p) (clusterID p) (PoolID pool)) s2 = (e3, s3)" "logOf s' = logOf s3"
    | pool node e3 s3 where "r2 = Inr pool" "find (\<lambda>node. NodeInstanceID node = n) (PoolLinodes pool) = Some node"
        "req (DeleteLKENodePoolNode (client p) (clusterID p) (NodeID node)) s2 = (e3, s3)" "logOf s' = logOf s3"
    using step r2 by (auto simp: findNodeInPool_def afterDelete_def uncacheNode_def
        split: sum.splits if_splits option.splits prod.splits)
  then show ?thesis
  proof cases
    case 1
    with l1 read show ?thesis by (intro exI [of _ "[ev1]"]) auto
  next
    case 2
    with l1 l2 read show ?thesis by (intro exI [of _ "[ev1, ev2]"]) auto
  next
    case 3
    then have "map NodeInstanceID (PoolLinodes pool) = [n]" using l2(3) single_node by simp
    with req_log(9) [OF rec 3(3)] l1 l2 read 3 show ?thesis
      by (intro exI [of _ "[ev1, ev2, sentnil (DeletePoolReq (clusterID p) (PoolID pool)) e3]"])
        (auto simp: sentnil_def intro!: bexI [of _ pool])
  next
    case 4
    with req_log(10) [OF rec 4(3)] find_SomeD [OF 4(2)] l1 l2 read show ?thesis
      by (intro exI [of _ "[ev1, ev2, sentnil (DeleteNodeReq (clusterID p) (NodeID node)) e3]"])
        (auto simp: sentnil_def intro!: bexI [of _ pool] bexI [of _ node])
  qed
qed


section \<open>Properties\<close>

text \<open>C2: A Delete sends at most one changing request, and a justified one: it deletes a whole
  pool only if the listing it has just read shows the instance as the single node of a
  Karpenter-managed pool of the cluster, and otherwise deletes only the node of the instance
  in such a pool, so no other node is ever removed. An id that is not a number, or one that
  is backing off, sends no request at all, and backing off changes no state.\<close>

lemma Delete_requests_justified:
  fixes p :: "('w \<times> log, 'c, 'b, 'u) lke"
  assumes "client p = logged a" "rt p = logged_rt t" "world s = (w, [])" "lkeDelete p i s = (e, s')"
  shows "length (filter is_sent (snd (world s'))) \<le> 1 \<and>
    (case Atoi i of
       None \<Rightarrow> snd (world s') = []
     | Some n \<Rightarrow> delete_audit (clusterID p) n None (snd (world s'))) \<and>
    (checkDeleteBackoff p i s \<noteq> None \<longrightarrow> s' = s \<and> e = checkDeleteBackoff p i s)"
proof -
  have rec: "recording p" using assms(1,2) by (auto simp: recording_def)
  have s: "logOf s = []" using assms(3) by (simp add: logOf_def)
  have r: "logOf (recordDeleteResult p i e s) = logOf s" for e s
    by (simp add: recordDeleteResult_def split: option.splits)
  show ?thesis
  proof (cases "checkDeleteBackoff p i s")
    case (Some e')
    with assms(4) s show ?thesis by (auto simp: lkeDelete_def logOf_def split: option.splits)
  next
    case None
    obtain e1 s1 where d: "deleteInstance p i s = (e1, s1)" by fastforce
    with None assms(4) r have s1: "logOf s' = logOf s1" by (auto simp: lkeDelete_def)
    show ?thesis
    proof (cases "Atoi i")
      case None': None
      with d s s1 None show ?thesis by (simp add: deleteInstance_def logOf_def)
    next
      case (Some n)
      from deleteInstance_log [OF rec Some d] s s1 Some None show ?thesis by (auto simp: logOf_def)
    qed
  qed
qed

lemma lookupPool_backs: "lookupPool p i n s = (r, s') \<Longrightarrow> backs s' = backs s"
  by (auto simp: lookupPool_def findLKENodePoolFromLinodeInstanceID_def uncacheNode_def notFoundErr_def
      dest!: backs_reqD split: option.splits sum.splits prod.splits if_splits)

lemma afterDelete_backs [simp]: "backs (snd (afterDelete p i r)) = backs (snd r)"
  by (simp add: afterDelete_def uncacheNode_def split: prod.splits option.splits)

lemma deleteInstance_backs:
  assumes "deleteInstance p i s = (e, s')"
  shows "backs s' = backs s"
proof (cases "Atoi i")
  case (Some n)
  obtain r1 s1 where r1: "lookupPool p i n s = (r1, s1)" by fastforce
  obtain r2 s2 where r2: "lookupPool p i n s1 = (r2, s2)" by fastforce
  have "s' = s1 \<or> s' = s2 \<or> s' = uncacheNode p i s2 \<or> (\<exists>f. s' = snd (afterDelete p i (req f s2)))"
    using assms Some r1 r2 unfolding deleteInstance_def
    by (auto split: sum.splits if_splits intro: arg_cong [where f = snd] dest: sym) (metis snd_conv)+
  with lookupPool_backs [OF r1] lookupPool_backs [OF r2] show ?thesis
    by (auto simp: uncacheNode_def)
qed (use assms in \<open>simp add: deleteInstance_def\<close>)

text \<open>C9: A Delete keeps the backoff of every other instance and of every pool, and what it
  records for its own instance is at most one event: a clear when the instance is gone
  (deleted now, or not found), one failure when the error is retryable, and nothing for
  any other error or while backing off.\<close>

lemma Delete_records_its_result:
  assumes "lkeDelete p i s = (e, s')"
  shows "poolBackoff s' = poolBackoff s \<and>
    (\<exists>evs. deleteBackoff s' = fold (gate_step (RecordFailure (backoffOps p)) (Clear (backoffOps p))) evs (deleteBackoff s) \<and>
      (if checkDeleteBackoff p i s \<noteq> None then evs = []
       else case e of
         None \<Rightarrow> evs = [Cleared i]
       | Some e \<Rightarrow>
           if IsNodeClaimNotFoundError (errlib p) e then evs = [Cleared i]
           else if IsRetryableError (errlib p) e then \<exists>t. evs = [Failed t i e]
           else evs = []))"
proof (cases "checkDeleteBackoff p i s")
  case None
  obtain e1 s1 where d: "deleteInstance p i s = (e1, s1)" by fastforce
  with None assms have e: "e1 = e" "s' = recordDeleteResult p i e s1" by (auto simp: lkeDelete_def)
  from deleteInstance_backs [OF d] have b: "deleteBackoff s1 = deleteBackoff s" "poolBackoff s1 = poolBackoff s"
    by (simp_all add: backs_def)
  let ?evs = "case e of None \<Rightarrow> [Cleared i]
    | Some e \<Rightarrow> if IsNodeClaimNotFoundError (errlib p) e then [Cleared i]
        else if IsRetryableError (errlib p) e then [Failed (nowOf p s1) i e] else []"
  show ?thesis
    using e b None
    by (intro conjI exI [of _ ?evs]) (simp_all add: recordDeleteResult_def split: option.splits)
next
  case (Some e0)
  with assms have "s' = s" by (simp add: lkeDelete_def)
  with Some show ?thesis by (intro conjI exI [of _ "[]"]) simp_all
qed

end
