(* ===== verification/TagViews.thy ===== *)
theory TagViews
  imports Tags
begin

text \<open>
  The abstract view of a list of tags: its key-value tags as a map and its opaque tags as a
  set. The tag operations of the controllers are specified on views; the lemmas show that a
  list built from a map and opaque tags has the view one expects, and that the
  normal form of a list determines its view and is determined by it.
\<close>

type_synonym tag_view = "(string \<rightharpoonup> string) \<times> string set"

definition tagView :: "string list \<Rightarrow> tag_view" where
  "tagView tags = (map_of (TagListToMap tags), {t \<in> set tags. t \<noteq> [] \<and> splitTag t = None})"

text \<open>Reading a list of valid pairs and opaque tags back: only the pairs count.\<close>

lemma map_of_TagListToMap_set:
  assumes "wf_map m" and "\<forall>t \<in> set ts. \<forall>kv. splitTag t = Some kv \<longrightarrow> kv \<in> set m"
    and "\<forall>kv \<in> set m. kvTag (fst kv) (snd kv) \<in> set ts \<and> valid_kv kv"
  shows "map_of (TagListToMap ts) = map_of m"
proof
  fix k
  show "map_of (TagListToMap ts) k = map_of m k"
  proof (cases "map_of (TagListToMap ts) k")
    case None
    then have "k \<notin> dom (map_of (TagListToMap ts))" by blast
    then have "\<not> (kvTag k v \<in> set ts \<and> valid_kv (k, v))" for v by (auto simp: dom_TagListToMap)
    then have "map_of m k = None" using assms(3) by (cases "map_of m k") (auto dest!: map_of_SomeD)
    with None show ?thesis by simp
  next
    case (Some v)
    from map_of_TagListToMap_SomeD [OF this] have "kvTag k v \<in> set ts" "splitTag (kvTag k v) = Some (k, v)" by auto
    with assms(2) have "(k, v) \<in> set m" by blast
    with wf_map_in_iff [OF assms(1)] Some show ?thesis by metis
  qed
qed

text \<open>A list that \<open>MapToTagList\<close> and opaque tags make up, without duplicates.\<close>

lemma tagView_built:
  assumes "range_ok rng" "wf_map m" "\<forall>kv \<in> set m. valid_kv kv" "\<forall>t \<in> set opq. splitTag t = None"
    and "set ts = set (MapToTagList rng m @ opq) - {[]}"
  shows "tagView ts = (map_of m, set opq - {[]})"
proof -
  have ts: "set ts = ((\<lambda>(k, v). kvTag k v) ` set m \<union> set opq) - {[]}"
    using assms(1,5) by (simp add: set_MapToTagList)
  have split: "splitTag (kvTag k v) = Some (k, v)" if "(k, v) \<in> set m" for k v
    using assms(3) that by auto
  have "map_of (TagListToMap ts) = map_of m"
  proof (rule map_of_TagListToMap_set)
    show "\<forall>t \<in> set ts. \<forall>kv. splitTag t = Some kv \<longrightarrow> kv \<in> set m" using split assms(4) by (auto simp: ts)
    show "\<forall>kv \<in> set m. kvTag (fst kv) (snd kv) \<in> set ts \<and> valid_kv kv" using assms(3) by (force simp: ts)
  qed (rule assms(2))
  moreover have "{t \<in> set ts. t \<noteq> [] \<and> splitTag t = None} = set opq - {[]}" using split assms(4) by (auto simp: ts)
  ultimately show ?thesis by (simp add: tagView_def)
qed

text \<open>The elements of a list of tags, other than repetitions of a key, are those of its view.\<close>

lemma set_of_view:
  assumes "range_ok rng"
  shows "set (MapToTagList rng (TagListToMap tags) @ OpaqueTags tags) - {[]} =
    {kvTag k v | k v. fst (tagView tags) k = Some v} \<union> snd (tagView tags)"
proof -
  have in_iff: "map_of (TagListToMap tags) k = Some v \<longleftrightarrow> (k, v) \<in> set (TagListToMap tags)" for k v
    using wf_map_in_iff [OF wf_TagListToMap] by blast
  have "set (MapToTagList rng (TagListToMap tags)) = {kvTag k v | k v. (k, v) \<in> set (TagListToMap tags)}"
    unfolding set_MapToTagList [OF assms] by auto
  moreover have "[] \<notin> {kvTag k v | k v. (k, v) \<in> set (TagListToMap tags)}" by (auto dest: sym)
  moreover have "set (OpaqueTags tags) - {[]} = snd (tagView tags)"
    unfolding tagView_def set_OpaqueTags by auto
  moreover have "A = B \<Longrightarrow> [] \<notin> B \<Longrightarrow> D - {[]} = C \<Longrightarrow> (A \<union> D) - {[]} = B \<union> C" for A B C D :: "string set" by blast
  moreover have "fst (tagView tags) = map_of (TagListToMap tags)" by (simp only: tagView_def fst_conv)
  ultimately show ?thesis by (simp only: in_iff set_append)
qed

end
