(* ===== verification/ClaimProps.thy ===== *)
theory ClaimProps
  imports LkeCreateAudit TagViews
begin

text \<open>
  What the tags of a claim are (\<open>claimTags\<close> of \<open>claimInstance\<close>): as key-value tags, the
  instance's own tags overridden by the pool's, the NodeClass's and the ownership tag, and as
  opaque tags those of the instance and the NodeClass; each once, sorted, and the same for
  every order in which Go ranges over the merged map.
\<close>

definition claimMap :: "string list \<Rightarrow> string list \<Rightarrow> string list \<Rightarrow> string \<Rightarrow> tagmap" where
  "claimMap us ps ss name = assign [TagListToMap us, TagListToMap ps, TagListToMap ss,
     [(NodeClaimTagKey, NormalizeNodeClaimTagValue name)]]"

lemma set_claimTags:
  assumes "range_ok rng"
  shows "set (claimTags rng us ps ss name) =
    ((\<lambda>(k, v). kvTag k v) ` set (claimMap us ps ss name) \<union> {t \<in> set us \<union> set ss. splitTag t = None}) - {[]}"
  using assms by (auto simp: claimTags_def claimMap_def Let_def go_set)

lemma claimMap_valid:
  assumes "name \<noteq> []" "kv \<in> set (claimMap us ps ss name)"
  shows "valid_kv kv"
proof -
  have "map_of (claimMap us ps ss name) (fst kv) = Some (snd kv)"
    using assms(2) wf_map_in_iff [of "claimMap us ps ss name" "fst kv" "snd kv"] by (simp add: claimMap_def)
  then have "kv = (NodeClaimTagKey, NormalizeNodeClaimTagValue name) \<or>
      (\<exists>ts. map_of (TagListToMap ts) (fst kv) = Some (snd kv))"
    by (cases kv) (auto simp: claimMap_def map_of_claim map_add_def split: if_splits option.splits)
  then show ?thesis
    using assms(1) map_of_TagListToMap_SomeD
    by (cases kv) (auto simp: valid_kv_def label_defs)
qed

lemma splitTag_claimMap:
  "name \<noteq> [] \<Longrightarrow> kv \<in> set (claimMap us ps ss name) \<Longrightarrow> splitTag (kvTag (fst kv) (snd kv)) = Some kv"
  using claimMap_valid [of name kv] by (cases kv) auto

text \<open>C7: The tags that a claim writes are sorted and without duplicates or empty tags, do not
  depend on the order in which the merged map is ranged over, read back as the instance's
  tags overridden by the pool's, then by the NodeClass's, then by the ownership tag (so the
  NodeClaim key occurs once, with the claim's own name), and keep exactly the opaque tags of
  the instance and the NodeClass.\<close>

lemma claim_tags_merge:
  assumes "range_ok rng" "range_ok rng'" "name \<noteq> []"
  shows "claimTags rng' us ps ss name = claimTags rng us ps ss name \<and>
    sorted (claimTags rng us ps ss name) \<and> distinct (claimTags rng us ps ss name) \<and>
    map_of (TagListToMap (claimTags rng us ps ss name)) =
      (map_of (TagListToMap us) ++ map_of (TagListToMap ps) ++ map_of (TagListToMap ss))
        (NodeClaimTagKey \<mapsto> NormalizeNodeClaimTagValue name) \<and>
    {t \<in> set (claimTags rng us ps ss name). splitTag t = None} =
      {t \<in> set us \<union> set ss. t \<noteq> [] \<and> splitTag t = None}"
proof (intro conjI)
  note st = set_claimTags 
  note sp = splitTag_claimMap [OF assms(3)]
  show "distinct (claimTags rng us ps ss name)" "sorted (claimTags rng us ps ss name)"
    by (simp_all add: claimTags_def Let_def)
  show "claimTags rng' us ps ss name = claimTags rng us ps ss name"
    unfolding claimTags_def Let_def using assms(1,2)
    by (intro sort_distinct_set) (simp_all add: go_set)
  show "{t \<in> set (claimTags rng us ps ss name). splitTag t = None} =
      {t \<in> set us \<union> set ss. t \<noteq> [] \<and> splitTag t = None}"
    using sp by (auto simp: st [OF assms(1)])
  have "map_of (TagListToMap (claimTags rng us ps ss name)) = map_of (claimMap us ps ss name)"
  proof (rule map_of_TagListToMap_set)
    show "wf_map (claimMap us ps ss name)" by (simp add: claimMap_def)
    show "\<forall>t \<in> set (claimTags rng us ps ss name). \<forall>kv. splitTag t = Some kv \<longrightarrow> kv \<in> set (claimMap us ps ss name)"
      using sp by (auto simp: st [OF assms(1)])
    show "\<forall>kv \<in> set (claimMap us ps ss name). kvTag (fst kv) (snd kv) \<in> set (claimTags rng us ps ss name) \<and> valid_kv kv"
      using claimMap_valid [OF assms(3)] by (force simp: st [OF assms(1)])
  qed
  then show "map_of (TagListToMap (claimTags rng us ps ss name)) =
      (map_of (TagListToMap us) ++ map_of (TagListToMap ps) ++ map_of (TagListToMap ss))
        (NodeClaimTagKey \<mapsto> NormalizeNodeClaimTagValue name)"
    by (simp add: claimMap_def map_of_claim)
qed

lemma claim_tags_merge_witness:
  "map_of (TagListToMap (claimTags (\<lambda>m. m) [''env=prod'', ''opaque''] [''pool=p''] [''env=dev''] ''web'')) ''env'' = Some ''dev''"
proof -
  have "map_of (TagListToMap [''env=prod'', ''opaque'']) ++ map_of (TagListToMap [''pool=p'']) ++ map_of (TagListToMap [''env=dev'']) =
      [''env'' \<mapsto> ''dev'', ''pool'' \<mapsto> ''p'']"
    by (auto simp: TagListToMap_def splitTag_def IndexRune_def fun_eq_iff map_add_def)
  then show ?thesis
    using claim_tags_merge [OF range_ok_id range_ok_rev, of "''web''" "[''env=prod'', ''opaque'']" "[''pool=p'']" "[''env=dev'']"]
    by (simp add: label_defs)
qed

end
