(* ===== verification/FakeApi.thy ===== *)
theory FakeApi
  imports LinodeApi ProviderIds
begin

text \<open>
  pkg/fake: the in-memory Linode service the repository runs its provider against, as a
  client of type \<open>fake_world linode_api\<close>. It answers from stored instances and node pools
  (linodeapi.go), and each request goes through a mock that can return errors a given
  number of times or canned outputs (types.go, atomic.go). A \<open>sync.Map\<close> is an association list,
  one order in which it may be ranged over. The theories that follow use it to show that
  what they assume of a client can hold, and in their witnesses.
\<close>

section \<open>Mocks\<close>

record AtomicError =
  aeErr :: nilerr
  aeCalls :: int
  aeMaxCalls :: int

definition noError :: AtomicError where
  "noError = \<lparr>aeErr = None, aeCalls = 0, aeMaxCalls = 0\<rparr>"

definition AtomicErrorGet :: "AtomicError \<Rightarrow> nilerr \<times> AtomicError" where
  "AtomicErrorGet e =
     (if aeCalls e \<ge> aeMaxCalls e then (None, e) else (aeErr e, e\<lparr>aeCalls := aeCalls e + 1\<rparr>))"

text \<open>\<open>Set\<close> with the option \<open>MaxCalls\<close>, when there is one: zero or less means without bound.\<close>

definition MaxCalls :: "int \<Rightarrow> int" where
  "MaxCalls maxCalls = (if maxCalls \<le> 0 then 2 ^ 63 - 1 else maxCalls)"

definition AtomicErrorSet :: "err \<Rightarrow> int option \<Rightarrow> AtomicError \<Rightarrow> AtomicError" where
  "AtomicErrorSet e opt a =
     (let a = a\<lparr>aeErr := Some e\<rparr>;
          a = (case opt of Some n \<Rightarrow> a\<lparr>aeMaxCalls := MaxCalls n\<rparr> | None \<Rightarrow> a)
      in if aeMaxCalls a = 0 then a\<lparr>aeMaxCalls := 1\<rparr> else a)"

record ('i, 'o) MockedFunction =
  mockOutput :: "'o option"
  mockMultiOut :: "'o list"
  mockCalledWithInput :: "'i list"
  mockError :: AtomicError
  mockSuccessfulCalls :: int
  mockFailedCalls :: int

definition newMock :: "('i, 'o) MockedFunction" where
  "newMock = \<lparr>mockOutput = None, mockMultiOut = [], mockCalledWithInput = [], mockError = noError,
     mockSuccessfulCalls = 0, mockFailedCalls = 0\<rparr>"

text \<open>
  \<open>Invoke\<close>: the output and the error of a call (either may be nil), the mock and the world
  after it.
\<close>

definition Invoke :: "('i, 'o) MockedFunction \<Rightarrow> 'i \<Rightarrow> ('w \<Rightarrow> ('o option \<times> nilerr) \<times> 'w) \<Rightarrow> 'w \<Rightarrow>
    ('o option \<times> nilerr) \<times> ('i, 'o) MockedFunction \<times> 'w" where
  "Invoke m input defaultTransformer w =
     (case AtomicErrorGet (mockError m) of
        (Some e, ae) \<Rightarrow> ((None, Some e), m\<lparr>mockError := ae, mockFailedCalls := mockFailedCalls m + 1\<rparr>, w)
      | (None, ae) \<Rightarrow>
        let m = m\<lparr>mockError := ae, mockCalledWithInput := mockCalledWithInput m @ [input]\<rparr>
        in case mockOutput m of
             Some out \<Rightarrow> ((Some out, None), m\<lparr>mockSuccessfulCalls := mockSuccessfulCalls m + 1\<rparr>, w)
           | None \<Rightarrow>
             if mockMultiOut m \<noteq> []
             then ((Some (last (mockMultiOut m)), None),
                   m\<lparr>mockMultiOut := butlast (mockMultiOut m), mockSuccessfulCalls := mockSuccessfulCalls m + 1\<rparr>, w)
             else case defaultTransformer w of
               ((out, Some e), w) \<Rightarrow> ((out, Some e), m\<lparr>mockFailedCalls := mockFailedCalls m + 1\<rparr>, w)
             | ((out, None), w) \<Rightarrow> ((out, None), m\<lparr>mockSuccessfulCalls := mockSuccessfulCalls m + 1\<rparr>, w))"

section \<open>The stored world\<close>

record fake_world =
  Instances :: "(int, LinodeInstance) gomap"
  NodePools :: "(int \<times> int, LKENodePool) gomap"
  InsufficientCapacityPools :: "(string \<times> string) list"
  ListTypesOutput :: "LinodeType list option"
  GetRegionAvailabilityOutput :: "RegionAvailability list option"
  FakeClusterTier :: string
  FakeClusterVersion :: string
  FakeTime :: int
  GetTypeBehavior :: "(string, LinodeType) MockedFunction"
  GetRegionAvailabilityBehavior :: "(string, RegionAvailability list) MockedFunction"
  CreateInstanceBehavior :: "(InstanceCreateOptions, LinodeInstance) MockedFunction"
  GetInstanceBehavior :: "(int, LinodeInstance) MockedFunction"
  DeleteInstanceBehavior :: "(int, unit) MockedFunction"
  ListInstancesBehavior :: "(api_filter, LinodeInstance list) MockedFunction"
  CreateTagsBehavior :: "(int list \<times> string, unit) MockedFunction"
  CreateLKENodePoolBehavior :: "(int \<times> LKENodePoolCreateOptions, LKENodePool) MockedFunction"
  GetLKEClusterBehavior :: "(int, LKECluster) MockedFunction"
  ListLKENodePoolsBehavior :: "(int, LKENodePool list) MockedFunction"
  GetLKENodePoolBehavior :: "(int \<times> int, LKENodePool) MockedFunction"
  UpdateLKENodePoolBehavior :: "(int \<times> int \<times> LKENodePoolUpdateOptions, LKENodePool) MockedFunction"
  DeleteLKENodePoolBehavior :: "(int \<times> int, unit) MockedFunction"
  DeleteLKENodePoolNodeBehavior :: "(int \<times> string, unit) MockedFunction"
  UpdateInstanceBehavior :: "(int \<times> string list, LinodeInstance) MockedFunction"

definition DefaultRegion :: string where "DefaultRegion = ''us-east''"
definition DefaultClusterID :: int where "DefaultClusterID = 12345"
definition DefaultClusterName :: string where "DefaultClusterName = ''test-cluster''"
definition DefaultClusterTier :: string where "DefaultClusterTier = ''standard''"
definition DefaultClusterVersion :: string where "DefaultClusterVersion = ''1.31''"

definition NewFakeWorld :: fake_world where
  "NewFakeWorld = \<lparr>Instances = [], NodePools = [], InsufficientCapacityPools = [], ListTypesOutput = None,
     GetRegionAvailabilityOutput = None, FakeClusterTier = DefaultClusterTier,
     FakeClusterVersion = DefaultClusterVersion, FakeTime = 0, GetTypeBehavior = newMock,
     GetRegionAvailabilityBehavior = newMock, CreateInstanceBehavior = newMock, GetInstanceBehavior = newMock,
     DeleteInstanceBehavior = newMock, ListInstancesBehavior = newMock, CreateTagsBehavior = newMock,
     CreateLKENodePoolBehavior = newMock, GetLKEClusterBehavior = newMock, ListLKENodePoolsBehavior = newMock,
     GetLKENodePoolBehavior = newMock, UpdateLKENodePoolBehavior = newMock, DeleteLKENodePoolBehavior = newMock,
     DeleteLKENodePoolNodeBehavior = newMock, UpdateInstanceBehavior = newMock\<rparr>"

definition sampleLinodeType :: "string \<Rightarrow> string \<Rightarrow> int \<Rightarrow> int \<Rightarrow> int \<Rightarrow> int \<Rightarrow> int \<Rightarrow> int \<Rightarrow> int \<Rightarrow> rat \<Rightarrow> LinodeType" where
  "sampleLinodeType i cls mem cpus gpus acc disk transfer out hourly =
     \<lparr>LtID = i, LtClass = cls, LtMemory = mem, LtVCPUs = cpus, LtGPUs = gpus, LtAcceleratedDevices = acc,
      LtDisk = disk, LtTransfer = transfer, LtNetworkOut = out, LtHourly = Some hourly\<rparr>"

definition defaultLinodeTypeList :: "LinodeType list" where
  "defaultLinodeTypeList =
     [sampleLinodeType ''g6-standard-2'' ''standard'' 4096 2 0 0 81920 1000 1000 (3 / 100),
      sampleLinodeType ''g6-standard-4'' ''standard'' 8192 4 0 0 163840 2000 2000 (6 / 100),
      sampleLinodeType ''g6-dedicated-4'' ''standard'' 8192 4 0 0 163840 2000 2000 (9 / 100),
      sampleLinodeType ''g1-gpu-rtx6000-4'' ''gpu'' 131072 24 4 0 2621440 20000 10000 6,
      sampleLinodeType ''g1-accelerated-netint-vpu-t1u2-s'' ''accelerated'' 24576 12 0 2 307200 0 16000 (73 / 100)]"

text \<open>The structured errors; \<open>apiNotFound\<close> stands for the literal \<open>linodego.Error\<close> values.\<close>

definition NewLinodeAPIError :: "int \<Rightarrow> (string \<times> string) list \<Rightarrow> err" where
  "NewLinodeAPIError statusCode reasons = LinodeErr statusCode [] (Some (Some reasons))"

definition PlanUnavailableReason :: "string \<Rightarrow> string \<times> string" where
  "PlanUnavailableReason instanceType = (''type'', ''The Linode plan '' @ instanceType @
     '' is not currently available in the selected region. Please select another region or plan type, or contact Support for assistance.'')"

definition NewPlanUnavailableError :: "string \<Rightarrow> err" where
  "NewPlanUnavailableError instanceType = NewLinodeAPIError 400 [PlanUnavailableReason instanceType]"

definition apiNotFound :: "string \<Rightarrow> err" where
  "apiNotFound msg = LinodeErr 404 msg None"

text \<open>How a client method turns the pair of a mock into its two results.\<close>

definition outRes :: "'o option \<times> nilerr \<Rightarrow> 'o res" where
  "outRes r = (case r of (out, Some e) \<Rightarrow> Inl e | (Some x, None) \<Rightarrow> Inr x
     | (None, None) \<Rightarrow> Inl (Errorf ''nil result without an error'' [] []))"

definition outList :: "'o list option \<times> nilerr \<Rightarrow> 'o list res" where
  "outList r = (case r of (out, Some e) \<Rightarrow> Inl e | (Some xs, None) \<Rightarrow> Inr xs | (None, None) \<Rightarrow> Inr [])"

section \<open>Instances\<close>

definition findLinodeType :: "string \<Rightarrow> fake_world \<Rightarrow> (LinodeType option \<times> nilerr) \<times> fake_world" where
  "findLinodeType typeID w =
     (case find (\<lambda>t. LtID t = typeID) defaultLinodeTypeList of
        Some t \<Rightarrow> ((Some t, None), w)
      | None \<Rightarrow> ((None, Some (apiNotFound (''no linode type found with id '' @ typeID))), w))"

definition fakeGetType :: "string \<Rightarrow> fake_world \<Rightarrow> LinodeType res \<times> fake_world" where
  "fakeGetType typeID w = (case Invoke (GetTypeBehavior w) typeID (findLinodeType typeID) w of
     (r, m, w) \<Rightarrow> (outRes r, w\<lparr>GetTypeBehavior := m\<rparr>))"

definition fakeGetRegionAvailability :: "string \<Rightarrow> fake_world \<Rightarrow> RegionAvailability list res \<times> fake_world" where
  "fakeGetRegionAvailability regionID w =
     (case Invoke (GetRegionAvailabilityBehavior w) regionID (\<lambda>w. ((GetRegionAvailabilityOutput w, None), w)) w of
        (r, m, w) \<Rightarrow> (outList r, w\<lparr>GetRegionAvailabilityBehavior := m\<rparr>))"

definition loadInstance :: "int \<Rightarrow> fake_world \<Rightarrow> (LinodeInstance option \<times> nilerr) \<times> fake_world" where
  "loadInstance linodeID w =
     (case map_of (Instances w) linodeID of
        None \<Rightarrow> ((None, Some (apiNotFound (''instance does not exist with id '' @ Itoa linodeID))), w)
      | Some i \<Rightarrow> ((Some i, None), w))"

definition fakeGetInstance :: "int \<Rightarrow> fake_world \<Rightarrow> LinodeInstance res \<times> fake_world" where
  "fakeGetInstance linodeID w = (case Invoke (GetInstanceBehavior w) linodeID (loadInstance linodeID) w of
     (r, m, w) \<Rightarrow> (outRes r, w\<lparr>GetInstanceBehavior := m\<rparr>))"

definition blankInstance :: LinodeInstance where
  "blankInstance = \<lparr>LiID = 0, LiCreated = None, LiRegion = [], LiImage = [], LiGroup = [], LiLabel = [],
     LiType = [], LiStatus = [], LiWatchdogEnabled = False, LiTags = [], LiPlacementGroup = None,
     LiDiskEncryption = [], LiInterfaceGeneration = [], LiLKEClusterID = 0\<rparr>"

definition storeInstance :: "LinodeInstance \<Rightarrow> fake_world \<Rightarrow> fake_world" where
  "storeInstance i w = w\<lparr>Instances := AList.update (LiID i) i (Instances w)\<rparr>"

definition dropInstance :: "int \<Rightarrow> fake_world \<Rightarrow> fake_world" where
  "dropInstance i w = w\<lparr>Instances := AList.delete i (Instances w)\<rparr>"

definition newInstance :: "InstanceCreateOptions \<Rightarrow> fake_world \<Rightarrow> (LinodeInstance option \<times> nilerr) \<times> fake_world" where
  "newInstance opts w =
     (if (OptType opts, OptRegion opts) \<in> set (InsufficientCapacityPools w)
      then ((None, Some (LinodeErr 400 (''Insufficient capacity for instance type '' @ OptType opts @
              '' in region '' @ OptRegion opts) None)), w)
      else let i = blankInstance\<lparr>LiID := int (length (OptLabel opts)) + 1, LiImage := OptImage opts,
                 LiLabel := OptLabel opts, LiType := OptType opts, LiRegion := OptRegion opts,
                 LiCreated := Some (FakeTime w), LiStatus := ''running''\<rparr>
           in ((Some i, None), storeInstance i w))"

definition fakeCreateInstance :: "InstanceCreateOptions \<Rightarrow> fake_world \<Rightarrow> LinodeInstance res \<times> fake_world" where
  "fakeCreateInstance opts w = (case Invoke (CreateInstanceBehavior w) opts (newInstance opts) w of
     (r, m, w) \<Rightarrow> (outRes r, w\<lparr>CreateInstanceBehavior := m\<rparr>))"

text \<open>
  The tag filters the fake reads out of a list request: a single field \<open>tags\<close> with one value, as
  an exact list separated by commas or as a contained string. Several fields of that name, or several values, have
  JSON shapes that are the library's; the fake ignores the shapes it does not know.
\<close>

record tagFilter =
  tfValue :: string
  tfContains :: bool

definition extractTagsFromFilter :: "api_filter \<Rightarrow> tagFilter list" where
  "extractTagsFromFilter f = (case f of
     [(op, k, [v])] \<Rightarrow>
       if k \<noteq> ''tags'' then []
       else (case op of
         FilterEq \<Rightarrow> map (\<lambda>tag. \<lparr>tfValue = tag, tfContains = False\<rparr>) (filter (\<lambda>tag. tag \<noteq> []) (split_on (CHR '','') v))
       | FilterContains \<Rightarrow> [\<lparr>tfValue = v, tfContains = True\<rparr>])
   | _ \<Rightarrow> [])"

definition instanceMatchesTags :: "LinodeInstance \<Rightarrow> tagFilter list \<Rightarrow> bool" where
  "instanceMatchesTags i filters \<longleftrightarrow> list_all (\<lambda>f. list_ex
     (\<lambda>instTag. if tfContains f then strings_Contains instTag (tfValue f) else instTag = tfValue f) (LiTags i)) filters"

definition fakeListInstances :: "api_filter \<Rightarrow> fake_world \<Rightarrow> LinodeInstance list res \<times> fake_world" where
  "fakeListInstances f w =
     (case Invoke (ListInstancesBehavior w) f
         (\<lambda>w. ((Some (filter (\<lambda>i. instanceMatchesTags i (extractTagsFromFilter f)) (map snd (Instances w))), None), w)) w of
        (r, m, w) \<Rightarrow> (outList r, w\<lparr>ListInstancesBehavior := m\<rparr>))"

definition fakeDeleteInstance :: "int \<Rightarrow> fake_world \<Rightarrow> nilerr \<times> fake_world" where
  "fakeDeleteInstance linodeID w =
     (case Invoke (DeleteInstanceBehavior w) linodeID (\<lambda>w. ((None, None), dropInstance linodeID w)) w of
        ((_, e), m, w) \<Rightarrow> (e, w\<lparr>DeleteInstanceBehavior := m\<rparr>))"

fun appendTag :: "int list \<Rightarrow> string \<Rightarrow> fake_world \<Rightarrow> (unit option \<times> nilerr) \<times> fake_world" where
  "appendTag [] l w = ((Some (), None), w)"
| "appendTag (i # is) l w =
     (case map_of (Instances w) i of
        None \<Rightarrow> ((None, Some (apiNotFound (''instance does not exist with id '' @ Itoa i))), w)
      | Some li \<Rightarrow> appendTag is l (w\<lparr>Instances := AList.update i (li\<lparr>LiTags := LiTags li @ [l]\<rparr>) (Instances w)\<rparr>))"

definition fakeCreateTag :: "int list \<Rightarrow> string \<Rightarrow> fake_world \<Rightarrow> nilerr \<times> fake_world" where
  "fakeCreateTag is l w = (case Invoke (CreateTagsBehavior w) (is, l) (appendTag is l) w of
     ((_, e), m, w) \<Rightarrow> (e, w\<lparr>CreateTagsBehavior := m\<rparr>))"

definition setTags :: "int \<Rightarrow> string list \<Rightarrow> fake_world \<Rightarrow> (LinodeInstance option \<times> nilerr) \<times> fake_world" where
  "setTags linodeID tags w =
     (case map_of (Instances w) linodeID of
        None \<Rightarrow> ((None, Some (apiNotFound (''instance does not exist with id '' @ Itoa linodeID))), w)
      | Some i \<Rightarrow> let i = i\<lparr>LiTags := tags\<rparr>
                 in ((Some i, None), w\<lparr>Instances := AList.update linodeID i (Instances w)\<rparr>))"

definition fakeUpdateInstance :: "int \<Rightarrow> string list \<Rightarrow> fake_world \<Rightarrow> LinodeInstance res \<times> fake_world" where
  "fakeUpdateInstance linodeID tags w =
     (case Invoke (UpdateInstanceBehavior w) (linodeID, tags) (setTags linodeID tags) w of
        (r, m, w) \<Rightarrow> (outRes r, w\<lparr>UpdateInstanceBehavior := m\<rparr>))"

definition fakeListTypes :: "fake_world \<Rightarrow> LinodeType list res \<times> fake_world" where
  "fakeListTypes w = (Inr (case ListTypesOutput w of None \<Rightarrow> [] | Some ts \<Rightarrow> ts), w)"

section \<open>Node pools\<close>

definition newNode :: "string \<Rightarrow> string list \<Rightarrow> int \<Rightarrow> int \<Rightarrow> nat \<Rightarrow> LinodeInstance" where
  "newNode typ tags cluster poolID i = blankInstance\<lparr>LiID := 1000 + poolID * 10 + int i,
     LiLabel := ''node-'' @ Itoa (int i), LiType := typ, LiRegion := DefaultRegion, LiStatus := ''running'',
     LiTags := tags, LiLKEClusterID := cluster\<rparr>"

definition nodeOf :: "int \<Rightarrow> nat \<Rightarrow> LKENodePoolLinode" where
  "nodeOf poolID i = \<lparr>NodeID = ''instance-'' @ Itoa poolID @ ''-'' @ Itoa (int i),
     NodeInstanceID = 1000 + poolID * 10 + int i\<rparr>"

definition addNodes :: "string \<Rightarrow> string list \<Rightarrow> int \<Rightarrow> int \<Rightarrow> nat list \<Rightarrow> fake_world \<Rightarrow> fake_world" where
  "addNodes typ tags cluster poolID is w = fold (\<lambda>i. storeInstance (newNode typ tags cluster poolID i)) is w"

definition newPool :: "int \<Rightarrow> LKENodePoolCreateOptions \<Rightarrow> fake_world \<Rightarrow> (LKENodePool option \<times> nilerr) \<times> fake_world" where
  "newPool cluster opts w =
     (if (CreateType opts, DefaultRegion) \<in> set (InsufficientCapacityPools w)
      then ((None, Some (NewPlanUnavailableError (CreateType opts))), w)
      else
        let poolID = 100 + int (length (NodePools w));
            is = [0 ..< nat (CreateCount opts)];
            pool = \<lparr>PoolID = poolID, PoolType = CreateType opts, PoolCount = CreateCount opts,
              PoolTags = CreatePoolTags opts, PoolLabels = CreateLabels opts, PoolTaints = CreateTaints opts,
              PoolLinodes = map (nodeOf poolID) is, PoolK8sVersion = None, PoolUpdateStrategy = None\<rparr>;
            w = addNodes (CreateType opts) (CreatePoolTags opts) cluster poolID is w
        in ((Some pool, None), w\<lparr>NodePools := AList.update (cluster, poolID) pool (NodePools w)\<rparr>))"

definition fakeCreateLKENodePool :: "int \<Rightarrow> LKENodePoolCreateOptions \<Rightarrow> fake_world \<Rightarrow> LKENodePool res \<times> fake_world" where
  "fakeCreateLKENodePool cluster opts w =
     (case Invoke (CreateLKENodePoolBehavior w) (cluster, opts) (newPool cluster opts) w of
        (r, m, w) \<Rightarrow> (outRes r, w\<lparr>CreateLKENodePoolBehavior := m\<rparr>))"

definition poolsOf :: "int \<Rightarrow> fake_world \<Rightarrow> LKENodePool list" where
  "poolsOf cluster w = map snd (filter (\<lambda>((c, i), pool). c = cluster) (NodePools w))"

definition fakeListLKENodePools :: "int \<Rightarrow> fake_world \<Rightarrow> LKENodePool list res \<times> fake_world" where
  "fakeListLKENodePools cluster w =
     (case Invoke (ListLKENodePoolsBehavior w) cluster (\<lambda>w. ((Some (poolsOf cluster w), None), w)) w of
        (r, m, w) \<Rightarrow> (outList r, w\<lparr>ListLKENodePoolsBehavior := m\<rparr>))"

definition noPoolErr :: "int \<Rightarrow> int \<Rightarrow> err" where
  "noPoolErr cluster poolID = apiNotFound (''node pool does not exist with id '' @ Itoa poolID @ '' in cluster '' @ Itoa cluster)"

definition loadPool :: "int \<Rightarrow> int \<Rightarrow> fake_world \<Rightarrow> (LKENodePool option \<times> nilerr) \<times> fake_world" where
  "loadPool cluster poolID w =
     (case map_of (NodePools w) (cluster, poolID) of
        None \<Rightarrow> ((None, Some (noPoolErr cluster poolID)), w)
      | Some pool \<Rightarrow> ((Some pool, None), w))"

definition fakeGetLKENodePool :: "int \<Rightarrow> int \<Rightarrow> fake_world \<Rightarrow> LKENodePool res \<times> fake_world" where
  "fakeGetLKENodePool cluster poolID w =
     (case Invoke (GetLKENodePoolBehavior w) (cluster, poolID) (loadPool cluster poolID) w of
        (r, m, w) \<Rightarrow> (outRes r, w\<lparr>GetLKENodePoolBehavior := m\<rparr>))"

text \<open>Scaling a stored pool up or down, or refusing to.\<close>

definition resizePool :: "int \<Rightarrow> LKENodePool \<Rightarrow> int \<Rightarrow> fake_world \<Rightarrow> (LKENodePool + err) \<times> fake_world" where
  "resizePool cluster pool wanted w =
     (let n = length (PoolLinodes pool)
      in if wanted > 0 \<and> wanted > PoolCount pool
         then
           if (PoolType pool, DefaultRegion) \<in> set (InsufficientCapacityPools w)
           then (Inr (LinodeErr 400 (''Insufficient capacity for instance type '' @ PoolType pool @ '' in region '' @ DefaultRegion) None), w)
           else let is = [n ..< nat wanted]
                in (Inl (pool\<lparr>PoolLinodes := PoolLinodes pool @ map (nodeOf (PoolID pool)) is, PoolCount := wanted\<rparr>),
                    addNodes (PoolType pool) (PoolTags pool) cluster (PoolID pool) is w)
         else if wanted > 0 \<and> wanted < PoolCount pool
         then (Inl (pool\<lparr>PoolLinodes := take (nat wanted) (PoolLinodes pool), PoolCount := wanted\<rparr>),
               fold (\<lambda>node. dropInstance (NodeInstanceID node)) (drop (nat wanted) (PoolLinodes pool)) w)
         else (Inl pool, w))"

definition updatePool :: "int \<Rightarrow> int \<Rightarrow> LKENodePoolUpdateOptions \<Rightarrow> fake_world \<Rightarrow>
    (LKENodePool option \<times> nilerr) \<times> fake_world" where
  "updatePool cluster poolID opts w =
     (case map_of (NodePools w) (cluster, poolID) of
        None \<Rightarrow> ((None, Some (noPoolErr cluster poolID)), w)
      | Some pool \<Rightarrow>
        (case resizePool cluster pool (UpdateCount opts) w of
           (Inr e, w) \<Rightarrow> ((None, Some e), w)
         | (Inl pool, w) \<Rightarrow>
           let pool = (case UpdateK8sVersion opts of Some v \<Rightarrow> pool\<lparr>PoolK8sVersion := Some v\<rparr> | None \<Rightarrow> pool);
               pool = (case UpdateStrategy opts of Some v \<Rightarrow> pool\<lparr>PoolUpdateStrategy := Some v\<rparr> | None \<Rightarrow> pool)
           in ((Some pool, None), w\<lparr>NodePools := AList.update (cluster, poolID) pool (NodePools w)\<rparr>)))"

definition fakeUpdateLKENodePool :: "int \<Rightarrow> int \<Rightarrow> LKENodePoolUpdateOptions \<Rightarrow> fake_world \<Rightarrow> LKENodePool res \<times> fake_world" where
  "fakeUpdateLKENodePool cluster poolID opts w =
     (case Invoke (UpdateLKENodePoolBehavior w) (cluster, poolID, opts) (updatePool cluster poolID opts) w of
        (r, m, w) \<Rightarrow> (outRes r, w\<lparr>UpdateLKENodePoolBehavior := m\<rparr>))"

definition removePool :: "int \<Rightarrow> int \<Rightarrow> fake_world \<Rightarrow> (unit option \<times> nilerr) \<times> fake_world" where
  "removePool cluster poolID w =
     (case map_of (NodePools w) (cluster, poolID) of
        None \<Rightarrow> ((None, Some (noPoolErr cluster poolID)), w)
      | Some pool \<Rightarrow>
          let w = fold (\<lambda>node. dropInstance (NodeInstanceID node)) (PoolLinodes pool) w
          in ((None, None), w\<lparr>NodePools := AList.delete (cluster, poolID) (NodePools w)\<rparr>))"

definition fakeDeleteLKENodePool :: "int \<Rightarrow> int \<Rightarrow> fake_world \<Rightarrow> nilerr \<times> fake_world" where
  "fakeDeleteLKENodePool cluster poolID w =
     (case Invoke (DeleteLKENodePoolBehavior w) (cluster, poolID) (removePool cluster poolID) w of
        ((_, e), m, w) \<Rightarrow> (e, w\<lparr>DeleteLKENodePoolBehavior := m\<rparr>))"

text \<open>The first pool of the cluster with a node of the id, and that node.\<close>

definition locateNode :: "int \<Rightarrow> string \<Rightarrow> fake_world \<Rightarrow> ((int \<times> int) \<times> LKENodePool \<times> LKENodePoolLinode) option" where
  "locateNode cluster nodeID w =
     (case find (\<lambda>((c, i), pool). c = cluster \<and> list_ex (\<lambda>n. NodeID n = nodeID) (PoolLinodes pool)) (NodePools w) of
        None \<Rightarrow> None
      | Some (key, pool) \<Rightarrow> map_option (\<lambda>n. (key, pool, n)) (find (\<lambda>n. NodeID n = nodeID) (PoolLinodes pool)))"

definition removeNode :: "int \<Rightarrow> string \<Rightarrow> fake_world \<Rightarrow> (unit option \<times> nilerr) \<times> fake_world" where
  "removeNode cluster nodeID w =
     (case locateNode cluster nodeID w of
        None \<Rightarrow> ((None, Some (apiNotFound (''node '' @ nodeID @ '' not found in cluster '' @ Itoa cluster))), w)
      | Some (key, pool, node) \<Rightarrow>
          let w = dropInstance (NodeInstanceID node) w;
              nodes = remove1 node (PoolLinodes pool);
              pool = pool\<lparr>PoolLinodes := nodes, PoolCount := int (length nodes)\<rparr>
          in ((None, None),
              w\<lparr>NodePools := (if nodes = [] then AList.delete key (NodePools w) else AList.update key pool (NodePools w))\<rparr>))"

definition fakeDeleteLKENodePoolNode :: "int \<Rightarrow> string \<Rightarrow> fake_world \<Rightarrow> nilerr \<times> fake_world" where
  "fakeDeleteLKENodePoolNode cluster nodeID w =
     (case Invoke (DeleteLKENodePoolNodeBehavior w) (cluster, nodeID) (removeNode cluster nodeID) w of
        ((_, e), m, w) \<Rightarrow> (e, w\<lparr>DeleteLKENodePoolNodeBehavior := m\<rparr>))"

section \<open>Clusters, and the client\<close>

definition defaultCluster :: "fake_world \<Rightarrow> LKECluster" where
  "defaultCluster w = \<lparr>ClusterID = DefaultClusterID, ClusterLabel = DefaultClusterName,
     ClusterRegion = DefaultRegion, ClusterK8sVersion = FakeClusterVersion w, ClusterTierName = FakeClusterTier w\<rparr>"

definition fakeListLKEClusters :: "api_filter \<Rightarrow> fake_world \<Rightarrow> LKECluster list res \<times> fake_world" where
  "fakeListLKEClusters f w = (Inr [defaultCluster w], w)"

definition fakeGetLKECluster :: "int \<Rightarrow> fake_world \<Rightarrow> LKECluster res \<times> fake_world" where
  "fakeGetLKECluster cluster w =
     (case Invoke (GetLKEClusterBehavior w) cluster
         (\<lambda>w. (if cluster \<noteq> DefaultClusterID
               then (None, Some (apiNotFound (''cluster does not exist with id '' @ Itoa cluster)))
               else (Some (defaultCluster w), None), w)) w of
        (r, m, w) \<Rightarrow> (outRes r, w\<lparr>GetLKEClusterBehavior := m\<rparr>))"

definition fakeClient :: "fake_world linode_api" where
  "fakeClient = \<lparr>ListTypes = fakeListTypes, GetType = fakeGetType,
     GetRegionAvailability = fakeGetRegionAvailability, GetInstance = fakeGetInstance,
     DeleteInstance = fakeDeleteInstance, ListInstances = fakeListInstances, CreateTag = fakeCreateTag,
     CreateInstance = fakeCreateInstance, UpdateInstance = fakeUpdateInstance,
     GetLKECluster = fakeGetLKECluster, ListLKEClusters = fakeListLKEClusters,
     CreateLKENodePool = fakeCreateLKENodePool, ListLKENodePools = fakeListLKENodePools,
     GetLKENodePool = fakeGetLKENodePool, UpdateLKENodePool = fakeUpdateLKENodePool,
     DeleteLKENodePool = fakeDeleteLKENodePool, DeleteLKENodePoolNode = fakeDeleteLKENodePoolNode\<rparr>"

text \<open>A clock for the fake: only sleeping takes time.\<close>

definition fakeRuntime :: "fake_world runtime" where
  "fakeRuntime = \<lparr>Now = FakeTime, Sleep = (\<lambda>d w. w\<lparr>FakeTime := FakeTime w + max 0 d\<rparr>),
     CtxErr = (\<lambda>w. None), NewUUID = (\<lambda>w. (''00000000-0000-4000-8000-000000000000'', w))\<rparr>"

section \<open>The clock\<close>

lemma Invoke_frame:
  assumes "\<And>w. f (snd (g w)) = f w"
  shows "f (snd (snd (Invoke m i g w))) = f w"
  using assms [of w]
  by (auto simp: Invoke_def Let_def split: prod.splits option.splits)

lemma FakeTime_simps [simp]:
  "FakeTime (storeInstance i w) = FakeTime w" "FakeTime (dropInstance n w) = FakeTime w"
  "FakeTime (addNodes typ ts c k is w) = FakeTime w"
  "FakeTime (fold (\<lambda>node. dropInstance (NodeInstanceID node)) ns w) = FakeTime w"
proof -
  show "FakeTime (addNodes typ ts c k is w) = FakeTime w"
    unfolding addNodes_def by (induction "is" arbitrary: w) (simp_all add: storeInstance_def)
  show "FakeTime (fold (\<lambda>node. dropInstance (NodeInstanceID node)) ns w) = FakeTime w"
    by (induction ns arbitrary: w) (simp_all add: dropInstance_def)
qed (simp_all add: storeInstance_def dropInstance_def)

lemma FakeTime_steps [simp]:
  "FakeTime (snd (loadInstance n w)) = FakeTime w" "FakeTime (snd (setTags n ts w)) = FakeTime w"
  "FakeTime (snd (newPool c opts w)) = FakeTime w" "FakeTime (snd (loadPool c k w)) = FakeTime w"
  "FakeTime (snd (updatePool c k uo w)) = FakeTime w"
  by (auto simp: loadInstance_def setTags_def newPool_def loadPool_def updatePool_def resizePool_def Let_def
      split: option.splits sum.splits prod.splits if_splits)

lemma FakeTime_Invoke:
  assumes "\<And>w. FakeTime (snd (g w)) = FakeTime w" "\<And>m w. FakeTime (k m w) = FakeTime w"
  shows "FakeTime (snd (case Invoke m i g w of (r, m, w) \<Rightarrow> (h r, k m w))) = FakeTime w"
  using Invoke_frame [of FakeTime g m i w] assms by (simp add: case_prod_beta)

lemma fake_clock: "clock_ok fakeClient fakeRuntime"
  unfolding clock_ok_def fakeClient_def fakeRuntime_def
  by (simp add: FakeTime_Invoke fakeGetRegionAvailability_def fakeGetInstance_def fakeListInstances_def
      fakeUpdateInstance_def fakeCreateLKENodePool_def fakeListLKENodePools_def
      fakeGetLKENodePool_def fakeUpdateLKENodePool_def)

end
