(* ===== verification/LkeSample.thy ===== *)
theory LkeSample
  imports LkeCreateProps LkeInstances ClaimProps FakeApi
begin

text \<open>
  A concrete LKE provider on the in-memory service, for the witnesses: the documented error
  functions, a scheduler that compares labels, timed maps as caches, and a recorded client.
\<close>

definition sampleConfig :: ProviderConfig where
  "sampleConfig = withDefaults \<lparr>CreateDeadline = 0, TagVerificationTimeout = 0, RetryDelay = 0,
     BackoffBase = 0, BackoffMax = 0\<rparr>"

type_synonym ('w) sample_lke = "('w, Instance timed, backoffEntry timed, unit timed) lke"
type_synonym ('w) sample_state = "('w, Instance timed, backoffEntry timed, unit timed) lke_state"

definition sampleLke :: "'w linode_api \<Rightarrow> 'w runtime \<Rightarrow> 'w sample_lke" where
  "sampleLke a r = \<lparr>clusterID = DefaultClusterID, clusterTier = DefaultClusterTier,
     clusterName = DefaultClusterName, region = DefaultRegion, config = sampleConfig, client = a, rt = r,
     errlib = documented_lib, scheduling = label_sched, nodeOps = timed_ops (seconds 300),
     backoffOps = timed_ops hour, markOps = timed_ops UnavailableOfferingsTTL, rangeOrder = (\<lambda>m. m)\<rparr>"

definition sampleState :: "'w \<Rightarrow> 'w sample_state" where
  "sampleState w = NewLkeState sampleConfig w [] [] (NewUnavailableOfferings [])"

definition freshState :: "fake_world \<Rightarrow> (fake_world \<times> log) sample_state" where
  "freshState w = sampleState (w, [])"

definition sampleSpec :: LinodeNodeClassSpec where
  "sampleSpec = \<lparr>AuthorizedKeys = [], AuthorizedUsers = [], Image = [], BackupsEnabled = False,
     SpecTags = [''env=dev''], FirewallID = None, OSDisk = None, DataDisks = None, DiskEncryption = [],
     Configuration = None, PlacementGroup = None, VPCID = None, IPv6Options = None, SwapSize = None,
     Kubelet = None, LKEK8sVersion = None\<rparr>"

definition sampleNodeClass :: LinodeNodeClass where
  "sampleNodeClass = \<lparr>NodeClassName = ''default'', NodeClassUID = ''uid'', Generation = 1,
     NodeClassAnnotations = [], Finalizers = [], NodeClassDeletion = None, Spec = sampleSpec,
     LinodeImages = [], Conditions = []\<rparr>"

definition sampleClaim :: "string \<Rightarrow> NodeClaim" where
  "sampleClaim name = emptyNodeClaim\<lparr>NodeClaimName := name, NodeClaimLabels := [(NodePoolLabelKey, ''np'')]\<rparr>"

definition sampleTags :: "NodeClaim \<Rightarrow> tagmap" where
  "sampleTags nc = GetTagsForLKE sampleNodeClass nc DefaultClusterName"

text \<open>The recorded provider, and a Create of it that makes a pool and claims its node.\<close>

definition recordedLke :: "(fake_world \<times> log) sample_lke" where
  "recordedLke = sampleLke (logged fakeClient) (logged_rt fakeRuntime)"

definition sampleRun :: "string \<Rightarrow> fake_world \<Rightarrow> (Instance res \<times> (fake_world \<times> log) sample_state) option" where
  "sampleRun name w = Create recordedLke sampleNodeClass (sampleClaim name) (sampleTags (sampleClaim name))
     [sampleType ''g6'' 2] (freshState w)"

lemma recordedLke_simps [simp]:
  "client recordedLke = logged fakeClient" "rt recordedLke = logged_rt fakeRuntime"
  "rangeOrder recordedLke = (\<lambda>m. m)" "scheduling recordedLke = label_sched"
  "config recordedLke = sampleConfig" "errlib recordedLke = documented_lib" "clusterID recordedLke = DefaultClusterID"
  by (simp_all add: recordedLke_def sampleLke_def)

lemma sampleConfig_delay [simp]: "0 < RetryDelay sampleConfig"
  by (simp add: sampleConfig_def withDefaults_def seconds_def)

lemma world_sampleState [simp]: "world (sampleState w) = w"
  by (simp add: sampleState_def NewLkeState_def Let_def)

lemma world_freshState [simp]: "world (freshState w) = (w, [])"
  by (simp add: freshState_def)

lemma sampleRun_evaluates:
  "map_option (\<lambda>(r, s). (map_sum (\<lambda>e. ()) InstID r, length (filter creates_pool (snd (world s))), length (snd (world s))))
     (sampleRun ''web'' NewFakeWorld) = Some (Inr 2000, 1, 8)"
  by code_simp

lemma sampleRun_obtains:
  obtains i s' where "sampleRun ''web'' NewFakeWorld = Some (Inr i, s')" "InstID i = 2000"
    "length (filter creates_pool (snd (world s'))) = 1"
proof -
  obtain r s' where r: "sampleRun ''web'' NewFakeWorld = Some (r, s')"
    "map_sum (\<lambda>e. ()) InstID r = Inr 2000" "length (filter creates_pool (snd (world s'))) = 1"
    using sampleRun_evaluates by auto
  then show ?thesis by (cases r) (auto intro: that)
qed

lemma Create_requests_justified_witness:
  "\<exists>i s' it. sampleRun ''web'' NewFakeWorld = Some (Inr i, s') \<and> InstID i = 2000 \<and>
     length (filter creates_pool (snd (world s'))) = 1 \<and>
     create_audit DefaultClusterID it ''np'' ''web'' None [] False (snd (world s'))"
proof -
  obtain i s' where run: "sampleRun ''web'' NewFakeWorld = Some (Inr i, s')" "InstID i = 2000"
    "length (filter creates_pool (snd (world s'))) = 1" by (rule sampleRun_obtains)
  have np: "labelOf (NodeClaimLabels (sampleClaim ''web'')) NodePoolLabelKey = ''np''" "NodeClaimName (sampleClaim ''web'') = ''web''"
    by (simp_all add: sampleClaim_def labelOf_def)
  have "snd (world s') \<noteq> []" using run(3) by auto
  with Create_requests_justified [of recordedLke fakeClient fakeRuntime sampleNodeClass "sampleClaim ''web''" _ _ _ "Inr i" s',
      OF _ _ _ run(1) [unfolded sampleRun_def]] run
  show ?thesis by (auto simp: range_ok_id np)
qed

lemma Create_returns_witness:
  "\<exists>r s'. Create recordedLke sampleNodeClass (sampleClaim ''web'') [] [sampleType ''g6'' 2] (freshState NewFakeWorld) = Some (r, s')"
  by (rule Create_returns) (simp_all add: label_sched_ok clock_ok_logged fake_clock)

lemma Create_records_one_failure_witness:
  "\<exists>i s'. sampleRun ''web'' NewFakeWorld = Some (Inr i, s') \<and>
     deleteBackoff s' = deleteBackoff (freshState NewFakeWorld)"
proof -
  obtain i s' where run: "sampleRun ''web'' NewFakeWorld = Some (Inr i, s')" by (rule sampleRun_obtains)
  from Create_records_one_failure [OF run [unfolded sampleRun_def]] run show ?thesis by auto
qed

text \<open>A stored pool with one node, and one with two, both of the provider.\<close>

definition sampleStored :: "int \<Rightarrow> fake_world" where
  "sampleStored n = snd (newPool DefaultClusterID (poolCreateOptions recordedLke sampleNodeClass (sampleClaim ''web'')
     (sampleTags (sampleClaim ''web'')) ''g6'' \<lparr>CreateCount := n\<rparr>) NewFakeWorld)"

definition sampleDelete :: "int \<Rightarrow> nilerr \<times> (fake_world \<times> log) sample_state" where
  "sampleDelete n = lkeDelete recordedLke ''2000'' (freshState (sampleStored n))"

lemma sampleDelete_evaluates:
  "map_prod (\<lambda>e. e = None) (\<lambda>s. filter is_sent (snd (world s))) (sampleDelete 1) =
     (True, [Sent (DeletePoolReq 12345 100) True])"
  "map_prod (\<lambda>e. e = None) (\<lambda>s. filter is_sent (snd (world s))) (sampleDelete 2) =
     (True, [Sent (DeleteNodeReq 12345 ''instance-100-0'') True])"
  by code_simp+

lemma Delete_requests_justified_witness:
  "\<exists>e s'. sampleDelete 2 = (e, s') \<and> filter is_sent (snd (world s')) = [Sent (DeleteNodeReq 12345 ''instance-100-0'') True] \<and>
     delete_audit DefaultClusterID 2000 None (snd (world s'))"
proof -
  obtain e s' where run: "sampleDelete 2 = (e, s')" by fastforce
  have "Atoi ''2000'' = Some 2000" by code_simp
  with Delete_requests_justified [of recordedLke fakeClient fakeRuntime "freshState (sampleStored 2)" "sampleStored 2" "''2000''" e s']
    run sampleDelete_evaluates(2) show ?thesis
    by (simp add: sampleDelete_def)
qed

lemma Delete_records_its_result_witness:
  "poolBackoff (snd (sampleDelete 1)) = poolBackoff (freshState (sampleStored 1))"
  using Delete_records_its_result [of recordedLke "''2000''" "freshState (sampleStored 1)" "fst (sampleDelete 1)" "snd (sampleDelete 1)"]
  by (simp add: sampleDelete_def)

end
