(* ===== verification/PoolListing.thy ===== *)
theory PoolListing
  imports LkeSample
begin

text \<open>
  How often one Create can grow a cluster. The loop looks for a matching pool before it
  creates one, so it relies on the listing: the locale \<open>pool_listing\<close> states that a pool, once
  created or listed, is listed from then on. Under that contract one Create grows capacity at
  most once, by one node; the in-memory service interprets it. Without it the loop has
  no other guard: \<open>createdPool\<close> is not asked before a pool is created.
\<close>

section \<open>The contract\<close>

definition createdMatches :: "LKENodePoolCreateOptions \<Rightarrow> string \<Rightarrow> string \<Rightarrow> bool" where
  "createdMatches opts it np \<longleftrightarrow> CreateType opts = it \<and>
     map_of (TagListToMap (CreatePoolTags opts)) NodePoolLabelKey = Some np \<and>
     map_of (TagListToMap (CreatePoolTags opts)) LabelLKEManaged \<noteq> None"

locale pool_listing =
  fixes a :: "'w linode_api"
    and t :: "'w runtime"
    and sees :: "int \<Rightarrow> string \<Rightarrow> string \<Rightarrow> 'w \<Rightarrow> bool"
  assumes create_sees: "CreateLKENodePool a c opts w = (Inr pool, w') \<Longrightarrow> createdMatches opts it np \<Longrightarrow> sees c it np w'"
    and listing: "ListLKENodePools a c w = (Inr pools, w') \<Longrightarrow>
      sees c it np w' = (\<exists>pool \<in> set pools. matchesPoolKey pool it np)"
    and sees_list: "sees c it np w \<Longrightarrow> sees c it np (snd (ListLKENodePools a c' w))"
    and sees_instances: "sees c it np w \<Longrightarrow> sees c it np (snd (ListInstances a f w))"
    and sees_instance: "sees c it np w \<Longrightarrow> sees c it np (snd (GetInstance a i w))"
    and sees_pool: "sees c it np w \<Longrightarrow> sees c it np (snd (GetLKENodePool a c' k w))"
    and sees_region: "sees c it np w \<Longrightarrow> sees c it np (snd (GetRegionAvailability a g w))"
    and sees_tags: "sees c it np w \<Longrightarrow> sees c it np (snd (UpdateInstance a i ts w))"
    and sees_update: "sees c it np w \<Longrightarrow> sees c it np (snd (UpdateLKENodePool a c' k uo w))"
    and sees_sleep: "sees c it np w \<Longrightarrow> sees c it np (Sleep t d w)"

definition grows :: "event \<Rightarrow> bool" where
  "grows ev \<longleftrightarrow> creates_pool ev \<or> scales_pool ev"

definition growth :: "log \<Rightarrow> nat" where
  "growth l = length (filter grows l)"

lemma growth_simps [simp]:
  "growth [] = 0" "growth (ev # l) = (if grows ev then Suc (growth l) else growth l)"
  "growth (l @ l') = growth l + growth l'"
  by (simp_all add: growth_def)

lemma grows_simps [simp]:
  "is_read ev \<Longrightarrow> \<not> grows ev"
  "grows (sent (CreatePoolReq c opts) r) = (\<not> isl r)"
  "grows (sent (UpdatePoolReq c k uo) r2) = (\<not> isl r2 \<and> UpdateK8sVersion uo = None)"
  "\<not> grows (Sent (UpdateInstanceReq i ts) ok)"
  by (auto simp: grows_def not_grows_read sent_def)

lemma reads_growth: "reads l \<Longrightarrow> growth l = 0"
  by (induction l) auto

text \<open>Both record clients and their requests, on a state with a log.\<close>

definition recordsOn :: "('w \<times> log, 'c, 'b, 'u) lke \<Rightarrow> 'w linode_api \<Rightarrow> 'w runtime \<Rightarrow> bool" where
  "recordsOn p a t \<longleftrightarrow> client p = logged a \<and> rt p = logged_rt t"

lemma recordsOn_recording: "recordsOn p a t \<Longrightarrow> recording p"
  by (auto simp: recordsOn_def recording_def)

lemma logged_sel:
  "GetRegionAvailability (logged a) g = recorded asked (GetRegionAvailability a g)"
  "GetInstance (logged a) i = recorded (reply (GotInstance i)) (GetInstance a i)"
  "ListInstances (logged a) f = recorded (reply (ListedInstances f)) (ListInstances a f)"
  "UpdateInstance (logged a) i ts = recorded (sent (UpdateInstanceReq i ts)) (UpdateInstance a i ts)"
  "ListLKENodePools (logged a) c = recorded (reply (ListedPools c)) (ListLKENodePools a c)"
  "CreateLKENodePool (logged a) c os = recorded (sent (CreatePoolReq c os)) (CreateLKENodePool a c os)"
  "GetLKENodePool (logged a) c k = recorded asked (GetLKENodePool a c k)"
  "UpdateLKENodePool (logged a) c k uo = recorded (sent (UpdatePoolReq c k uo)) (UpdateLKENodePool a c k uo)"
  by (simp_all add: logged_def)

lemma fst_world_req: "req (recorded ev f) s = (r, s') \<Longrightarrow> fst (world s') = snd (f (fst (world s)))"
  by (auto simp: req_def recorded_def split: prod.splits)

lemma fst_world_lookup:
  "req (LookupInstanceByTag (logged a) tag) s = (r, s') \<Longrightarrow>
     fst (world s') = snd (ListInstances a [(FilterContains, ''tags'', [tag])] (fst (world s)))"
  by (auto simp: req_def recorded_def LookupInstanceByTag_def logged_def split: prod.splits sum.splits list.splits)

context pool_listing
begin

definition seen :: "('w \<times> log, 'c, 'b, 'u) lke \<Rightarrow> string \<Rightarrow> string \<Rightarrow> ('w \<times> log, 'c, 'b, 'u) lke_state \<Rightarrow> bool" where
  "seen p it np s = sees (clusterID p) it np (fst (world s))"

text \<open>
  A stretch of a Create: whoever has grown a pool sees one, and the stretch grows at most the
  one time that turns the boolean.
\<close>

definition grew_once :: "('w \<times> log, 'c, 'b, 'u) lke \<Rightarrow> string \<Rightarrow> string \<Rightarrow> bool \<Rightarrow> ('w \<times> log, 'c, 'b, 'u) lke_state \<Rightarrow>
    bool \<Rightarrow> ('w \<times> log, 'c, 'b, 'u) lke_state \<Rightarrow> bool" where
  "grew_once p it np g s g' s' \<longleftrightarrow> ((g \<longrightarrow> seen p it np s) \<longrightarrow>
     (g' \<longrightarrow> seen p it np s') \<and> (g \<longrightarrow> g') \<and>
     (\<exists>l. logOf s' = logOf s @ l \<and> growth l + of_bool g \<le> of_bool g'))"

lemma grew_once_refl [simp]: "grew_once p it np g s g s"
  by (simp add: grew_once_def)

lemma grew_once_trans: "grew_once p it np g s g1 s1 \<Longrightarrow> grew_once p it np g1 s1 g2 s2 \<Longrightarrow> grew_once p it np g s g2 s2"
  unfolding grew_once_def by (auto simp: le_diff_conv)

lemma grew_once_reads:
  "logOf s' = logOf s @ l \<Longrightarrow> reads l \<Longrightarrow> (seen p it np s \<Longrightarrow> seen p it np s') \<Longrightarrow> grew_once p it np g s g s'"
  by (auto simp: grew_once_def reads_growth)

lemma seen_cong: "world s' = world s \<Longrightarrow> seen p it np s' = seen p it np s"
  by (simp add: seen_def)

lemma grew_once_cong: "world s' = world s2 \<Longrightarrow> grew_once p it np g s g' s' = grew_once p it np g s g' s2"
  by (simp add: grew_once_def logOf_def seen_def)

lemma seen_req:
  assumes "recordsOn p a t" "seen p it np s"
  shows "req (GetRegionAvailability (client p) g) s = (r1, s') \<Longrightarrow> seen p it np s'"
    and "req (GetInstance (client p) i) s = (r2, s') \<Longrightarrow> seen p it np s'"
    and "req (ListInstances (client p) f) s = (r3, s') \<Longrightarrow> seen p it np s'"
    and "req (UpdateInstance (client p) i ts) s = (r4, s') \<Longrightarrow> seen p it np s'"
    and "req (ListLKENodePools (client p) c) s = (r6, s') \<Longrightarrow> seen p it np s'"
    and "req (GetLKENodePool (client p) c k) s = (r7, s') \<Longrightarrow> seen p it np s'"
    and "req (UpdateLKENodePool (client p) c k uo) s = (r8, s') \<Longrightarrow> seen p it np s'"
    and "req (LookupInstanceByTag (client p) tag) s = (r9, s') \<Longrightarrow> seen p it np s'"
  using assms unfolding recordsOn_def seen_def
  by (auto simp only: logged_sel dest!: fst_world_req fst_world_lookup
      intro: sees_region sees_instance sees_instances sees_tags sees_list sees_pool sees_update)

lemma seen_sleepFor: "recordsOn p a t \<Longrightarrow> seen p it np s \<Longrightarrow> seen p it np (sleepFor p d s)"
  using sees_sleep by (simp add: seen_def recordsOn_def sleepFor_def logged_rt_def)

lemma verifyLoop_seen:
  "verifyLoop p i tag dl s = Some y \<Longrightarrow> recordsOn p a t \<Longrightarrow> seen p it np s \<Longrightarrow> seen p it np (snd y)"
proof (induction rule: verifyLoop.raw_induct [rotated, consumes 1, case_names step])
  case (step loop p i tag dl s y)
  obtain r1 s1 where r1: "req (GetInstance (client p) i) s = (r1, s1)" by fastforce
  have s1: "seen p it np s1" by (rule seen_req(2) [OF step.prems r1])
  note s2 = seen_sleepFor [OF step.prems(1) s1, of "RetryDelay (config p)"]
  have "snd y = s \<or> snd y = s1 \<or> loop p i tag dl (sleepFor p (RetryDelay (config p)) s1) = Some y"
    using step.hyps by (cases r1) (auto simp: r1 split: if_splits option.splits)
  with step.prems s1 s2 step.IH show ?case by metis
qed

lemma scanNodes_seen:
  "recordsOn p a t \<Longrightarrow> seen p it np s \<Longrightarrow> scanNodes p b nodes s = (r, s') \<Longrightarrow> seen p it np s'"
proof (induction nodes arbitrary: b s)
  case (Cons node nodes)
  obtain r1 s1 where r1: "req (GetInstance (client p) (NodeInstanceID node)) s = (r1, s1)" by fastforce
  from seen_req(2) [OF Cons.prems(1,2) r1] Cons r1 show ?case by (cases r1) (auto split: if_splits)
qed simp

lemma findClaimableInstance_seen:
  assumes "recordsOn p a t" "seen p it np s" "findClaimableInstance p pool s = (r, s')"
  shows "seen p it np s'"
  using assms(3) seen_req(3,6) [OF assms(1,2)] scanNodes_seen [OF assms(1) seen_req(6) [OF assms(1,2)]]
  by (auto simp: findClaimableInstance_def findClaimableInstanceEnterprise_def findClaimableInstanceStandard_def
      split: if_splits prod.splits sum.splits option.splits)

lemma lookupExistingInstance_seen:
  assumes "recordsOn p a t" "seen p it np s" "lookupExistingInstance p nc s = (r, s')"
  shows "seen p it np s'"
  using assms(3) seen_req(8) [OF assms(1,2)]
  by (auto simp: lookupExistingInstance_def hydrateInstanceFromLinode_def cacheNode_def seen_def
      split: prod.splits sum.splits option.splits)

lemma reconcilePoolVersion_once:
  assumes "recordsOn p a t" "reconcilePoolVersion p nodeClass pool s = (e, s')"
  shows "grew_once p it np g s g s' \<and> (seen p it np s \<longrightarrow> seen p it np s')"
proof -
  have "seen p it np s'" if "seen p it np s"
    using assms(2) that seen_req(7) [OF assms(1) that]
    by (auto simp: reconcilePoolVersion_def seen_def split: if_splits prod.splits sum.splits option.splits)
  with reconcilePoolVersion_log [OF recordsOn_recording [OF assms(1)] assms(2)] show ?thesis
    by (auto simp: grew_once_def grows_def)
qed

lemma findOrCreatePool_once:
  fixes p :: "('w \<times> log, 'c, 'b, 'u) lke"
  assumes on: "recordsOn p a t" and run: "findOrCreatePool p nodeClass nc tags it c s = (r, c', s')"
    and np: "labelOf (NodeClaimLabels nc) NodePoolLabelKey = np"
    and opts: "createdMatches (poolCreateOptions p nodeClass nc tags it) it np"
  shows "grew_once p it np (c \<or> sc) s (c' \<or> sc) s' \<and> (\<forall>pool. r = Inr pool \<longrightarrow> seen p it np s')"
proof -
  obtain r1 s1 where r1: "req (ListLKENodePools (client p) (clusterID p)) s = (r1, s1)" by fastforce
  note rec = recordsOn_recording [OF on]
  have log1: "logOf s1 = logOf s @ [reply (ListedPools (clusterID p)) r1]" by (rule req_log(6) [OF rec r1])
  have listed: "seen p it np s1 \<longleftrightarrow> (\<exists>pool \<in> set pools. matchesPoolKey pool it np)" if "r1 = Inr pools" for pools
    using r1 on that listing [of "clusterID p" "fst (world s)" pools "fst (world s1)"]
    by (auto simp: recordsOn_def seen_def req_def logged_sel recorded_def reply_def split: prod.splits)
  have g1: "grew_once p it np (c \<or> sc) s (c \<or> sc) s1"
    using log1 seen_req(5) [OF on _ r1] by (auto intro: grew_once_reads)
  show ?thesis
  proof (cases r1)
    case (Inl e)
    with run r1 g1 show ?thesis by (auto simp: findOrCreatePool_def)
  next
    case (Inr pools)
    show ?thesis
    proof (cases "find (\<lambda>pool. matchesPoolKey pool it np) pools")
      case (Some pool)
      obtain e2 s2 where r2: "reconcilePoolVersion p nodeClass pool s1 = (e2, s2)" by fastforce
      have "seen p it np s1" using listed [OF Inr] find_SomeD [OF Some] by blast
      with reconcilePoolVersion_once [OF on r2] have "seen p it np s2" "grew_once p it np (c \<or> sc) s1 (c \<or> sc) s2" by blast+
      moreover have "s' = s2" "c' = c"
        using run r1 Inr Some r2 np by (auto simp: findOrCreatePool_def split: option.splits)
      ultimately show ?thesis using grew_once_trans [OF g1] by blast
    next
      case None
      let ?opts = "poolCreateOptions p nodeClass nc tags it"
      obtain r2 s2 where r2: "req (CreateLKENodePool (client p) (clusterID p) ?opts) s1 = (r2, s2)" by fastforce
      have log2: "logOf s2 = logOf s1 @ [sent (CreatePoolReq (clusterID p) ?opts) r2]" by (rule req_log(5) [OF rec r2])
      have no: "\<not> seen p it np s1" using listed [OF Inr] None by (auto simp: find_None_iff)
      have new: "seen p it np s2" if "r2 = Inr pool" for pool
        using r2 on that create_sees [OF _ opts, of "clusterID p" "fst (world s1)" pool "fst (world s2)"]
        by (auto simp: recordsOn_def seen_def req_def logged_sel recorded_def split: prod.splits)
      have g2: "grew_once p it np (c \<or> sc) s1 ((c \<or> \<not> isl r2) \<or> sc) s2"
        using no new log2 by (cases r2) (auto simp: grew_once_def)
      have "world s' = world s2 \<and> c' = (c \<or> \<not> isl r2) \<and> isl r = isl r2"
        using run r1 Inr None r2 np
        by (auto simp: findOrCreatePool_def Let_def MarkTypeUnavailable_def split: sum.splits if_splits)
      then have s': "world s' = world s2" "c' = (c \<or> \<not> isl r2)" "isl r = isl r2" by blast+
      have "seen p it np s'" if "r = Inr pool" for pool
        using s'(3) that new seen_cong [OF s'(1)] by (cases r2) auto
      with grew_once_trans [OF g1 g2] s' show ?thesis by (simp add: grew_once_cong [OF s'(1)])
    qed
  qed
qed

lemma scalePool_once:
  assumes on: "recordsOn p a t" and seen: "seen p it np s"
    and run: "scalePool p it pool c sc s = Some (r, c', sc', s')"
  shows "grew_once p it np (c \<or> sc) s (c' \<or> sc') s'"
proof (cases "c \<or> sc")
  case True
  with run show ?thesis by (auto simp: scalePool_def)
next
  case False
  obtain ra sa where ra: "req (GetRegionAvailability (client p) (region p)) s = (ra, sa)" by fastforce
  obtain e1 s1 where e1: "checkPlanAvailability p it s = (e1, s1)" by fastforce
  have w1: "world s1 = world sa"
    using e1 by (auto simp: checkPlanAvailability_def ra MarkTypeUnavailable_def split: sum.splits option.splits if_splits)
  have s1: "seen p it np s1" using seen_req(1) [OF on seen ra] seen_cong [OF w1] by simp
  have log1: "logOf s1 = logOf s @ [Asked]"
    using req_log(1) [OF recordsOn_recording [OF on] ra] w1 by (simp add: logOf_def)
  let ?opts = "\<lparr>UpdateCount = PoolCount pool + 1, UpdateK8sVersion = None, UpdateStrategy = None\<rparr>"
  obtain r2 s2 where r2: "req (UpdateLKENodePool (client p) (clusterID p) (PoolID pool) ?opts) s1 = (r2, s2)" by fastforce
  note s2 = seen_req(7) [OF on s1 r2] and log2 = req_log(8) [OF recordsOn_recording [OF on] r2]
  consider "s' = s1" "c' = c" "sc' = sc" | "s' = s2" "c' = c" "sc' = (\<not> isl r2)"
    using run False e1 r2 by (cases e1) (auto simp: scalePool_def split: sum.splits if_splits)
  then show ?thesis
    using False log1 log2 s1 s2 by cases (auto simp: grew_once_def)
qed

lemma claimInstance_once:
  assumes on: "recordsOn p a t" and run: "claimInstance p i nc nodeClass pool s = Some (r, s')"
  shows "grew_once p it np g s g s'"
proof -
  let ?ts = "claimTags (rangeOrder p) (LiTags i) (PoolTags pool) (SpecTags (Spec nodeClass)) (NodeClaimName nc)"
  obtain r1 s1 where r1: "req (UpdateInstance (client p) (LiID i) ?ts) s = (r1, s1)" by fastforce
  have "seen p it np s'" if "seen p it np s"
    using run seen_req(4) [OF on that r1] verifyLoop_seen [OF _ on, of _ _ _ s1]
    by (auto simp: claimInstance_def r1 verifyTagsApplied_def split: sum.splits)
  moreover obtain ok l tags where "logOf s' = logOf s @ Sent (UpdateInstanceReq (LiID i) tags) ok # l" "reads l"
    using claimInstance_log [OF recordsOn_recording [OF on] run] by (elim exE conjE) (rule that)
  ultimately show ?thesis by (auto simp: grew_once_def reads_growth)
qed

lemma findClaimableInstance_once:
  assumes on: "recordsOn p a t" and run: "findClaimableInstance p pool s = (r, s')"
  shows "grew_once p it np g s g s'"
proof -
  obtain l where "logOf s' = logOf s @ l" "reads l"
    using findClaimableInstance_log [OF recordsOn_recording [OF on] run] by (elim exE conjE) (rule that)
  then show ?thesis by (rule grew_once_reads) (rule findClaimableInstance_seen [OF on _ run])
qed

lemma lookupExistingInstance_once:
  assumes on: "recordsOn p a t" and run: "lookupExistingInstance p nc s = (r, s')"
  shows "grew_once p it np g s g s'"
proof -
  obtain ev where "logOf s' = logOf s @ [ev]" "is_read ev"
    using lookupExistingInstance_log [OF recordsOn_recording [OF on] run] by (elim exE conjE) (rule that)
  then show ?thesis
    by (intro grew_once_reads [where l = "[ev]"]) (auto intro: lookupExistingInstance_seen [OF on _ run])
qed

lemma attemptCreate_once:
  assumes on: "recordsOn p a t" and run: "attemptCreate p nodeClass nc tags it c sc s = Some (r, c', sc', s')"
    and np: "labelOf (NodeClaimLabels nc) NodePoolLabelKey = np"
    and opts: "createdMatches (poolCreateOptions p nodeClass nc tags it) it np"
  shows "grew_once p it np (c \<or> sc) s (c' \<or> sc') s'"
proof -
  obtain r1 s1 where r1: "lookupExistingInstance p nc s = (r1, s1)" by fastforce
  note g1 = lookupExistingInstance_once [OF on r1, where it = it and np = np and g = "c \<or> sc"]
  consider (stop) "s' = s1" "c' = c" "sc' = sc" | (go) e where "r1 = Inl e" "errors_Is e ErrInstanceNotFound"
    using run r1 by (auto simp: attemptCreate_def split: sum.splits if_splits)
  then show ?thesis
  proof cases
    case stop
    with g1 show ?thesis by simp
  next
    case go
    obtain r2 c2 s2 where r2: "findOrCreatePool p nodeClass nc tags it c s1 = (r2, c2, s2)"
      by (metis prod_cases3)
    from findOrCreatePool_once [OF on r2 np opts, of sc] grew_once_trans [OF g1]
    have g2: "grew_once p it np (c \<or> sc) s (c2 \<or> sc) s2" and seen2: "\<And>pool. r2 = Inr pool \<Longrightarrow> seen p it np s2"
      by blast+
    show ?thesis
    proof (cases r2)
      case (Inl e)
      with run go r1 r2 have "s' = s2" "c' = c2" "sc' = sc" by (auto simp: attemptCreate_def split: if_splits)
      with g2 show ?thesis by simp
    next
      case (Inr pool)
      obtain r3 s3 where r3: "findClaimableInstance p pool s2 = (r3, s3)" by fastforce
      have s3: "seen p it np s3" by (rule findClaimableInstance_seen [OF on seen2 [OF Inr] r3])
      note g3 = grew_once_trans [OF g2 findClaimableInstance_once [OF on r3]]
      note step = attemptCreate_def r1 go r2 Inr r3
      show ?thesis
      proof (cases r3)
        case (Inl e)
        with run consider "s' = s3" "c' = c2" "sc' = sc"
          | "scalePool p it pool c2 sc s3 = Some (r, c', sc', s')"
          by (cases "isRetryableCreateError e") (simp_all add: step)
        then show ?thesis
          by cases (use g3 in simp, rule grew_once_trans [OF g3 scalePool_once [OF on s3]])
      next
        case i: (Inr i)
        with run obtain r4 s4 where r4: "claimInstance p i nc nodeClass pool s3 = Some (r4, s4)"
          by (cases "claimInstance p i nc nodeClass pool s3") (auto simp: step)
        have "world s' = world s4 \<and> c' = c2 \<and> sc' = sc"
          using run by (cases r4) (auto simp: step i r4 Let_def cacheNode_def)
        with grew_once_trans [OF g3 claimInstance_once [OF on r4]] grew_once_cong [of s' s4] show ?thesis by simp
      qed
    qed
  qed
qed

lemma createLoop_once:
  assumes "createLoop p nodeClass nc tags it poolKey dl c sc le pe s = Some y" "recordsOn p a t"
    and "labelOf (NodeClaimLabels nc) NodePoolLabelKey = np"
    and "createdMatches (poolCreateOptions p nodeClass nc tags it) it np"
  shows "\<exists>g'. grew_once p it np (c \<or> sc) s g' (snd (snd y))"
  using assms
proof (induction rule: createLoop.raw_induct [rotated, consumes 1, case_names step])
  case (step loop p nodeClass nc tags it poolKey dl c sc le pe s y)
  show ?case
  proof (cases "\<not> nowOf p s < dl \<or> CtxErr (rt p) (world s) \<noteq> None")
    case True
    with step.hyps have "snd (snd y) = s" by (auto split: option.splits if_splits)
    then show ?thesis using grew_once_refl by metis
  next
    case False
    then obtain r1 c1 sc1 s1 where r1: "attemptCreate p nodeClass nc tags it c sc s = Some (r1, c1, sc1, s1)"
      using step.hyps by (cases "attemptCreate p nodeClass nc tags it c sc s") auto
    note g1 = attemptCreate_once [OF step.prems(1) r1 step.prems(2,3)]
    obtain pe2 s2 where r2: "observePoolAttempt p poolKey (case r1 of Inl e \<Rightarrow> Some e | Inr i \<Rightarrow> None) s1 = (pe2, s2)"
      by fastforce
    then have w2: "world s2 = world s1"
      by (auto simp: observePoolAttempt_def split: option.splits if_splits sum.splits)
    have g2: "grew_once p it np (c \<or> sc) s (c1 \<or> sc1) s2" using g1 grew_once_cong [OF w2] by simp
    show ?thesis
    proof (cases "snd (snd y) = s2")
      case True
      with g2 show ?thesis by auto
    next
      case False': False
      let ?s3 = "sleepFor p (RetryDelay (config p)) s2"
      from step.hyps False r1 r2 False' obtain le' where
        "loop p nodeClass nc tags it poolKey dl c1 sc1 le' pe2 ?s3 = Some y"
        by (cases r1) (auto split: if_splits)
      from step.IH [OF this step.prems] obtain g' where "grew_once p it np (c1 \<or> sc1) ?s3 g' (snd (snd y))" by blast
      moreover have "grew_once p it np (c1 \<or> sc1) s2 (c1 \<or> sc1) ?s3"
        by (rule grew_once_reads [where l = "[]"])
          (auto simp: recordsOn_recording [OF step.prems(1)] intro: seen_sleepFor [OF step.prems(1)])
      ultimately show ?thesis using grew_once_trans [OF g2] grew_once_trans by blast
    qed
  qed
qed

text \<open>The contract of a listing turns the guards of the loop into one growth per Create.\<close>

lemma Create_grows:
  assumes on: "recordsOn p a t" and run: "Create p nodeClass nc tags its s = Some (r, s')"
    and opts: "\<And>it. createdMatches (poolCreateOptions p nodeClass nc tags it) it (labelOf (NodeClaimLabels nc) NodePoolLabelKey)"
  shows "\<exists>l. logOf s' = logOf s @ l \<and> growth l \<le> 1"
proof -
  obtain r1 s1 where r1: "lookupExistingInstance p nc s = (r1, s1)" by fastforce
  note g1 = lookupExistingInstance_once [OF on r1, where g = False]
  consider "s' = s" | "s' = s1"
    | it r2 pe s2 where "createLoop p nodeClass nc tags it (poolKeyOf nc it) (nowOf p s1 + CreateDeadline (config p)) False False
          (Sentinel ErrNoClaimableInstance) None s1 = Some (r2, pe, s2)" "s' = recordPoolFailure p (poolKeyOf nc it) pe s2"
    using run r1 unfolding Create_def r1 poolKeyOf_def
    by (auto simp: Let_def split: option.splits sum.splits if_splits)
  then show ?thesis
  proof cases
    case 1
    then show ?thesis by (intro exI [of _ "[]"]) simp
  next
    case 2
    with g1 show ?thesis by (auto simp: grew_once_def)
  next
    case 3
    from createLoop_once [OF 3(1) on refl opts] obtain g' where
      "grew_once p it (labelOf (NodeClaimLabels nc) NodePoolLabelKey) False s1 g' s2" by auto
    from grew_once_trans [OF g1 this] 3(2) obtain l where "logOf s2 = logOf s @ l" "growth l \<le> of_bool g'"
      by (auto simp: grew_once_def)
    with 3(2) show ?thesis by (cases g') (auto intro: exI [of _ l])
  qed
qed

end

section \<open>The in-memory service keeps the contract\<close>

text \<open>
  The service with no scripted output in front of its pools: its requests may fail as often
  as the mocks say, and answer from the stored pools otherwise.
\<close>

definition unscript :: "fake_world \<Rightarrow> fake_world" where
  "unscript w = w
     \<lparr>ListLKENodePoolsBehavior := (ListLKENodePoolsBehavior w)\<lparr>mockOutput := None, mockMultiOut := []\<rparr>,
      CreateLKENodePoolBehavior := (CreateLKENodePoolBehavior w)\<lparr>mockOutput := None, mockMultiOut := []\<rparr>\<rparr>"

definition storingClient :: "fake_world linode_api" where
  "storingClient = fakeClient
     \<lparr>ListLKENodePools := (\<lambda>c w. fakeListLKENodePools c (unscript w)),
      CreateLKENodePool := (\<lambda>c opts w. fakeCreateLKENodePool c opts (unscript w))\<rparr>"

definition stores :: "int \<Rightarrow> string \<Rightarrow> string \<Rightarrow> fake_world \<Rightarrow> bool" where
  "stores c it np w \<longleftrightarrow> list_ex (\<lambda>pool. matchesPoolKey pool it np) (poolsOf c w)"

lemma set_poolsOf: "set (poolsOf c w) = {pool. \<exists>k. ((c, k), pool) \<in> set (NodePools w)}"
  by (force simp: poolsOf_def)

lemma stores_iff: "stores c it np w \<longleftrightarrow> (\<exists>k pool. ((c, k), pool) \<in> set (NodePools w) \<and> matchesPoolKey pool it np)"
  by (auto simp: stores_def list_ex_iff set_poolsOf)

lemma stores_cong: "NodePools w' = NodePools w \<Longrightarrow> stores c it np w' = stores c it np w"
  by (simp add: stores_iff)

lemma NodePools_simps [simp]:
  "NodePools (addNodes typ ts c k is w) = NodePools w" "NodePools (unscript w) = NodePools w"
  "NodePools (fold (\<lambda>node. dropInstance (NodeInstanceID node)) ns w) = NodePools w"
  "NodePools (snd (loadInstance n w)) = NodePools w" "NodePools (snd (setTags n ts w)) = NodePools w"
  "NodePools (snd (loadPool c k w)) = NodePools w"
proof -
  show "NodePools (addNodes typ ts c k is w) = NodePools w"
    unfolding addNodes_def by (induction "is" arbitrary: w) (simp_all add: storeInstance_def)
  show "NodePools (fold (\<lambda>node. dropInstance (NodeInstanceID node)) ns w) = NodePools w"
    by (induction ns arbitrary: w) (simp_all add: dropInstance_def)
qed (auto simp: unscript_def loadInstance_def setTags_def loadPool_def Let_def split: option.splits)

lemma NodePools_Invoke:
  assumes "\<And>w. NodePools (snd (g w)) = NodePools w" "\<And>m w. NodePools (k m w) = NodePools w"
  shows "NodePools (snd (case Invoke m i g w of (r, m, w) \<Rightarrow> (h r, k m w))) = NodePools w"
  using Invoke_frame [of NodePools g m i w] assms by (simp add: case_prod_beta)

lemma in_update:
  "x \<in> set al \<Longrightarrow> x \<in> set (AList.update k v al) \<or> (fst x = k \<and> map_of al k = Some (snd x) \<and> (k, v) \<in> set (AList.update k v al))"
  by (induction al) (auto split: if_splits)

lemma self_update: "(k, v) \<in> set (AList.update k v al)"
  by (induction al) auto

lemma matchesPoolKey_iff:
  "matchesPoolKey pool it np \<longleftrightarrow> PoolType pool = it \<and> map_of (TagListToMap (PoolTags pool)) NodePoolLabelKey = Some np \<and>
     map_of (TagListToMap (PoolTags pool)) LabelLKEManaged \<noteq> None"
  unfolding matchesPoolKey_def isKarpenterManagedPool_def labelOf_def Let_def by (cases "map_of (TagListToMap (PoolTags pool)) NodePoolLabelKey") simp_all

text \<open>A pool keeps its type and tags through every update, so it matches as before.\<close>

lemma updatePool_stored:
  assumes "updatePool c k uo w = (r, w')"
  shows "NodePools w' = NodePools w \<or> (\<exists>pool pool'. map_of (NodePools w) (c, k) = Some pool \<and>
     NodePools w' = AList.update (c, k) pool' (NodePools w) \<and> PoolType pool' = PoolType pool \<and> PoolTags pool' = PoolTags pool)"
  using assms by (auto simp: updatePool_def resizePool_def Let_def split: option.splits if_splits)

lemma stores_updatePool:
  assumes "stores c it np w" "updatePool c' k uo w = (r, w')"
  shows "stores c it np w'"
proof -
  from assms(1) obtain j pool where pool: "((c, j), pool) \<in> set (NodePools w)" "matchesPoolKey pool it np"
    by (auto simp: stores_iff)
  have keep: "matchesPoolKey pool' it np" if "PoolType pool' = PoolType pool" "PoolTags pool' = PoolTags pool" for pool'
    using pool(2) that by (simp add: matchesPoolKey_iff)
  from updatePool_stored [OF assms(2)] show ?thesis
  proof (elim disjE exE conjE)
    fix old new
    assume upd: "map_of (NodePools w) (c', k) = Some old" "NodePools w' = AList.update (c', k) new (NodePools w)"
      "PoolType new = PoolType old" "PoolTags new = PoolTags old"
    from in_update [OF pool(1), of "(c', k)" new] upd show ?thesis
      using pool(2) keep [of new] by (auto simp: stores_iff)
  qed (use assms(1) stores_cong in blast)
qed

lemma stores_Invoke:
  assumes "stores c it np w" "\<And>r w'. g w = (r, w') \<Longrightarrow> stores c it np w'" "\<And>m w. NodePools (k m w) = NodePools w"
  shows "stores c it np (snd (case Invoke m i g w of (r, m, w) \<Rightarrow> (h r, k m w)))"
  using assms(1,2) stores_cong [OF assms(3)]
  by (auto simp: Invoke_def Let_def split: prod.splits option.splits)

lemma storing_create:
  assumes "fakeCreateLKENodePool c opts (unscript w) = (Inr pool, w')" "createdMatches opts it np"
  shows "stores c it np w'"
proof -
  have "\<exists>k pool. ((c, k), pool) \<in> set (NodePools w') \<and> PoolType pool = CreateType opts \<and> PoolTags pool = CreatePoolTags opts"
    using assms(1) self_update
    by (auto simp: fakeCreateLKENodePool_def Invoke_def newPool_def unscript_def Let_def outRes_def
        split: prod.splits option.splits if_splits) force+
  then show ?thesis
    using assms(2) by (force simp: stores_iff matchesPoolKey_iff createdMatches_def)
qed

lemma storing_list:
  "fakeListLKENodePools c (unscript w) = (Inr pools, w') \<Longrightarrow> pools = poolsOf c w' \<and> NodePools w' = NodePools w"
  by (auto simp: fakeListLKENodePools_def Invoke_def unscript_def poolsOf_def outList_def Let_def
      split: prod.splits option.splits)

lemma storing_frame:
  "NodePools (snd (fakeListLKENodePools c (unscript w))) = NodePools w" "NodePools (snd (fakeListInstances f w)) = NodePools w"
  "NodePools (snd (fakeGetInstance i w)) = NodePools w" "NodePools (snd (fakeGetLKENodePool c k w)) = NodePools w"
  "NodePools (snd (fakeGetRegionAvailability g w)) = NodePools w" "NodePools (snd (fakeUpdateInstance i ts w)) = NodePools w"
  by (simp_all add: NodePools_Invoke fakeGetRegionAvailability_def fakeGetInstance_def fakeListInstances_def
      fakeUpdateInstance_def fakeListLKENodePools_def fakeGetLKENodePool_def)

interpretation stored: pool_listing storingClient fakeRuntime stores
proof unfold_locales
  show "stores c it np w'" if "CreateLKENodePool storingClient c opts w = (Inr pool, w')" "createdMatches opts it np"
    for c opts w pool w' it np using that by (auto simp: storingClient_def intro: storing_create)
  show "stores c it np w' = (\<exists>pool \<in> set pools. matchesPoolKey pool it np)"
    if "ListLKENodePools storingClient c w = (Inr pools, w')" for c w pools w' it np
    using that storing_list by (auto simp: storingClient_def stores_def list_ex_iff)
  show "stores c it np (snd (UpdateLKENodePool storingClient c' k uo w))" if "stores c it np w" for c it np w c' k uo
    using that by (auto simp: storingClient_def fakeClient_def fakeUpdateLKENodePool_def
        intro!: stores_Invoke intro: stores_updatePool)
qed (simp_all add: storingClient_def fakeClient_def fakeRuntime_def stores_iff storing_frame)

section \<open>One growth per Create\<close>

text \<open>The tags the cloud provider passes make every created pool match.\<close>

lemma GetTagsForLKE_lookups:
  "map_of (GetTagsForLKE nodeClass nc cn) NodePoolLabelKey = Some (labelOf (NodeClaimLabels nc) NodePoolLabelKey)"
  "map_of (GetTagsForLKE nodeClass nc cn) LabelLKEManaged = Some ''true''"
  "wf_map (GetTagsForLKE nodeClass nc cn)"
  by (simp_all add: GetTagsForLKE_def map_of_assign map_add_def NodePoolLabelKey_def LabelLKEManaged_def
      LKEClusterNameTagKey_def LabelNodeClass_def)

lemma poolCreateOptions_match:
  assumes "range_ok (rangeOrder p)" "\<forall>kv \<in> set (GetTagsForLKE nodeClass nc cn). valid_kv kv"
  shows "createdMatches (poolCreateOptions p nodeClass nc (GetTagsForLKE nodeClass nc cn) it) it
    (labelOf (NodeClaimLabels nc) NodePoolLabelKey)"
proof -
  note wf = GetTagsForLKE_lookups(3)
  have "[] \<notin> set (MapToTagList (rangeOrder p) (GetTagsForLKE nodeClass nc cn))"
    using assms(1) by (auto simp: set_MapToTagList dest: sym)
  with DedupeTags_id [OF distinct_MapToTagList [OF assms(1) wf assms(2)]] map_of_TagListToMap_range [OF assms(1) wf assms(2)]
  show ?thesis by (simp add: createdMatches_def poolCreateOptions_def GetTagsForLKE_lookups)
qed

text \<open>
  C15: on a service that lists what it stores, one Create of the LKE provider grows the
  cluster at most once: of all its requests at most one creates a pool or scales one up,
  whatever fails in between and however often it retries.
\<close>

lemma Create_grows_once:
  fixes p :: "('w \<times> log, 'c, 'b, 'u) lke"
  assumes "pool_listing a t sees" "client p = logged a" "rt p = logged_rt t" "range_ok (rangeOrder p)"
    and "\<forall>kv \<in> set (GetTagsForLKE nodeClass nc cn). valid_kv kv"
    and "Create p nodeClass nc (GetTagsForLKE nodeClass nc cn) its s = Some (r, s')" "world s = (w, [])"
  shows "length (filter (\<lambda>ev. creates_pool ev \<or> scales_pool ev) (snd (world s'))) \<le> 1"
proof -
  have "recordsOn p a t" using assms(2,3) by (simp add: recordsOn_def)
  from pool_listing.Create_grows [OF assms(1) this assms(6) poolCreateOptions_match [OF assms(4,5)]] assms(7)
  show ?thesis by (auto simp: logOf_def growth_def grows_def [abs_def])
qed

definition storingLke :: "(fake_world \<times> log) sample_lke" where
  "storingLke = sampleLke (logged storingClient) (logged_rt fakeRuntime)"

definition storingRun :: "(Instance res \<times> (fake_world \<times> log) sample_state) option" where
  "storingRun = Create storingLke sampleNodeClass (sampleClaim ''web'')
     (GetTagsForLKE sampleNodeClass (sampleClaim ''web'') DefaultClusterName) [sampleType ''g6'' 2] (freshState NewFakeWorld)"

lemma storingRun_evaluates: "map_option (\<lambda>(r, s). length (filter creates_pool (snd (world s)))) storingRun = Some 1"
  by code_simp

lemma Create_grows_once_witness:
  "\<exists>r s'. storingRun = Some (r, s') \<and> length (filter creates_pool (snd (world s'))) = 1 \<and>
     length (filter (\<lambda>ev. creates_pool ev \<or> scales_pool ev) (snd (world s'))) \<le> 1"
proof -
  obtain r s' where run: "storingRun = Some (r, s')" "length (filter creates_pool (snd (world s'))) = 1"
    using storingRun_evaluates by auto
  have "\<forall>kv \<in> set (GetTagsForLKE sampleNodeClass (sampleClaim ''web'') DefaultClusterName). valid_kv kv" by code_simp
  with Create_grows_once [OF stored.pool_listing_axioms, of storingLke sampleNodeClass "sampleClaim ''web''" DefaultClusterName]
    run show ?thesis by (auto simp: storingRun_def storingLke_def sampleLke_def range_ok_id)
qed

text \<open>
  Without the contract a Create grows the cluster again and again: on a service whose listing
  lags behind, each retry that finds no node to claim creates a further pool.
\<close>

definition laggingWorld :: fake_world where
  "laggingWorld = NewFakeWorld
     \<lparr>ListLKENodePoolsBehavior := newMock\<lparr>mockOutput := Some []\<rparr>,
      GetLKENodePoolBehavior := newMock\<lparr>mockOutput := Some
        \<lparr>PoolID = 100, PoolType = ''g6'', PoolCount = 1, PoolTags = [], PoolLabels = [], PoolTaints = [],
         PoolLinodes = [], PoolK8sVersion = None, PoolUpdateStrategy = None\<rparr>\<rparr>\<rparr>"

lemma lagging_listing_creates_pools:
  "map_option (\<lambda>(r, s). (isl r, length (filter creates_pool (snd (world s))))) (sampleRun ''web'' laggingWorld) = Some (True, 5)"
  by code_simp

end
