(* ===== verification/InstanceProvider.thy ===== *)
theory InstanceProvider
  imports InstanceSelection ProviderIds
begin

text \<open>
  pkg/providers/instance/instance.go: the provider that runs nodes as plain Linode instances.
  A nil dereference is \<open>None\<close>. \<open>Create\<close> gets the NodeClass by pointer and writes the default
  image into it, so it also returns the NodeClass.
\<close>

section \<open>Configuration and state\<close>

record ('w, 'c, 'u) instance_provider =
  ipRegion :: string
  ipClient :: "'w linode_api"
  ipRuntime :: "'w runtime"
  ipErrlib :: lib
  ipSched :: sched
  ipCacheOps :: "('c, Instance) cache_ops"
  ipMarkOps :: "'u mark_ops"
  ipRangeOrder :: range_order

record ('w, 'c, 'u) ip_state =
  ipWorld :: 'w
  instanceCache :: 'c
  unavailableOfferings :: "'u UnavailableOfferings"

definition ipReq :: "('w \<Rightarrow> 'a \<times> 'w) \<Rightarrow> ('w, 'c, 'u) ip_state \<Rightarrow> 'a \<times> ('w, 'c, 'u) ip_state" where
  "ipReq f s = (case f (ipWorld s) of (r, w) \<Rightarrow> (r, s\<lparr>ipWorld := w\<rparr>))"

definition ipNow :: "('w, 'c, 'u) instance_provider \<Rightarrow> ('w, 'c, 'u) ip_state \<Rightarrow> int" where
  "ipNow p s = Now (ipRuntime p) (ipWorld s)"

definition ipForget :: "('w, 'c, 'u) instance_provider \<Rightarrow> string \<Rightarrow> ('w, 'c, 'u) ip_state \<Rightarrow> ('w, 'c, 'u) ip_state" where
  "ipForget p i s = s\<lparr>instanceCache := CDelete (ipCacheOps p) (instanceCache s) i\<rparr>"

definition ipRemember :: "('w, 'c, 'u) instance_provider \<Rightarrow> string \<Rightarrow> Instance \<Rightarrow> ('w, 'c, 'u) ip_state \<Rightarrow> ('w, 'c, 'u) ip_state" where
  "ipRemember p i inst s = s\<lparr>instanceCache := CSet (ipCacheOps p) (instanceCache s) (ipNow p s) i inst\<rparr>"

definition defaultImage :: string where
  "defaultImage = ''linode/ubuntu22.04''"

definition InstanceDeleting :: string where
  "InstanceDeleting = ''deleting''"

definition invalidID :: "string \<Rightarrow> err" where
  "invalidID i = Errorf ''invalid instance id %s, %w'' [i] [Errorf ''strconv.Atoi'' [] []]"

section \<open>Create\<close>

text \<open>The options of the launch, and the NodeClass with its image filled in.\<close>

definition defaultedImage :: "LinodeNodeClass \<Rightarrow> LinodeNodeClass" where
  "defaultedImage nodeClass =
     (if Image (Spec nodeClass) = [] then nodeClass\<lparr>Spec := (Spec nodeClass)\<lparr>Image := defaultImage\<rparr>\<rparr> else nodeClass)"

definition createOptions :: "('w, 'c, 'u) instance_provider \<Rightarrow> LinodeNodeClass \<Rightarrow> NodeClaim \<Rightarrow> tagmap \<Rightarrow>
    instance_type \<Rightarrow> string \<Rightarrow> string \<Rightarrow> InstanceCreateOptions" where
  "createOptions p nodeClass nodeClaim tags it labelID passID =
     (let tagList = SpecTags (Spec nodeClass) @ MapToTagList (ipRangeOrder p) tags;
          spec = Spec (defaultedImage nodeClass)
      in \<lparr>OptLabel = NodeClaimName nodeClaim @ ''-'' @ take 8 labelID, OptRegion = ipRegion p,
          OptType = ItName it, OptRootPass = passID, OptAuthorizedKeys = AuthorizedKeys spec,
          OptAuthorizedUsers = AuthorizedUsers spec, OptImage = Image spec,
          OptBackupsEnabled = BackupsEnabled spec, OptTags = DedupeTags tagList,
          OptDiskEncryption = DiskEncryption spec, OptSwapSize = SwapSize spec,
          OptFirewallID = (case FirewallID spec of Some f \<Rightarrow> f | None \<Rightarrow> 0),
          OptPlacementGroup = map_option (\<lambda>g. (PlacementGroupID g, CompliantOnly g)) (PlacementGroup spec)\<rparr>)"

definition ipCreate :: "('w, 'c, 'u) instance_provider \<Rightarrow> LinodeNodeClass \<Rightarrow> NodeClaim \<Rightarrow> tagmap \<Rightarrow> instance_type list \<Rightarrow>
    ('w, 'c, 'u) ip_state \<Rightarrow> (Instance res \<times> LinodeNodeClass \<times> ('w, 'c, 'u) ip_state) option" where
  "ipCreate p nodeClass nodeClaim tags instanceTypes s =
     (case FilterInstanceTypes (ipSched p) instanceTypes nodeClaim of
        Inl e \<Rightarrow> Some (Inl e, nodeClass, s)
      | Inr instanceTypes \<Rightarrow>
        (case CheapestInstanceType (ipSched p) instanceTypes of
           None \<Rightarrow> None
         | Some (Inl e) \<Rightarrow> Some (Inl e, nodeClass, s)
         | Some (Inr cheapestType) \<Rightarrow>
             (case ipReq (NewUUID (ipRuntime p)) s of (labelID, s) \<Rightarrow>
              case ipReq (NewUUID (ipRuntime p)) s of (passID, s) \<Rightarrow>
              case ipReq (CreateInstance (ipClient p)
                     (createOptions p nodeClass nodeClaim tags cheapestType labelID passID)) s of (r, s) \<Rightarrow>
                let nodeClass = defaultedImage nodeClass;
                    err = (case r of Inl e \<Rightarrow> Some e | Inr i \<Rightarrow> None);
                    s = s\<lparr>unavailableOfferings := UpdateUnavailableOfferingsCache (ipErrlib p) (ipMarkOps p)
                            (ipNow p s) err (ipRegion p) cheapestType (unavailableOfferings s)\<rparr>
                in Some (case r of
                           Inl e \<Rightarrow> Inl (CreateErr e ''InstanceCreationFailed'' ''Failed to create Linode instance'')
                         | Inr i \<Rightarrow> Inr (NewInstance i), nodeClass, s))))"

section \<open>Get and List\<close>

definition instancesFromLinodeInstances :: "LinodeInstance list \<Rightarrow> Instance list res" where
  "instancesFromLinodeInstances instances =
     (if length instances = 0 then Inl (NodeClaimNotFoundErr (Errorf ''instance not found'' [] []))
      else Inr (map NewInstance instances))"

definition ipGet :: "('w, 'c, 'u) instance_provider \<Rightarrow> string \<Rightarrow> bool \<Rightarrow>
    ('w, 'c, 'u) ip_state \<Rightarrow> Instance res \<times> ('w, 'c, 'u) ip_state" where
  "ipGet p i skipCache s =
     (case (if skipCache then None else CGet (ipCacheOps p) (instanceCache s) (ipNow p s) i) of
        Some cached \<Rightarrow> (Inr cached, s)
      | None \<Rightarrow>
        (case Atoi i of
           None \<Rightarrow> (Inl (invalidID i), s)
         | Some intID \<Rightarrow>
           (case ipReq (GetInstance (ipClient p) intID) s of
              (Inl e, s) \<Rightarrow>
                if IsNotFound (ipErrlib p) e then (Inl (NodeClaimNotFoundErr e), ipForget p i s)
                else (Inl (Errorf ''failed to get linode instance, %w'' [] [e]), s)
            | (Inr linodeInstance, s) \<Rightarrow>
                (case instancesFromLinodeInstances [linodeInstance] of
                   Inl e \<Rightarrow> (Inl (Errorf ''getting instances from lindoe instance, %w'' [] [e]), s)
                 | Inr [inst] \<Rightarrow> (Inr inst, ipRemember p i inst s)
                 | Inr _ \<Rightarrow> (Inl (Errorf ''expected a single instance, %w'' [] []), s)))))"

definition ipListFilter :: api_filter where
  "ipListFilter = [(FilterContains, ''tags'', [NodePoolLabelKey, Group @ ''/linodenodeclass''])]"

definition rememberAll :: "('w, 'c, 'u) instance_provider \<Rightarrow> Instance list \<Rightarrow> ('w, 'c, 'u) ip_state \<Rightarrow> ('w, 'c, 'u) ip_state" where
  "rememberAll p instances s = fold (\<lambda>it. ipRemember p (Itoa (InstID it)) it) instances s"

text \<open>\<open>IgnoreNodeClaimNotFoundError\<close> turns the error for no instance into an empty list.\<close>

definition ipList :: "('w, 'c, 'u) instance_provider \<Rightarrow>
    ('w, 'c, 'u) ip_state \<Rightarrow> Instance list res \<times> ('w, 'c, 'u) ip_state" where
  "ipList p s =
     (case ipReq (ListInstances (ipClient p) ipListFilter) s of
        (Inl e, s) \<Rightarrow> (Inl (Errorf ''failed to list linode instances, %w'' [] [e]), s)
      | (Inr linodeInstances, s) \<Rightarrow>
          (case instancesFromLinodeInstances linodeInstances of
             Inr instances \<Rightarrow> (Inr instances, rememberAll p instances s)
           | Inl e \<Rightarrow> (if IsNodeClaimNotFoundError (ipErrlib p) e then Inr [] else Inl e, s)))"

section \<open>Delete and tags\<close>

definition ipDelete :: "('w, 'c, 'u) instance_provider \<Rightarrow> string \<Rightarrow>
    ('w, 'c, 'u) ip_state \<Rightarrow> nilerr \<times> ('w, 'c, 'u) ip_state" where
  "ipDelete p i s =
     (case ipGet p i True s of
        (Inl e, s) \<Rightarrow> (Some e, s)
      | (Inr out, s) \<Rightarrow>
          if InstStatus out \<noteq> InstanceDeleting
          then case Atoi i of
                 None \<Rightarrow> (Some (invalidID i), s)
               | Some intID \<Rightarrow> ipReq (DeleteInstance (ipClient p) intID) s
          else (None, s))"

definition taggingErr :: "('w, 'c, 'u) instance_provider \<Rightarrow> string \<Rightarrow> err \<Rightarrow> err" where
  "taggingErr p fmt e =
     (if IsNotFound (ipErrlib p) e then NodeClaimNotFoundErr (Errorf fmt [] [e]) else Errorf fmt [] [e])"

fun createTagsLoop :: "('w, 'c, 'u) instance_provider \<Rightarrow> int \<Rightarrow> tagmap \<Rightarrow>
    ('w, 'c, 'u) ip_state \<Rightarrow> nilerr \<times> ('w, 'c, 'u) ip_state" where
  "createTagsLoop p intId [] s = (None, s)"
| "createTagsLoop p intId ((k, v) # tags) s =
     (let s = s\<lparr>ipWorld := Sleep (ipRuntime p) (10 ^ 9) (ipWorld s)\<rparr>
      in case ipReq (CreateTag (ipClient p) [intId] (kvTag k v)) s of
           (Some e, s) \<Rightarrow> (Some (taggingErr p ''tagging instance, %w'' e), s)
         | (None, s) \<Rightarrow> createTagsLoop p intId tags s)"

definition ipCreateTags :: "('w, 'c, 'u) instance_provider \<Rightarrow> string \<Rightarrow> tagmap \<Rightarrow>
    ('w, 'c, 'u) ip_state \<Rightarrow> nilerr \<times> ('w, 'c, 'u) ip_state" where
  "ipCreateTags p i tags s =
     (case Atoi i of
        None \<Rightarrow> (Some (invalidID i), s)
      | Some intId \<Rightarrow> createTagsLoop p intId (ipRangeOrder p tags) s)"

definition ipUpdateTags :: "('w, 'c, 'u) instance_provider \<Rightarrow> string \<Rightarrow> string list \<Rightarrow>
    ('w, 'c, 'u) ip_state \<Rightarrow> nilerr \<times> ('w, 'c, 'u) ip_state" where
  "ipUpdateTags p i tags s =
     (case Atoi i of
        None \<Rightarrow> (Some (invalidID i), s)
      | Some intID \<Rightarrow>
        (case ipReq (UpdateInstance (ipClient p) intID tags) s of
           (Inl e, s) \<Rightarrow> (Some (taggingErr p ''updating instance tags, %w'' e), s)
         | (Inr _, s) \<Rightarrow> (None, ipForget p i s)))"

end
