(* ===== verification/InstanceProps.thy ===== *)
theory InstanceProps
  imports InstanceProvider
begin

text \<open>
  What the instance provider asks of the Linode API: the one launch of a Create and what it
  leaves in the offerings cache, the one request of a Delete, and the tag requests.
\<close>

section \<open>Requests of a recorded client\<close>

definition ipLog :: "('w \<times> log, 'c, 'u) ip_state \<Rightarrow> log" where
  "ipLog s = snd (ipWorld s)"

definition ipRecording :: "('w \<times> log, 'c, 'u) instance_provider \<Rightarrow> bool" where
  "ipRecording p \<longleftrightarrow> (\<exists>a r. ipClient p = logged a \<and> ipRuntime p = logged_rt r)"

lemma ipLog_simps [simp]:
  "ipLog (s\<lparr>instanceCache := c\<rparr>) = ipLog s" "ipLog (s\<lparr>unavailableOfferings := u\<rparr>) = ipLog s"
  "ipLog (ipForget p i s) = ipLog s" "ipLog (ipRemember p i inst s) = ipLog s"
  by (simp_all add: ipLog_def ipForget_def ipRemember_def)

lemma ipLog_rememberAll [simp]: "ipLog (rememberAll p is s) = ipLog s"
  unfolding rememberAll_def by (induction "is" arbitrary: s) simp_all

lemma ipReq_recorded: "ipReq (recorded ev f) s = (r, s') \<Longrightarrow> ipLog s' = ipLog s @ [ev r]"
  by (auto simp: ipReq_def ipLog_def recorded_def split: prod.splits)

lemma ipReq_log:
  assumes "ipRecording p"
  shows "ipReq (GetInstance (ipClient p) i) s = (r1, s') \<Longrightarrow> ipLog s' = ipLog s @ [reply (GotInstance i) r1]"
    and "ipReq (ListInstances (ipClient p) f) s = (r2, s') \<Longrightarrow> ipLog s' = ipLog s @ [reply (ListedInstances f) r2]"
    and "ipReq (UpdateInstance (ipClient p) i ts) s = (r3, s') \<Longrightarrow> ipLog s' = ipLog s @ [sent (UpdateInstanceReq i ts) r3]"
    and "ipReq (CreateInstance (ipClient p) os) s = (r4, s') \<Longrightarrow> ipLog s' = ipLog s @ [sent (CreateInstanceReq os) r4]"
    and "ipReq (DeleteInstance (ipClient p) i) s = (e1, s') \<Longrightarrow> ipLog s' = ipLog s @ [sentnil (DeleteInstanceReq i) e1]"
    and "ipReq (CreateTag (ipClient p) is l) s = (e2, s') \<Longrightarrow> ipLog s' = ipLog s @ [sentnil (CreateTagReq is l) e2]"
    and "ipReq (NewUUID (ipRuntime p)) s = (u, s') \<Longrightarrow> ipLog s' = ipLog s"
    and "ipLog (s\<lparr>ipWorld := Sleep (ipRuntime p) d (ipWorld s)\<rparr>) = ipLog s"
  using assms unfolding ipRecording_def
  by (auto simp: logged_def logged_rt_def ipReq_def ipLog_def recorded_def split: prod.splits)

lemma ipReq_keeps: "ipReq f s = (r, s') \<Longrightarrow> instanceCache s' = instanceCache s \<and> unavailableOfferings s' = unavailableOfferings s"
  by (auto simp: ipReq_def split: prod.splits)

section \<open>Create\<close>

text \<open>Without a choice there is no launch; with one there is exactly one.\<close>

lemma ipCreate_cases:
  assumes "ipCreate p nodeClass nc tags its s = Some (r, nodeClass', s')"
  obtains (none) e where "chooseInstanceType (ipSched p) its nc = Some (Inl e)" "r = Inl e" "nodeClass' = nodeClass" "s' = s"
  | (launch) it u1 s1 u2 s2 r3 s3 where "chooseInstanceType (ipSched p) its nc = Some (Inr it)"
      "ipReq (NewUUID (ipRuntime p)) s = (u1, s1)" "ipReq (NewUUID (ipRuntime p)) s1 = (u2, s2)"
      "ipReq (CreateInstance (ipClient p) (createOptions p nodeClass nc tags it u1 u2)) s2 = (r3, s3)"
      "nodeClass' = defaultedImage nodeClass"
      "s' = s3\<lparr>unavailableOfferings := UpdateUnavailableOfferingsCache (ipErrlib p) (ipMarkOps p) (ipNow p s3)
              (case r3 of Inl e \<Rightarrow> Some e | Inr i \<Rightarrow> None) (ipRegion p) it (unavailableOfferings s)\<rparr>"
      "r = (case r3 of Inl e \<Rightarrow> Inl (CreateErr e ''InstanceCreationFailed'' ''Failed to create Linode instance'')
            | Inr i \<Rightarrow> Inr (NewInstance i))"
proof (cases "chooseInstanceType (ipSched p) its nc")
  case None
  with assms show ?thesis
    by (simp add: ipCreate_def chooseInstanceType_def split: sum.splits option.splits)
next
  case (Some c)
  show ?thesis
  proof (cases c)
    case (Inl e)
    with assms Some show ?thesis
      by (intro none [of e]) (auto simp: ipCreate_def chooseInstanceType_def split: sum.splits option.splits prod.splits)
  next
    case (Inr it)
    obtain u1 s1 where r1: "ipReq (NewUUID (ipRuntime p)) s = (u1, s1)" by fastforce
    obtain u2 s2 where r2: "ipReq (NewUUID (ipRuntime p)) s1 = (u2, s2)" by fastforce
    obtain r3 s3 where r3: "ipReq (CreateInstance (ipClient p) (createOptions p nodeClass nc tags it u1 u2)) s2 = (r3, s3)"
      by fastforce
    from ipReq_keeps [OF r1] ipReq_keeps [OF r2] ipReq_keeps [OF r3]
    have "unavailableOfferings s3 = unavailableOfferings s" by simp
    with assms Some Inr r1 r2 r3 show ?thesis
      by (intro launch [OF _ r1 r2 r3])
        (auto simp: ipCreate_def chooseInstanceType_def Let_def split: sum.splits option.splits)
  qed
qed

lemma UpdateUnavailable_marks:
  assumes "lib_ok L"
  shows "UpdateUnavailableOfferingsCache L co now err rg it u =
     (case err of None \<Rightarrow> u
      | Some e \<Rightarrow> (case errors_As is_linode e of
          Some (c, m, r) \<Rightarrow> if c = 400 then MarkUnavailable co u now (ItName it) rg
            else if c \<in> {500, 502, 503, 504} then MarkRegionUnavailable co u now rg else u
        | None \<Rightarrow> u))"
proof -
  have "ErrHasStatus L e cs \<longleftrightarrow> (\<exists>c m r. errors_As is_linode e = Some (c, m, r) \<and> c \<in> set cs)" for e cs
    using assms by (simp add: lib_ok_def)
  then show ?thesis
    by (auto simp: UpdateUnavailableOfferingsCache_def split: option.splits)
qed

text \<open>
  C17: A Create of the instance provider sends no request when no instance type can be chosen,
  and then fails and marks nothing. Otherwise it sends exactly one launch, of the chosen type in its region,
  carrying the NodeClass tags and the given tags without duplicates; it succeeds iff the
  launch does. A launch refused with status 400 makes the offering of that type
  in that region unavailable, a gateway or server error the whole region, anything else
  nothing.
\<close>

lemma instance_Create_launches:
  fixes p :: "('w \<times> log, 'c, 'u) instance_provider"
  assumes "ipClient p = logged a" "ipRuntime p = logged_rt t" "lib_ok (ipErrlib p)" "range_ok (ipRangeOrder p)"
    and "ipCreate p nodeClass nc tags its s = Some (r, nodeClass', s')" "ipWorld s = (w, [])"
  shows "case chooseInstanceType (ipSched p) its nc of
      None \<Rightarrow> False
    | Some (Inl e) \<Rightarrow> r = Inl e \<and> s' = s
    | Some (Inr it) \<Rightarrow> \<exists>os. snd (ipWorld s') = [Sent (CreateInstanceReq os) (\<not> isl r)] \<and>
        OptType os = ItName it \<and> OptRegion os = ipRegion p \<and> distinct (OptTags os) \<and>
        set (OptTags os) = (set (SpecTags (Spec nodeClass)) - {[]}) \<union> (\<lambda>(k, v). kvTag k v) ` set tags \<and>
        unavailableOfferings s' =
          (case r of
             Inr inst \<Rightarrow> unavailableOfferings s
           | Inl e \<Rightarrow>
             (case errors_As is_linode e of
                Some (c, m, b) \<Rightarrow>
                  if c = 400 then MarkUnavailable (ipMarkOps p) (unavailableOfferings s) (ipNow p s') (ItName it) (ipRegion p)
                  else if c \<in> {500, 502, 503, 504}
                  then MarkRegionUnavailable (ipMarkOps p) (unavailableOfferings s) (ipNow p s') (ipRegion p)
                  else unavailableOfferings s
              | None \<Rightarrow> unavailableOfferings s))"
  using assms(5)
proof (cases rule: ipCreate_cases)
  case none
  then show ?thesis by simp
next
  case (launch it u1 s1 u2 s2 r3 s3)
  have rec: "ipRecording p" using assms(1,2) by (auto simp: ipRecording_def)
  let ?os = "createOptions p nodeClass nc tags it u1 u2"
  have "ipLog s2 = []"
    using ipReq_log(7) [OF rec launch(2)] ipReq_log(7) [OF rec launch(3)] assms(6) by (simp add: ipLog_def)
  with ipReq_log(4) [OF rec launch(4)] launch(6) have log: "snd (ipWorld s') = [sent (CreateInstanceReq ?os) r3]"
    by (simp add: ipLog_def)
  have now: "ipNow p s' = ipNow p s3" using launch(6) by (simp add: ipNow_def)
  have tags: "set (OptTags ?os) = (set (SpecTags (Spec nodeClass)) - {[]}) \<union> (\<lambda>(k, v). kvTag k v) ` set tags"
    using assms(4) by (auto simp: createOptions_def Let_def set_MapToTagList dest: sym)
  have as: "errors_As is_linode (CreateErr e x y) = errors_As is_linode e" for e x y
    by (subst errors_As.simps) (simp split: option.split)
  have off: "unavailableOfferings s' = UpdateUnavailableOfferingsCache (ipErrlib p) (ipMarkOps p) (ipNow p s')
      (case r3 of Inl e \<Rightarrow> Some e | Inr i \<Rightarrow> None) (ipRegion p) it (unavailableOfferings s)"
    unfolding now using launch(6) by simp
  have opts: "OptType ?os = ItName it" "OptRegion ?os = ipRegion p" "distinct (OptTags ?os)"
    by (simp_all add: createOptions_def Let_def)
  show ?thesis
    unfolding launch(1) launch(7) option.case sum.case log off
    by (intro exI [of _ ?os] conjI opts tags; cases r3) (simp_all add: sent_def UpdateUnavailable_marks [OF assms(3)] as)
qed

section \<open>Get and Delete\<close>

lemma NewInstance_simps [simp]:
  "InstStatus (NewInstance li) = LiStatus li" "InstTags (NewInstance li) = LiTags li"
  "InstID (NewInstance li) = LiID li" "InstType (NewInstance li) = LiType li"
  by (simp_all add: NewInstance_def)

lemma ipGet_fresh:
  assumes "ipRecording p" "ipGet p i True s = (r, s')"
  shows "(case Atoi i of
      None \<Rightarrow> r = Inl (invalidID i) \<and> s' = s
    | Some n \<Rightarrow> (\<exists>e. ipLog s' = ipLog s @ [Asked] \<and> r = Inl e) \<or>
        (\<exists>li. ipLog s' = ipLog s @ [GotInstance n li] \<and> r = Inr (NewInstance li))) \<and>
    unavailableOfferings s' = unavailableOfferings s"
  using assms(2)
  by (auto simp: ipGet_def instancesFromLinodeInstances_def reply_def ipForget_def ipRemember_def
      dest: ipReq_log(1) [OF assms(1)] ipReq_keeps split: option.splits prod.splits sum.splits if_splits)

text \<open>
  C18: A Delete of the instance provider looks the instance up past the cache and sends at
  most one changing request: the delete of this very instance, exactly when the lookup finds it
  in another status than deleting. It succeeds iff the instance is already
  being deleted or that request succeeds; an id that is not a number sends nothing.
\<close>

lemma instance_Delete_once:
  fixes p :: "('w \<times> log, 'c, 'u) instance_provider"
  assumes "ipClient p = logged a" "ipRuntime p = logged_rt t" "ipDelete p i s = (e, s')" "ipWorld s = (w, [])"
  shows "case Atoi i of
      None \<Rightarrow> e = Some (invalidID i) \<and> s' = s
    | Some n \<Rightarrow> snd (ipWorld s') = [Asked] \<and> e \<noteq> None \<or>
        (\<exists>li. if LiStatus li = InstanceDeleting
              then snd (ipWorld s') = [GotInstance n li] \<and> e = None
              else snd (ipWorld s') = [GotInstance n li, Sent (DeleteInstanceReq n) (e = None)])"
proof -
  have rec: "ipRecording p" using assms(1,2) by (auto simp: ipRecording_def)
  obtain r1 s1 where r1: "ipGet p i True s = (r1, s1)" by fastforce
  have s: "ipLog s = []" using assms(4) by (simp add: ipLog_def)
  show ?thesis
  proof (cases "Atoi i")
    case None
    with ipGet_fresh [OF rec r1] assms(3) r1 show ?thesis by (auto simp: ipDelete_def)
  next
    case (Some n)
    from ipGet_fresh [OF rec r1] Some s consider (failed) err where "ipLog s1 = [Asked]" "r1 = Inl err"
      | (found) li where "ipLog s1 = [GotInstance n li]" "r1 = Inr (NewInstance li)" by auto
    then show ?thesis
    proof cases
      case failed
      with Some assms(3) r1 show ?thesis by (auto simp: ipDelete_def ipLog_def)
    next
      case found
      obtain e2 s2 where r2: "ipReq (DeleteInstance (ipClient p) n) s1 = (e2, s2)" by fastforce
      from found Some assms(3) r1 r2 ipReq_log(5) [OF rec r2] show ?thesis
        by (intro option.case_eq_if [THEN iffD2]) (auto simp: ipDelete_def ipLog_def sentnil_def intro!: exI [of _ li] split: if_splits)
    qed
  qed
qed

section \<open>CreateTags\<close>

text \<open>The tag requests of a log, each a second or more after the one before.\<close>

definition tagWrites :: "int \<Rightarrow> tagmap \<Rightarrow> log" where
  "tagWrites n tags = map (\<lambda>(k, v). Sent (CreateTagReq [n] (kvTag k v)) True) tags"

lemma createTagsLoop_spec:
  assumes rec: "ipRecording p" and run: "createTagsLoop p n tags s = (e, s')"
  shows "\<exists>written rest. tags = written @ rest \<and> unavailableOfferings s' = unavailableOfferings s \<and>
    (if e = None then rest = [] \<and> ipLog s' = ipLog s @ tagWrites n written
     else \<exists>k v rest'. rest = (k, v) # rest' \<and>
       ipLog s' = ipLog s @ tagWrites n written @ [Sent (CreateTagReq [n] (kvTag k v)) False])"
  using run
proof (induction tags arbitrary: s)
  case (Cons kv tags)
  obtain k v where kv: "kv = (k, v)" by fastforce
  let ?s1 = "s\<lparr>ipWorld := Sleep (ipRuntime p) (10 ^ 9) (ipWorld s)\<rparr>"
  obtain e2 s2 where r2: "ipReq (CreateTag (ipClient p) [n] (kvTag k v)) ?s1 = (e2, s2)" by fastforce
  have log2: "ipLog s2 = ipLog s @ [sentnil (CreateTagReq [n] (kvTag k v)) e2]"
    using ipReq_log(6) [OF rec r2] ipReq_log(8) [OF rec] by simp
  have keep: "unavailableOfferings s2 = unavailableOfferings s" using ipReq_keeps [OF r2] by simp
  show ?case
  proof (cases e2)
    case (Some err)
    with Cons.prems kv r2 log2 keep show ?thesis
      by (intro exI [of _ "[]"] exI [of _ "kv # tags"]) (auto simp: Let_def tagWrites_def sentnil_def)
  next
    case None
    with Cons.prems kv r2 have "createTagsLoop p n tags s2 = (e, s')" by (simp add: Let_def)
    from Cons.IH [OF this] obtain written rest where IH: "tags = written @ rest"
      "unavailableOfferings s' = unavailableOfferings s2"
      "if e = None then rest = [] \<and> ipLog s' = ipLog s2 @ tagWrites n written
       else \<exists>k v rest'. rest = (k, v) # rest' \<and>
         ipLog s' = ipLog s2 @ tagWrites n written @ [Sent (CreateTagReq [n] (kvTag k v)) False]"
      by (elim exE conjE) (rule that)
    with None kv log2 keep show ?thesis
      by (intro exI [of _ "kv # written"] exI [of _ rest]) (auto simp: tagWrites_def sentnil_def)
  qed
qed (simp add: tagWrites_def)

lemma createTagsLoop_time:
  assumes "\<And>d w. Now (ipRuntime p) w + d \<le> Now (ipRuntime p) (Sleep (ipRuntime p) d w)"
    and "\<And>is l w. Now (ipRuntime p) w \<le> Now (ipRuntime p) (snd (CreateTag (ipClient p) is l w))"
    and "createTagsLoop p n tags s = (None, s')"
  shows "ipNow p s + 10 ^ 9 * int (length tags) \<le> ipNow p s'"
  using assms(3)
proof (induction tags arbitrary: s)
  case (Cons kv tags)
  obtain k v where kv: "kv = (k, v)" by fastforce
  let ?s1 = "s\<lparr>ipWorld := Sleep (ipRuntime p) (10 ^ 9) (ipWorld s)\<rparr>"
  obtain e2 s2 where r2: "ipReq (CreateTag (ipClient p) [n] (kvTag k v)) ?s1 = (e2, s2)" by fastforce
  have "ipNow p s + 10 ^ 9 \<le> ipNow p s2"
    using r2 assms(1) [of "ipWorld s" "10 ^ 9"] assms(2) [of "ipWorld ?s1" "[n]" "kvTag k v"]
    by (auto simp: ipNow_def ipReq_def split: prod.splits)
  moreover have "createTagsLoop p n tags s2 = (None, s')"
    using Cons.prems kv r2 by (auto simp: Let_def split: option.splits)
  ultimately show ?case using Cons.IH by fastforce
qed simp

text \<open>
  CreateTags of the instance provider writes the given tags one request at a time in
  the order it ranges over them, for this instance only, and stops at the first that fails;
  when it succeeds every tag was written exactly once, and a second passed for each.
\<close>

lemma instance_CreateTags_each_once:
  fixes p :: "('w \<times> log, 'c, 'u) instance_provider"
  assumes "ipClient p = logged a" "ipRuntime p = logged_rt t" "range_ok (ipRangeOrder p)" "clock_ok a t"
    and "\<forall>is l w. Now t w \<le> Now t (snd (CreateTag a is l w))"
    and "ipCreateTags p i tags s = (e, s')" "ipWorld s = (w, [])"
  shows "case Atoi i of
      None \<Rightarrow> e = Some (invalidID i) \<and> s' = s
    | Some n \<Rightarrow> \<exists>written rest. mset (written @ rest) = mset tags \<and>
        (case e of
           None \<Rightarrow> rest = [] \<and> snd (ipWorld s') = tagWrites n written \<and>
             Now t w + 10 ^ 9 * int (length tags) \<le> ipNow p s'
         | Some _ \<Rightarrow> \<exists>k v rest'. rest = (k, v) # rest' \<and>
             snd (ipWorld s') = tagWrites n written @ [Sent (CreateTagReq [n] (kvTag k v)) False])"
proof (cases "Atoi i")
  case (Some n)
  have rec: "ipRecording p" using assms(1,2) by (auto simp: ipRecording_def)
  have run: "createTagsLoop p n (ipRangeOrder p tags) s = (e, s')" using assms(6) Some by (simp add: ipCreateTags_def)
  have perm: "mset (ipRangeOrder p tags) = mset tags" using assms(3) by (simp add: range_ok_def)
  have time: "Now t w + 10 ^ 9 * int (length tags) \<le> ipNow p s'" if "e = None"
  proof -
    from perm have "length (ipRangeOrder p tags) = length tags" by (metis size_mset)
    with createTagsLoop_time [OF _ _ run [unfolded that]] assms(1,2,4,5,7) show ?thesis
      by (simp add: clock_ok_def logged_def logged_rt_def recorded_def ipNow_def case_prod_beta)
  qed
  from createTagsLoop_spec [OF rec run] obtain written rest where spec: "ipRangeOrder p tags = written @ rest"
    "if e = None then rest = [] \<and> ipLog s' = ipLog s @ tagWrites n written
     else \<exists>k v rest'. rest = (k, v) # rest' \<and>
       ipLog s' = ipLog s @ tagWrites n written @ [Sent (CreateTagReq [n] (kvTag k v)) False]"
    by (elim exE conjE) (rule that)
  with perm time assms(7) Some show ?thesis
    unfolding Some option.case
    by (intro exI [of _ written] exI [of _ rest], cases e) (auto simp: ipLog_def)
qed (use assms(6) in \<open>simp add: ipCreateTags_def\<close>)

end
