(* ===== verification/NodeProvider.thy ===== *)
theory NodeProvider
  imports InstanceProps LkeInstances
begin

text \<open>
  The interface \<open>instance.Provider\<close> (pkg/providers/instance/instance.go) that the cloud
  provider and the NodeClaim controllers call, as a record of operations on the provider's
  state, and its contract as the locale \<open>node_provider\<close>: what each operation may send to the
  Linode API. Both providers implement it; the clients' lemmas are proved once, inside the
  locale, and hold in both modes.
\<close>

section \<open>The interface\<close>

record 's provider =
  PCreate :: "LinodeNodeClass \<Rightarrow> NodeClaim \<Rightarrow> tagmap \<Rightarrow> instance_type list \<Rightarrow> 's \<Rightarrow>
    (Instance res \<times> LinodeNodeClass \<times> 's) option"
  PGet :: "string \<Rightarrow> bool \<Rightarrow> 's \<Rightarrow> Instance res \<times> 's"
  PList :: "'s \<Rightarrow> Instance list res \<times> 's"
  PDelete :: "string \<Rightarrow> 's \<Rightarrow> nilerr \<times> 's"
  PCreateTags :: "string \<Rightarrow> tagmap \<Rightarrow> 's \<Rightarrow> nilerr \<times> 's"
  PUpdateTags :: "string \<Rightarrow> string list \<Rightarrow> 's \<Rightarrow> nilerr \<times> 's"

definition lkeProvider :: "('w, 'c, 'b, 'u) lke \<Rightarrow> ('w, 'c, 'b, 'u) lke_state provider" where
  "lkeProvider p = \<lparr>
     PCreate = (\<lambda>nodeClass nc tags its s. map_option (\<lambda>(r, s). (r, nodeClass, s)) (Create p nodeClass nc tags its s)),
     PGet = lkeGet p, PList = lkeList p, PDelete = lkeDelete p,
     PCreateTags = lkeCreateTags p, PUpdateTags = lkeUpdateTags p\<rparr>"

definition instanceProvider :: "('w, 'c, 'u) instance_provider \<Rightarrow> ('w, 'c, 'u) ip_state provider" where
  "instanceProvider p = \<lparr>PCreate = ipCreate p, PGet = ipGet p, PList = ipList p, PDelete = ipDelete p,
     PCreateTags = ipCreateTags p, PUpdateTags = ipUpdateTags p\<rparr>"

section \<open>The contract\<close>

fun removal :: "event \<Rightarrow> bool" where
  "removal (Sent (DeleteInstanceReq n) ok) = True"
| "removal (Sent (DeletePoolReq c k) ok) = True"
| "removal (Sent (DeleteNodeReq c n) ok) = True"
| "removal _ = False"

text \<open>A tag request for an instance that drops none of the tags just read.\<close>

definition adds_tag :: "log \<Rightarrow> int \<Rightarrow> event \<Rightarrow> bool" where
  "adds_tag l n ev \<longleftrightarrow> (\<exists>tag ok. ev = Sent (CreateTagReq [n] tag) ok) \<or>
     (\<exists>ts ok li. ev = Sent (UpdateInstanceReq n ts) ok \<and> GotInstance n li \<in> set l \<and> set (LiTags li) - {[]} \<subseteq> set ts)"

lemma adds_tag_intros:
  "adds_tag l n (Sent (CreateTagReq [n] tag) ok)"
  "GotInstance n li \<in> set l \<Longrightarrow> set (LiTags li) - {[]} \<subseteq> set ts \<Longrightarrow> adds_tag l n (Sent (UpdateInstanceReq n ts) ok)"
  by (auto simp: adds_tag_def)

locale node_provider =
  fixes P :: "'s provider"
    and logs :: "'s \<Rightarrow> log"
  assumes get_reads: "PGet P i sk s = (r, s') \<Longrightarrow> \<exists>l. logs s' = logs s @ l \<and> reads l"
    and get_fresh: "PGet P i True s = (Inr inst, s') \<Longrightarrow>
      \<exists>n li. Atoi i = Some n \<and> logs s' = logs s @ [GotInstance n li] \<and> InstTags inst = LiTags li"
    and list_reads: "PList P s = (rs, s') \<Longrightarrow> \<exists>l. logs s' = logs s @ l \<and> reads l"
    and delete_removes: "PDelete P i s = (e, s') \<Longrightarrow>
      \<exists>l. logs s' = logs s @ l \<and> length (filter is_sent l) \<le> 1 \<and> (\<forall>ev \<in> set l. is_sent ev \<longrightarrow> removal ev)"
    and update_tags: "PUpdateTags P i ts s = (e, s') \<Longrightarrow>
      (case Atoi i of None \<Rightarrow> e \<noteq> None \<and> logs s' = logs s
       | Some n \<Rightarrow> logs s' = logs s @ [Sent (UpdateInstanceReq n ts) (e = None)])"
    and create_tags: "PCreateTags P i tags s = (e, s') \<Longrightarrow>
      \<exists>l. logs s' = logs s @ l \<and> (\<forall>ev \<in> set l. is_sent ev \<longrightarrow> (\<exists>n. Atoi i = Some n \<and> adds_tag l n ev))"
begin

text \<open>What the clients of the interface rest on: no read-only operation sends a change.\<close>

lemma get_sends_nothing: "filter is_sent (logs (snd (PGet P i sk s))) = filter is_sent (logs s)"
  using get_reads [of i sk s] by (cases "PGet P i sk s") (auto simp: reads_sent)

lemma list_sends_nothing: "filter is_sent (logs (snd (PList P s))) = filter is_sent (logs s)"
  using list_reads [of s] by (cases "PList P s") (auto simp: reads_sent)

end

text \<open>The providers whose Create leaves the NodeClass it is given as it is.\<close>

locale class_keeping_provider = node_provider P logs
  for P :: "'s provider" and logs :: "'s \<Rightarrow> log" +
  assumes create_keeps_class: "PCreate P nodeClass nc tags its s = Some (r, nodeClass', s') \<Longrightarrow> nodeClass' = nodeClass"

section \<open>The LKE provider\<close>

definition onLog :: "('w \<times> log, 'c, 'b, 'u) lke \<Rightarrow> 'w linode_api \<Rightarrow> 'w runtime \<Rightarrow> ('w \<times> log, 'c, 'b, 'u) lke" where
  "onLog p a t = p\<lparr>client := logged a, rt := logged_rt t\<rparr>"

lemma recording_onLog [simp]: "recording (onLog p a t)"
  by (auto simp: recording_def onLog_def)

lemma lkeInstanceOf_simps [simp]:
  "InstTags (lkeInstanceOf p li) = LiTags li" "InstID (lkeInstanceOf p li) = LiID li" "InstType (lkeInstanceOf p li) = LiType li"
  by (simp_all add: lkeInstanceOf_def NewLKEInstance_def)

lemma lkeGet_log:
  assumes "recording p" "lkeGet p i sk s = (r, s')"
  shows "(\<exists>l. logOf s' = logOf s @ l \<and> reads l) \<and>
    (sk \<longrightarrow> (\<forall>inst. r = Inr inst \<longrightarrow> (\<exists>n li. Atoi i = Some n \<and> logOf s' = logOf s @ [GotInstance n li] \<and> InstTags inst = LiTags li)))"
  using assms(2) by (auto simp: lkeGet_def notFoundErr_def Let_def reply_def
      dest: req_log(2) [OF assms(1)] split: option.splits prod.splits sum.splits if_splits)

lemma collectInstances_log: "collectInstances p is s = (r, s') \<Longrightarrow> logOf s' = logOf s"
  by (induction p "is" s arbitrary: r s' rule: collectInstances.induct) (auto simp: Let_def split: if_splits prod.splits)

lemma lkeList_log: "recording p \<Longrightarrow> lkeList p s = (r, s') \<Longrightarrow> \<exists>l. logOf s' = logOf s @ l \<and> reads l"
  by (auto simp: lkeList_def dest!: collectInstances_log req_log(3) split: prod.splits sum.splits)

lemma delete_audit_removals: "delete_audit c n prev l \<Longrightarrow> ev \<in> set l \<Longrightarrow> is_sent ev \<Longrightarrow> removal ev"
proof (induction l arbitrary: prev)
  case (Cons x l)
  have "delete_justified c n prev x \<Longrightarrow> is_sent x \<Longrightarrow> removal x" by (cases "(c, n, prev, x)" rule: delete_justified.cases) auto
  with Cons show ?case by auto
qed simp

lemma lkeDelete_log:
  assumes "recording p" "lkeDelete p i s = (e, s')"
  shows "\<exists>l. logOf s' = logOf s @ l \<and> length (filter is_sent l) \<le> 1 \<and> (\<forall>ev \<in> set l. is_sent ev \<longrightarrow> removal ev)"
proof -
  have rec: "logOf (recordDeleteResult p i e s) = logOf s" for e s
    by (simp add: recordDeleteResult_def split: option.splits)
  obtain e1 s1 where d: "deleteInstance p i s = (e1, s1)" by fastforce
  show ?thesis
  proof (cases "checkDeleteBackoff p i s = None \<and> Atoi i \<noteq> None")
    case True
    then obtain n where n: "Atoi i = Some n" by auto
    from deleteInstance_log [OF assms(1) n d] obtain l where "logOf s1 = logOf s @ l" "length (filter is_sent l) \<le> 1"
      "delete_audit (clusterID p) n None l" by auto
    then show ?thesis using assms(2) True d rec delete_audit_removals
      by (intro exI [of _ l]) (auto simp: lkeDelete_def)
  next
    case False
    with assms(2) d rec have "logOf s' = logOf s" by (auto simp: lkeDelete_def deleteInstance_def split: option.splits)
    then show ?thesis by simp
  qed
qed

lemma lkeUpdateTags_log:
  assumes "recording p" "lkeUpdateTags p i ts s = (e, s')"
  shows "case Atoi i of None \<Rightarrow> e \<noteq> None \<and> logOf s' = logOf s
    | Some n \<Rightarrow> logOf s' = logOf s @ [Sent (UpdateInstanceReq n ts) (e = None)]"
  using assms(2) by (auto simp: lkeUpdateTags_def Let_def sent_def
      dest: req_log(4) [OF assms(1)] split: option.splits prod.splits sum.splits if_splits)

lemma lkeCreateTags_log:
  assumes "recording p" "lkeCreateTags p i tags s = (e, s')"
  shows "\<exists>l. logOf s' = logOf s @ l \<and> (\<forall>ev \<in> set l. is_sent ev \<longrightarrow> (\<exists>n. Atoi i = Some n \<and> adds_tag l n ev))"
proof (cases "Atoi i")
  case (Some n)
  obtain r1 s1 where r1: "req (GetInstance (client p) n) s = (r1, s1)" by fastforce
  note log1 = req_log(2) [OF assms(1) r1]
  show ?thesis
  proof (cases r1)
    case (Inl e1)
    with assms(2) Some r1 log1 show ?thesis
      by (intro exI [of _ "[Asked]"]) (auto simp: lkeCreateTags_def Let_def reply_def split: if_splits)
  next
    case (Inr li)
    let ?ts = "DedupeTags (LiTags li @ MapToTagList (rangeOrder p) tags)"
    obtain r2 s2 where r2: "req (UpdateInstance (client p) n ?ts) s1 = (r2, s2)" by fastforce
    have "logOf s' = logOf s @ [GotInstance n li, sent (UpdateInstanceReq n ?ts) r2]"
      using assms(2) Some r1 Inr log1 r2 req_log(4) [OF assms(1) r2]
      by (auto simp: lkeCreateTags_def Let_def reply_def split: sum.splits if_splits)
    then show ?thesis using Some by (intro exI conjI) (auto simp: sent_def intro!: adds_tag_intros(2) [of n li])
  qed
qed (use assms(2) in \<open>simp add: lkeCreateTags_def\<close>)

interpretation lke_nodes: class_keeping_provider "lkeProvider (onLog p a t)" logOf
  for p :: "('w \<times> log, 'c, 'b, 'u) lke" and a t
proof unfold_locales
  show "\<exists>l. logOf s' = logOf s @ l \<and> reads l" if "PGet (lkeProvider (onLog p a t)) i sk s = (r, s')" for i sk r and s s'
    using lkeGet_log [OF recording_onLog, of p a t i sk s r s'] that by (simp add: lkeProvider_def)
  show "\<exists>n li. Atoi i = Some n \<and> logOf s' = logOf s @ [GotInstance n li] \<and> InstTags inst = LiTags li"
    if "PGet (lkeProvider (onLog p a t)) i True s = (Inr inst, s')" for i inst s s'
    using lkeGet_log [OF recording_onLog, of p a t i True s "Inr inst" s'] that by (simp add: lkeProvider_def)
  show "\<exists>l. logOf s' = logOf s @ l \<and> reads l" if "PList (lkeProvider (onLog p a t)) s = (rs, s')" for s s' rs
    using lkeList_log [OF recording_onLog] that by (simp add: lkeProvider_def)
  show "\<exists>l. logOf s' = logOf s @ l \<and> length (filter is_sent l) \<le> 1 \<and> (\<forall>ev \<in> set l. is_sent ev \<longrightarrow> removal ev)"
    if "PDelete (lkeProvider (onLog p a t)) i s = (e, s')" for i s e s'
    using lkeDelete_log [OF recording_onLog] that by (simp add: lkeProvider_def)
  show "case Atoi i of None \<Rightarrow> e \<noteq> None \<and> logOf s' = logOf s | Some n \<Rightarrow> logOf s' = logOf s @ [Sent (UpdateInstanceReq n ts) (e = None)]"
    if "PUpdateTags (lkeProvider (onLog p a t)) i ts s = (e, s')" for i ts s e s'
    using lkeUpdateTags_log [OF recording_onLog] that by (simp add: lkeProvider_def)
  show "\<exists>l. logOf s' = logOf s @ l \<and> (\<forall>ev \<in> set l. is_sent ev \<longrightarrow> (\<exists>n. Atoi i = Some n \<and> adds_tag l n ev))"
    if "PCreateTags (lkeProvider (onLog p a t)) i tags s = (e, s')" for i tags s e s'
    using lkeCreateTags_log [OF recording_onLog] that by (simp add: lkeProvider_def)
  show "nodeClass' = nodeClass" if "PCreate (lkeProvider (onLog p a t)) nodeClass nc tags its s = Some (r, nodeClass', s')"
    for nodeClass nc tags its s r nodeClass' s'
    using that by (auto simp: lkeProvider_def)
qed

section \<open>The instance provider\<close>

definition ipOnLog :: "('w \<times> log, 'c, 'u) instance_provider \<Rightarrow> 'w linode_api \<Rightarrow> 'w runtime \<Rightarrow> ('w \<times> log, 'c, 'u) instance_provider" where
  "ipOnLog p a t = p\<lparr>ipClient := logged a, ipRuntime := logged_rt t\<rparr>"

lemma ipRecording_onLog [simp]: "ipRecording (ipOnLog p a t)"
  by (auto simp: ipRecording_def ipOnLog_def)

lemma ipGet_log:
  assumes "ipRecording p" "ipGet p i sk s = (r, s')"
  shows "\<exists>l. ipLog s' = ipLog s @ l \<and> reads l"
  using assms(2) by (auto simp: ipGet_def instancesFromLinodeInstances_def
      dest: ipReq_log(1) [OF assms(1)] split: option.splits prod.splits sum.splits if_splits)

lemma ipList_log:
  assumes "ipRecording p" "ipList p s = (r, s')"
  shows "\<exists>l. ipLog s' = ipLog s @ l \<and> reads l"
  using assms(2) by (auto simp: ipList_def dest: ipReq_log(2) [OF assms(1)] split: prod.splits sum.splits if_splits)

lemma ipDelete_log:
  assumes rec: "ipRecording p" and run: "ipDelete p i s = (e, s')"
  shows "\<exists>l. ipLog s' = ipLog s @ l \<and> length (filter is_sent l) \<le> 1 \<and> (\<forall>ev \<in> set l. is_sent ev \<longrightarrow> removal ev)"
proof -
  obtain r1 s1 where r1: "ipGet p i True s = (r1, s1)" by fastforce
  obtain l where l: "ipLog s1 = ipLog s @ l" "reads l" using ipGet_log [OF rec r1] by auto
  have reads: "filter is_sent l = []" "\<forall>ev \<in> set l. is_sent ev \<longrightarrow> removal ev"
    using l(2) by (auto simp: reads_sent reads_def list_all_iff is_sent_iff)
  show ?thesis
  proof (cases "s' = s1")
    case True
    with l reads show ?thesis by auto
  next
    case False
    then obtain n where "ipReq (DeleteInstance (ipClient p) n) s1 = (e, s')"
      using run r1 by (auto simp: ipDelete_def split: sum.splits if_splits option.splits)
    from ipReq_log(5) [OF rec this] l reads show ?thesis
      by (intro exI [of _ "l @ [sentnil (DeleteInstanceReq n) e]"]) (auto simp: sentnil_def)
  qed
qed

lemma ipUpdateTags_log:
  assumes "ipRecording p" "ipUpdateTags p i ts s = (e, s')"
  shows "case Atoi i of None \<Rightarrow> e \<noteq> None \<and> ipLog s' = ipLog s
    | Some n \<Rightarrow> ipLog s' = ipLog s @ [Sent (UpdateInstanceReq n ts) (e = None)]"
  using assms(2) by (auto simp: ipUpdateTags_def sent_def
      dest: ipReq_log(3) [OF assms(1)] split: option.splits prod.splits sum.splits)

lemma ipCreateTags_log:
  assumes rec: "ipRecording p" and run: "ipCreateTags p i tags s = (e, s')"
  shows "\<exists>l. ipLog s' = ipLog s @ l \<and> (\<forall>ev \<in> set l. is_sent ev \<longrightarrow> (\<exists>n. Atoi i = Some n \<and> adds_tag l n ev))"
proof (cases "Atoi i")
  case (Some n)
  with run have "createTagsLoop p n (ipRangeOrder p tags) s = (e, s')" by (simp add: ipCreateTags_def)
  from createTagsLoop_spec [OF rec this] obtain written rest where
    "if e = None then rest = [] \<and> ipLog s' = ipLog s @ tagWrites n written
     else \<exists>k v rest'. rest = (k, v) # rest' \<and>
       ipLog s' = ipLog s @ tagWrites n written @ [Sent (CreateTagReq [n] (kvTag k v)) False]"
    by (elim exE conjE) (rule that)
  then show ?thesis using Some by (cases e) (auto simp: tagWrites_def intro!: adds_tag_intros(1))
qed (use run in \<open>simp add: ipCreateTags_def\<close>)

interpretation instance_nodes: node_provider "instanceProvider (ipOnLog p a t)" ipLog
  for p :: "('w \<times> log, 'c, 'u) instance_provider" and a t
proof unfold_locales
  show "\<exists>l. ipLog s' = ipLog s @ l \<and> reads l" if "PGet (instanceProvider (ipOnLog p a t)) i sk s = (r, s')" for i sk r s s'
    using ipGet_log [OF ipRecording_onLog] that by (simp add: instanceProvider_def)
  show "\<exists>n li. Atoi i = Some n \<and> ipLog s' = ipLog s @ [GotInstance n li] \<and> InstTags inst = LiTags li"
    if "PGet (instanceProvider (ipOnLog p a t)) i True s = (Inr inst, s')" for i inst s s'
    using ipGet_fresh [OF ipRecording_onLog, of p a t i s "Inr inst" s'] that by (auto simp: instanceProvider_def split: option.splits)
  show "\<exists>l. ipLog s' = ipLog s @ l \<and> reads l" if "PList (instanceProvider (ipOnLog p a t)) s = (rs, s')" for s s' rs
    using ipList_log [OF ipRecording_onLog] that by (simp add: instanceProvider_def)
  show "\<exists>l. ipLog s' = ipLog s @ l \<and> length (filter is_sent l) \<le> 1 \<and> (\<forall>ev \<in> set l. is_sent ev \<longrightarrow> removal ev)"
    if "PDelete (instanceProvider (ipOnLog p a t)) i s = (e, s')" for i s e s'
    using ipDelete_log [OF ipRecording_onLog] that by (simp add: instanceProvider_def)
  show "case Atoi i of None \<Rightarrow> e \<noteq> None \<and> ipLog s' = ipLog s | Some n \<Rightarrow> ipLog s' = ipLog s @ [Sent (UpdateInstanceReq n ts) (e = None)]"
    if "PUpdateTags (instanceProvider (ipOnLog p a t)) i ts s = (e, s')" for i ts s e s'
    using ipUpdateTags_log [OF ipRecording_onLog] that by (simp add: instanceProvider_def)
  show "\<exists>l. ipLog s' = ipLog s @ l \<and> (\<forall>ev \<in> set l. is_sent ev \<longrightarrow> (\<exists>n. Atoi i = Some n \<and> adds_tag l n ev))"
    if "PCreateTags (instanceProvider (ipOnLog p a t)) i tags s = (e, s')" for i tags s e s'
    using ipCreateTags_log [OF ipRecording_onLog] that by (simp add: instanceProvider_def)
qed

end
