(* ===== verification/Kube.thy ===== *)
theory Kube
  imports NodeProvider
begin

text \<open>
  The Kubernetes side: the operations of the controller-runtime client and of the event
  recorder the code calls, as a record of operations on an abstract state; the state of the
  whole controller, which is that state beside the node provider's and the instance type provider's; and what the code reads
  of conditions and hashes. The client is not under \<open>src/\<close>, so it is a parameter.
\<close>

section \<open>The client\<close>

record kube_node =
  KubeNodeName :: string
  KubeNodeProviderID :: string

text \<open>
  A get of one object by name; the lists (\<open>nodeclaimutils.ForNodeClass\<close> selects by the name of
  the NodeClass, \<open>ListManaged\<close> returns the NodeClaims of this provider); a patch takes the
  object as it was and as it should be, and whether to lock optimistically; the patches of a NodeClass
  return the object of the server. \<open>Publish\<close> records an event.
\<close>

datatype involved = InvolvedNodePool NodePool | InvolvedNodeClaim NodeClaim | InvolvedNodeClass LinodeNodeClass

record kube_event =
  InvolvedObject :: involved
  EventType :: string
  EventReason :: string
  EventMessage :: string
  DedupeValues :: "string list"

record 'k kube_api =
  KGetNodeClass :: "string \<Rightarrow> 'k \<Rightarrow> LinodeNodeClass res \<times> 'k"
  KGetNodePool :: "string \<Rightarrow> 'k \<Rightarrow> NodePool res \<times> 'k"
  KListForNodeClass :: "string \<Rightarrow> 'k \<Rightarrow> NodeClaim list res \<times> 'k"
  KListManaged :: "'k \<Rightarrow> NodeClaim list res \<times> 'k"
  KListNodes :: "'k \<Rightarrow> kube_node list res \<times> 'k"
  KPatchNodeClaim :: "NodeClaim \<Rightarrow> NodeClaim \<Rightarrow> 'k \<Rightarrow> nilerr \<times> 'k"
  KPatchNodeClass :: "bool \<Rightarrow> LinodeNodeClass \<Rightarrow> LinodeNodeClass \<Rightarrow> 'k \<Rightarrow> LinodeNodeClass res \<times> 'k"
  KPatchNodeClassStatus :: "bool \<Rightarrow> LinodeNodeClass \<Rightarrow> LinodeNodeClass \<Rightarrow> 'k \<Rightarrow> LinodeNodeClass res \<times> 'k"
  KDeleteNode :: "string \<Rightarrow> 'k \<Rightarrow> nilerr \<times> 'k"
  Publish :: "kube_event \<Rightarrow> 'k \<Rightarrow> 'k"

text \<open>The not-found errors the code builds itself.\<close>

definition kubeNotFound :: "string \<Rightarrow> err" where
  "kubeNotFound name = KubeErr KubeNotFound name"

section \<open>The events\<close>

text \<open>pkg/cloudprovider/events/events.go and pkg/controllers/nodeclass/events.go.\<close>

definition NodePoolFailedToResolveNodeClass :: "NodePool \<Rightarrow> kube_event" where
  "NodePoolFailedToResolveNodeClass nodePool = \<lparr>InvolvedObject = InvolvedNodePool nodePool, EventType = ''Warning'',
     EventReason = [], EventMessage = ''Failed resolving NodeClass'', DedupeValues = [NodePoolUID nodePool]\<rparr>"

definition NodeClaimFailedToResolveNodeClass :: "NodeClaim \<Rightarrow> kube_event" where
  "NodeClaimFailedToResolveNodeClass nodeClaim = \<lparr>InvolvedObject = InvolvedNodeClaim nodeClaim, EventType = ''Warning'',
     EventReason = [], EventMessage = ''Failed resolving NodeClass'', DedupeValues = [NodeClaimUID nodeClaim]\<rparr>"

definition WaitingOnNodeClaimTerminationEvent :: "LinodeNodeClass \<Rightarrow> string list \<Rightarrow> kube_event" where
  "WaitingOnNodeClaimTerminationEvent nodeClass names = \<lparr>InvolvedObject = InvolvedNodeClass nodeClass, EventType = ''Normal'',
     EventReason = ''WaitingOnNodeClaimTermination'',
     EventMessage = ''Waiting on NodeClaim termination for '' @ PrettySlice names 5, DedupeValues = [NodeClassUID nodeClass]\<rparr>"

definition LKEValidationFailedEvent :: "LinodeNodeClass \<Rightarrow> string \<Rightarrow> string \<Rightarrow> kube_event" where
  "LKEValidationFailedEvent nodeClass reason message = \<lparr>InvolvedObject = InvolvedNodeClass nodeClass, EventType = ''Warning'',
     EventReason = reason, EventMessage = message, DedupeValues = [NodeClassUID nodeClass, reason]\<rparr>"

section \<open>The state of the controllers\<close>

record ('s, 't, 'k) cluster =
  nodeState :: 's
  typeState :: 't
  kubeState :: 'k

definition onKube :: "('k \<Rightarrow> 'a \<times> 'k) \<Rightarrow> ('s, 't, 'k) cluster \<Rightarrow> 'a \<times> ('s, 't, 'k) cluster" where
  "onKube f st = (case f (kubeState st) of (r, k) \<Rightarrow> (r, st\<lparr>kubeState := k\<rparr>))"

definition onNodes :: "('s \<Rightarrow> 'a \<times> 's) \<Rightarrow> ('s, 't, 'k) cluster \<Rightarrow> 'a \<times> ('s, 't, 'k) cluster" where
  "onNodes f st = (case f (nodeState st) of (r, s) \<Rightarrow> (r, st\<lparr>nodeState := s\<rparr>))"

text \<open>The instance type provider reads the node provider's state and changes its own.\<close>

definition onTypes :: "('s \<Rightarrow> 't \<Rightarrow> 'a \<times> 't) \<Rightarrow> ('s, 't, 'k) cluster \<Rightarrow> 'a \<times> ('s, 't, 'k) cluster" where
  "onTypes f st = (case f (nodeState st) (typeState st) of (r, t) \<Rightarrow> (r, st\<lparr>typeState := t\<rparr>))"

lemma onTypes_nodes: "onTypes f st = (r, st') \<Longrightarrow> nodeState st' = nodeState st \<and> kubeState st' = kubeState st"
  by (auto simp: onTypes_def split: prod.splits)

lemma onKube_nodes: "onKube f st = (r, st') \<Longrightarrow> nodeState st' = nodeState st"
  by (auto simp: onKube_def split: prod.splits)

lemma onNodes_kube: "onNodes f st = (r, st') \<Longrightarrow> kubeState st' = kubeState st"
  by (auto simp: onNodes_def split: prod.splits)

lemma onNodes_nodes: "onNodes f st = (r, st') \<Longrightarrow> f (nodeState st) = (r, nodeState st')"
  by (auto simp: onNodes_def split: prod.splits)

lemma onKube_kube: "onKube f st = (r, st') \<Longrightarrow> f (kubeState st) = (r, kubeState st')"
  by (auto simp: onKube_def split: prod.splits)

section \<open>Conditions\<close>

text \<open>
  \<open>StatusConditions()\<close> of operatorpkg initialises a condition that is not set as Unknown, so
  \<open>Get\<close> never returns nil for a known type. Setting a condition stamps the generation.
\<close>

definition ConditionReady :: string where "ConditionReady = ''Ready''"
definition ConditionTypeValidationSucceeded :: string where "ConditionTypeValidationSucceeded = ''ValidationSucceeded''"

definition conditionOf :: "LinodeNodeClass \<Rightarrow> string \<Rightarrow> condition" where
  "conditionOf nodeClass t =
     (case map_of (Conditions nodeClass) t of
        Some c \<Rightarrow> c
      | None \<Rightarrow> \<lparr>CondStatus = CondUnknown, CondReason = ''AwaitingReconciliation'', CondMessage = ''object is awaiting reconciliation'',
                 ObservedGeneration = Generation nodeClass\<rparr>)"

definition setCondition :: "string \<Rightarrow> cond_status \<Rightarrow> string \<Rightarrow> string \<Rightarrow> LinodeNodeClass \<Rightarrow> LinodeNodeClass" where
  "setCondition t st reason message nodeClass = nodeClass\<lparr>Conditions := AList.update t
     \<lparr>CondStatus = st, CondReason = reason, CondMessage = message, ObservedGeneration = Generation nodeClass\<rparr>
     (Conditions nodeClass)\<rparr>"

lemma setCondition_simps [simp]:
  "Spec (setCondition t st r m nodeClass) = Spec nodeClass"
  "NodeClassName (setCondition t st r m nodeClass) = NodeClassName nodeClass"
  "NodeClassAnnotations (setCondition t st r m nodeClass) = NodeClassAnnotations nodeClass"
  "Generation (setCondition t st r m nodeClass) = Generation nodeClass"
  "Finalizers (setCondition t st r m nodeClass) = Finalizers nodeClass"
  by (simp_all add: setCondition_def)

lemma map_of_setCondition:
  "map_of (Conditions (setCondition t st r m nodeClass)) =
     (map_of (Conditions nodeClass))(t \<mapsto> \<lparr>CondStatus = st, CondReason = r, CondMessage = m, ObservedGeneration = Generation nodeClass\<rparr>)"
  by (simp add: setCondition_def update_conv')

lemma conditionOf_setCondition:
  "conditionOf (setCondition t st r m nodeClass) t' =
     (if t' = t then \<lparr>CondStatus = st, CondReason = r, CondMessage = m, ObservedGeneration = Generation nodeClass\<rparr>
      else conditionOf nodeClass t')"
  using setCondition_simps(4) [of t st r m nodeClass] by (auto simp: conditionOf_def map_of_setCondition split: option.splits)

section \<open>Hashes\<close>

text \<open>
  \<open>Hash\<close> of pkg/apis/v1alpha1/linodenodeclass.go: the hashstructure library, a parameter, of
  the spec without its tags.
\<close>

type_synonym spec_hash = "LinodeNodeClassSpec \<Rightarrow> string"

definition LinodeNodeClassHashVersion :: string where
  "LinodeNodeClassHashVersion = ''v1alpha1''"

definition Hash :: "spec_hash \<Rightarrow> LinodeNodeClass \<Rightarrow> string" where
  "Hash h nodeClass = h ((Spec nodeClass)\<lparr>SpecTags := []\<rparr>)"

text \<open>The two hash annotations a NodeClass or NodeClaim gets.\<close>

definition withHash :: "spec_hash \<Rightarrow> LinodeNodeClass \<Rightarrow> tagmap \<Rightarrow> tagmap" where
  "withHash h nodeClass annotations = assign [annotations,
     [(AnnotationLinodeNodeClassHash, Hash h nodeClass),
      (AnnotationLinodeNodeClassHashVersion, LinodeNodeClassHashVersion)]]"

lemma map_of_withHash:
  "wf_map annotations \<Longrightarrow> map_of (withHash h nodeClass annotations) = (map_of annotations)
     (AnnotationLinodeNodeClassHashVersion \<mapsto> LinodeNodeClassHashVersion,
      AnnotationLinodeNodeClassHash \<mapsto> Hash h nodeClass)"
  by (simp add: withHash_def map_of_assign map_add_def fun_eq_iff split: option.split)

end
