(* ===== verification/CloudProvider.thy ===== *)
theory CloudProvider
  imports Kube
begin

text \<open>
  pkg/cloudprovider/cloudprovider.go and drift.go: Karpenter's CloudProvider on top of a
  node provider, the instance type provider and the Kubernetes client. A nil dereference is
  \<open>None\<close>.
\<close>

section \<open>The provider\<close>

text \<open>
  \<open>typesList\<close> is \<open>instancetype.Provider.List\<close>, which reads the marks of unavailable offerings in
  the node provider's state and changes its own; \<open>nowS\<close> is \<open>time.Now\<close>; \<open>hashOf\<close> the hash library;
  \<open>reservationLabel\<close> Karpenter's \<open>ReservationIDLabel\<close>; \<open>cloudMode\<close> and \<open>optCluster\<close> are the options.
\<close>

record ('s, 't, 'k) cloud =
  kubeClient :: "'k kube_api"
  nodeProvider :: "'s provider"
  typesList :: "LinodeNodeClass \<Rightarrow> 's \<Rightarrow> 't \<Rightarrow> instance_type list res \<times> 't"
  nowS :: "'s \<Rightarrow> int"
  cErrlib :: lib
  cSched :: sched
  hashOf :: spec_hash
  reservationLabel :: string
  cloudMode :: string
  optCluster :: string

section \<open>Resolving objects\<close>

text \<open>A NodeClass that is being deleted counts as not found.\<close>

definition getNodeClassNamed :: "('s, 't, 'k) cloud \<Rightarrow> string \<Rightarrow> ('s, 't, 'k) cluster \<Rightarrow> LinodeNodeClass res \<times> ('s, 't, 'k) cluster" where
  "getNodeClassNamed c name st =
     (case onKube (KGetNodeClass (kubeClient c) name) st of
        (Inl e, st) \<Rightarrow> (Inl e, st)
      | (Inr nodeClass, st) \<Rightarrow>
          if NodeClassDeletion nodeClass \<noteq> None then (Inl (kubeNotFound (NodeClassName nodeClass)), st)
          else (Inr nodeClass, st))"

definition resolveNodeClassFromNodeClaim :: "('s, 't, 'k) cloud \<Rightarrow> NodeClaim \<Rightarrow> ('s, 't, 'k) cluster \<Rightarrow>
    LinodeNodeClass res \<times> ('s, 't, 'k) cluster" where
  "resolveNodeClassFromNodeClaim c nodeClaim st =
     (case NodeClassRef nodeClaim of
        None \<Rightarrow> (Inl (kubeNotFound []), st)
      | Some name \<Rightarrow> getNodeClassNamed c name st)"

definition resolveNodeClassFromNodePool :: "('s, 't, 'k) cloud \<Rightarrow> NodePool \<Rightarrow> ('s, 't, 'k) cluster \<Rightarrow>
    (LinodeNodeClass res \<times> ('s, 't, 'k) cluster) option" where
  "resolveNodeClassFromNodePool c nodePool st =
     map_option (\<lambda>name. getNodeClassNamed c name st) (NodePoolClassRef nodePool)"

definition resolveNodeClassFromInstance :: "('s, 't, 'k) cloud \<Rightarrow> Instance \<Rightarrow> ('s, 't, 'k) cluster \<Rightarrow>
    LinodeNodeClass res \<times> ('s, 't, 'k) cluster" where
  "resolveNodeClassFromInstance c inst st =
     (case map_of (TagListToMap (InstTags inst)) LabelNodeClass of
        None \<Rightarrow> (Inl (kubeNotFound []), st)
      | Some name \<Rightarrow>
        (case onKube (KGetNodeClass (kubeClient c) name) st of
           (Inl e, st) \<Rightarrow> (Inl (Errorf ''resolving linodenodeclass, %w'' [] [e]), st)
         | (Inr nodeClass, st) \<Rightarrow>
             if NodeClassDeletion nodeClass \<noteq> None then (Inl (kubeNotFound (NodeClassName nodeClass)), st)
             else (Inr nodeClass, st)))"

definition resolveNodePoolFromInstance :: "('s, 't, 'k) cloud \<Rightarrow> Instance \<Rightarrow> ('s, 't, 'k) cluster \<Rightarrow>
    NodePool res \<times> ('s, 't, 'k) cluster" where
  "resolveNodePoolFromInstance c inst st =
     (case map_of (TagListToMap (InstTags inst)) NodePoolLabelKey of
        Some nodePoolName \<Rightarrow> onKube (KGetNodePool (kubeClient c) nodePoolName) st
      | None \<Rightarrow> (Inl (kubeNotFound []), st))"

definition GetInstanceTypes :: "('s, 't, 'k) cloud \<Rightarrow> NodePool \<Rightarrow> ('s, 't, 'k) cluster \<Rightarrow>
    (instance_type list res \<times> ('s, 't, 'k) cluster) option" where
  "GetInstanceTypes c nodePool st =
     (case resolveNodeClassFromNodePool c nodePool st of
        None \<Rightarrow> None
      | Some (Inl e, st) \<Rightarrow>
          let st = (if KubeIsNotFound (cErrlib c) e
                    then st\<lparr>kubeState := Publish (kubeClient c) (NodePoolFailedToResolveNodeClass nodePool) (kubeState st)\<rparr>
                    else st)
          in Some (Inl (Errorf ''resolving node class, %w'' [] [e]), st)
      | Some (Inr nodeClass, st) \<Rightarrow> Some (onTypes (typesList c nodeClass) st))"

text \<open>An error that is a not-found error is dropped, with it the instance type.\<close>

definition resolveInstanceTypeFromInstance :: "('s, 't, 'k) cloud \<Rightarrow> Instance \<Rightarrow> ('s, 't, 'k) cluster \<Rightarrow>
    (instance_type option res \<times> ('s, 't, 'k) cluster) option" where
  "resolveInstanceTypeFromInstance c inst st =
     (let fallback = (\<lambda>fmt e. let e' = Errorf fmt [] [e]
                        in if KubeIsNotFound (cErrlib c) e' then Inr None else Inl e')
      in case resolveNodePoolFromInstance c inst st of
           (Inl e, st) \<Rightarrow> Some (fallback ''resolving nodepool, %w'' e, st)
         | (Inr nodePool, st) \<Rightarrow>
           (case GetInstanceTypes c nodePool st of
              None \<Rightarrow> None
            | Some (Inl e, st) \<Rightarrow> Some (fallback ''resolving instance type, %w'' e, st)
            | Some (Inr instanceTypes, st) \<Rightarrow> Some (Inr (find (\<lambda>i. ItName i = InstType inst) instanceTypes), st)))"

section \<open>The NodeClaim of an instance\<close>

definition InstanceShuttingDown :: string where
  "InstanceShuttingDown = ''shutting_down''"

definition typeLabels :: "('s, 't, 'k) cloud \<Rightarrow> requirements \<Rightarrow> tagmap" where
  "typeLabels c reqs = fold (\<lambda>(key, r). AList.update key (hd (ReqValues r)))
     (filter (\<lambda>(key, r). length (ReqValues r) = 1 \<and> ReqKey r \<noteq> reservationLabel c) reqs) []"

definition nonZero :: "resource_list \<Rightarrow> resource_list" where
  "nonZero rs = filter (\<lambda>(name, v). v \<noteq> 0) rs"

definition instanceToNodeClaim :: "('s, 't, 'k) cloud \<Rightarrow> Instance \<Rightarrow> instance_type option \<Rightarrow> 's \<Rightarrow> NodeClaim" where
  "instanceToNodeClaim c inst instanceType s =
     (let nodeClaim = (case instanceType of
            None \<Rightarrow> emptyNodeClaim
          | Some it \<Rightarrow> emptyNodeClaim\<lparr>Capacity := nonZero (ItCapacity it), Allocatable := nonZero (AllocatableOf (cSched c) it)\<rparr>);
          labels = (case instanceType of None \<Rightarrow> [] | Some it \<Rightarrow> typeLabels c (ItRequirements it));
          labels = AList.update LabelTopologyZone (InstRegion inst) labels;
          labels = AList.update CapacityTypeLabelKey ''on-demand'' labels
      in nodeClaim\<lparr>NodeClaimLabels := labels, NodeClaimAnnotations := [],
           CreationTimestamp := InstCreated inst,
           DeletionTimestamp := (if InstStatus inst = InstanceDeleting \<or> InstStatus inst = InstanceShuttingDown
                                 then Some (nowS c s) else None),
           ProviderID := providerIDOf (InstID inst), StatusImageID := InstImage inst\<rparr>)"

section \<open>Create\<close>

definition readinessError :: "LinodeNodeClass \<Rightarrow> nilerr" where
  "readinessError nodeClass =
     (let ready = conditionOf nodeClass ConditionReady
      in if CondStatus ready = CondFalse then Some (NodeClassNotReadyErr (Errorf (CondMessage ready) [] []))
         else if CondStatus ready = CondUnknown
         then Some (CreateErr (Errorf ''resolving nodeclass readiness, nodeclass is in Ready=Unknown, %s'' [CondMessage ready] [])
                ''NodeClassReadinessUnknown'' ''NodeClass is in Ready=Unknown'')
         else if ObservedGeneration ready \<noteq> Generation nodeClass
         then Some (NodeClassNotReadyErr (Errorf ''nodeclass status has not been reconciled against the latest spec'' [] []))
         else None)"

definition tagsFor :: "('s, 't, 'k) cloud \<Rightarrow> LinodeNodeClass \<Rightarrow> NodeClaim \<Rightarrow> tagmap" where
  "tagsFor c nodeClass nodeClaim =
     (if cloudMode c = ''lke'' then GetTagsForLKE nodeClass nodeClaim (optCluster c)
      else GetTags nodeClass nodeClaim (optCluster c))"

definition cloudCreate :: "('s, 't, 'k) cloud \<Rightarrow> NodeClaim \<Rightarrow> ('s, 't, 'k) cluster \<Rightarrow>
    (NodeClaim res \<times> ('s, 't, 'k) cluster) option" where
  "cloudCreate c nodeClaim st =
     (case resolveNodeClassFromNodeClaim c nodeClaim st of
        (Inl e, st) \<Rightarrow>
          let e' = Errorf ''resolving nodeclass, %w'' [] [e]
          in if KubeIsNotFound (cErrlib c) e
             then Some (Inl (InsufficientCapacityErr e'),
                    st\<lparr>kubeState := Publish (kubeClient c) (NodeClaimFailedToResolveNodeClass nodeClaim) (kubeState st)\<rparr>)
             else Some (Inl e', st)
      | (Inr nodeClass, st) \<Rightarrow>
        (case readinessError nodeClass of
           Some e \<Rightarrow> Some (Inl e, st)
         | None \<Rightarrow>
           (case onTypes (typesList c nodeClass) st of
              (Inl e, st) \<Rightarrow> Some (Inl (CreateErr (Errorf ''resolving instance types, %w'' [] [e])
                                ''InstanceTypeResolutionFailed'' ''Error resolving instance types''), st)
            | (Inr instanceTypes, st) \<Rightarrow>
              (case PCreate (nodeProvider c) nodeClass nodeClaim (tagsFor c nodeClass nodeClaim) instanceTypes (nodeState st) of
                 None \<Rightarrow> None
               | Some (Inl e, nodeClass, s) \<Rightarrow> Some (Inl (Errorf ''creating instance, %w'' [] [e]), st\<lparr>nodeState := s\<rparr>)
               | Some (Inr inst, nodeClass, s) \<Rightarrow>
                   let nc = instanceToNodeClaim c inst (find (\<lambda>i. ItName i = InstType inst) instanceTypes) s
                   in Some (Inr (nc\<lparr>NodeClaimAnnotations := withHash (hashOf c) nodeClass (NodeClaimAnnotations nc)\<rparr>),
                        st\<lparr>nodeState := s\<rparr>)))))"

section \<open>Get, List and Delete\<close>

text \<open>The NodeClaim of one instance, as both \<open>Get\<close> and the loop of \<open>List\<close> build it.\<close>

definition claimOfInstance :: "('s, 't, 'k) cloud \<Rightarrow> Instance \<Rightarrow> ('s, 't, 'k) cluster \<Rightarrow>
    (NodeClaim res \<times> ('s, 't, 'k) cluster) option" where
  "claimOfInstance c inst st =
     (case resolveInstanceTypeFromInstance c inst st of
        None \<Rightarrow> None
      | Some (Inl e, st) \<Rightarrow> Some (Inl (Errorf ''resolving instance type, %w'' [] [e]), st)
      | Some (Inr instanceType, st) \<Rightarrow>
        (case resolveNodeClassFromInstance c inst st of
           (r, st) \<Rightarrow>
             (case (case r of Inl e \<Rightarrow> IgnoreNotFound (cErrlib c) (Some e) | Inr nc \<Rightarrow> None) of
                Some e \<Rightarrow> Some (Inl (Errorf ''resolving nodeclass, %w'' [] [e]), st)
              | None \<Rightarrow> Some (Inr (instanceToNodeClaim c inst instanceType (nodeState st)), st))))"

fun claimsOfInstances :: "('s, 't, 'k) cloud \<Rightarrow> Instance list \<Rightarrow> ('s, 't, 'k) cluster \<Rightarrow>
    (NodeClaim list res \<times> ('s, 't, 'k) cluster) option" where
  "claimsOfInstances c [] st = Some (Inr [], st)"
| "claimsOfInstances c (inst # insts) st =
     (case claimOfInstance c inst st of
        None \<Rightarrow> None
      | Some (Inl e, st) \<Rightarrow> Some (Inl e, st)
      | Some (Inr nc, st) \<Rightarrow>
        (case claimsOfInstances c insts st of
           None \<Rightarrow> None
         | Some (Inl e, st) \<Rightarrow> Some (Inl e, st)
         | Some (Inr ncs, st) \<Rightarrow> Some (Inr (nc # ncs), st)))"

definition cloudList :: "('s, 't, 'k) cloud \<Rightarrow> ('s, 't, 'k) cluster \<Rightarrow> (NodeClaim list res \<times> ('s, 't, 'k) cluster) option" where
  "cloudList c st =
     (case onNodes (PList (nodeProvider c)) st of
        (Inl e, st) \<Rightarrow> Some (Inl (Errorf ''listing instances, %w'' [] [e]), st)
      | (Inr instances, st) \<Rightarrow> claimsOfInstances c instances st)"

definition cloudGet :: "('s, 't, 'k) cloud \<Rightarrow> string \<Rightarrow> ('s, 't, 'k) cluster \<Rightarrow> (NodeClaim res \<times> ('s, 't, 'k) cluster) option" where
  "cloudGet c providerID st =
     (case ParseInstanceID providerID of
        Inl e \<Rightarrow> Some (Inl (Errorf ''getting instance ID, %w'' [] [e]), st)
      | Inr i \<Rightarrow>
        (case onNodes (PGet (nodeProvider c) i False) st of
           (Inl e, st) \<Rightarrow> Some (Inl e, st)
         | (Inr inst, st) \<Rightarrow> claimOfInstance c inst st))"

definition cloudDelete :: "('s, 't, 'k) cloud \<Rightarrow> NodeClaim \<Rightarrow> ('s, 't, 'k) cluster \<Rightarrow> nilerr \<times> ('s, 't, 'k) cluster" where
  "cloudDelete c nodeClaim st =
     (case ParseInstanceID (ProviderID nodeClaim) of
        Inl e \<Rightarrow> (Some (Errorf ''getting instance ID, %w'' [] [e]), st)
      | Inr i \<Rightarrow> onNodes (PDelete (nodeProvider c) i) st)"

section \<open>Drift\<close>

definition NodeClassDrift :: string where
  "NodeClassDrift = ''NodeClassDrift''"

definition areStaticFieldsDrifted :: "NodeClaim \<Rightarrow> LinodeNodeClass \<Rightarrow> string" where
  "areStaticFieldsDrifted nodeClaim nodeClass =
     (case (map_of (NodeClassAnnotations nodeClass) AnnotationLinodeNodeClassHash,
            map_of (NodeClassAnnotations nodeClass) AnnotationLinodeNodeClassHashVersion,
            map_of (NodeClaimAnnotations nodeClaim) AnnotationLinodeNodeClassHash,
            map_of (NodeClaimAnnotations nodeClaim) AnnotationLinodeNodeClassHashVersion) of
        (Some nodeClassHash, Some nodeClassHashVersion, Some nodeClaimHash, Some nodeClaimHashVersion) \<Rightarrow>
          if nodeClassHashVersion \<noteq> nodeClaimHashVersion then []
          else if nodeClassHash \<noteq> nodeClaimHash then NodeClassDrift else []
      | _ \<Rightarrow> [])"

definition IsDrifted :: "('s, 't, 'k) cloud \<Rightarrow> NodeClaim \<Rightarrow> ('s, 't, 'k) cluster \<Rightarrow> string res \<times> ('s, 't, 'k) cluster" where
  "IsDrifted c nodeClaim st =
     (case map_of (NodeClaimLabels nodeClaim) NodePoolLabelKey of
        None \<Rightarrow> (Inr [], st)
      | Some nodePoolName \<Rightarrow>
        (case onKube (KGetNodePool (kubeClient c) nodePoolName) st of
           (Inl e, st) \<Rightarrow> ((case IgnoreNotFound (cErrlib c) (Some e) of Some e \<Rightarrow> Inl e | None \<Rightarrow> Inr []), st)
         | (Inr nodePool, st) \<Rightarrow>
           (case resolveNodeClassFromNodePool c nodePool st of
              None \<Rightarrow> (Inr [], st)
            | Some (Inl e, st) \<Rightarrow>
                if KubeIsNotFound (cErrlib c) e
                then (Inr [], st\<lparr>kubeState := Publish (kubeClient c) (NodePoolFailedToResolveNodeClass nodePool) (kubeState st)\<rparr>)
                else (Inl (Errorf ''resolving nodeclass, %w'' [] [e]), st)
            | Some (Inr nodeClass, st) \<Rightarrow> (Inr (areStaticFieldsDrifted nodeClaim nodeClass), st))))"

section \<open>Repair policies\<close>

text \<open>A node condition, its status, and how long it is tolerated, in minutes.\<close>

record RepairPolicy =
  ConditionType :: string
  ConditionStatus :: cond_status
  TolerationMinutes :: int

definition repair :: "string \<Rightarrow> cond_status \<Rightarrow> int \<Rightarrow> RepairPolicy" where
  "repair t s m = \<lparr>ConditionType = t, ConditionStatus = s, TolerationMinutes = m\<rparr>"

definition RepairPolicies :: "RepairPolicy list" where
  "RepairPolicies =
     [repair ''Ready'' CondFalse 30, repair ''Ready'' CondUnknown 30,
      repair ''AcceleratedHardwareReady'' CondFalse 10, repair ''StorageReady'' CondFalse 30,
      repair ''NetworkingReady'' CondFalse 30, repair ''KernelReady'' CondFalse 30,
      repair ''ContainerRuntimeReady'' CondFalse 30]"

end
