(* ===== verification/CloudProps.thy ===== *)
theory CloudProps
  imports CloudProvider
begin

text \<open>
  What the cloud provider promises Karpenter: a launch only for a ready, reconciled
  NodeClass; a NodeClaim that names the instance it was made from, so a later Delete hits
  that instance; reads that change nothing; and drift exactly when the hashed part of the
  NodeClass has changed.
\<close>

section \<open>Resolving keeps the node provider\<close>

lemma getNodeClassNamed_nodes: "getNodeClassNamed c name st = (r, st') \<Longrightarrow> nodeState st' = nodeState st"
  by (auto simp: getNodeClassNamed_def dest: onKube_nodes split: prod.splits sum.splits if_splits)

lemma resolveNodeClassFromNodeClaim_nodes:
  "resolveNodeClassFromNodeClaim c nodeClaim st = (r, st') \<Longrightarrow> nodeState st' = nodeState st"
  by (auto simp: resolveNodeClassFromNodeClaim_def dest: getNodeClassNamed_nodes split: option.splits)

lemma resolveNodeClassFromNodeClaim_live:
  "resolveNodeClassFromNodeClaim c nodeClaim st = (Inr nodeClass, st') \<Longrightarrow> NodeClassDeletion nodeClass = None"
  by (auto simp: resolveNodeClassFromNodeClaim_def getNodeClassNamed_def split: option.splits prod.splits sum.splits if_splits)

lemma GetInstanceTypes_nodes: "GetInstanceTypes c nodePool st = Some (r, st') \<Longrightarrow> nodeState st' = nodeState st"
  by (auto simp: GetInstanceTypes_def resolveNodeClassFromNodePool_def Let_def
      dest!: getNodeClassNamed_nodes onTypes_nodes split: option.splits prod.splits sum.splits if_splits)

lemma claimOfInstance_nodes: "claimOfInstance c inst st = Some (r, st') \<Longrightarrow> nodeState st' = nodeState st"
  by (auto simp: claimOfInstance_def resolveInstanceTypeFromInstance_def resolveNodePoolFromInstance_def
      resolveNodeClassFromInstance_def Let_def
      dest!: onKube_nodes GetInstanceTypes_nodes split: option.splits prod.splits sum.splits if_splits)

lemma claimsOfInstances_nodes: "claimsOfInstances c insts st = Some (r, st') \<Longrightarrow> nodeState st' = nodeState st"
proof (induction insts arbitrary: r st)
  case (Cons inst insts)
  obtain r1 st1 where r1: "claimOfInstance c inst st = Some (r1, st1)"
    using Cons.prems by (cases "claimOfInstance c inst st") auto
  note n1 = claimOfInstance_nodes [OF r1]
  show ?case
  proof (cases r1)
    case (Inr nc)
    with Cons.prems r1 obtain r2 st2 where "claimsOfInstances c insts st1 = Some (r2, st2)" "st' = st2"
      by (cases "claimsOfInstances c insts st1") (auto split: sum.splits)
    with Cons.IH n1 show ?thesis by simp
  qed (use Cons.prems r1 n1 in auto)
qed simp

lemma cloudList_nodes:
  "cloudList c st = Some (r, st') \<Longrightarrow> nodeState st' = snd (PList (nodeProvider c) (nodeState st))"
  by (auto simp: cloudList_def dest!: onNodes_nodes claimsOfInstances_nodes split: prod.splits sum.splits)

lemma cloudGet_nodes:
  "cloudGet c providerID st = Some (r, st') \<Longrightarrow> nodeState st' = nodeState st \<or>
     (\<exists>i. ParseInstanceID providerID = Inr i \<and> nodeState st' = snd (PGet (nodeProvider c) i False (nodeState st)))"
  by (auto simp: cloudGet_def dest!: onNodes_nodes claimOfInstance_nodes split: prod.splits sum.splits)

section \<open>The NodeClaim of an instance\<close>

lemma instanceToNodeClaim_simps [simp]:
  "ProviderID (instanceToNodeClaim c inst it s) = providerIDOf (InstID inst)"
  "NodeClaimAnnotations (instanceToNodeClaim c inst it s) = []"
  "CreationTimestamp (instanceToNodeClaim c inst it s) = InstCreated inst"
  "StatusImageID (instanceToNodeClaim c inst it s) = InstImage inst"
  by (simp_all add: instanceToNodeClaim_def Let_def)

lemma instanceToNodeClaim_labels:
  "map_of (NodeClaimLabels (instanceToNodeClaim c inst it s)) LabelTopologyZone = Some (InstRegion inst)"
  "map_of (NodeClaimLabels (instanceToNodeClaim c inst it s)) CapacityTypeLabelKey = Some ''on-demand''"
  by (simp_all add: instanceToNodeClaim_def Let_def update_conv' LabelTopologyZone_def CapacityTypeLabelKey_def coreGroup_def)

section \<open>Create\<close>

text \<open>The outcomes of a Create.\<close>

lemma cloudCreate_cases:
  assumes "cloudCreate c nodeClaim st = Some (r, st')"
  obtains (refused) e where "r = Inl e" "nodeState st' = nodeState st"
      "\<forall>nodeClass st1. resolveNodeClassFromNodeClaim c nodeClaim st = (Inr nodeClass, st1) \<longrightarrow>
         readinessError nodeClass = Some e \<or>
         (\<exists>e' st2. onTypes (typesList c nodeClass) st1 = (Inl e', st2) \<and> readinessError nodeClass = None)"
  | (ran) nodeClass st1 its st2 r3 nodeClass' s3 where "resolveNodeClassFromNodeClaim c nodeClaim st = (Inr nodeClass, st1)"
      "readinessError nodeClass = None" "onTypes (typesList c nodeClass) st1 = (Inr its, st2)"
      "PCreate (nodeProvider c) nodeClass nodeClaim (tagsFor c nodeClass nodeClaim) its (nodeState st) = Some (r3, nodeClass', s3)"
      "nodeState st' = s3"
      "r = (case r3 of Inl e \<Rightarrow> Inl (Errorf ''creating instance, %w'' [] [e])
            | Inr inst \<Rightarrow> Inr ((instanceToNodeClaim c inst (find (\<lambda>i. ItName i = InstType inst) its) s3)
                \<lparr>NodeClaimAnnotations := withHash (hashOf c) nodeClass' []\<rparr>))"
proof -
  obtain r1 st1 where r1: "resolveNodeClassFromNodeClaim c nodeClaim st = (r1, st1)" by fastforce
  note n1 = resolveNodeClassFromNodeClaim_nodes [OF r1]
  show ?thesis
  proof (cases r1)
    case (Inl e)
    then show ?thesis using assms r1 n1
      by (intro refused [of "if KubeIsNotFound (cErrlib c) e
            then InsufficientCapacityErr (Errorf ''resolving nodeclass, %w'' [] [e]) else Errorf ''resolving nodeclass, %w'' [] [e]"])
        (auto simp: cloudCreate_def Let_def split: if_splits)
  next
    case (Inr nodeClass)
    show ?thesis
    proof (cases "readinessError nodeClass")
      case (Some e)
      then show ?thesis using assms r1 n1 Inr by (intro refused [of e]) (auto simp: cloudCreate_def)
    next
      case None
      obtain r2 st2 where r2: "onTypes (typesList c nodeClass) st1 = (r2, st2)" by fastforce
      from onTypes_nodes [OF r2] n1 have n2: "nodeState st2 = nodeState st" by simp
      show ?thesis
      proof (cases r2)
        case (Inl e)
        then show ?thesis using assms r1 n2 Inr None r2
          by (intro refused [of "CreateErr (Errorf ''resolving instance types, %w'' [] [e])
              ''InstanceTypeResolutionFailed'' ''Error resolving instance types''"]) (auto simp: cloudCreate_def)
      next
        case its: (Inr its)
        then obtain r3 nodeClass' s3 where r3:
          "PCreate (nodeProvider c) nodeClass nodeClaim (tagsFor c nodeClass nodeClaim) its (nodeState st) = Some (r3, nodeClass', s3)"
          using assms r1 Inr None r2 n2 by (auto simp: cloudCreate_def split: option.splits)
        show ?thesis
          using assms r1 Inr None r2 n2 its r3
          by (intro ran [OF r1 [unfolded Inr] None r2 [unfolded its] r3])
            (auto simp: cloudCreate_def Let_def split: sum.splits)
      qed
    qed
  qed
qed

lemma readinessError_None:
  "readinessError nodeClass = None \<longleftrightarrow>
     CondStatus (conditionOf nodeClass ConditionReady) = CondTrue \<and>
     ObservedGeneration (conditionOf nodeClass ConditionReady) = Generation nodeClass"
  by (cases "CondStatus (conditionOf nodeClass ConditionReady)") (auto simp: readinessError_def Let_def)

text \<open>
  C19: A Create touches the node provider only for a NodeClass that resolves, is not being
  deleted and is Ready=True for its current generation. The NodeClaim it returns then names the created
  instance: its provider id parses back to the instance's number, its zone is the
  instance's region, and its hash annotations are those of the NodeClass.
\<close>

lemma cloud_Create_gated:
  assumes "cloudCreate c nodeClaim st = Some (r, st')"
  shows "(nodeState st' = nodeState st \<and> isl r) \<or>
    (\<exists>nodeClass st1 its r3 nodeClass'. resolveNodeClassFromNodeClaim c nodeClaim st = (Inr nodeClass, st1) \<and>
       NodeClassDeletion nodeClass = None \<and>
       CondStatus (conditionOf nodeClass ConditionReady) = CondTrue \<and>
       ObservedGeneration (conditionOf nodeClass ConditionReady) = Generation nodeClass \<and>
       PCreate (nodeProvider c) nodeClass nodeClaim (tagsFor c nodeClass nodeClaim) its (nodeState st) =
         Some (r3, nodeClass', nodeState st') \<and>
       isl r = isl r3 \<and>
       (\<forall>inst claim. r3 = Inr inst \<longrightarrow> r = Inr claim \<longrightarrow>
          ParseInstanceID (ProviderID claim) = Inr (Itoa (InstID inst)) \<and>
          map_of (NodeClaimLabels claim) LabelTopologyZone = Some (InstRegion inst) \<and>
          NodeClaimAnnotations claim = withHash (hashOf c) nodeClass' []))"
  using assms
proof (cases rule: cloudCreate_cases)
  case refused
  then show ?thesis by simp
next
  case (ran nodeClass st1 its st2 r3 nodeClass' s3)
  from resolveNodeClassFromNodeClaim_live [OF ran(1)] ran(2) ran(4-6) show ?thesis
    by (intro disjI2 exI [of _ nodeClass] exI [of _ st1] exI [of _ its] exI [of _ r3] exI [of _ nodeClass'])
      (cases r3; simp add: readinessError_None ran(1) ParseInstanceID_providerIDOf instanceToNodeClaim_labels)
qed

text \<open>
  C20: A Delete of any NodeClaim that carries the provider id a Create returned asks the node
  provider to delete exactly the instance that Create made, by its decimal number.
\<close>

lemma cloud_Delete_hits_created:
  assumes "cloudCreate c nodeClaim st = Some (Inr claim, st')" "ProviderID claim' = ProviderID claim"
  shows "\<exists>inst nodeClass its nodeClass'. PCreate (nodeProvider c) nodeClass nodeClaim (tagsFor c nodeClass nodeClaim) its
      (nodeState st) = Some (Inr inst, nodeClass', nodeState st') \<and>
    cloudDelete c claim' st2 = onNodes (PDelete (nodeProvider c) (Itoa (InstID inst))) st2 \<and>
    (- (2 ^ 63) \<le> InstID inst \<and> InstID inst < 2 ^ 63 \<longrightarrow> Atoi (Itoa (InstID inst)) = Some (InstID inst))"
  using assms(1)
proof (cases rule: cloudCreate_cases)
  case (ran nodeClass st1 its st2 r3 nodeClass' s3)
  then obtain inst where "r3 = Inr inst" by (cases r3) auto
  with ran(4-6) assms(2) show ?thesis
    by (intro exI [of _ inst] exI [of _ nodeClass] exI [of _ its] exI [of _ nodeClass'])
      (auto simp: cloudDelete_def ParseInstanceID_providerIDOf Atoi_Itoa)
qed simp

section \<open>Reads\<close>

context node_provider
begin

lemma cloud_reads_send_nothing:
  assumes "nodeProvider c = P" "cloudList c st = Some (r, st') \<or> cloudGet c providerID st = Some (r2, st')"
  shows "filter is_sent (logs (nodeState st')) = filter is_sent (logs (nodeState st))"
  using assms(2)
proof (elim disjE)
  assume "cloudList c st = Some (r, st')"
  from cloudList_nodes [OF this] assms(1) show ?thesis by (simp add: list_sends_nothing)
next
  assume "cloudGet c providerID st = Some (r2, st')"
  from cloudGet_nodes [OF this] get_sends_nothing show ?thesis unfolding assms(1) by (elim disjE exE conjE) simp_all
qed

end

text \<open>
  In both modes, listing and getting NodeClaims sends the Linode API no request that
  changes anything, whatever the Kubernetes client answers.
\<close>

lemma cloud_reads_change_nothing:
  fixes p :: "('w \<times> log, 'c, 'b, 'u) lke" and q :: "('v \<times> log, 'd, 'x) instance_provider"
  shows "(nodeProvider c = lkeProvider (onLog p a t) \<and>
        (cloudList c st = Some (r, st') \<or> cloudGet c providerID st = Some (r', st')) \<longrightarrow>
      filter is_sent (logOf (nodeState st')) = filter is_sent (logOf (nodeState st))) \<and>
    (nodeProvider d = instanceProvider (ipOnLog q b u) \<and>
        (cloudList d st2 = Some (r2, st2') \<or> cloudGet d providerID st2 = Some (r2', st2')) \<longrightarrow>
      filter is_sent (ipLog (nodeState st2')) = filter is_sent (ipLog (nodeState st2)))"
  using lke_nodes.cloud_reads_send_nothing [of c p a t st r st' providerID r']
    instance_nodes.cloud_reads_send_nothing [of d q b u st2 r2 st2' providerID r2'] by blast

end
