(* ===== verification/NodeClassHash.thy ===== *)
theory NodeClassHash
  imports CloudProps
begin

text \<open>
  pkg/controllers/nodeclass/hash/controller.go: the controller that keeps the hash annotations
  of a NodeClass, and re-stamps its NodeClaims when the hash version changes. With the
  drift check of the cloud provider it decides which nodes are replaced.
\<close>

section \<open>The controller\<close>

text \<open>\<open>multierr.Combine\<close>: nil when every error is nil.\<close>

definition combineErrs :: "nilerr list \<Rightarrow> nilerr" where
  "combineErrs errs = (case concat (map (\<lambda>e. case e of Some e \<Rightarrow> [e] | None \<Rightarrow> []) errs) of
     [] \<Rightarrow> None | [e] \<Rightarrow> Some e | es \<Rightarrow> Some (Errorf ''multierr'' [] es))"

lemma combineErrs_None: "combineErrs errs = None \<longleftrightarrow> (\<forall>e \<in> set errs. e = None)"
proof -
  have "concat (map (\<lambda>e. case e of Some e \<Rightarrow> [e] | None \<Rightarrow> []) errs) = [] \<longleftrightarrow> (\<forall>e \<in> set errs. e = None)"
    by (auto split: option.splits)
  moreover have "(case l of [] \<Rightarrow> None | [e] \<Rightarrow> Some e | es \<Rightarrow> Some (f es)) = None \<longleftrightarrow> l = []" for l :: "err list" and f
    by (auto split: list.split)
  ultimately show ?thesis unfolding combineErrs_def by (simp only:)
qed

definition staleVersion :: "tagmap \<Rightarrow> bool" where
  "staleVersion annotations \<longleftrightarrow> labelOf annotations AnnotationLinodeNodeClassHashVersion \<noteq> LinodeNodeClassHashVersion"

text \<open>A NodeClaim with a Drifted condition keeps its hash, so it stays drifted.\<close>

definition restampClaim :: "spec_hash \<Rightarrow> LinodeNodeClass \<Rightarrow> NodeClaim \<Rightarrow> NodeClaim" where
  "restampClaim h nodeClass nc =
     (if staleVersion (NodeClaimAnnotations nc)
      then let nc = nc\<lparr>NodeClaimAnnotations := assign [NodeClaimAnnotations nc,
                        [(AnnotationLinodeNodeClassHashVersion, LinodeNodeClassHashVersion)]]\<rparr>
           in if DriftedCondition nc then nc
              else nc\<lparr>NodeClaimAnnotations := assign [NodeClaimAnnotations nc,
                        [(AnnotationLinodeNodeClassHash, Hash h nodeClass)]]\<rparr>
      else nc)"

fun restampAll :: "'k kube_api \<Rightarrow> lib \<Rightarrow> spec_hash \<Rightarrow> LinodeNodeClass \<Rightarrow> NodeClaim list \<Rightarrow> 'k \<Rightarrow> nilerr list \<times> 'k" where
  "restampAll K L h nodeClass [] k = ([], k)"
| "restampAll K L h nodeClass (stored # ncs) k =
     (let nc = restampClaim h nodeClass stored;
          (e, k) = (if nc \<noteq> stored
                    then case KPatchNodeClaim K stored nc k of (e, k) \<Rightarrow> (IgnoreNotFound L e, k)
                    else (None, k));
          (es, k) = restampAll K L h nodeClass ncs k
      in (e # es, k))"

definition updateNodeClaimHash :: "'k kube_api \<Rightarrow> lib \<Rightarrow> spec_hash \<Rightarrow> LinodeNodeClass \<Rightarrow> 'k \<Rightarrow> nilerr \<times> 'k" where
  "updateNodeClaimHash K L h nodeClass k =
     (case KListForNodeClass K (NodeClassName nodeClass) k of
        (Inl e, k) \<Rightarrow> (Some e, k)
      | (Inr nodeClaims, k) \<Rightarrow>
          (case restampAll K L h nodeClass nodeClaims k of (errs, k) \<Rightarrow> (combineErrs errs, k)))"

definition hashedNodeClass :: "spec_hash \<Rightarrow> LinodeNodeClass \<Rightarrow> LinodeNodeClass" where
  "hashedNodeClass h nodeClass = nodeClass\<lparr>NodeClassAnnotations := withHash h nodeClass (NodeClassAnnotations nodeClass)\<rparr>"

definition hashReconcile :: "'k kube_api \<Rightarrow> lib \<Rightarrow> spec_hash \<Rightarrow> LinodeNodeClass \<Rightarrow> 'k \<Rightarrow> nilerr \<times> 'k" where
  "hashReconcile K L h nodeClass k =
     (case (if staleVersion (NodeClassAnnotations nodeClass) then updateNodeClaimHash K L h nodeClass k else (None, k)) of
        (Some e, k) \<Rightarrow> (Some e, k)
      | (None, k) \<Rightarrow>
          let stored = nodeClass; nodeClass = hashedNodeClass h nodeClass
          in if nodeClass \<noteq> stored
             then case KPatchNodeClass K False stored nodeClass k of
                    (Inl e, k) \<Rightarrow> (Some e, k) | (Inr _, k) \<Rightarrow> (None, k)
             else (None, k))"

section \<open>Stored NodeClaims\<close>

text \<open>
  What the API server documents of NodeClaims: a list by NodeClass returns those stored with
  its name, once each; a patch of an unchanged object stores the new one, and leaves the other
  objects alone; patching a missing object fails with not found. \<open>claims\<close> reads the store.
\<close>

definition claims_ok :: "'k kube_api \<Rightarrow> lib \<Rightarrow> ('k \<Rightarrow> string \<Rightarrow> NodeClaim option) \<Rightarrow> bool" where
  "claims_ok K L claims \<longleftrightarrow>
     (\<forall>cls k ncs k'. KListForNodeClass K cls k = (Inr ncs, k') \<longrightarrow> claims k' = claims k \<and>
        distinct (map NodeClaimName ncs) \<and>
        set ncs = {nc. claims k (NodeClaimName nc) = Some nc \<and> NodeClassRef nc = Some cls}) \<and>
     (\<forall>old new k k'. KPatchNodeClaim K old new k = (None, k') \<longrightarrow> NodeClaimName new = NodeClaimName old \<longrightarrow>
        claims k (NodeClaimName old) = Some old \<longrightarrow> claims k' = (claims k)(NodeClaimName old \<mapsto> new)) \<and>
     (\<forall>old new k e k'. KPatchNodeClaim K old new k = (Some e, k') \<longrightarrow> KubeIsNotFound L e \<longrightarrow>
        claims k' = (claims k)(NodeClaimName old := None)) \<and>
     (\<forall>k name nc. claims k name = Some nc \<longrightarrow> NodeClaimName nc = name) \<and>
     (\<forall>b old new k. claims (snd (KPatchNodeClass K b old new k)) = claims k)"

lemma claims_okD:
  assumes "claims_ok K L claims"
  shows "KListForNodeClass K cls k = (Inr ncs, k') \<Longrightarrow> claims k' = claims k \<and> distinct (map NodeClaimName ncs) \<and>
      set ncs = {nc. claims k (NodeClaimName nc) = Some nc \<and> NodeClassRef nc = Some cls}"
    and "KPatchNodeClaim K old new k = (None, k') \<Longrightarrow> NodeClaimName new = NodeClaimName old \<Longrightarrow>
      claims k (NodeClaimName old) = Some old \<Longrightarrow> claims k' = (claims k)(NodeClaimName old \<mapsto> new)"
    and "KPatchNodeClaim K old new k = (Some e, k') \<Longrightarrow> KubeIsNotFound L e \<Longrightarrow>
      claims k' = (claims k)(NodeClaimName old := None)"
    and "claims k name = Some nc \<Longrightarrow> NodeClaimName nc = name"
    and "KPatchNodeClass K b oldc newc k = (rc, k') \<Longrightarrow> claims k' = claims k"
proof -
  note ok = assms [unfolded claims_ok_def]
  show "KListForNodeClass K cls k = (Inr ncs, k') \<Longrightarrow> claims k' = claims k \<and> distinct (map NodeClaimName ncs) \<and>
      set ncs = {nc. claims k (NodeClaimName nc) = Some nc \<and> NodeClassRef nc = Some cls}"
    using conjunct1 [OF ok] by blast
  show "KPatchNodeClaim K old new k = (None, k') \<Longrightarrow> NodeClaimName new = NodeClaimName old \<Longrightarrow>
      claims k (NodeClaimName old) = Some old \<Longrightarrow> claims k' = (claims k)(NodeClaimName old \<mapsto> new)"
    using conjunct1 [OF conjunct2 [OF ok]] by blast
  show "KPatchNodeClaim K old new k = (Some e, k') \<Longrightarrow> KubeIsNotFound L e \<Longrightarrow>
      claims k' = (claims k)(NodeClaimName old := None)"
    using conjunct1 [OF conjunct2 [OF conjunct2 [OF ok]]] by blast
  show "claims k name = Some nc \<Longrightarrow> NodeClaimName nc = name"
    using conjunct1 [OF conjunct2 [OF conjunct2 [OF conjunct2 [OF ok]]]] by blast
  show "KPatchNodeClass K b oldc newc k = (rc, k') \<Longrightarrow> claims k' = claims k"
    using conjunct2 [OF conjunct2 [OF conjunct2 [OF conjunct2 [OF ok]]]] by (metis snd_conv)
qed

lemma restampClaim_simps [simp]:
  "NodeClaimName (restampClaim h nodeClass nc) = NodeClaimName nc"
  "NodeClassRef (restampClaim h nodeClass nc) = NodeClassRef nc"
  by (simp_all add: restampClaim_def Let_def)

text \<open>When no error is left, every listed claim was re-stamped, or is gone.\<close>

lemma restampAll_stored:
  assumes ok: "claims_ok K L claims" and run: "restampAll K L h nodeClass ncs k = (es, k')"
    and "\<forall>e \<in> set es. e = None" "distinct (map NodeClaimName ncs)"
    and "\<forall>nc \<in> set ncs. claims k (NodeClaimName nc) = Some nc"
  shows "\<forall>name. if name \<in> NodeClaimName ` set ncs
     then claims k' name \<in> {None, map_option (restampClaim h nodeClass) (claims k name)}
     else claims k' name = claims k name"
  using run assms(3-)
proof (induction ncs arbitrary: es k)
  case (Cons nc ncs)
  let ?new = "restampClaim h nodeClass nc"
  obtain e1 k1 where step: "(if ?new \<noteq> nc then case KPatchNodeClaim K nc ?new k of (e, k) \<Rightarrow> (IgnoreNotFound L e, k)
      else (None, k)) = (e1, k1)" by fastforce
  obtain es2 where rest: "restampAll K L h nodeClass ncs k1 = (es2, k')" "es = e1 # es2"
    using Cons.prems(1) step by (auto simp: Let_def split: prod.splits)
  have here: "claims k (NodeClaimName nc) = Some nc" using Cons.prems(4) by simp
  have k1: "\<exists>x \<in> {None, Some ?new}. claims k1 = (claims k)(NodeClaimName nc := x)"
  proof (cases "?new = nc")
    case True
    with step here have "claims k1 = (claims k)(NodeClaimName nc \<mapsto> ?new)" by auto
    then show ?thesis by blast
  next
    case False
    obtain e0 where patch: "KPatchNodeClaim K nc ?new k = (e0, k1)" "IgnoreNotFound L e0 = None"
      using step False Cons.prems(2) rest(2) by (auto split: prod.splits)
    show ?thesis
    proof (cases e0)
      case None
      from claims_okD(2) [OF ok patch(1) [unfolded None]] here show ?thesis by auto
    next
      case (Some e)
      with patch(2) have "KubeIsNotFound L e" by (simp add: IgnoreNotFound_def split: if_splits)
      from claims_okD(3) [OF ok patch(1) [unfolded Some] this] show ?thesis by auto
    qed
  qed
  have same: "claims k1 name = claims k name" if "name \<noteq> NodeClaimName nc" for name
    using k1 that by auto
  have "\<forall>nc' \<in> set ncs. claims k1 (NodeClaimName nc') = Some nc'"
    using Cons.prems(3,4) same by (metis distinct.simps(2) image_eqI list.set_intros(2) list.simps(9) set_map)
  from Cons.IH [OF rest(1) _ _ this] Cons.prems(2,3) rest(2)
  have IH: "\<forall>name. if name \<in> NodeClaimName ` set ncs
     then claims k' name \<in> {None, map_option (restampClaim h nodeClass) (claims k1 name)}
     else claims k' name = claims k1 name" by simp
  have notin: "NodeClaimName nc \<notin> NodeClaimName ` set ncs" using Cons.prems(3) by auto
  show ?case
  proof
    fix name
    show "if name \<in> NodeClaimName ` set (nc # ncs)
       then claims k' name \<in> {None, map_option (restampClaim h nodeClass) (claims k name)}
       else claims k' name = claims k name"
      using spec [OF IH, of name] notin k1 here same [of name]
      by (cases "name = NodeClaimName nc") (auto split: if_splits)
  qed
qed simp

section \<open>Drift\<close>

lemma drift_iff:
  "areStaticFieldsDrifted nodeClaim nodeClass = NodeClassDrift \<longleftrightarrow>
     (\<exists>v a b. map_of (NodeClassAnnotations nodeClass) AnnotationLinodeNodeClassHashVersion = Some v \<and>
        map_of (NodeClaimAnnotations nodeClaim) AnnotationLinodeNodeClassHashVersion = Some v \<and>
        map_of (NodeClassAnnotations nodeClass) AnnotationLinodeNodeClassHash = Some a \<and>
        map_of (NodeClaimAnnotations nodeClaim) AnnotationLinodeNodeClassHash = Some b \<and> a \<noteq> b)"
  by (auto simp: areStaticFieldsDrifted_def NodeClassDrift_def split: option.splits)

lemma hashedNodeClass_annotations:
  assumes "wf_map (NodeClassAnnotations nodeClass)"
  shows "map_of (NodeClassAnnotations (hashedNodeClass h nodeClass)) AnnotationLinodeNodeClassHash = Some (Hash h nodeClass)"
    "map_of (NodeClassAnnotations (hashedNodeClass h nodeClass)) AnnotationLinodeNodeClassHashVersion = Some LinodeNodeClassHashVersion"
  using assms by (simp_all add: hashedNodeClass_def map_of_withHash)

lemma restampClaim_annotations:
  assumes "wf_map (NodeClaimAnnotations nc)"
  shows "map_of (NodeClaimAnnotations (restampClaim h nodeClass nc)) =
     (if \<not> staleVersion (NodeClaimAnnotations nc) then map_of (NodeClaimAnnotations nc)
      else if DriftedCondition nc
      then (map_of (NodeClaimAnnotations nc))(AnnotationLinodeNodeClassHashVersion \<mapsto> LinodeNodeClassHashVersion)
      else (map_of (NodeClaimAnnotations nc))(AnnotationLinodeNodeClassHashVersion \<mapsto> LinodeNodeClassHashVersion,
             AnnotationLinodeNodeClassHash \<mapsto> Hash h nodeClass))"
  using assms
  by (auto simp: restampClaim_def Let_def map_of_assign map_add_def fun_eq_iff split: option.split)

text \<open>What a successful reconcile stores of each NodeClaim.\<close>

lemma hashReconcile_claims:
  assumes "claims_ok K L claims" "hashReconcile K L h nodeClass k = (None, k')" "claims k' name = Some claim'"
  obtains claim where "claims k name = Some claim"
    "claim' = (if NodeClassRef claim = Some (NodeClassName nodeClass) \<and> staleVersion (NodeClassAnnotations nodeClass)
       then restampClaim h nodeClass claim else claim)"
proof -
  obtain e1 k1 where step: "(if staleVersion (NodeClassAnnotations nodeClass) then updateNodeClaimHash K L h nodeClass k
      else (None, k)) = (e1, k1)" by fastforce
  have e1: "e1 = None" and k1: "claims k' = claims k1"
    using assms(2) step claims_okD(5) [OF assms(1)]
    by (auto simp: hashReconcile_def Let_def split: option.splits if_splits prod.splits sum.splits)
  show thesis
  proof (cases "staleVersion (NodeClassAnnotations nodeClass)")
    case False
    with step k1 assms(3) that show thesis by auto
  next
    case True
    obtain ncs k0 where list: "KListForNodeClass K (NodeClassName nodeClass) k = (Inr ncs, k0)"
      and all: "\<exists>es. restampAll K L h nodeClass ncs k0 = (es, k1) \<and> combineErrs es = None"
      using step True e1 by (auto simp: updateNodeClaimHash_def split: prod.splits sum.splits)
    note listed = claims_okD(1) [OF assms(1) list]
    from all obtain es where es: "restampAll K L h nodeClass ncs k0 = (es, k1)" "combineErrs es = None" by blast
    have stored: "if name \<in> NodeClaimName ` set ncs
       then claims k1 name \<in> {None, map_option (restampClaim h nodeClass) (claims k name)}
       else claims k1 name = claims k name"
    proof -
      have none: "\<forall>e \<in> set es. e = None" using es(2) by (simp only: combineErrs_None)
      have k0: "claims k0 = claims k" "distinct (map NodeClaimName ncs)" using listed by blast+
      have here: "\<forall>nc \<in> set ncs. claims k0 (NodeClaimName nc) = Some nc" using listed by auto
      show ?thesis using spec [OF restampAll_stored [OF assms(1) es(1) none k0(2) here], of name] unfolding k0(1) .
    qed
    have iff: "name \<in> NodeClaimName ` set ncs \<longleftrightarrow> (\<exists>nc. claims k name = Some nc \<and> NodeClassRef nc = Some (NodeClassName nodeClass))"
    proof
      assume "name \<in> NodeClaimName ` set ncs"
      then obtain nc where "name = NodeClaimName nc" "nc \<in> set ncs" by blast
      with listed show "\<exists>nc. claims k name = Some nc \<and> NodeClassRef nc = Some (NodeClassName nodeClass)" by simp
    next
      assume "\<exists>nc. claims k name = Some nc \<and> NodeClassRef nc = Some (NodeClassName nodeClass)"
      then obtain nc where nc: "claims k name = Some nc" "NodeClassRef nc = Some (NodeClassName nodeClass)" by blast
      from claims_okD(4) [OF assms(1) nc(1)] nc listed have "NodeClaimName nc = name" "nc \<in> set ncs" by simp_all
      then show "name \<in> NodeClaimName ` set ncs" by force
    qed
    from stored assms(3) k1 obtain claim where here: "claims k name = Some claim"
      by (cases "claims k name") (auto split: if_splits)
    have claim: "claims k name = Some claim"
      "claim' = (if NodeClassRef claim = Some (NodeClassName nodeClass) then restampClaim h nodeClass claim else claim)"
      using stored iff assms(3) k1 here by (auto split: if_splits)
    show thesis by (rule that [OF claim(1)]) (use claim(2) True in simp)
  qed
qed

text \<open>
  C23: A reconcile of the hash controller that returns no error leaves the NodeClaims of other
  NodeClasses as they are, and each one of its own NodeClass either as it was (when the
  NodeClass was at the current hash version already) or re-stamped, or gone. A re-stamped claim that was not
  drifted is not drifted against the new annotations, so a change of the hash version alone
  replaces no node; one with a Drifted condition keeps its old hash, and is drifted
  exactly if that differs from the new hash.
\<close>

lemma hash_version_change_drifts_nothing:
  assumes "claims_ok K L claims" "hashReconcile K L h nodeClass k = (None, k')"
    and "wf_map (NodeClassAnnotations nodeClass)"
    and "\<forall>name nc. claims k name = Some nc \<longrightarrow> wf_map (NodeClaimAnnotations nc)"
    and "claims k' name = Some claim'"
  shows "\<exists>claim. claims k name = Some claim \<and>
    (if NodeClassRef claim = Some (NodeClassName nodeClass) \<and> staleVersion (NodeClassAnnotations nodeClass)
     then claim' = restampClaim h nodeClass claim \<and>
       (staleVersion (NodeClaimAnnotations claim) \<longrightarrow>
          (areStaticFieldsDrifted claim' (hashedNodeClass h nodeClass) = NodeClassDrift \<longleftrightarrow>
           DriftedCondition claim \<and>
           (\<exists>old. map_of (NodeClaimAnnotations claim) AnnotationLinodeNodeClassHash = Some old \<and> old \<noteq> Hash h nodeClass)))
     else claim' = claim)"
proof -
  from hashReconcile_claims [OF assms(1,2,5)] obtain claim where claim: "claims k name = Some claim"
    "claim' = (if NodeClassRef claim = Some (NodeClassName nodeClass) \<and> staleVersion (NodeClassAnnotations nodeClass)
       then restampClaim h nodeClass claim else claim)" .
  from assms(4) claim(1) have wf: "wf_map (NodeClaimAnnotations claim)" by blast
  show ?thesis
    using claim hashedNodeClass_annotations [OF assms(3)] by (auto simp: drift_iff restampClaim_annotations [OF wf])
qed

end
