(* ===== verification/Drift.thy ===== *)
theory Drift
  imports NodeClassHash
begin

text \<open>
  When a node the provider has just created counts as drifted. The annotations of a NodeClass
  are those the hash controller writes; those of a NodeClaim are written by Create from the
  NodeClass it passed to the node provider.
\<close>

lemma created_annotations:
  assumes "NodeClaimAnnotations claim = withHash h nodeClass []" "wf_map (NodeClassAnnotations later)"
  shows "areStaticFieldsDrifted claim (hashedNodeClass h later) = NodeClassDrift \<longleftrightarrow> Hash h nodeClass \<noteq> Hash h later"
  using hashedNodeClass_annotations [OF assms(2)] map_of_withHash [of "[]" h nodeClass]
  by (auto simp: drift_iff assms(1))

context class_keeping_provider
begin

lemma created_claim_drifts_iff:
  assumes "nodeProvider c = P" "cloudCreate c nodeClaim st = Some (Inr claim, st')"
  shows "\<exists>nodeClass st1. resolveNodeClassFromNodeClaim c nodeClaim st = (Inr nodeClass, st1) \<and>
    (\<forall>later. wf_map (NodeClassAnnotations later) \<longrightarrow>
       (areStaticFieldsDrifted claim (hashedNodeClass (hashOf c) later) = NodeClassDrift \<longleftrightarrow>
        Hash (hashOf c) nodeClass \<noteq> Hash (hashOf c) later))"
  using assms(2)
proof (cases rule: cloudCreate_cases)
  case (ran nodeClass st1 its st2 r3 nodeClass' s3)
  from create_keeps_class [OF ran(4) [unfolded assms(1)]] have "nodeClass' = nodeClass" .
  with ran(6) have "NodeClaimAnnotations claim = withHash (hashOf c) nodeClass []" by (auto split: sum.splits)
  with ran(1) created_annotations show ?thesis by blast
qed simp

end

text \<open>
  C21: A NodeClaim that Create returns in LKE mode is drifted against the NodeClass, as the
  hash controller annotates it at any later time, exactly when the hash of the spec without
  its tags differs from that of the NodeClass it was created from. In particular it is not
  drifted at once, nor by a change of tags.
\<close>

lemma lke_created_claim_drifts_iff:
  fixes p :: "('w \<times> log, 'c, 'b, 'u) lke"
  assumes "nodeProvider c = lkeProvider (onLog p a t)" "cloudCreate c nodeClaim st = Some (Inr claim, st')"
  shows "\<exists>nodeClass st1. resolveNodeClassFromNodeClaim c nodeClaim st = (Inr nodeClass, st1) \<and>
    (\<forall>later. wf_map (NodeClassAnnotations later) \<longrightarrow>
       (areStaticFieldsDrifted claim (hashedNodeClass (hashOf c) later) = NodeClassDrift \<longleftrightarrow>
        Hash (hashOf c) nodeClass \<noteq> Hash (hashOf c) later))"
  by (rule lke_nodes.created_claim_drifts_iff [OF assms])

section \<open>Instance mode\<close>

text \<open>
  C22: In instance mode the same holds of the NodeClass with the default image filled in: the
  NodeClaim is drifted exactly when the hash of that differs from the hash of
  the later NodeClass. A NodeClass without an image is therefore compared with one that has the
  default image.
\<close>

lemma instance_created_claim_drifts_iff:
  assumes "nodeProvider c = instanceProvider p" "cloudCreate c nodeClaim st = Some (Inr claim, st')"
  shows "\<exists>nodeClass st1. resolveNodeClassFromNodeClaim c nodeClaim st = (Inr nodeClass, st1) \<and>
    (\<forall>later. wf_map (NodeClassAnnotations later) \<longrightarrow>
       (areStaticFieldsDrifted claim (hashedNodeClass (hashOf c) later) = NodeClassDrift \<longleftrightarrow>
        Hash (hashOf c) (defaultedImage nodeClass) \<noteq> Hash (hashOf c) later))"
  using assms(2)
proof (cases rule: cloudCreate_cases)
  case (ran nodeClass st1 its st2 r3 nodeClass' s3)
  from ran(6) obtain inst where inst: "r3 = Inr inst" by (cases r3) auto
  have "ipCreate p nodeClass nodeClaim (tagsFor c nodeClass nodeClaim) its (nodeState st) = Some (Inr inst, nodeClass', s3)"
    using ran(4) inst assms(1) by (simp add: instanceProvider_def)
  then have "nodeClass' = defaultedImage nodeClass" by (cases rule: ipCreate_cases) auto
  with ran(6) inst have "NodeClaimAnnotations claim = withHash (hashOf c) (defaultedImage nodeClass) []" by auto
  with ran(1) created_annotations show ?thesis by blast
qed simp

end
