(* ===== verification/MemKube.thy ===== *)
theory MemKube
  imports Drift LkeSample
begin

text \<open>
  A Kubernetes client over an in-memory store, which satisfies what the theorems assume of
  the client, and the cloud provider on it in both modes: the concrete inputs of the
  witnesses.
\<close>

section \<open>The store\<close>

record mem_kube =
  mkClasses :: "LinodeNodeClass list"
  mkPools :: "NodePool list"
  mkClaims :: "NodeClaim list"
  mkNodes :: "kube_node list"
  mkEvents :: "kube_event list"

definition claimNamed :: "mem_kube \<Rightarrow> string \<Rightarrow> NodeClaim option" where
  "claimNamed k name = find (\<lambda>nc. NodeClaimName nc = name) (mkClaims k)"

definition classNamed :: "mem_kube \<Rightarrow> string \<Rightarrow> LinodeNodeClass option" where
  "classNamed k name = find (\<lambda>nc. NodeClassName nc = name) (mkClasses k)"

definition foundOr :: "string \<Rightarrow> 'a option \<Rightarrow> 'a res" where
  "foundOr name x = (case x of Some y \<Rightarrow> Inr y | None \<Rightarrow> Inl (kubeNotFound name))"

definition replaceNamed :: "('a \<Rightarrow> string) \<Rightarrow> string \<Rightarrow> 'a \<Rightarrow> 'a list \<Rightarrow> 'a list" where
  "replaceNamed nameOf name new xs = map (\<lambda>x. if nameOf x = name then new else x) xs"

lemma find_replaceNamed:
  "nameOf new = name \<Longrightarrow> find (\<lambda>x. nameOf x = name') (replaceNamed nameOf name new xs) =
     (if name' = name then (if find (\<lambda>x. nameOf x = name) xs = None then None else Some new)
      else find (\<lambda>x. nameOf x = name') xs)"
  by (induction xs) (auto simp: replaceNamed_def)

text \<open>A merge patch of a stored object: the fields that differ between \<open>old\<close> and \<open>new\<close>.\<close>

definition changed :: "('a \<Rightarrow> 'b) \<Rightarrow> 'a \<Rightarrow> 'a \<Rightarrow> 'a \<Rightarrow> 'b" where
  "changed f old new stored = (if f new = f old then f stored else f new)"

definition mergeClass :: "LinodeNodeClass \<Rightarrow> LinodeNodeClass \<Rightarrow> LinodeNodeClass \<Rightarrow> LinodeNodeClass" where
  "mergeClass old new stored = \<lparr>NodeClassName = changed NodeClassName old new stored,
     NodeClassUID = changed NodeClassUID old new stored, Generation = changed Generation old new stored,
     NodeClassAnnotations = changed NodeClassAnnotations old new stored, Finalizers = changed Finalizers old new stored,
     NodeClassDeletion = changed NodeClassDeletion old new stored, Spec = changed Spec old new stored,
     LinodeImages = changed LinodeImages old new stored, Conditions = changed Conditions old new stored\<rparr>"

lemma mergeClass_same [simp]: "mergeClass old new old = new"
  by (simp add: mergeClass_def changed_def)

definition mergeClaim :: "NodeClaim \<Rightarrow> NodeClaim \<Rightarrow> NodeClaim \<Rightarrow> NodeClaim" where
  "mergeClaim old new stored = \<lparr>NodeClaimName = changed NodeClaimName old new stored, NodeClaimUID = changed NodeClaimUID old new stored,
     NodeClaimLabels = changed NodeClaimLabels old new stored, NodeClaimAnnotations = changed NodeClaimAnnotations old new stored,
     NodeClassRef = changed NodeClassRef old new stored, Requirements = changed Requirements old new stored,
     ResourceRequests = changed ResourceRequests old new stored, Taints = changed Taints old new stored,
     ProviderID = changed ProviderID old new stored, StatusNodeName = changed StatusNodeName old new stored,
     StatusImageID = changed StatusImageID old new stored, Capacity = changed Capacity old new stored,
     Allocatable = changed Allocatable old new stored, CreationTimestamp = changed CreationTimestamp old new stored,
     DeletionTimestamp = changed DeletionTimestamp old new stored, DriftedCondition = changed DriftedCondition old new stored\<rparr>"

lemma mergeClaim_same [simp]: "mergeClaim old new old = new"
  by (simp add: mergeClaim_def changed_def)

definition patchClass :: "bool \<Rightarrow> LinodeNodeClass \<Rightarrow> LinodeNodeClass \<Rightarrow> mem_kube \<Rightarrow> LinodeNodeClass res \<times> mem_kube" where
  "patchClass lock old new k =
     (case classNamed k (NodeClassName old) of
        None \<Rightarrow> (Inl (kubeNotFound (NodeClassName old)), k)
      | Some stored \<Rightarrow>
          if lock \<and> stored \<noteq> old then (Inl (KubeErr KubeConflict (NodeClassName old)), k)
          else let new = mergeClass old new stored
               in (Inr new, k\<lparr>mkClasses := replaceNamed NodeClassName (NodeClassName old) new (mkClasses k)\<rparr>))"

lemma classNamed_patch:
  "classNamed k n \<noteq> None \<Longrightarrow> NodeClassName new = n \<Longrightarrow>
     classNamed (k\<lparr>mkClasses := replaceNamed NodeClassName n new (mkClasses k)\<rparr>) = (classNamed k)(n \<mapsto> new)"
  by (auto simp: classNamed_def fun_eq_iff find_replaceNamed)

definition memKube :: "mem_kube kube_api" where
  "memKube = \<lparr>
     KGetNodeClass = (\<lambda>name k. (foundOr name (classNamed k name), k)),
     KGetNodePool = (\<lambda>name k. (foundOr name (find (\<lambda>p. NodePoolName p = name) (mkPools k)), k)),
     KListForNodeClass = (\<lambda>cls k. (Inr (remdups (filter (\<lambda>nc. claimNamed k (NodeClaimName nc) = Some nc \<and>
        NodeClassRef nc = Some cls) (mkClaims k))), k)),
     KListManaged = (\<lambda>k. (Inr (mkClaims k), k)),
     KListNodes = (\<lambda>k. (Inr (mkNodes k), k)),
     KPatchNodeClaim = (\<lambda>old new k.
        case claimNamed k (NodeClaimName old) of
          None \<Rightarrow> (Some (kubeNotFound (NodeClaimName old)), k)
        | Some stored \<Rightarrow> (None, k\<lparr>mkClaims := replaceNamed NodeClaimName (NodeClaimName old) (mergeClaim old new stored) (mkClaims k)\<rparr>)),
     KPatchNodeClass = patchClass, KPatchNodeClassStatus = patchClass,
     KDeleteNode = (\<lambda>name k. (None, k\<lparr>mkNodes := filter (\<lambda>n. KubeNodeName n \<noteq> name) (mkNodes k)\<rparr>)),
     Publish = (\<lambda>e k. k\<lparr>mkEvents := mkEvents k @ [e]\<rparr>)\<rparr>"

lemma claimNamed_SomeD: "claimNamed k name = Some nc \<Longrightarrow> nc \<in> set (mkClaims k) \<and> NodeClaimName nc = name"
  by (auto simp: claimNamed_def dest: find_SomeD)

lemma claimNamed_patch:
  "claimNamed k name \<noteq> None \<Longrightarrow> NodeClaimName new = name \<Longrightarrow>
     claimNamed (k\<lparr>mkClaims := replaceNamed NodeClaimName name new (mkClaims k)\<rparr>) = (claimNamed k)(name \<mapsto> new)"
  by (auto simp: claimNamed_def fun_eq_iff find_replaceNamed)

lemma claimNamed_patchClass: "claimNamed (snd (patchClass b old new k)) = claimNamed k"
  by (simp add: patchClass_def Let_def claimNamed_def [abs_def] split: option.split)

lemma mem_claims_ok: "claims_ok memKube documented_lib claimNamed"
proof -
  have dist: "distinct (map NodeClaimName (remdups (filter (\<lambda>nc. claimNamed k (NodeClaimName nc) = Some nc \<and> Q nc) ncs)))"
    for k Q ncs
  proof -
    have "inj_on NodeClaimName {nc. claimNamed k (NodeClaimName nc) = Some nc}"
    proof (rule inj_onI)
      fix x y
      assume "x \<in> {nc. claimNamed k (NodeClaimName nc) = Some nc}" "y \<in> {nc. claimNamed k (NodeClaimName nc) = Some nc}"
        "NodeClaimName x = NodeClaimName y"
      then have "claimNamed k (NodeClaimName y) = Some x" "claimNamed k (NodeClaimName y) = Some y" by simp_all
      then show "x = y" by simp
    qed
    then have "inj_on NodeClaimName (set (filter (\<lambda>nc. claimNamed k (NodeClaimName nc) = Some nc \<and> Q nc) ncs))"
      by (rule inj_on_subset) auto
    then show ?thesis by (simp only: distinct_map distinct_remdups set_remdups)
  qed
  have sets: "{nc \<in> set (mkClaims k). claimNamed k (NodeClaimName nc) = Some nc \<and> Q nc} =
      {nc. claimNamed k (NodeClaimName nc) = Some nc \<and> Q nc}" for k Q
    using claimNamed_SomeD by blast
  show ?thesis
    unfolding claims_ok_def
  proof (intro conjI allI impI)
    fix cls k ncs k'
    assume "KListForNodeClass memKube cls k = (Inr ncs, k')"
    then have "ncs = remdups (filter (\<lambda>nc. claimNamed k (NodeClaimName nc) = Some nc \<and> NodeClassRef nc = Some cls) (mkClaims k))" "k' = k"
      by (auto simp: memKube_def)
    then show "claimNamed k' = claimNamed k" "distinct (map NodeClaimName ncs)"
      "set ncs = {nc. claimNamed k (NodeClaimName nc) = Some nc \<and> NodeClassRef nc = Some cls}"
      using dist sets by simp_all
  next
    fix old new :: NodeClaim and k k'
    assume "KPatchNodeClaim memKube old new k = (None, k')" "NodeClaimName new = NodeClaimName old"
      "claimNamed k (NodeClaimName old) = Some old"
    then show "claimNamed k' = (claimNamed k)(NodeClaimName old \<mapsto> new)"
      using claimNamed_patch [of k "NodeClaimName old" new] by (auto simp: memKube_def)
  next
    fix old new :: NodeClaim and k e k'
    assume "KPatchNodeClaim memKube old new k = (Some e, k')"
    then have "k' = k" "claimNamed k (NodeClaimName old) = None" by (auto simp: memKube_def split: option.splits)
    then show "claimNamed k' = (claimNamed k)(NodeClaimName old := None)" by auto
  next
    fix k name nc
    assume "claimNamed k name = Some nc"
    then show "NodeClaimName nc = name" using claimNamed_SomeD by blast
  next
    fix b old new k
    show "claimNamed (snd (KPatchNodeClass memKube b old new k)) = claimNamed k"
      using claimNamed_patchClass [of b old new k] by (simp add: memKube_def)
  qed
qed

section \<open>The cloud provider on it\<close>

definition readyClass :: LinodeNodeClass where
  "readyClass = sampleNodeClass\<lparr>Conditions := [(ConditionReady,
     \<lparr>CondStatus = CondTrue, CondReason = [], CondMessage = [], ObservedGeneration = 1\<rparr>)]\<rparr>"

definition sampleKube :: mem_kube where
  "sampleKube = \<lparr>mkClasses = [readyClass], mkPools = [\<lparr>NodePoolName = ''np'', NodePoolUID = ''np-uid'', NodePoolClassRef = Some ''default''\<rparr>],
     mkClaims = [], mkNodes = [], mkEvents = []\<rparr>"

text \<open>A hash that prints the image: enough to tell two specs apart.\<close>

definition sampleHash :: spec_hash where
  "sampleHash spec = ''h'' @ Image spec"

definition sampleCloud :: "'s provider \<Rightarrow> ('s \<Rightarrow> int) \<Rightarrow> string \<Rightarrow> ('s, unit, mem_kube) cloud" where
  "sampleCloud P now m = \<lparr>kubeClient = memKube, nodeProvider = P,
     typesList = (\<lambda>nodeClass s t. (Inr [sampleType ''g6'' 2], t)), nowS = now, cErrlib = documented_lib,
     cSched = label_sched, hashOf = sampleHash, reservationLabel = [], cloudMode = m, optCluster = DefaultClusterName\<rparr>"

definition lkeCloud :: "((fake_world \<times> log) sample_state, unit, mem_kube) cloud" where
  "lkeCloud = sampleCloud (lkeProvider recordedLke) (nowOf recordedLke) ''lke''"

definition sampleIp :: "(fake_world \<times> log, Instance timed, unit timed) instance_provider" where
  "sampleIp = \<lparr>ipRegion = DefaultRegion, ipClient = logged fakeClient, ipRuntime = logged_rt fakeRuntime,
     ipErrlib = documented_lib, ipSched = label_sched, ipCacheOps = timed_ops (seconds 300),
     ipMarkOps = timed_ops UnavailableOfferingsTTL, ipRangeOrder = (\<lambda>m. m)\<rparr>"

definition ipFresh :: "fake_world \<Rightarrow> (fake_world \<times> log, Instance timed, unit timed) ip_state" where
  "ipFresh w = \<lparr>ipWorld = (w, []), instanceCache = [], unavailableOfferings = NewUnavailableOfferings []\<rparr>"

definition instanceCloud :: "((fake_world \<times> log, Instance timed, unit timed) ip_state, unit, mem_kube) cloud" where
  "instanceCloud = sampleCloud (instanceProvider sampleIp) (ipNow sampleIp) ''instance''"

definition refClaim :: "string \<Rightarrow> NodeClaim" where
  "refClaim name = (sampleClaim name)\<lparr>NodeClassRef := Some ''default''\<rparr>"

definition startOf :: "'s \<Rightarrow> ('s, unit, mem_kube) cluster" where
  "startOf s = \<lparr>nodeState = s, typeState = (), kubeState = sampleKube\<rparr>"

lemma recordedLke_onLog: "recordedLke = onLog recordedLke fakeClient fakeRuntime"
  by (simp add: onLog_def)

lemma sampleIp_onLog: "sampleIp = ipOnLog sampleIp fakeClient fakeRuntime"
  by (simp add: ipOnLog_def sampleIp_def)

lemma cloud_simps [simp]:
  "nodeProvider lkeCloud = lkeProvider recordedLke" "nodeProvider instanceCloud = instanceProvider sampleIp"
  "hashOf lkeCloud = sampleHash" "hashOf instanceCloud = sampleHash"
  by (simp_all add: lkeCloud_def instanceCloud_def sampleCloud_def)

definition lkeLaunch :: "(NodeClaim res \<times> ((fake_world \<times> log) sample_state, unit, mem_kube) cluster) option" where
  "lkeLaunch = cloudCreate lkeCloud (refClaim ''web'') (startOf (freshState NewFakeWorld))"

definition instanceLaunch :: "(NodeClaim res \<times> ((fake_world \<times> log, Instance timed, unit timed) ip_state, unit, mem_kube) cluster) option" where
  "instanceLaunch = cloudCreate instanceCloud (refClaim ''web'') (startOf (ipFresh NewFakeWorld))"

lemma launches_evaluate:
  "map_option (map_sum (\<lambda>e. ()) ProviderID \<circ> fst) lkeLaunch = Some (Inr ''linode://2000'')"
  "map_option (map_sum (\<lambda>e. ()) ProviderID \<circ> fst) instanceLaunch = Some (Inr ''linode://13'')"
  by code_simp+

lemma lkeLaunch_obtains:
  obtains claim st' where "lkeLaunch = Some (Inr claim, st')" "ProviderID claim = ''linode://2000''"
proof (cases lkeLaunch)
  case (Some x)
  obtain r st' where x: "x = (r, st')" by fastforce
  have "map_sum (\<lambda>e. ()) ProviderID r = Inr ''linode://2000''"
    using launches_evaluate(1) by (simp add: Some x)
  with Some x that show ?thesis by (cases r) auto
qed (use launches_evaluate(1) in simp)

lemma instanceLaunch_obtains:
  obtains claim st' where "instanceLaunch = Some (Inr claim, st')" "ProviderID claim = ''linode://13''"
proof (cases instanceLaunch)
  case (Some x)
  obtain r st' where x: "x = (r, st')" by fastforce
  have "map_sum (\<lambda>e. ()) ProviderID r = Inr ''linode://13''"
    using launches_evaluate(2) by (simp add: Some x)
  with Some x that show ?thesis by (cases r) auto
qed (use launches_evaluate(2) in simp)

end
