(* ===== verification/CloudSample.thy ===== *)
theory CloudSample
  imports MemKube
begin

text \<open>
  The instance provider, the cloud provider and the hash controller run on concrete inputs:
  the witnesses of their theorems, and one behaviour the theorems expose.
\<close>

section \<open>The instance provider\<close>

definition ipLaunch :: "fake_world \<Rightarrow> (Instance res \<times> LinodeNodeClass \<times> (fake_world \<times> log, Instance timed, unit timed) ip_state) option" where
  "ipLaunch w = ipCreate sampleIp sampleNodeClass (sampleClaim ''web'') [(''a'', ''b'')] [sampleType ''g6'' 2] (ipFresh w)"

text \<open>A region without capacity for the type: the launch is refused with status 400.\<close>

definition scarceWorld :: fake_world where
  "scarceWorld = NewFakeWorld\<lparr>InsufficientCapacityPools := [(''g6'', DefaultRegion)]\<rparr>"

lemma sampleIp_simps [simp]:
  "ipClient sampleIp = logged fakeClient" "ipRuntime sampleIp = logged_rt fakeRuntime" "ipErrlib sampleIp = documented_lib"
  "ipRangeOrder sampleIp = (\<lambda>m. m)" "ipRegion sampleIp = DefaultRegion" "ipSched sampleIp = label_sched"
  "ipMarkOps sampleIp = timed_ops UnavailableOfferingsTTL" "ipWorld (ipFresh w) = (w, [])"
  "unavailableOfferings (ipFresh w) = NewUnavailableOfferings []"
  by (simp_all add: sampleIp_def ipFresh_def)

lemma ipLaunch_evaluates:
  "map_option (\<lambda>(r, nodeClass, s). (isl r, map is_sent (snd (ipWorld s)),
      IsUnavailable (timed_ops UnavailableOfferingsTTL) (unavailableOfferings s) 0 ''g6'' DefaultRegion))
     (ipLaunch scarceWorld) = Some (True, [True], True)"
  by code_simp

lemma choose_evaluates: "map_option (map_sum (\<lambda>e. ()) ItName) (chooseInstanceType label_sched [sampleType ''g6'' 2] (sampleClaim ''web'')) = Some (Inr ''g6'')"
  by code_simp

lemma instance_Create_launches_witness:
  "\<exists>r nodeClass' s' os. ipLaunch scarceWorld = Some (r, nodeClass', s') \<and> isl r \<and>
     snd (ipWorld s') = [Sent (CreateInstanceReq os) False] \<and> OptType os = ''g6'' \<and>
     set (OptTags os) = {''env=dev'', ''a=b''}"
proof -
  from ipLaunch_evaluates obtain r nodeClass' s' where run: "ipLaunch scarceWorld = Some (r, nodeClass', s')" "isl r"
    by auto
  from choose_evaluates obtain it where it: "ItName it = ''g6''"
    "chooseInstanceType (ipSched sampleIp) [sampleType ''g6'' 2] (sampleClaim ''web'') = Some (Inr it)"
  proof (cases "chooseInstanceType label_sched [sampleType ''g6'' 2] (sampleClaim ''web'')")
    case (Some c)
    with choose_evaluates have "map_sum (\<lambda>e. ()) ItName c = Inr ''g6''" by (simp add: Some)
    with Some that show ?thesis by (cases c) auto
  qed (use choose_evaluates in simp)
  have tags: "SpecTags (Spec sampleNodeClass) = [''env=dev'']" "kvTag ''a'' ''b'' = ''a=b''" by code_simp+
  from instance_Create_launches [of sampleIp fakeClient fakeRuntime sampleNodeClass "sampleClaim ''web''" "[(''a'', ''b'')]"
      "[sampleType ''g6'' 2]" "ipFresh scarceWorld" r nodeClass' s' scarceWorld] run it tags show ?thesis
    by (auto simp: ipLaunch_def documented_lib_ok range_ok_id)
qed

text \<open>An instance that runs, and one being deleted.\<close>

definition runningWorld :: "string \<Rightarrow> fake_world" where
  "runningWorld st = storeInstance (blankInstance\<lparr>LiID := 7, LiStatus := st\<rparr>) NewFakeWorld"

definition ipDeleteRun :: "string \<Rightarrow> nilerr \<times> (fake_world \<times> log, Instance timed, unit timed) ip_state" where
  "ipDeleteRun st = ipDelete sampleIp ''7'' (ipFresh (runningWorld st))"

lemma ipDeleteRun_evaluates:
  "map_prod (\<lambda>e. e = None) (\<lambda>s. length (snd (ipWorld s))) (ipDeleteRun ''running'') = (True, 2)"
  by code_simp

lemma instance_Delete_once_witness:
  "\<exists>s' li. ipDeleteRun ''running'' = (None, s') \<and> snd (ipWorld s') = [GotInstance 7 li, Sent (DeleteInstanceReq 7) True]"
proof -
  obtain e s' where run: "ipDeleteRun ''running'' = (e, s')" by fastforce
  with ipDeleteRun_evaluates have "e = None" "length (snd (ipWorld s')) = 2" by auto
  moreover have "Atoi ''7'' = Some 7" by code_simp
  ultimately show ?thesis
    using instance_Delete_once [of sampleIp fakeClient fakeRuntime "''7''" "ipFresh (runningWorld ''running'')" e s' "runningWorld ''running''"] run
    by (auto simp: ipDeleteRun_def split: if_splits)
qed

lemma fake_CreateTag_clock: "Now fakeRuntime w \<le> Now fakeRuntime (snd (CreateTag fakeClient is l w))"
proof -
  have "FakeTime (snd (appendTag is l w)) = FakeTime w" for w
    by (induction "is" l w rule: appendTag.induct) (simp_all split: option.split)
  from Invoke_frame [of FakeTime "appendTag is l" "CreateTagsBehavior w" "(is, l)" w, OF this] show ?thesis
    by (simp add: fakeClient_def fakeRuntime_def fakeCreateTag_def case_prod_beta)
qed

definition ipTagRun :: "nilerr \<times> (fake_world \<times> log, Instance timed, unit timed) ip_state" where
  "ipTagRun = ipCreateTags sampleIp ''7'' [(''a'', ''b''), (''c'', ''d'')] (ipFresh (runningWorld ''running''))"

lemma ipTagRun_evaluates: "fst ipTagRun = None"
  by code_simp

lemma instance_CreateTags_each_once_witness:
  "\<exists>s' written. ipTagRun = (None, s') \<and> mset written = {#(''a'', ''b''), (''c'', ''d'')#} \<and>
     snd (ipWorld s') = tagWrites 7 written \<and> 2 * 10 ^ 9 \<le> ipNow sampleIp s'"
proof -
  obtain s' where run: "ipTagRun = (None, s')" using ipTagRun_evaluates by (metis prod.collapse)
  have "Atoi ''7'' = Some 7" "Now fakeRuntime (runningWorld ''running'') = 0" by code_simp+
  with instance_CreateTags_each_once [of sampleIp fakeClient fakeRuntime "''7''" "[(''a'', ''b''), (''c'', ''d'')]"
      "ipFresh (runningWorld ''running'')" None s' "runningWorld ''running''"] run fake_clock fake_CreateTag_clock
  show ?thesis by (auto simp: ipTagRun_def range_ok_id)
qed

section \<open>The cloud provider\<close>

lemma cloud_Create_gated_witness:
  "\<exists>claim st' inst. lkeLaunch = Some (Inr claim, st') \<and> ParseInstanceID (ProviderID claim) = Inr ''2000'' \<and>
     ParseInstanceID (ProviderID claim) = Inr (Itoa inst)"
proof -
  obtain claim st' where run: "lkeLaunch = Some (Inr claim, st')" "ProviderID claim = ''linode://2000''"
    by (rule lkeLaunch_obtains)
  have "ParseInstanceID ''linode://2000'' = Inr ''2000''" by code_simp
  with cloud_Create_gated [OF run(1) [unfolded lkeLaunch_def]] run show ?thesis
    by auto (metis Inr_Inl_False isl_def sum.exhaust_sel)
qed

lemma cloud_Delete_hits_created_witness:
  "\<exists>claim st' inst. lkeLaunch = Some (Inr claim, st') \<and>
     cloudDelete lkeCloud claim st' = onNodes (lkeDelete recordedLke (Itoa inst)) st'"
proof -
  obtain claim st' where run: "lkeLaunch = Some (Inr claim, st')" by (rule lkeLaunch_obtains)
  from cloud_Delete_hits_created [OF run [unfolded lkeLaunch_def] refl, of st'] run show ?thesis
    by (auto simp: lkeProvider_def)
qed

lemma cloud_reads_change_nothing_witness:
  "\<exists>r st'. cloudList lkeCloud (startOf (freshState (sampleStored 1))) = Some (r, st') \<and>
     filter is_sent (logOf (nodeState st')) = []"
proof -
  have "cloudList lkeCloud (startOf (freshState (sampleStored 1))) \<noteq> None" by code_simp
  then obtain r st' where run: "cloudList lkeCloud (startOf (freshState (sampleStored 1))) = Some (r, st')" by auto
  have "filter is_sent (logOf (nodeState (startOf (freshState (sampleStored 1))))) = []"
    by (simp add: startOf_def logOf_def)
  moreover have "nodeProvider lkeCloud = lkeProvider (onLog recordedLke fakeClient fakeRuntime)"
    by (simp add: recordedLke_onLog [symmetric])
  ultimately show ?thesis
    using conjunct1 [OF cloud_reads_change_nothing [of lkeCloud recordedLke fakeClient fakeRuntime
        "startOf (freshState (sampleStored 1))" r st']] run by auto
qed

section \<open>Drift\<close>

lemma lke_created_claim_drifts_iff_witness:
  "\<exists>claim st'. lkeLaunch = Some (Inr claim, st') \<and>
     areStaticFieldsDrifted claim (hashedNodeClass sampleHash readyClass) \<noteq> NodeClassDrift"
proof -
  obtain claim st' where run: "lkeLaunch = Some (Inr claim, st')" by (rule lkeLaunch_obtains)
  have res: "resolveNodeClassFromNodeClaim lkeCloud (refClaim ''web'') (startOf (freshState NewFakeWorld)) =
      (Inr readyClass, startOf (freshState NewFakeWorld))"
    by (simp add: resolveNodeClassFromNodeClaim_def refClaim_def getNodeClassNamed_def onKube_def startOf_def lkeCloud_def
        sampleCloud_def memKube_def classNamed_def foundOr_def sampleKube_def readyClass_def sampleNodeClass_def)
  have "nodeProvider lkeCloud = lkeProvider (onLog recordedLke fakeClient fakeRuntime)"
    by (simp add: recordedLke_onLog [symmetric])
  from lke_created_claim_drifts_iff [OF this run [unfolded lkeLaunch_def]] res run show ?thesis
    by (auto simp: readyClass_def sampleNodeClass_def)
qed

text \<open>
  In instance mode the NodeClass without an image: the node just created is drifted against
  the very NodeClass it was created from.
\<close>

lemma instance_created_claim_drifts_iff_witness:
  "\<exists>claim st'. instanceLaunch = Some (Inr claim, st') \<and>
     areStaticFieldsDrifted claim (hashedNodeClass sampleHash readyClass) = NodeClassDrift"
proof -
  obtain claim st' where run: "instanceLaunch = Some (Inr claim, st')" by (rule instanceLaunch_obtains)
  have res: "resolveNodeClassFromNodeClaim instanceCloud (refClaim ''web'') (startOf (ipFresh NewFakeWorld)) =
      (Inr readyClass, startOf (ipFresh NewFakeWorld))"
    by (simp add: resolveNodeClassFromNodeClaim_def refClaim_def getNodeClassNamed_def onKube_def startOf_def instanceCloud_def
        sampleCloud_def memKube_def classNamed_def foundOr_def sampleKube_def readyClass_def sampleNodeClass_def)
  have "Hash sampleHash (defaultedImage readyClass) \<noteq> Hash sampleHash readyClass" by code_simp
  with instance_created_claim_drifts_iff [OF cloud_simps(2) run [unfolded instanceLaunch_def]] res run show ?thesis
    by (auto simp: readyClass_def sampleNodeClass_def)
qed

section \<open>The hash controller\<close>

definition oldClaim :: NodeClaim where
  "oldClaim = (refClaim ''old'')\<lparr>NodeClaimAnnotations :=
     [(AnnotationLinodeNodeClassHash, ''before''), (AnnotationLinodeNodeClassHashVersion, ''v0'')]\<rparr>"

definition oldKube :: mem_kube where
  "oldKube = sampleKube\<lparr>mkClaims := [oldClaim]\<rparr>"

lemma hash_version_change_drifts_nothing_witness:
  "\<exists>k' claim'. hashReconcile memKube documented_lib sampleHash readyClass oldKube = (None, k') \<and>
     claimNamed k' ''old'' = Some claim' \<and>
     areStaticFieldsDrifted claim' (hashedNodeClass sampleHash readyClass) \<noteq> NodeClassDrift"
proof -
  obtain e k' where run: "hashReconcile memKube documented_lib sampleHash readyClass oldKube = (e, k')" by fastforce
  have "fst (hashReconcile memKube documented_lib sampleHash readyClass oldKube) = None"
    "map_option NodeClaimName (claimNamed (snd (hashReconcile memKube documented_lib sampleHash readyClass oldKube)) ''old'') = Some ''old''"
    by code_simp+
  with run obtain claim' where e: "e = None" and claim': "claimNamed k' ''old'' = Some claim'" by auto
  have old: "claimNamed oldKube name = Some nc \<longleftrightarrow> name = ''old'' \<and> nc = oldClaim" for name nc
    by (auto simp: claimNamed_def oldKube_def oldClaim_def refClaim_def sampleClaim_def)
  have stale: "staleVersion (NodeClaimAnnotations oldClaim)" "staleVersion (NodeClassAnnotations readyClass)"
    "NodeClassRef oldClaim = Some (NodeClassName readyClass)" "\<not> DriftedCondition oldClaim"
    "wf_map (NodeClaimAnnotations oldClaim)" "wf_map (NodeClassAnnotations readyClass)"
    by code_simp+
  from hash_version_change_drifts_nothing [OF mem_claims_ok run [unfolded e], of "''old''" claim'] old stale claim' run e
  show ?thesis by auto
qed

end
