(* ===== verification/InPlaceTags.thy ===== *)
theory InPlaceTags
  imports TagViews ProviderIds
begin

text \<open>
  pkg/controllers/nodeclass/inplaceupdate/controller.go, the pure part: which tags an instance
  should have after its NodeClass has changed, the normal form tags are compared in, and the
  text the last applied tags are kept in. JSON is a parameter.
\<close>

section \<open>Tag lists\<close>

definition desiredUserTagsForInstance :: "range_order \<Rightarrow> string list \<Rightarrow> string list \<Rightarrow> string list \<Rightarrow> string list" where
  "desiredUserTagsForInstance rng existingTags previousUserTags desiredUserTags =
     (let existingKVTags = TagListToMap existingTags;
          previousUserKVTags = TagListToMap previousUserTags;
          desiredUserKVTags = TagListToMap desiredUserTags;
          finalKVTags = assign [[], existingKVTags];
          finalKVTags = delete_keys (map fst previousUserKVTags) finalKVTags;
          finalKVTags = assign [finalKVTags, desiredUserKVTags];
          previousOpaqueSet = OpaqueTags previousUserTags;
          finalOpaqueTags = filter (\<lambda>tag. tag \<notin> set previousOpaqueSet) (OpaqueTags existingTags) @ OpaqueTags desiredUserTags
      in DedupeTags (MapToTagList rng finalKVTags @ finalOpaqueTags))"

definition normalizeTagList :: "range_order \<Rightarrow> string list \<Rightarrow> string list" where
  "normalizeTagList rng tags = sort (DedupeTags (MapToTagList rng (TagListToMap tags) @ OpaqueTags tags))"

definition nodeClassTagsChanged :: "range_order \<Rightarrow> string list \<Rightarrow> string list \<Rightarrow> bool" where
  "nodeClassTagsChanged rng oldTags newTags \<longleftrightarrow> normalizeTagList rng oldTags \<noteq> normalizeTagList rng newTags"

section \<open>The annotation\<close>

text \<open>
  \<open>json.Marshal\<close> of a list of strings and \<open>json.Unmarshal\<close> into one. Documented: what was
  marshalled unmarshals to the same list, and is not the empty string.
\<close>

record json =
  marshalList :: "string list \<Rightarrow> string option"
  unmarshalList :: "string \<Rightarrow> string list option"

definition json_ok :: "json \<Rightarrow> bool" where
  "json_ok J \<longleftrightarrow> (\<forall>xs s. marshalList J xs = Some s \<longrightarrow> s \<noteq> [] \<and> unmarshalList J s = Some xs)"

definition marshalUserTags :: "json \<Rightarrow> range_order \<Rightarrow> string list \<Rightarrow> string option" where
  "marshalUserTags J rng tags =
     marshalList J (sort (DedupeTags (MapToTagList rng (TagListToMap tags) @ OpaqueTags tags)))"

text \<open>The nil list of an empty annotation is the empty list.\<close>

definition unmarshalUserTags :: "json \<Rightarrow> string \<Rightarrow> string list option" where
  "unmarshalUserTags J raw = (if raw = [] then Some [] else unmarshalList J raw)"

definition previousUserTags :: "json \<Rightarrow> string \<Rightarrow> string list" where
  "previousUserTags J raw = (case unmarshalUserTags J raw of Some tags \<Rightarrow> tags | None \<Rightarrow> [])"

section \<open>Views\<close>

text \<open>The abstract update: drop what was applied before, then apply the NodeClass's tags.\<close>

definition viewUpdate :: "tag_view \<Rightarrow> tag_view \<Rightarrow> tag_view \<Rightarrow> tag_view" where
  "viewUpdate existing previous desired =
     ((fst existing |` (- dom (fst previous))) ++ fst desired, (snd existing - snd previous) \<union> snd desired)"

lemma set_normalizeTagList:
  "range_ok rng \<Longrightarrow> set (normalizeTagList rng tags) =
     {kvTag k v | k v. fst (tagView tags) k = Some v} \<union> snd (tagView tags)"
  unfolding set_of_view [symmetric] by (simp add: normalizeTagList_def)

lemma tagView_normalizeTagList: "range_ok rng \<Longrightarrow> tagView (normalizeTagList rng tags) = tagView tags"
proof -
  assume rng: "range_ok rng"
  have "tagView (normalizeTagList rng tags) = (map_of (TagListToMap tags), set (OpaqueTags tags) - {[]})"
    by (rule tagView_built [OF rng wf_TagListToMap]) (simp_all add: entries_TagListToMap_valid set_OpaqueTags normalizeTagList_def)
  also have "set (OpaqueTags tags) - {[]} = {t \<in> set tags. t \<noteq> [] \<and> splitTag t = None}"
    by (auto simp: set_OpaqueTags)
  finally show ?thesis by (simp only: tagView_def)
qed

lemma normalizeTagList_cong:
  assumes "range_ok r" "range_ok r'" "tagView xs = tagView ys"
  shows "normalizeTagList r xs = normalizeTagList r' ys"
proof -
  have "set (normalizeTagList r xs) = set (normalizeTagList r' ys)"
    unfolding set_normalizeTagList [OF assms(1)] set_normalizeTagList [OF assms(2)] assms(3) ..
  then show ?thesis unfolding normalizeTagList_def by (intro sort_distinct_set) simp_all
qed

text \<open>
  C27: The normal form represents the view of a tag list exactly: two lists have the same
  normal form iff they have the same key-value tags (a later value of a key winning) and the
  same opaque tags, in whatever order Go ranges over the maps; it is sorted, without
  duplicates, and its own normal form.
\<close>

lemma normalizeTagList_canonical:
  assumes "range_ok rng" "range_ok rng'"
  shows "(normalizeTagList rng xs = normalizeTagList rng' ys \<longleftrightarrow> tagView xs = tagView ys) \<and>
    sorted (normalizeTagList rng xs) \<and> distinct (normalizeTagList rng xs) \<and>
    normalizeTagList rng' (normalizeTagList rng xs) = normalizeTagList rng xs"
proof (intro conjI iffI)
  show "normalizeTagList rng xs = normalizeTagList rng' ys" if "tagView xs = tagView ys"
    by (rule normalizeTagList_cong [OF assms that])
  show "tagView xs = tagView ys" if "normalizeTagList rng xs = normalizeTagList rng' ys"
    using that tagView_normalizeTagList [OF assms(1), of xs] tagView_normalizeTagList [OF assms(2), of ys] by simp
  show "normalizeTagList rng' (normalizeTagList rng xs) = normalizeTagList rng xs"
    by (rule normalizeTagList_cong [OF assms(2,1) tagView_normalizeTagList [OF assms(1)]])
qed (simp_all add: normalizeTagList_def)

lemma normalizeTagList_canonical_witness:
  "normalizeTagList (\<lambda>m. m) [''a=1'', ''x'', ''a=2''] = normalizeTagList rev [''x'', ''a=2'', ''x'']"
proof -
  have "tagView [''a=1'', ''x'', ''a=2''] = tagView [''x'', ''a=2'', ''x'']"
    by (auto simp: tagView_def TagListToMap_def splitTag_def IndexRune_def)
  with normalizeTagList_canonical [OF range_ok_id range_ok_rev] show ?thesis by blast
qed

section \<open>The update\<close>

definition finalMap :: "string list \<Rightarrow> string list \<Rightarrow> string list \<Rightarrow> tagmap" where
  "finalMap existing previous desired = assign [delete_keys (map fst (TagListToMap previous)) (assign [[], TagListToMap existing]),
     TagListToMap desired]"

lemma map_of_finalMap:
  "map_of (finalMap existing previous desired) =
     (map_of (TagListToMap existing) |` (- dom (map_of (TagListToMap previous)))) ++ map_of (TagListToMap desired)"
proof -
  have "map_of (delete_keys (map fst m) (assign [[], n])) = map_of n |` (- dom (map_of m))" if "wf_map n" for m n :: tagmap
    using that by (auto simp: fun_eq_iff map_of_delete_keys map_of_assign restrict_map_def dom_map_of_conv_image_fst)
  then show ?thesis by (simp add: finalMap_def map_of_assign)
qed

lemma finalMap_valid: "kv \<in> set (finalMap existing previous desired) \<Longrightarrow> valid_kv kv"
proof -
  assume "kv \<in> set (finalMap existing previous desired)"
  then have "map_of (finalMap existing previous desired) (fst kv) = Some (snd kv)"
    using wf_map_in_iff [of "finalMap existing previous desired" "fst kv" "snd kv"] by (simp add: finalMap_def)
  then obtain ts where "map_of (TagListToMap ts) (fst kv) = Some (snd kv)"
    by (auto simp: map_of_finalMap map_add_def restrict_map_def split: option.splits if_splits)
  from map_of_TagListToMap_SomeD [OF this] show ?thesis by simp
qed

lemma desired_view:
  assumes "range_ok rng"
  shows "tagView (desiredUserTagsForInstance rng existing previous desired) =
    viewUpdate (tagView existing) (tagView previous) (tagView desired)"
proof -
  let ?opq = "filter (\<lambda>tag. tag \<notin> set (OpaqueTags previous)) (OpaqueTags existing) @ OpaqueTags desired"
  have "tagView (desiredUserTagsForInstance rng existing previous desired) =
      (map_of (finalMap existing previous desired), set ?opq - {[]})"
    by (rule tagView_built [OF assms])
      (auto simp: desiredUserTagsForInstance_def finalMap_def Let_def set_OpaqueTags intro: finalMap_valid [unfolded finalMap_def])
  also have "set ?opq - {[]} = (snd (tagView existing) - snd (tagView previous)) \<union> snd (tagView desired)"
    unfolding tagView_def set_append set_filter set_OpaqueTags by auto
  finally show ?thesis
    unfolding map_of_finalMap viewUpdate_def by (simp only: tagView_def fst_conv)
qed

text \<open>
  C26: The tags an in-place update computes refine the update of views: of the key-value tags
  those applied before are dropped by key and those of the NodeClass set; of the
  opaque tags those applied before are dropped and those of the NodeClass added; everything
  else on the instance stays. The list has no duplicates and no empty tag, and the order in
  which Go ranges over the maps changes its order only.
\<close>

lemma desired_tags_refine:
  assumes "range_ok rng"
  shows "tagView (desiredUserTagsForInstance rng existing previous desired) =
      viewUpdate (tagView existing) (tagView previous) (tagView desired) \<and>
    distinct (desiredUserTagsForInstance rng existing previous desired) \<and>
    [] \<notin> set (desiredUserTagsForInstance rng existing previous desired)"
  using desired_view [OF assms] by (simp add: desiredUserTagsForInstance_def Let_def)

lemma desired_tags_refine_witness:
  "fst (tagView (desiredUserTagsForInstance rev [''a=1'', ''b=2'', ''lke''] [''a=1''] [''c=3''])) =
     [''b'' \<mapsto> ''2'', ''c'' \<mapsto> ''3'']"
proof -
  have "fst (viewUpdate (tagView [''a=1'', ''b=2'', ''lke'']) (tagView [''a=1'']) (tagView [''c=3''])) = [''b'' \<mapsto> ''2'', ''c'' \<mapsto> ''3'']"
    by (auto simp: viewUpdate_def tagView_def TagListToMap_def splitTag_def IndexRune_def fun_eq_iff map_add_def restrict_map_def)
  with desired_tags_refine [OF range_ok_rev] show ?thesis by metis
qed

text \<open>Applying the same NodeClass tags again changes nothing.\<close>

lemma viewUpdate_again: "viewUpdate (viewUpdate e p d) d d = viewUpdate e p d"
  by (auto simp: viewUpdate_def map_add_def restrict_map_def fun_eq_iff split: option.splits)

lemma previousUserTags_marshal:
  assumes "json_ok J" "range_ok rng" "marshalUserTags J rng tags = Some s"
  shows "previousUserTags J s = normalizeTagList rng tags"
  using assms by (auto simp: previousUserTags_def unmarshalUserTags_def marshalUserTags_def normalizeTagList_def json_ok_def
      split: option.splits)

text \<open>
  C25: An in-place update converges: once the instance has the computed tags and the
  annotation holds the marshalled tags of the NodeClass, computing them again, whatever the order of
  the maps, gives a list with the same normal form, so no further request is due. Reading
  the annotation back gives the normal form of the tags that were written.
\<close>

lemma in_place_update_converges:
  assumes "json_ok J" "range_ok rng" "range_ok rng'" "marshalUserTags J rng desired = Some annotation"
    and "applied = desiredUserTagsForInstance rng existing previous desired"
  shows "normalizeTagList rng' (desiredUserTagsForInstance rng' applied (previousUserTags J annotation) desired) =
      normalizeTagList rng' applied \<and>
    previousUserTags J annotation = normalizeTagList rng desired"
proof -
  note prev = previousUserTags_marshal [OF assms(1,2,4)]
  have "tagView (desiredUserTagsForInstance rng' applied (previousUserTags J annotation) desired) = tagView applied"
    unfolding prev desired_view [OF assms(3)] tagView_normalizeTagList [OF assms(2)] assms(5) desired_view [OF assms(2)]
    by (rule viewUpdate_again)
  from normalizeTagList_cong [OF assms(3,3) this] prev show ?thesis by blast
qed

text \<open>A codec that satisfies the assumption: a bracket and the tags, each ended by a newline.\<close>

definition lineJson :: json where
  "lineJson = \<lparr>marshalList = (\<lambda>xs. if list_all (\<lambda>x. CHR 0x0A \<notin> set x) xs
       then Some (CHR ''['' # concat (map (\<lambda>x. x @ [CHR 0x0A]) xs)) else None),
     unmarshalList = (\<lambda>s. case s of [] \<Rightarrow> None | c # s \<Rightarrow> Some (butlast (split_on (CHR 0x0A) s)))\<rparr>"

lemma split_on_lines: "list_all (\<lambda>x. c \<notin> set x) xs \<Longrightarrow> split_on c (concat (map (\<lambda>x. x @ [c]) xs)) = xs @ [[]]"
  by (induction xs) (auto simp: split_on_sep)

lemma lineJson_ok: "json_ok lineJson"
  by (auto simp: json_ok_def lineJson_def split_on_lines)

lemma in_place_update_converges_witness:
  "\<exists>annotation. marshalUserTags lineJson (\<lambda>m. m) [''c=3''] = Some annotation \<and> annotation = ''[c=3'' @ [CHR 0x0A] \<and>
     previousUserTags lineJson annotation = [''c=3'']"
proof -
  have eval: "marshalUserTags lineJson (\<lambda>m. m) [''c=3''] = Some (''[c=3'' @ [CHR 0x0A])" "normalizeTagList (\<lambda>m. m) [''c=3''] = [''c=3'']"
    by code_simp+
  from in_place_update_converges [OF lineJson_ok range_ok_id range_ok_rev eval(1) refl, of "[''a=1'']" "[]"] eval show ?thesis by simp
qed

end
