(* ===== verification/ClaimControllers.thy ===== *)
theory ClaimControllers
  imports CloudProps InPlaceTags
begin

text \<open>
  The controllers of NodeClaims that write tags: pkg/controllers/nodeclass/inplaceupdate, which
  brings the NodeClass tags of an instance up to date, and pkg/controllers/nodeclaim/tagging,
  which adds the node name and the cluster name once the node is known. Both work on either
  node provider; what they send is proved once in the locale \<open>node_provider\<close>. A nil dereference is
  \<open>None\<close>.
\<close>

record ('s, 'k) claim_controller =
  ccKube :: "'k kube_api"
  ccNodes :: "'s provider"
  ccErrlib :: lib
  ccJson :: json
  ccRange :: range_order
  ccCluster :: string

section \<open>In-place update\<close>

definition isUpdatable :: "NodeClaim \<Rightarrow> bool" where
  "isUpdatable nodeClaim =
     (if ProviderID nodeClaim = [] then False
      else if DeletionTimestamp nodeClaim \<noteq> None then False
      else True)"

definition patchClaim :: "('s, 'k) claim_controller \<Rightarrow> NodeClaim \<Rightarrow> NodeClaim \<Rightarrow> ('s, 't, 'k) cluster \<Rightarrow>
    nilerr \<times> ('s, 't, 'k) cluster" where
  "patchClaim C stored nodeClaim st =
     (case onKube (KPatchNodeClaim (ccKube C) stored nodeClaim) st of
        (e, st) \<Rightarrow> (IgnoreNotFound (ccErrlib C) e, st))"

text \<open>Recording the applied tags, after the instance has them.\<close>

definition recordApplied :: "('s, 'k) claim_controller \<Rightarrow> NodeClaim \<Rightarrow> LinodeNodeClass \<Rightarrow> ('s, 't, 'k) cluster \<Rightarrow>
    nilerr \<times> ('s, 't, 'k) cluster" where
  "recordApplied C nodeClaim nodeClass st =
     (case marshalUserTags (ccJson C) (ccRange C) (SpecTags (Spec nodeClass)) of
        None \<Rightarrow> (Some (Errorf ''marshaling user tags, %w'' [] []), st)
      | Some lastApplied \<Rightarrow>
          let stored = nodeClaim;
              nodeClaim = nodeClaim\<lparr>NodeClaimAnnotations := assign [NodeClaimAnnotations nodeClaim,
                [(AnnotationLastAppliedUserTags, lastApplied)]]\<rparr>
          in if nodeClaim = stored then (None, st) else patchClaim C stored nodeClaim st)"

definition updateNodeClaimTags :: "('s, 'k) claim_controller \<Rightarrow> NodeClaim \<Rightarrow> LinodeNodeClass \<Rightarrow> ('s, 't, 'k) cluster \<Rightarrow>
    nilerr \<times> ('s, 't, 'k) cluster" where
  "updateNodeClaimTags C nodeClaim nodeClass st =
     (case ParseInstanceID (ProviderID nodeClaim) of
        Inl e \<Rightarrow> (None, st)
      | Inr i \<Rightarrow>
        (case onNodes (PGet (ccNodes C) i True) st of
           (Inl e, st) \<Rightarrow>
             (IgnoreNodeClaimNotFoundError (ccErrlib C)
                (Some (Errorf ''getting instance for in-place tag update, %w'' [] [e])), st)
         | (Inr node, st) \<Rightarrow>
             let finalTagList = normalizeTagList (ccRange C) (desiredUserTagsForInstance (ccRange C) (InstTags node)
                   (previousUserTags (ccJson C) (labelOf (NodeClaimAnnotations nodeClaim) AnnotationLastAppliedUserTags))
                   (SpecTags (Spec nodeClass)));
                 currentTagList = normalizeTagList (ccRange C) (InstTags node)
             in case (if currentTagList \<noteq> finalTagList then onNodes (PUpdateTags (ccNodes C) i finalTagList) st else (None, st)) of
                  (Some e, st) \<Rightarrow> (Some (Errorf ''updating nodeclaim tags in place, %w'' [] [e]), st)
                | (None, st) \<Rightarrow> recordApplied C nodeClaim nodeClass st))"

definition inplaceReconcile :: "('s, 'k) claim_controller \<Rightarrow> NodeClaim \<Rightarrow> ('s, 't, 'k) cluster \<Rightarrow>
    (nilerr \<times> ('s, 't, 'k) cluster) option" where
  "inplaceReconcile C nodeClaim st =
     (case NodeClassRef nodeClaim of
        None \<Rightarrow> None
      | Some name \<Rightarrow>
        (case onKube (KGetNodeClass (ccKube C) name) st of
           (Inl e, st) \<Rightarrow> Some (IgnoreNotFound (ccErrlib C) (Some e), st)
         | (Inr nodeClass, st) \<Rightarrow>
           (case updateNodeClaimTags C nodeClaim nodeClass st of
              (e, st) \<Rightarrow> Some (IgnoreNodeClaimNotFoundError (ccErrlib C) e, st))))"

section \<open>Tagging\<close>

definition isTaggable :: "NodeClaim \<Rightarrow> bool" where
  "isTaggable nc =
     (let instanceTagged = labelOf (NodeClaimAnnotations nc) AnnotationInstanceTagged;
          clusterNameTagged = labelOf (NodeClaimAnnotations nc) AnnotationClusterNameTaggedCompatability
      in if instanceTagged = ''true'' \<and> clusterNameTagged = ''true'' then False
         else if StatusNodeName nc = [] then False
         else if DeletionTimestamp nc \<noteq> None then False
         else True)"

definition tagInstance :: "('s, 'k) claim_controller \<Rightarrow> NodeClaim \<Rightarrow> string \<Rightarrow> ('s, 't, 'k) cluster \<Rightarrow>
    nilerr \<times> ('s, 't, 'k) cluster" where
  "tagInstance C nc i st =
     (let tags = [(NameTagKey, StatusNodeName nc), (LKEClusterNameTagKey, ccCluster C)]
      in case onNodes (PGet (ccNodes C) i True) st of
           (Inl e, st) \<Rightarrow> (Some (Errorf ''getting instance for tagging, %w'' [] [e]), st)
         | (Inr node, st) \<Rightarrow>
             let existingTags = TagListToMap (InstTags node);
                 tags = delete_keys (map fst existingTags) tags
             in if length tags = 0 then (None, st)
                else case onNodes (PCreateTags (ccNodes C) i tags) st of
                       (Some e, st) \<Rightarrow> (Some (Errorf ''tagging nodeclaim, %w'' [] [e]), st)
                     | (None, st) \<Rightarrow> (None, st))"

definition taggingReconcile :: "('s, 'k) claim_controller \<Rightarrow> NodeClaim \<Rightarrow> ('s, 't, 'k) cluster \<Rightarrow>
    nilerr \<times> ('s, 't, 'k) cluster" where
  "taggingReconcile C nodeClaim st =
     (let stored = nodeClaim
      in if \<not> isTaggable nodeClaim then (None, st)
         else case ParseInstanceID (ProviderID nodeClaim) of
           Inl e \<Rightarrow> (None, st)
         | Inr i \<Rightarrow>
           (case tagInstance C nodeClaim i st of
              (Some e, st) \<Rightarrow> (IgnoreNodeClaimNotFoundError (ccErrlib C) (Some e), st)
            | (None, st) \<Rightarrow>
                let nodeClaim = nodeClaim\<lparr>NodeClaimAnnotations := assign [NodeClaimAnnotations nodeClaim,
                      [(AnnotationInstanceTagged, ''true'')]]\<rparr>
                in if nodeClaim \<noteq> stored then patchClaim C stored nodeClaim st else (None, st)))"

section \<open>What they send\<close>

lemma patchClaim_nodes: "patchClaim C stored nc st = (e, st') \<Longrightarrow> nodeState st' = nodeState st"
  by (auto simp: patchClaim_def dest: onKube_nodes split: prod.splits)

lemma recordApplied_nodes: "recordApplied C nc nodeClass st = (e, st') \<Longrightarrow> nodeState st' = nodeState st"
  by (auto simp: recordApplied_def Let_def dest: patchClaim_nodes split: option.splits if_splits)

text \<open>
  The tags an update writes, on the instance just read: those of the NodeClass override, those
  applied before go, the rest stays.
\<close>

definition inplaceTags :: "('s, 'k) claim_controller \<Rightarrow> NodeClaim \<Rightarrow> LinodeNodeClass \<Rightarrow> string list \<Rightarrow> tag_view" where
  "inplaceTags C nodeClaim nodeClass existing = viewUpdate (tagView existing)
     (tagView (previousUserTags (ccJson C) (labelOf (NodeClaimAnnotations nodeClaim) AnnotationLastAppliedUserTags)))
     (tagView (SpecTags (Spec nodeClass)))"

definition inplace_log :: "('s, 'k) claim_controller \<Rightarrow> NodeClaim \<Rightarrow> LinodeNodeClass \<Rightarrow> string \<Rightarrow> log \<Rightarrow> bool" where
  "inplace_log C nodeClaim nodeClass i l \<longleftrightarrow> reads l \<or>
     (\<exists>n li ts ok. Atoi i = Some n \<and> l = [GotInstance n li, Sent (UpdateInstanceReq n ts) ok] \<and>
        ts = normalizeTagList (ccRange C) ts \<and>
        tagView ts = inplaceTags C nodeClaim nodeClass (LiTags li) \<and> tagView ts \<noteq> tagView (LiTags li))"

text \<open>The NodeClass the API server returns for the NodeClaim when the reconcile reads it.\<close>

definition storedClass :: "('s, 'k) claim_controller \<Rightarrow> NodeClaim \<Rightarrow> ('s, 't, 'k) cluster \<Rightarrow> LinodeNodeClass \<Rightarrow> bool" where
  "storedClass C nodeClaim st nodeClass \<longleftrightarrow>
     (\<exists>name. NodeClassRef nodeClaim = Some name \<and> fst (KGetNodeClass (ccKube C) name (kubeState st)) = Inr nodeClass)"

context node_provider
begin

lemma updateNodeClaimTags_log:
  assumes P: "ccNodes C = P" and rng: "range_ok (ccRange C)"
    and run: "updateNodeClaimTags C nodeClaim nodeClass st = (e, st')"
  shows "\<exists>l. logs (nodeState st') = logs (nodeState st) @ l \<and>
    (case ParseInstanceID (ProviderID nodeClaim) of Inl _ \<Rightarrow> l = [] | Inr i \<Rightarrow> inplace_log C nodeClaim nodeClass i l)"
proof (cases "ParseInstanceID (ProviderID nodeClaim)")
  case (Inl x)
  with run show ?thesis by (simp add: updateNodeClaimTags_def)
next
  case (Inr i)
  obtain r1 st1 where r1: "onNodes (PGet P i True) st = (r1, st1)" by fastforce
  note get = onNodes_nodes [OF r1]
  show ?thesis
  proof (cases r1)
    case (Inl e1)
    with run Inr r1 P get_reads [OF get] show ?thesis by (auto simp: updateNodeClaimTags_def inplace_log_def)
  next
    case node: (Inr node)
    from get_fresh [OF get [unfolded node]] obtain n li where n: "Atoi i = Some n"
      "logs (nodeState st1) = logs (nodeState st) @ [GotInstance n li]" "InstTags node = LiTags li" by blast
    let ?ts = "normalizeTagList (ccRange C) (desiredUserTagsForInstance (ccRange C) (InstTags node)
       (previousUserTags (ccJson C) (labelOf (NodeClaimAnnotations nodeClaim) AnnotationLastAppliedUserTags)) (SpecTags (Spec nodeClass)))"
    have normal: "?ts = normalizeTagList (ccRange C) ?ts"
      using normalizeTagList_cong [OF rng rng tagView_normalizeTagList [OF rng]] by (rule sym)
    have view: "tagView ?ts = inplaceTags C nodeClaim nodeClass (LiTags li)"
      unfolding tagView_normalizeTagList [OF rng] desired_view [OF rng] inplaceTags_def n(3) ..
    show ?thesis
    proof (cases "normalizeTagList (ccRange C) (InstTags node) = ?ts")
      case True
      with run Inr r1 P node have "recordApplied C nodeClaim nodeClass st1 = (e, st')"
        by (simp add: updateNodeClaimTags_def Let_def)
      from recordApplied_nodes [OF this] n(2) Inr show ?thesis by (auto simp: inplace_log_def)
    next
      case False
      obtain e2 st2 where r2: "onNodes (PUpdateTags P i ?ts) st1 = (e2, st2)" by fastforce
      from update_tags [OF onNodes_nodes [OF r2]] n
      have log2: "logs (nodeState st2) = logs (nodeState st) @ [GotInstance n li, Sent (UpdateInstanceReq n ?ts) (e2 = None)]"
        by simp
      have "nodeState st' = nodeState st2"
        using run Inr r1 P node False r2 recordApplied_nodes [of C nodeClaim nodeClass st2 e st']
        by (auto simp: updateNodeClaimTags_def Let_def split: option.splits)
      moreover have "tagView ?ts \<noteq> tagView (LiTags li)"
        using False normalizeTagList_cong [OF rng rng, of "LiTags li" ?ts] normalizeTagList_cong [OF rng rng tagView_normalizeTagList [OF rng]]
        unfolding n(3) by metis
      ultimately show ?thesis using log2 view normal Inr n(1)
        unfolding inplace_log_def by (intro exI [of _ "[GotInstance n li, Sent (UpdateInstanceReq n ?ts) (e2 = None)]"]) auto
    qed
  qed
qed

lemma inplaceReconcile_log:
  assumes P: "ccNodes C = P" and rng: "range_ok (ccRange C)" and run: "inplaceReconcile C nodeClaim st = Some (e, st')"
  shows "\<exists>l. logs (nodeState st') = logs (nodeState st) @ l \<and>
    (reads l \<or> (\<exists>nodeClass i. storedClass C nodeClaim st nodeClass \<and> ParseInstanceID (ProviderID nodeClaim) = Inr i \<and>
       inplace_log C nodeClaim nodeClass i l))"
proof -
  obtain name where name: "NodeClassRef nodeClaim = Some name" using run by (auto simp: inplaceReconcile_def split: option.splits)
  obtain r1 st1 where r1: "onKube (KGetNodeClass (ccKube C) name) st = (r1, st1)" by fastforce
  note n1 = onKube_nodes [OF r1]
  show ?thesis
  proof (cases r1)
    case (Inl e1)
    with run name r1 n1 show ?thesis by (auto simp: inplaceReconcile_def)
  next
    case (Inr nodeClass)
    with run name r1 obtain e2 where r2: "updateNodeClaimTags C nodeClaim nodeClass st1 = (e2, st')"
      by (auto simp: inplaceReconcile_def split: prod.splits)
    have "storedClass C nodeClaim st nodeClass"
      using name onKube_kube [OF r1] Inr by (simp add: storedClass_def)
    with updateNodeClaimTags_log [OF P rng r2] n1 show ?thesis
      by (cases "ParseInstanceID (ProviderID nodeClaim)") auto
  qed
qed

text \<open>Tagging: only tag requests for the claim's own instance, and none that drops a tag.\<close>

lemma taggingReconcile_log:
  assumes P: "ccNodes C = P" and run: "taggingReconcile C nodeClaim st = (e, st')"
  shows "\<exists>l. logs (nodeState st') = logs (nodeState st) @ l \<and> (\<not> isTaggable nodeClaim \<longrightarrow> l = []) \<and>
    (\<forall>ev \<in> set l. is_sent ev \<longrightarrow> (\<exists>i n. ParseInstanceID (ProviderID nodeClaim) = Inr i \<and> Atoi i = Some n \<and> adds_tag l n ev))"
proof (cases "isTaggable nodeClaim \<and> (\<exists>i. ParseInstanceID (ProviderID nodeClaim) = Inr i)")
  case False
  with run show ?thesis by (auto simp: taggingReconcile_def Let_def split: sum.splits)
next
  case True
  then obtain i where i: "ParseInstanceID (ProviderID nodeClaim) = Inr i" by blast
  obtain e1 st1 where r1: "tagInstance C nodeClaim i st = (e1, st1)" by fastforce
  have n1: "nodeState st' = nodeState st1"
    using run True i r1 patchClaim_nodes
    by (auto simp: taggingReconcile_def Let_def split: option.splits if_splits)
  obtain r2 st2 where r2: "onNodes (PGet P i True) st = (r2, st2)" by fastforce
  from get_reads [OF onNodes_nodes [OF r2]] obtain l1 where l1: "logs (nodeState st2) = logs (nodeState st) @ l1" "reads l1" by blast
  have none: "\<not> is_sent ev" if "ev \<in> set l1" for ev using l1(2) that by (auto simp: reads_def list_all_iff is_sent_iff)
  show ?thesis
  proof (cases "nodeState st1 = nodeState st2")
    case True
    with n1 l1 none \<open>isTaggable nodeClaim \<and> _\<close> show ?thesis by (intro exI [of _ l1]) auto
  next
    case False
    then obtain tags e3 where r3: "onNodes (PCreateTags P i tags) st2 = (e3, st1)"
      using r1 r2 P by (auto simp: tagInstance_def Let_def split: sum.splits if_splits prod.splits option.splits)
    from create_tags [OF onNodes_nodes [OF r3]] obtain l2 where l2: "logs (nodeState st1) = logs (nodeState st2) @ l2"
      "\<forall>ev \<in> set l2. is_sent ev \<longrightarrow> (\<exists>n. Atoi i = Some n \<and> adds_tag l2 n ev)" by blast
    have "adds_tag l2 n ev \<Longrightarrow> adds_tag (l1 @ l2) n ev" for n ev by (auto simp: adds_tag_def)
    with l1 l2 n1 none i True show ?thesis by (intro exI [of _ "l1 @ l2"]) auto
  qed
qed

end

text \<open>
  C24: In both modes, one reconcile of the in-place update sends at most one changing request:
  an update of the tags of the NodeClaim's own instance, right after reading it. The tags it writes
  are in normal form and are, by key and as a set, those just read with the tags of the last update taken out
  and those of the NodeClass, as the API server returns it, put in, and it is sent only if that differs from what the
  instance has. A provider id that is not understood sends nothing.
\<close>

lemma inplace_update_writes_own_tags:
  fixes p :: "('w \<times> log, 'c, 'b, 'u) lke" and q :: "('v \<times> log, 'd, 'x) instance_provider"
  assumes "range_ok (ccRange C)" "range_ok (ccRange D)"
  shows "(ccNodes C = lkeProvider (onLog p a t) \<and> inplaceReconcile C nodeClaim st = Some (e, st') \<longrightarrow>
      (\<exists>l. logOf (nodeState st') = logOf (nodeState st) @ l \<and>
        (reads l \<or> (\<exists>nodeClass i. storedClass C nodeClaim st nodeClass \<and> ParseInstanceID (ProviderID nodeClaim) = Inr i \<and>
           inplace_log C nodeClaim nodeClass i l)))) \<and>
    (ccNodes D = instanceProvider (ipOnLog q b u) \<and> inplaceReconcile D nodeClaim st2 = Some (e2, st2') \<longrightarrow>
      (\<exists>l. ipLog (nodeState st2') = ipLog (nodeState st2) @ l \<and>
        (reads l \<or> (\<exists>nodeClass i. storedClass D nodeClaim st2 nodeClass \<and> ParseInstanceID (ProviderID nodeClaim) = Inr i \<and>
           inplace_log D nodeClaim nodeClass i l))))"
  using lke_nodes.inplaceReconcile_log [of C p a t nodeClaim st e st', OF _ assms(1)]
    instance_nodes.inplaceReconcile_log [of D q b u nodeClaim st2 e2 st2', OF _ assms(2)] by blast

text \<open>
  C28: In both modes, the tagging controller sends changing requests only for the NodeClaim's
  own instance, only to add tags, dropping none of those it has just read, and none at all
  unless the NodeClaim has a node name, is not being deleted, and does not carry both tagged
  annotations.
\<close>

lemma tagging_only_adds_tags:
  fixes p :: "('w \<times> log, 'c, 'b, 'u) lke" and q :: "('v \<times> log, 'd, 'x) instance_provider"
  shows "(ccNodes C = lkeProvider (onLog p a t) \<and> taggingReconcile C nodeClaim st = (e, st') \<longrightarrow>
      (\<exists>l. logOf (nodeState st') = logOf (nodeState st) @ l \<and> (\<not> isTaggable nodeClaim \<longrightarrow> l = []) \<and>
        (\<forall>ev \<in> set l. is_sent ev \<longrightarrow>
           (\<exists>i n. ParseInstanceID (ProviderID nodeClaim) = Inr i \<and> Atoi i = Some n \<and> adds_tag l n ev)))) \<and>
    (ccNodes D = instanceProvider (ipOnLog q b u) \<and> taggingReconcile D nodeClaim st2 = (e2, st2') \<longrightarrow>
      (\<exists>l. ipLog (nodeState st2') = ipLog (nodeState st2) @ l \<and> (\<not> isTaggable nodeClaim \<longrightarrow> l = []) \<and>
        (\<forall>ev \<in> set l. is_sent ev \<longrightarrow>
           (\<exists>i n. ParseInstanceID (ProviderID nodeClaim) = Inr i \<and> Atoi i = Some n \<and> adds_tag l n ev))))"
  using lke_nodes.taggingReconcile_log [of C p a t nodeClaim st e st']
    instance_nodes.taggingReconcile_log [of D q b u nodeClaim st2 e2 st2'] by blast

end
