(* ===== verification/GarbageCollection.thy ===== *)
theory GarbageCollection
  imports ClaimControllers NodeClassHash
begin

text \<open>
  pkg/controllers/nodeclaim/garbagecollection/controller.go: instances without a NodeClaim are
  deleted, with their nodes. The workers of \<open>ParallelizeUntil\<close> run one claim each; the model runs them
  one after another in an order that is a parameter, so the theorems hold for every order.
\<close>

section \<open>The controller\<close>

record ('s, 't, 'k) gc_controller =
  gcCloud :: "('s, 't, 'k) cloud"
  gcOrder :: "NodeClaim list \<Rightarrow> NodeClaim list"

record ('s, 't, 'k) gc_state =
  gcCluster :: "('s, 't, 'k) cluster"
  successfulCount :: "64 word"

text \<open>An unset creation time is the zero time: the age saturates.\<close>

definition olderThan30s :: "int \<Rightarrow> int option \<Rightarrow> bool" where
  "olderThan30s now created = (case created of None \<Rightarrow> True | Some t \<Rightarrow> sat64 (now - t) > 30 * 10 ^ 9)"

definition garbageCollect :: "('s, 't, 'k) cloud \<Rightarrow> NodeClaim \<Rightarrow> kube_node list \<Rightarrow> ('s, 't, 'k) cluster \<Rightarrow>
    nilerr \<times> ('s, 't, 'k) cluster" where
  "garbageCollect c nodeClaim nodeList st =
     (case cloudDelete c nodeClaim st of
        (Some e, st) \<Rightarrow> (IgnoreNodeClaimNotFoundError (cErrlib c) (Some e), st)
      | (None, st) \<Rightarrow>
        (case find (\<lambda>n. KubeNodeProviderID n = ProviderID nodeClaim) nodeList of
           None \<Rightarrow> (None, st)
         | Some node \<Rightarrow>
             (case onKube (KDeleteNode (kubeClient c) (KubeNodeName node)) st of
                (Some e, st) \<Rightarrow> (IgnoreNotFound (cErrlib c) (Some e), st)
              | (None, st) \<Rightarrow> (None, st))))"

fun collectAll :: "('s, 't, 'k) cloud \<Rightarrow> string set \<Rightarrow> kube_node list \<Rightarrow> NodeClaim list \<Rightarrow> ('s, 't, 'k) cluster \<Rightarrow>
    nilerr list \<times> ('s, 't, 'k) cluster" where
  "collectAll c clusterProviderIDs nodeList [] st = ([], st)"
| "collectAll c clusterProviderIDs nodeList (nc # ncs) st =
     (case (if ProviderID nc \<notin> clusterProviderIDs \<and> olderThan30s (nowS c (nodeState st)) (CreationTimestamp nc)
            then garbageCollect c nc nodeList st else (None, st)) of
        (e, st) \<Rightarrow> (case collectAll c clusterProviderIDs nodeList ncs st of (es, st) \<Rightarrow> (e # es, st)))"

definition providerIDs :: "NodeClaim list \<Rightarrow> string set" where
  "providerIDs ncs = set (filter (\<lambda>i. i \<noteq> []) (map ProviderID ncs))"

definition gcResult :: "('s, 't, 'k) cluster \<Rightarrow> 64 word \<Rightarrow> nilerr \<Rightarrow> int res \<times> ('s, 't, 'k) gc_state" where
  "gcResult st n err =
     (case err of
        Some e \<Rightarrow> (Inl e, \<lparr>gcCluster = st, successfulCount = n\<rparr>)
      | None \<Rightarrow> let n = n + 1
                in (Inr (if n \<le> 20 then 10 * 10 ^ 9 else 2 * 60 * 10 ^ 9), \<lparr>gcCluster = st, successfulCount = n\<rparr>))"

text \<open>The delay of the next run, or the error; \<open>None\<close> is a nil dereference in \<open>List\<close>.\<close>

definition gcReconcile :: "('s, 't, 'k) gc_controller \<Rightarrow> ('s, 't, 'k) gc_state \<Rightarrow>
    (int res \<times> ('s, 't, 'k) gc_state) option" where
  "gcReconcile C g =
     (let c = gcCloud C; n = successfulCount g
      in case cloudList c (gcCluster g) of
           None \<Rightarrow> None
         | Some (Inl e, st) \<Rightarrow> Some (gcResult st n (Some (Errorf ''listing cloudprovider nodeclaims, %w'' [] [e])))
         | Some (Inr cloudNodeClaims, st) \<Rightarrow>
           let cloudNodeClaims = filter (\<lambda>nc. DeletionTimestamp nc = None) cloudNodeClaims
           in case onKube (KListManaged (kubeClient c)) st of
                (Inl e, st) \<Rightarrow> Some (gcResult st n (Some e))
              | (Inr clusterNodeClaims, st) \<Rightarrow>
                (case onKube (KListNodes (kubeClient c)) st of
                   (Inl e, st) \<Rightarrow> Some (gcResult st n (Some e))
                 | (Inr nodeList, st) \<Rightarrow>
                   (case collectAll c (providerIDs clusterNodeClaims) nodeList (gcOrder C cloudNodeClaims) st of
                      (errs, st) \<Rightarrow> Some (gcResult st n (combineErrs errs)))))"

section \<open>What is deleted\<close>

definition deleteAll :: "'s provider \<Rightarrow> string list \<Rightarrow> 's \<Rightarrow> 's" where
  "deleteAll P ids s = fold (\<lambda>i s. snd (PDelete P i s)) ids s"

lemma deleteAll_simps [simp]:
  "deleteAll P [] s = s" "deleteAll P (i # ids) s = deleteAll P ids (snd (PDelete P i s))"
  by (simp_all add: deleteAll_def)

definition ofInstance :: "Instance \<Rightarrow> NodeClaim \<Rightarrow> bool" where
  "ofInstance inst nc \<longleftrightarrow> ProviderID nc = providerIDOf (InstID inst) \<and> CreationTimestamp nc = InstCreated inst \<and>
     (DeletionTimestamp nc = None \<longleftrightarrow> InstStatus inst \<noteq> InstanceDeleting \<and> InstStatus inst \<noteq> InstanceShuttingDown)"

lemma claimOfInstance_of: "claimOfInstance c inst st = Some (Inr nc, st') \<Longrightarrow> ofInstance inst nc"
proof -
  assume "claimOfInstance c inst st = Some (Inr nc, st')"
  then obtain it s where "nc = instanceToNodeClaim c inst it s"
    by (auto simp: claimOfInstance_def split: option.splits sum.splits prod.splits)
  then show ?thesis by (simp add: ofInstance_def) (simp add: instanceToNodeClaim_def Let_def)
qed

lemma claimsOfInstances_of: "claimsOfInstances c insts st = Some (Inr ncs, st') \<Longrightarrow> list_all2 ofInstance insts ncs"
proof (induction insts arbitrary: ncs st)
  case (Cons inst insts)
  then obtain nc st1 ncs' where step: "claimOfInstance c inst st = Some (Inr nc, st1)"
    "claimsOfInstances c insts st1 = Some (Inr ncs', st')" "ncs = nc # ncs'"
    by (auto split: option.splits sum.splits)
  from Cons.IH [OF step(2)] claimOfInstance_of [OF step(1)] step(3) show ?case by simp
qed simp

lemma garbageCollect_nodes:
  assumes "ProviderID nc = providerIDOf i" "garbageCollect c nc nodes st = (e, st')"
  shows "nodeState st' = snd (PDelete (nodeProvider c) (Itoa i) (nodeState st))"
proof -
  obtain e1 st1 where d: "onNodes (PDelete (nodeProvider c) (Itoa i)) st = (e1, st1)" by fastforce
  have "nodeState st' = nodeState st1"
    using assms d by (auto simp: garbageCollect_def cloudDelete_def ParseInstanceID_providerIDOf
        dest: onKube_nodes split: option.splits prod.splits)
  with onNodes_nodes [OF d] show ?thesis by simp
qed

text \<open>Ages only grow.\<close>

lemma olderThan30s_mono: "olderThan30s now t \<Longrightarrow> now \<le> now' \<Longrightarrow> olderThan30s now' t"
  by (auto simp: olderThan30s_def sat64_def split: option.splits)

text \<open>The claims collected one after another, each an orphan when its turn came.\<close>

definition clock_runs :: "('s, 't, 'k) cloud \<Rightarrow> bool" where
  "clock_runs c \<longleftrightarrow> (\<forall>i s. nowS c s \<le> nowS c (snd (PDelete (nodeProvider c) i s)))"

lemma collectAll_deletes:
  assumes "collectAll c known nodes ncs st = (es, st')" "\<forall>nc \<in> set ncs. \<exists>i. ProviderID nc = providerIDOf i"
  shows "\<exists>ids. nodeState st' = deleteAll (nodeProvider c) (map Itoa ids) (nodeState st) \<and>
    (\<forall>i \<in> set ids. providerIDOf i \<notin> known \<and> (\<exists>nc \<in> set ncs. ProviderID nc = providerIDOf i \<and>
       (\<exists>s. olderThan30s (nowS c s) (CreationTimestamp nc)))) \<and>
    (clock_runs c \<longrightarrow> (\<forall>nc \<in> set ncs. ProviderID nc \<notin> known \<and>
       olderThan30s (nowS c (nodeState st)) (CreationTimestamp nc) \<longrightarrow> ProviderID nc \<in> providerIDOf ` set ids))"
  using assms
proof (induction ncs arbitrary: st es)
  case (Cons nc ncs)
  let ?hit = "ProviderID nc \<notin> known \<and> olderThan30s (nowS c (nodeState st)) (CreationTimestamp nc)"
  obtain e1 st1 where r1: "(if ?hit then garbageCollect c nc nodes st else (None, st)) = (e1, st1)" by fastforce
  with Cons.prems(1) obtain es2 where r2: "collectAll c known nodes ncs st1 = (es2, st')" by (auto split: prod.splits)
  from Cons.prems(2) obtain i where i: "ProviderID nc = providerIDOf i" by auto
  from Cons.IH [OF r2] Cons.prems(2) obtain ids where IH:
    "nodeState st' = deleteAll (nodeProvider c) (map Itoa ids) (nodeState st1)"
    "\<forall>i \<in> set ids. providerIDOf i \<notin> known \<and> (\<exists>nc \<in> set ncs. ProviderID nc = providerIDOf i \<and>
       (\<exists>s. olderThan30s (nowS c s) (CreationTimestamp nc)))"
    "clock_runs c \<longrightarrow> (\<forall>nc \<in> set ncs. ProviderID nc \<notin> known \<and>
       olderThan30s (nowS c (nodeState st1)) (CreationTimestamp nc) \<longrightarrow> ProviderID nc \<in> providerIDOf ` set ids)"
    by auto
  show ?case
  proof (cases ?hit)
    case True
    have st1: "nodeState st1 = snd (PDelete (nodeProvider c) (Itoa i) (nodeState st))"
      using garbageCollect_nodes [OF i] r1 True by simp
    have "clock_runs c \<Longrightarrow> olderThan30s (nowS c (nodeState st)) t \<Longrightarrow> olderThan30s (nowS c (nodeState st1)) t" for t
      unfolding st1 clock_runs_def by (blast intro: olderThan30s_mono)
    with IH True i st1 show ?thesis by (intro exI [of _ "i # ids"]) auto
  next
    case False
    with r1 have "st1 = st" by (auto split: if_splits)
    with IH False show ?thesis by (intro exI [of _ ids]) auto
  qed
qed (auto intro: exI [of _ "[]"])

text \<open>A run stops at a list that fails, or collects.\<close>

lemma gcResult_simps:
  "gcResult st n e = (r, g') \<Longrightarrow> gcCluster g' = st \<and> (isl r \<longleftrightarrow> e \<noteq> None)"
  by (auto simp: gcResult_def Let_def split: option.splits)

lemma gcReconcile_cases:
  assumes "gcReconcile C g = Some (r, g')" "PList (nodeProvider (gcCloud C)) (nodeState (gcCluster g)) = (listed, s0)"
  obtains (stop) "nodeState (gcCluster g') = s0" "isl r"
  | (ran) insts st1 ncs st2 claims k1 nodes st4 es where "listed = Inr insts"
      "claimsOfInstances (gcCloud C) insts st1 = Some (Inr ncs, st2)"
      "KListManaged (kubeClient (gcCloud C)) (kubeState st2) = (Inr claims, k1)" "nodeState st4 = s0"
      "collectAll (gcCloud C) (providerIDs claims) nodes (gcOrder C (filter (\<lambda>nc. DeletionTimestamp nc = None) ncs)) st4 =
         (es, gcCluster g')"
proof -
  let ?c = "gcCloud C"
  obtain st1 where list: "onNodes (PList (nodeProvider ?c)) (gcCluster g) = (listed, st1)" "nodeState st1 = s0"
    using assms(2) by (auto simp: onNodes_def)
  note run = assms(1) [unfolded gcReconcile_def Let_def cloudList_def list(1)]
  show ?thesis
  proof (cases listed)
    case (Inl e)
    with run list(2) stop show ?thesis by (auto dest!: gcResult_simps)
  next
    case insts: (Inr insts)
    with run obtain r2 st2 where r2: "claimsOfInstances ?c insts st1 = Some (r2, st2)" by (auto split: option.splits)
    note n2 = claimsOfInstances_nodes [OF r2]
    show ?thesis
    proof (cases r2)
      case (Inl e)
      with run insts r2 n2 list(2) stop show ?thesis by (auto dest!: gcResult_simps)
    next
      case ncs: (Inr ncs)
      obtain r3 st3 where r3: "onKube (KListManaged (kubeClient ?c)) st2 = (r3, st3)" by fastforce
      note n3 = onKube_nodes [OF r3]
      show ?thesis
      proof (cases r3)
        case (Inl e)
        with run insts r2 ncs r3 n2 n3 list(2) stop show ?thesis by (auto dest!: gcResult_simps)
      next
        case claims: (Inr claims)
        obtain r4 st4 where r4: "onKube (KListNodes (kubeClient ?c)) st3 = (r4, st4)" by fastforce
        note n4 = onKube_nodes [OF r4]
        show ?thesis
        proof (cases r4)
          case (Inl e)
          with run insts r2 ncs r3 claims r4 n2 n3 n4 list(2) stop show ?thesis by (auto dest!: gcResult_simps)
        next
          case (Inr nodes)
          obtain es st5 where "collectAll ?c (providerIDs claims) nodes (gcOrder C (filter (\<lambda>nc. DeletionTimestamp nc = None) ncs)) st4 = (es, st5)"
            by fastforce
          moreover from this have "gcCluster g' = st5"
            using run insts r2 ncs r3 claims r4 Inr by (auto dest!: gcResult_simps)
          ultimately show ?thesis
            using ran [OF insts r2 [unfolded ncs]] onKube_kube [OF r3] claims n2 n3 n4 list(2) by simp
        qed
      qed
    qed
  qed
qed

definition alive :: "Instance \<Rightarrow> bool" where
  "alive inst \<longleftrightarrow> InstStatus inst \<noteq> InstanceDeleting \<and> InstStatus inst \<noteq> InstanceShuttingDown"


end
