(* ===== verification/ControllerSample.thy ===== *)
theory ControllerSample
  imports CloudSample GarbageCollection
begin

text \<open>
  The NodeClaim controllers run on concrete inputs: the witnesses of their theorems, and one
  behaviour modelling showed.
\<close>

section \<open>Tag writers\<close>

definition sampleController :: "'s provider \<Rightarrow> ('s, mem_kube) claim_controller" where
  "sampleController P = \<lparr>ccKube = memKube, ccNodes = P, ccErrlib = documented_lib, ccJson = lineJson,
     ccRange = (\<lambda>m. m), ccCluster = DefaultClusterName\<rparr>"

text \<open>The NodeClass tag is env=dev; the instance still has the one applied before it.\<close>

definition taggedWorld :: fake_world where
  "taggedWorld = storeInstance (blankInstance\<lparr>LiID := 7, LiStatus := ''running'', LiTags := [''old=1'', ''keep'']\<rparr>) NewFakeWorld"

definition joinedClaim :: NodeClaim where
  "joinedClaim = (refClaim ''web'')\<lparr>ProviderID := ''linode://7'', StatusNodeName := ''node-7'',
     NodeClaimAnnotations := [(AnnotationLastAppliedUserTags, ''old=1'')]\<rparr>"

definition retagRun :: "(nilerr \<times> ((fake_world \<times> log, Instance timed, unit timed) ip_state, unit, mem_kube) cluster) option" where
  "retagRun = inplaceReconcile (sampleController (instanceProvider sampleIp)) joinedClaim (startOf (ipFresh taggedWorld))"

lemma retagRun_evaluates:
  "map_option (\<lambda>(e, st). (e = None, map is_sent (ipLog (nodeState st)))) retagRun = Some (True, [False, True])"
  by code_simp

lemma sampleController_simps [simp]:
  "ccNodes (sampleController P) = P" "ccRange (sampleController P) = (\<lambda>m. m)" "ccJson (sampleController P) = lineJson"
  "ccErrlib (sampleController P) = documented_lib"
  by (simp_all add: sampleController_def)

lemma startOf_logs: "ipLog (nodeState (startOf (ipFresh w))) = []" "logOf (nodeState (startOf (freshState w))) = []"
  by (simp_all add: startOf_def ipLog_def logOf_def)

lemma inplace_update_writes_own_tags_witness:
  "\<exists>st' n li ts ok nodeClass. retagRun = Some (None, st') \<and>
     ipLog (nodeState st') = [GotInstance n li, Sent (UpdateInstanceReq n ts) ok] \<and> n = 7 \<and>
     storedClass (sampleController (instanceProvider sampleIp)) joinedClaim (startOf (ipFresh taggedWorld)) nodeClass \<and>
     tagView ts = inplaceTags (sampleController (instanceProvider sampleIp)) joinedClaim nodeClass (LiTags li)"
proof -
  obtain st' where run: "retagRun = Some (None, st')" "map is_sent (ipLog (nodeState st')) = [False, True]"
  proof (cases retagRun)
    case (Some x)
    obtain e st where x: "x = (e, st)" by fastforce
    from retagRun_evaluates have "e = None \<and> map is_sent (ipLog (nodeState st)) = [False, True]"
      by (simp add: Some x)
    with Some x that show ?thesis by simp
  qed (use retagRun_evaluates in simp)
  have "\<not> reads (ipLog (nodeState st'))"
    using run(2) by (auto simp: reads_def list_all_iff is_sent_iff)
  moreover have "ParseInstanceID (ProviderID joinedClaim) = Inr ''7''" "Atoi ''7'' = Some 7" by code_simp+
  ultimately show ?thesis
    using conjunct2 [OF inplace_update_writes_own_tags [of "sampleController (lkeProvider recordedLke)"
        "sampleController (instanceProvider sampleIp)" recordedLke fakeClient fakeRuntime joinedClaim
        "startOf (freshState NewFakeWorld)" None "startOf (freshState NewFakeWorld)" sampleIp fakeClient fakeRuntime
        "startOf (ipFresh taggedWorld)" None st']] run
    by (auto simp: sampleIp_onLog [symmetric] retagRun_def inplace_log_def startOf_logs range_ok_id)
qed

definition tagRun :: "nilerr \<times> ((fake_world \<times> log, Instance timed, unit timed) ip_state, unit, mem_kube) cluster" where
  "tagRun = taggingReconcile (sampleController (instanceProvider sampleIp)) joinedClaim (startOf (ipFresh taggedWorld))"

lemma tagRun_evaluates:
  "map_prod (\<lambda>e. e = None) (\<lambda>st. length (filter is_sent (ipLog (nodeState st)))) tagRun = (True, 2)"
  by code_simp

lemma tagging_only_adds_tags_witness:
  "\<exists>st' ev. tagRun = (None, st') \<and> ev \<in> set (ipLog (nodeState st')) \<and> is_sent ev \<and> adds_tag (ipLog (nodeState st')) 7 ev"
proof -
  obtain e st' where run: "tagRun = (e, st')" by fastforce
  have e: "e = None" and two: "length (filter is_sent (ipLog (nodeState st'))) = 2"
    using tagRun_evaluates unfolding run by simp_all
  have "filter is_sent (ipLog (nodeState st')) \<noteq> []" using two by auto
  then obtain ev where "ev \<in> set (ipLog (nodeState st'))" "is_sent ev" by (auto simp: filter_empty_conv)
  moreover have "ParseInstanceID (ProviderID joinedClaim) = Inr ''7''" "Atoi ''7'' = Some 7" by code_simp+
  ultimately show ?thesis
    using conjunct2 [OF tagging_only_adds_tags [of "sampleController (lkeProvider recordedLke)" recordedLke fakeClient fakeRuntime
        joinedClaim "startOf (freshState NewFakeWorld)" None "startOf (freshState NewFakeWorld)"
        "sampleController (instanceProvider sampleIp)" sampleIp fakeClient fakeRuntime
        "startOf (ipFresh taggedWorld)" None st']] run e
    by (auto simp: sampleIp_onLog [symmetric] tagRun_def startOf_logs)
qed

text \<open>
  The annotation the controller writes is one of the two it looks at: a NodeClaim that has not
  got the other one stays taggable, and every reconcile reads its instance again.
\<close>

lemma tagged_claim_stays_taggable:
  assumes "wf_map (NodeClaimAnnotations nc)" "isTaggable nc"
    and "labelOf (NodeClaimAnnotations nc) AnnotationClusterNameTaggedCompatability \<noteq> ''true''"
  shows "isTaggable (nc\<lparr>NodeClaimAnnotations := assign [NodeClaimAnnotations nc, [(AnnotationInstanceTagged, ''true'')]]\<rparr>)"
proof -
  have "AnnotationClusterNameTaggedCompatability \<noteq> AnnotationInstanceTagged" by code_simp
  then have "labelOf (assign [NodeClaimAnnotations nc, [(AnnotationInstanceTagged, ''true'')]]) AnnotationClusterNameTaggedCompatability =
      labelOf (NodeClaimAnnotations nc) AnnotationClusterNameTaggedCompatability"
    by (simp add: labelOf_def map_of_assign assms(1))
  with assms(2,3) show ?thesis by (auto simp: isTaggable_def Let_def split: if_splits)
qed

section \<open>Garbage collection\<close>

definition gcRun :: "(int res \<times> ((fake_world \<times> log, Instance timed, unit timed) ip_state, unit, mem_kube) gc_state) option" where
  "gcRun = gcReconcile \<lparr>gcCloud = instanceCloud, gcOrder = rev\<rparr>
     \<lparr>gcCluster = startOf (ipFresh taggedWorld), successfulCount = 0\<rparr>"

lemma gcRun_evaluates:
  "map_option (\<lambda>(r, g). (r = Inr (10 * 10 ^ 9), map is_sent (ipLog (nodeState (gcCluster g))))) gcRun =
     Some (True, [False, False, True])"
  by code_simp

definition gcListed :: "Instance list res \<times> (fake_world \<times> log, Instance timed, unit timed) ip_state" where
  "gcListed = PList (nodeProvider instanceCloud) (ipFresh taggedWorld)"

lemma gcListed_evaluates:
  "map_prod (map_sum (\<lambda>e. ()) (map InstID)) (\<lambda>s. map is_sent (ipLog s)) gcListed = (Inr [7], [False])"
  by code_simp


end
