(* ===== verification/NodeClassValidation.thy ===== *)
theory NodeClassValidation
  imports NodeClassHash
begin

text \<open>
  pkg/controllers/nodeclass/validation.go: whether a LinodeNodeClass may be used in the mode the
  controller runs in. The outcome is a condition of its status and the delay of the next
  look, in nanoseconds (0 is the empty result). The condition set of operatorpkg is a parameter:
  \<open>status_ok\<close> states what it documents.
\<close>

section \<open>The reconciler\<close>

definition ConditionReasonTagValidationFailed :: string where
  "ConditionReasonTagValidationFailed = ''TagValidationFailed''"
definition ConditionReasonLKEK8sVersionUnsupported :: string where
  "ConditionReasonLKEK8sVersionUnsupported = ''LKEK8sVersionUnsupported''"
definition ConditionReasonLKEK8sVersionControlPlaneMismatch :: string where
  "ConditionReasonLKEK8sVersionControlPlaneMismatch = ''LKEK8sVersionControlPlaneMismatch''"
definition ConditionReasonUnsupportedInstanceFields :: string where
  "ConditionReasonUnsupportedInstanceFields = ''UnsupportedInstanceFields''"
definition ConditionReasonUnsupportedLKEFields :: string where
  "ConditionReasonUnsupportedLKEFields = ''UnsupportedLKEFields''"

definition ValidationConditionMessages :: tagmap where
  "ValidationConditionMessages =
     [(ConditionReasonTagValidationFailed,
         ''LinodeNodeClass tags violate provider-managed key or 50-character length requirements''),
      (ConditionReasonLKEK8sVersionUnsupported, ''lkeK8sVersion is only supported for LKE Enterprise clusters''),
      (ConditionReasonLKEK8sVersionControlPlaneMismatch,
         ''lkeK8sVersion requires the LKE cluster control plane to already be on the same version''),
      (ConditionReasonUnsupportedInstanceFields,
         ''LinodeNodeClass sets instance-only fields that are not supported in LKE mode''),
      (ConditionReasonUnsupportedLKEFields,
         ''LinodeNodeClass sets LKE-only fields that are not supported in instance mode'')]"

definition requeueAfterTime :: int where "requeueAfterTime = 10 * 60 * 10 ^ 9"
definition lkeTierRequeueAfterTime :: int where "lkeTierRequeueAfterTime = 60 * 10 ^ 9"

text \<open>
  \<open>SetCondition\<close> is \<open>StatusConditions().SetTrue/SetFalse\<close>; \<open>hashKey\<close> the hashstructure library, printed as sixteen hex
  digits; \<open>errText\<close> the text of an error.
\<close>

record ('w, 'c, 'k) validator =
  vKube :: "'k kube_api"
  vErrlib :: lib
  vClusterID :: int
  vClient :: "'w linode_api"
  vNow :: "'w \<Rightarrow> int"
  vCacheOps :: "('c, string) cache_ops"
  dryRunDisabled :: bool
  vMode :: string
  vClusterName :: string
  vRange :: range_order
  hashKey :: "LinodeNodeClassSpec \<Rightarrow> tagmap \<Rightarrow> tagmap \<Rightarrow> string"
  SetCondition :: "string \<Rightarrow> cond_status \<Rightarrow> string \<Rightarrow> string \<Rightarrow> LinodeNodeClass \<Rightarrow> LinodeNodeClass"
  errText :: "err \<Rightarrow> string"

record ('w, 'c, 'k) v_state =
  vWorld :: 'w
  vCache :: 'c
  vKubeState :: 'k

text \<open>\<open>errors.Join\<close> drops the nil errors.\<close>

definition errors_Join :: "nilerr list \<Rightarrow> nilerr" where
  "errors_Join errs = (let es = concat (map (\<lambda>e. case e of Some e \<Rightarrow> [e] | None \<Rightarrow> []) errs)
     in if es = [] then None else Some (Errorf ''errors.Join'' [] es))"

definition setTrue :: "('w, 'c, 'k) validator \<Rightarrow> LinodeNodeClass \<Rightarrow> LinodeNodeClass" where
  "setTrue V = SetCondition V ConditionTypeValidationSucceeded CondTrue ConditionTypeValidationSucceeded []"

definition setFalse :: "('w, 'c, 'k) validator \<Rightarrow> string \<Rightarrow> string \<Rightarrow> LinodeNodeClass \<Rightarrow> LinodeNodeClass" where
  "setFalse V = SetCondition V ConditionTypeValidationSucceeded CondFalse"

section \<open>The checks\<close>

definition validateTags :: "('w, 'c, 'k) validator \<Rightarrow> LinodeNodeClass \<Rightarrow> tagmap \<Rightarrow> nilerr \<times> LinodeNodeClass" where
  "validateTags V nodeClass generatedTags =
     (case errors_Join [ValidateTags (SpecTags (Spec nodeClass)), ValidateTagLengths (SpecTags (Spec nodeClass)),
             ValidateTagLengths (MapToTagList (vRange V) generatedTags)] of
        Some err \<Rightarrow> (Some (TerminalErr (Errorf ''validating tags, %w'' [] [err])),
                     setFalse V ConditionReasonTagValidationFailed (errText V err) nodeClass)
      | None \<Rightarrow> (None, nodeClass))"

definition instanceOnlyFieldsSet :: "LinodeNodeClassSpec \<Rightarrow> string list" where
  "instanceOnlyFieldsSet spec =
     (if AuthorizedKeys spec \<noteq> [] then [''authorizedKeys''] else []) @
     (if AuthorizedUsers spec \<noteq> [] then [''authorizedUsers''] else []) @
     (if Image spec \<noteq> [] then [''image''] else []) @
     (if FirewallID spec \<noteq> None then [''firewallID''] else []) @
     (if BackupsEnabled spec then [''backupsEnabled''] else []) @
     (if OSDisk spec \<noteq> None then [''osDisk''] else []) @
     (if DataDisks spec \<noteq> None then [''dataDisks''] else []) @
     (if Configuration spec \<noteq> None then [''configuration''] else []) @
     (if PlacementGroup spec \<noteq> None then [''placementGroup''] else []) @
     (if VPCID spec \<noteq> None then [''vpcID''] else []) @
     (if IPv6Options spec \<noteq> None then [''ipv6Options''] else []) @
     (if SwapSize spec \<noteq> None then [''swapSize''] else []) @
     (if DiskEncryption spec \<noteq> [] then [''diskEncryption''] else [])"

definition validateLKEUnsupportedFields :: "('w, 'c, 'k) validator \<Rightarrow> LinodeNodeClass \<Rightarrow> nilerr \<times> LinodeNodeClass" where
  "validateLKEUnsupportedFields V nodeClass =
     (if vMode V \<noteq> ''lke'' then (None, nodeClass)
      else let setFields = instanceOnlyFieldsSet (Spec nodeClass)
           in if length setFields = 0 then (None, nodeClass)
              else (Some (TerminalErr (Errorf
                      ''validating nodeclass: instance-only fields are not supported in LKE mode: %s'' [strings_Join setFields '', ''] [])),
                    setFalse V ConditionReasonUnsupportedInstanceFields
                      (labelOf ValidationConditionMessages ConditionReasonUnsupportedInstanceFields @ '': '' @ strings_Join setFields '', '')
                      nodeClass))"

definition validateInstanceUnsupportedFields :: "('w, 'c, 'k) validator \<Rightarrow> LinodeNodeClass \<Rightarrow> nilerr \<times> LinodeNodeClass" where
  "validateInstanceUnsupportedFields V nodeClass =
     (if vMode V \<noteq> ''instance'' then (None, nodeClass)
      else let setFields = (if LKEK8sVersion (Spec nodeClass) \<noteq> None then [''lkeK8sVersion''] else [])
           in if length setFields = 0 then (None, nodeClass)
              else (Some (TerminalErr (Errorf
                      ''validating nodeclass: LKE-only fields are not supported in instance mode: %s'' [strings_Join setFields '', ''] [])),
                    setFalse V ConditionReasonUnsupportedLKEFields
                      (labelOf ValidationConditionMessages ConditionReasonUnsupportedLKEFields @ '': '' @ strings_Join setFields '', '')
                      nodeClass))"

definition failLKEClusterTierValidation :: "('w, 'c, 'k) validator \<Rightarrow> LinodeNodeClass \<Rightarrow> string \<Rightarrow> string \<Rightarrow>
    ('w, 'c, 'k) v_state \<Rightarrow> int res \<times> LinodeNodeClass \<times> ('w, 'c, 'k) v_state" where
  "failLKEClusterTierValidation V nodeClass reason message s =
     (Inr lkeTierRequeueAfterTime, setFalse V reason message nodeClass,
      s\<lparr>vKubeState := Publish (vKube V) (LKEValidationFailedEvent (setFalse V reason message nodeClass) reason message) (vKubeState s)\<rparr>)"

definition validateLKEClusterTier :: "('w, 'c, 'k) validator \<Rightarrow> LinodeNodeClass \<Rightarrow>
    ('w, 'c, 'k) v_state \<Rightarrow> int res \<times> LinodeNodeClass \<times> ('w, 'c, 'k) v_state" where
  "validateLKEClusterTier V nodeClass s =
     (case LKEK8sVersion (Spec nodeClass) of
        None \<Rightarrow> (Inr 0, nodeClass, s)
      | Some desiredVersion \<Rightarrow>
        if vMode V \<noteq> ''lke'' then (Inr 0, nodeClass, s)
        else if vClusterID V = 0
        then (Inl (Errorf ''validating LKE cluster tier fields, LKE cluster ID is not configured'' [] []), nodeClass, s)
        else case GetLKECluster (vClient V) (vClusterID V) (vWorld s) of
          (Inl e, w) \<Rightarrow> (Inl (Errorf ''getting LKE cluster %d: %w'' [Itoa (vClusterID V)] [e]), nodeClass, s\<lparr>vWorld := w\<rparr>)
        | (Inr cluster, w) \<Rightarrow>
            let s = s\<lparr>vWorld := w\<rparr>
            in if ClusterTierName cluster = ''enterprise''
               then if ClusterK8sVersion cluster = desiredVersion then (Inr 0, nodeClass, s)
                    else failLKEClusterTierValidation V nodeClass ConditionReasonLKEK8sVersionControlPlaneMismatch
                      (''lkeK8sVersion '' @ quote desiredVersion @ '' requires the LKE cluster control plane to already be on ''
                        @ quote desiredVersion @ '', current cluster version is '' @ quote (ClusterK8sVersion cluster)) s
               else if ClusterTierName cluster = ''standard''
               then failLKEClusterTierValidation V nodeClass ConditionReasonLKEK8sVersionUnsupported
                      (labelOf ValidationConditionMessages ConditionReasonLKEK8sVersionUnsupported) s
               else (Inl (Errorf ''validating LKE cluster tier fields, unsupported LKE version tier %q'' [ClusterTierName cluster] []),
                     nodeClass, s))"

section \<open>The cache\<close>

definition cacheKey :: "('w, 'c, 'k) validator \<Rightarrow> LinodeNodeClass \<Rightarrow> tagmap \<Rightarrow> string" where
  "cacheKey V nodeClass tags = NodeClassName nodeClass @ '':'' @ hashKey V (Spec nodeClass) (NodeClassAnnotations nodeClass) tags"

definition clearCacheEntries :: "('w, 'c, 'k) validator \<Rightarrow> LinodeNodeClass \<Rightarrow> ('w, 'c, 'k) v_state \<Rightarrow> ('w, 'c, 'k) v_state" where
  "clearCacheEntries V nodeClass s =
     (let toDelete = filter (\<lambda>key. case split_on CHR '':'' key of [p, q] \<Rightarrow> p = NodeClassName nodeClass | _ \<Rightarrow> False)
            (CKeys (vCacheOps V) (vCache s) (vNow V (vWorld s)))
      in s\<lparr>vCache := fold (\<lambda>key c. CDelete (vCacheOps V) c key) toDelete (vCache s)\<rparr>)"

section \<open>Reconcile\<close>

definition classTags :: "('w, 'c, 'k) validator \<Rightarrow> LinodeNodeClass \<Rightarrow> tagmap" where
  "classTags V nodeClass =
     (let nodeClaim = emptyNodeClaim\<lparr>NodeClassRef := Some (NodeClassName nodeClass)\<rparr>
      in if vMode V = ''lke'' then GetTagsForLKE nodeClass nodeClaim (vClusterName V)
         else GetTags nodeClass nodeClaim (vClusterName V))"

text \<open>Both branches after the cache do the same; they are kept apart as in the code.\<close>

definition vReconcile :: "('w, 'c, 'k) validator \<Rightarrow> LinodeNodeClass \<Rightarrow> ('w, 'c, 'k) v_state \<Rightarrow>
    int res \<times> LinodeNodeClass \<times> ('w, 'c, 'k) v_state" where
  "vReconcile V nodeClass s =
     (let tags = classTags V nodeClass
      in case validateTags V nodeClass tags of
           (Some err, nodeClass) \<Rightarrow> (Inl err, nodeClass, s)
         | (None, nodeClass) \<Rightarrow>
           (case validateLKEUnsupportedFields V nodeClass of
              (Some err, nodeClass) \<Rightarrow> (Inl err, nodeClass, s)
            | (None, nodeClass) \<Rightarrow>
              (case validateInstanceUnsupportedFields V nodeClass of
                 (Some err, nodeClass) \<Rightarrow> (Inl err, nodeClass, s)
               | (None, nodeClass) \<Rightarrow>
                 (case validateLKEClusterTier V nodeClass s of
                    (Inl err, nodeClass, s) \<Rightarrow> (Inl err, nodeClass, s)
                  | (Inr res, nodeClass, s) \<Rightarrow>
                      if res \<noteq> 0 then (Inr res, nodeClass, s)
                      else let key = cacheKey V nodeClass tags; now = vNow V (vWorld s)
                           in case CGet (vCacheOps V) (vCache s) now key of
                                Some val \<Rightarrow>
                                  (Inr requeueAfterTime,
                                   (if val = [] then setTrue V nodeClass
                                    else setFalse V val (labelOf ValidationConditionMessages val) nodeClass), s)
                              | None \<Rightarrow>
                                  if dryRunDisabled V
                                  then (let nodeClass = setTrue V nodeClass
                                        in (Inr requeueAfterTime, nodeClass,
                                            s\<lparr>vCache := CSet (vCacheOps V) (vCache s) now (cacheKey V nodeClass tags) []\<rparr>))
                                  else (Inr requeueAfterTime, setTrue V nodeClass,
                                        s\<lparr>vCache := CSet (vCacheOps V) (vCache s) now key []\<rparr>)))))"

section \<open>What it accepts\<close>

text \<open>
  What operatorpkg documents of a condition set with the one dependent ValidationSucceeded:
  setting it stamps the generation, makes the root condition Ready follow it, and changes nothing
  else of the object.
\<close>

definition status_ok :: "('w, 'c, 'k) validator \<Rightarrow> bool" where
  "status_ok V \<longleftrightarrow> (\<forall>st reason message nodeClass.
     let nodeClass' = SetCondition V ConditionTypeValidationSucceeded st reason message nodeClass
     in nodeClass' = nodeClass\<lparr>Conditions := Conditions nodeClass'\<rparr> \<and>
        conditionOf nodeClass' ConditionTypeValidationSucceeded =
          \<lparr>CondStatus = st, CondReason = reason, CondMessage = message, ObservedGeneration = Generation nodeClass\<rparr> \<and>
        CondStatus (conditionOf nodeClass' ConditionReady) = st \<and>
        ObservedGeneration (conditionOf nodeClass' ConditionReady) = Generation nodeClass)"

definition blankSpec :: LinodeNodeClassSpec where
  "blankSpec = \<lparr>AuthorizedKeys = [], AuthorizedUsers = [], Image = [], BackupsEnabled = False, SpecTags = [],
     FirewallID = None, OSDisk = None, DataDisks = None, DiskEncryption = [], Configuration = None, PlacementGroup = None,
     VPCID = None, IPv6Options = None, SwapSize = None, Kubelet = None, LKEK8sVersion = None\<rparr>"

text \<open>The tags carry no key the provider manages and fit, as do those the provider adds.\<close>

definition tags_acceptable :: "('w, 'c, 'k) validator \<Rightarrow> LinodeNodeClass \<Rightarrow> bool" where
  "tags_acceptable V nodeClass \<longleftrightarrow>
     (\<forall>t \<in> set (SpecTags (Spec nodeClass)). int (length t) \<le> maxLinodeTagLength \<and>
        (case splitTag t of Some (k, v) \<Rightarrow> k \<notin> set restrictedTagKeys | None \<Rightarrow> True)) \<and>
     (\<forall>(k, v) \<in> set (classTags V nodeClass). int (length (kvTag k v)) \<le> maxLinodeTagLength)"

text \<open>Only the fields of the mode are set.\<close>

definition fields_acceptable :: "('w, 'c, 'k) validator \<Rightarrow> LinodeNodeClassSpec \<Rightarrow> bool" where
  "fields_acceptable V spec \<longleftrightarrow>
     (vMode V = ''lke'' \<longrightarrow>
        spec = blankSpec\<lparr>SpecTags := SpecTags spec, Kubelet := Kubelet spec, LKEK8sVersion := LKEK8sVersion spec\<rparr>) \<and>
     (vMode V = ''instance'' \<longrightarrow> LKEK8sVersion spec = None)"

text \<open>A Kubernetes version may be set only on an enterprise cluster that already runs it.\<close>

definition version_acceptable :: "('w, 'c, 'k) validator \<Rightarrow> LinodeNodeClassSpec \<Rightarrow> LKECluster res \<Rightarrow> bool" where
  "version_acceptable V spec observed \<longleftrightarrow>
     (case LKEK8sVersion spec of
        None \<Rightarrow> True
      | Some v \<Rightarrow> vMode V = ''lke'' \<longrightarrow> vClusterID V \<noteq> 0 \<and>
          (case observed of Inl e \<Rightarrow> False | Inr cluster \<Rightarrow> ClusterTierName cluster = ''enterprise'' \<and> ClusterK8sVersion cluster = v))"

text \<open>The cache only ever remembers success.\<close>

definition cache_clean :: "('w, 'c, 'k) validator \<Rightarrow> 'c \<Rightarrow> bool" where
  "cache_clean V c \<longleftrightarrow> (\<forall>t k v. CGet (vCacheOps V) c t k = Some v \<longrightarrow> v = [])"

lemma set_condition_facts:
  assumes "status_ok V"
  shows "readinessError (setTrue V nodeClass) = None"
    and "\<exists>e. readinessError (setFalse V reason message nodeClass) = Some (NodeClassNotReadyErr e)"
    and "setTrue V nodeClass = nodeClass\<lparr>Conditions := Conditions (setTrue V nodeClass)\<rparr>"
    and "setFalse V reason message nodeClass = nodeClass\<lparr>Conditions := Conditions (setFalse V reason message nodeClass)\<rparr>"
proof -
  have keep: "SetCondition V ConditionTypeValidationSucceeded st r m nodeClass =
      nodeClass\<lparr>Conditions := Conditions (SetCondition V ConditionTypeValidationSucceeded st r m nodeClass)\<rparr>" for st r m
    using assms unfolding status_ok_def Let_def by blast
  have ready: "CondStatus (conditionOf (SetCondition V ConditionTypeValidationSucceeded st r m nodeClass) ConditionReady) = st"
    "ObservedGeneration (conditionOf (SetCondition V ConditionTypeValidationSucceeded st r m nodeClass) ConditionReady) = Generation nodeClass"
    for st r m
    using assms unfolding status_ok_def Let_def by blast+
  have gen: "Generation (SetCondition V ConditionTypeValidationSucceeded st r m nodeClass) = Generation nodeClass" for st r m
    by (subst keep) simp
  show "readinessError (setTrue V nodeClass) = None"
    using ready gen by (simp add: readinessError_def setTrue_def)
  show "\<exists>e. readinessError (setFalse V reason message nodeClass) = Some (NodeClassNotReadyErr e)"
    using ready by (simp add: readinessError_def setFalse_def)
  show "setTrue V nodeClass = nodeClass\<lparr>Conditions := Conditions (setTrue V nodeClass)\<rparr>"
    unfolding setTrue_def by (rule keep)
  show "setFalse V reason message nodeClass = nodeClass\<lparr>Conditions := Conditions (setFalse V reason message nodeClass)\<rparr>"
    unfolding setFalse_def by (rule keep)
qed

definition rejected :: "('w, 'c, 'k) validator \<Rightarrow> LinodeNodeClass \<Rightarrow> LinodeNodeClass \<Rightarrow> bool" where
  "rejected V nodeClass nodeClass' \<longleftrightarrow> (\<exists>reason message. nodeClass' = setFalse V reason message nodeClass)"

lemma rejected_setFalse [simp]: "rejected V nodeClass (setFalse V reason message nodeClass)"
  by (unfold rejected_def) (intro exI, rule refl)

lemma errors_Join_None: "errors_Join errs = None \<longleftrightarrow> (\<forall>e \<in> set errs. e = None)"
  by (auto simp: errors_Join_def Let_def split: option.splits)

lemma validateTags_cases:
  assumes "range_ok (vRange V)"
  shows "if tags_acceptable V nodeClass then validateTags V nodeClass (classTags V nodeClass) = (None, nodeClass)
    else \<exists>e nodeClass'. validateTags V nodeClass (classTags V nodeClass) = (Some (TerminalErr e), nodeClass') \<and> rejected V nodeClass nodeClass'"
proof -
  have "errors_Join [ValidateTags (SpecTags (Spec nodeClass)), ValidateTagLengths (SpecTags (Spec nodeClass)),
      ValidateTagLengths (MapToTagList (vRange V) (classTags V nodeClass))] = None \<longleftrightarrow> tags_acceptable V nodeClass"
    by (auto simp: errors_Join_None ValidateTags_None_iff ValidateTagLengths_None_iff tags_acceptable_def set_MapToTagList [OF assms]
        split: option.splits)
  then show ?thesis by (auto simp: validateTags_def split: option.split)
qed

lemma instanceOnlyFieldsSet_empty:
  "instanceOnlyFieldsSet spec = [] \<longleftrightarrow>
     spec = blankSpec\<lparr>SpecTags := SpecTags spec, Kubelet := Kubelet spec, LKEK8sVersion := LKEK8sVersion spec\<rparr>"
  by (cases spec) (auto simp: instanceOnlyFieldsSet_def blankSpec_def)

lemma validateFields_cases:
  "if fields_acceptable V (Spec nodeClass)
   then validateLKEUnsupportedFields V nodeClass = (None, nodeClass) \<and> validateInstanceUnsupportedFields V nodeClass = (None, nodeClass)
   else \<exists>e nodeClass'. rejected V nodeClass nodeClass' \<and>
     (validateLKEUnsupportedFields V nodeClass = (Some (TerminalErr e), nodeClass') \<or>
      validateLKEUnsupportedFields V nodeClass = (None, nodeClass) \<and>
      validateInstanceUnsupportedFields V nodeClass = (Some (TerminalErr e), nodeClass'))"
  unfolding fields_acceptable_def instanceOnlyFieldsSet_empty [symmetric]
  by (auto simp: validateLKEUnsupportedFields_def validateInstanceUnsupportedFields_def Let_def)

lemma validateLKEClusterTier_cases:
  assumes "validateLKEClusterTier V nodeClass s = (r, nodeClass', s')"
    and "observed = fst (GetLKECluster (vClient V) (vClusterID V) (vWorld s))"
  shows "vCache s' = vCache s \<and>
    (if version_acceptable V (Spec nodeClass) observed then r = Inr 0 \<and> nodeClass' = nodeClass
     else nodeClass' = nodeClass \<and> isl r \<or>
       r = Inr lkeTierRequeueAfterTime \<and> rejected V nodeClass nodeClass')"
  using assms by (auto simp: validateLKEClusterTier_def version_acceptable_def failLKEClusterTierValidation_def Let_def
      split: option.splits if_splits sum.splits prod.splits)

text \<open>The two ways a reconcile ends: everything is acceptable, or some check refuses.\<close>

lemma vReconcile_refuses:
  assumes "range_ok (vRange V)" "vReconcile V nodeClass s = (r, nodeClass', s')"
    and bad: "\<not> (tags_acceptable V nodeClass \<and> fields_acceptable V (Spec nodeClass) \<and>
      version_acceptable V (Spec nodeClass) (fst (GetLKECluster (vClient V) (vClusterID V) (vWorld s))))"
  shows "(nodeClass' = nodeClass \<and> isl r \<or> (isl r \<or> r = Inr lkeTierRequeueAfterTime) \<and> rejected V nodeClass nodeClass') \<and>
    vCache s' = vCache s"
proof (cases "tags_acceptable V nodeClass")
  case False
  with validateTags_cases [OF assms(1)] obtain e nc1 where
    "validateTags V nodeClass (classTags V nodeClass) = (Some (TerminalErr e), nc1)" "rejected V nodeClass nc1" by metis
  with assms(2) show ?thesis by (auto simp: vReconcile_def)
next
  case True
  then have tags: "validateTags V nodeClass (classTags V nodeClass) = (None, nodeClass)"
    using validateTags_cases [OF assms(1), of nodeClass] by simp
  note fields = validateFields_cases [of V nodeClass]
  show ?thesis
  proof (cases "fields_acceptable V (Spec nodeClass)")
    case False
    with fields tags assms(2) show ?thesis by (auto simp: vReconcile_def)
  next
    case fields_ok: True
    obtain r1 nc1 s1 where tier: "validateLKEClusterTier V nodeClass s = (r1, nc1, s1)" by (metis prod_cases3)
    note step = validateLKEClusterTier_cases [OF tier refl]
    from True fields_ok bad step have stop: "isl r1 \<or> r1 = Inr lkeTierRequeueAfterTime" by auto
    have "nodeClass' = nc1 \<and> r = r1 \<and> s' = s1"
      using stop fields_ok fields tags assms(2) tier by (cases r1) (simp_all add: vReconcile_def lkeTierRequeueAfterTime_def)
    with True fields_ok bad step show ?thesis by auto
  qed
qed

lemma vReconcile_accepts:
  assumes "range_ok (vRange V)" "cache_ok (vCacheOps V) ttl" "cache_clean V (vCache s)" "vReconcile V nodeClass s = (r, nodeClass', s')"
    and "tags_acceptable V nodeClass" "fields_acceptable V (Spec nodeClass)"
      "version_acceptable V (Spec nodeClass) (fst (GetLKECluster (vClient V) (vClusterID V) (vWorld s)))"
  shows "r = Inr requeueAfterTime \<and> nodeClass' = setTrue V nodeClass \<and> cache_clean V (vCache s')"
proof -
  have tags: "validateTags V nodeClass (classTags V nodeClass) = (None, nodeClass)"
    using validateTags_cases [OF assms(1), of nodeClass] assms(5) by simp
  obtain r1 nc1 s1 where tier: "validateLKEClusterTier V nodeClass s = (r1, nc1, s1)" by (metis prod_cases3)
  from validateLKEClusterTier_cases [OF tier refl] assms(7) have "r1 = Inr 0" "nc1 = nodeClass" "vCache s1 = vCache s" by auto
  then show ?thesis
    using validateFields_cases [of V nodeClass] tags tier assms(3,4,6)
    by (auto simp: vReconcile_def Let_def cache_clean_def CGet_CSet [OF assms(2)] split: option.splits if_splits)
qed

text \<open>
  C30: Whatever the cache has remembered and whether or not dry runs are disabled, validation
  succeeds exactly when the tags carry no managed key and fit, as do the tags the provider will
  add, the spec sets only fields of the mode, and a Kubernetes version is asked for only of
  an enterprise cluster already on it. Then an instance may be launched with the NodeClass. If
  not, either its status is left alone and the error is retried, or launching with it fails with a
  not-ready error. The spec is never touched, and the cache stays clean.
\<close>

lemma validation_accepts_exactly:
  assumes "status_ok V" "range_ok (vRange V)" "cache_ok (vCacheOps V) ttl" "cache_clean V (vCache s)"
    and "vReconcile V nodeClass s = (r, nodeClass', s')"
  shows "let observed = fst (GetLKECluster (vClient V) (vClusterID V) (vWorld s));
      accepted = (tags_acceptable V nodeClass \<and> fields_acceptable V (Spec nodeClass) \<and> version_acceptable V (Spec nodeClass) observed)
    in (if accepted then r = Inr requeueAfterTime \<and> readinessError nodeClass' = None
        else (isl r \<or> r = Inr lkeTierRequeueAfterTime) \<and>
          (nodeClass' = nodeClass \<and> isl r \<or> (\<exists>e. readinessError nodeClass' = Some (NodeClassNotReadyErr e)))) \<and>
      nodeClass' = nodeClass\<lparr>Conditions := Conditions nodeClass'\<rparr> \<and> cache_clean V (vCache s')"
proof -
  let ?observed = "fst (GetLKECluster (vClient V) (vClusterID V) (vWorld s))"
  note facts = set_condition_facts [OF assms(1)]
  have bad: ?thesis if "\<not> (tags_acceptable V nodeClass \<and> fields_acceptable V (Spec nodeClass) \<and> version_acceptable V (Spec nodeClass) ?observed)"
    "nodeClass' = nodeClass \<and> isl r \<or> (isl r \<or> r = Inr lkeTierRequeueAfterTime) \<and> rejected V nodeClass nodeClass'"
    "vCache s' = vCache s"
  proof -
    have "rejected V nodeClass nodeClass' \<Longrightarrow> (\<exists>e. readinessError nodeClass' = Some (NodeClassNotReadyErr e)) \<and>
        nodeClass' = nodeClass\<lparr>Conditions := Conditions nodeClass'\<rparr>"
      unfolding rejected_def using facts(2,4) by blast
    moreover have "nodeClass = nodeClass\<lparr>Conditions := Conditions nodeClass\<rparr>" by simp
    ultimately show ?thesis using that assms(4) unfolding Let_def by (simp only: if_not_P if_False) metis
  qed
  show ?thesis
  proof (cases "tags_acceptable V nodeClass \<and> fields_acceptable V (Spec nodeClass) \<and> version_acceptable V (Spec nodeClass) ?observed")
    case True
    with vReconcile_accepts [OF assms(2-5)] facts(1,3) show ?thesis by simp
  next
    case False
    with vReconcile_refuses [OF assms(2,5)] show ?thesis by (intro bad) auto
  qed
qed

end
