(* ===== verification/NodeClassController.thy ===== *)
theory NodeClassController
  imports NodeClassValidation
begin

text \<open>
  pkg/controllers/nodeclass/controller.go: the controller that validates a LinodeNodeClass and
  holds it with a finalizer until no NodeClaim uses it. Delays are nanoseconds.
\<close>

section \<open>The controller\<close>

definition onClass :: "('k \<Rightarrow> 'a \<times> 'k) \<Rightarrow> ('w, 'c, 'k) v_state \<Rightarrow> 'a \<times> ('w, 'c, 'k) v_state" where
  "onClass f s = (case f (vKubeState s) of (r, k) \<Rightarrow> (r, s\<lparr>vKubeState := k\<rparr>))"

definition AddFinalizer :: "string \<Rightarrow> LinodeNodeClass \<Rightarrow> LinodeNodeClass" where
  "AddFinalizer f nodeClass = nodeClass\<lparr>Finalizers := Finalizers nodeClass @ [f]\<rparr>"

definition RemoveFinalizer :: "string \<Rightarrow> LinodeNodeClass \<Rightarrow> LinodeNodeClass" where
  "RemoveFinalizer f nodeClass = nodeClass\<lparr>Finalizers := filter (\<lambda>g. g \<noteq> f) (Finalizers nodeClass)\<rparr>"

text \<open>
  \<open>finalize\<close> in two parts: the listing, which ends it unless it shows no NodeClaim (then the result is \<open>None\<close>), and
  the release. Between them others may act: the theory ControlPlane runs them as two steps.
\<close>

definition listUsers :: "('w, 'c, 'k) validator \<Rightarrow> LinodeNodeClass \<Rightarrow> ('w, 'c, 'k) v_state \<Rightarrow> int res option \<times> ('w, 'c, 'k) v_state" where
  "listUsers V nodeClass s =
     (case onClass (KListForNodeClass (vKube V) (NodeClassName nodeClass)) s of
        (Inl e, s) \<Rightarrow> (Some (Inl (Errorf ''listing nodeclaims that are using nodeclass, %w'' [] [e])), s)
      | (Inr nodeClaims, s) \<Rightarrow>
          if length nodeClaims > 0
          then (Some (Inr (10 * 60 * 10 ^ 9)),
                s\<lparr>vKubeState := Publish (vKube V) (WaitingOnNodeClaimTerminationEvent nodeClass (map NodeClaimName nodeClaims)) (vKubeState s)\<rparr>)
          else (None, s))"

definition releaseClass :: "('w, 'c, 'k) validator \<Rightarrow> LinodeNodeClass \<Rightarrow> ('w, 'c, 'k) v_state \<Rightarrow> int res \<times> ('w, 'c, 'k) v_state" where
  "releaseClass V nodeClass s =
     (let stored = nodeClass; nodeClass = RemoveFinalizer TerminationFinalizer nodeClass
      in if nodeClass \<noteq> stored
         then (case onClass (KPatchNodeClass (vKube V) True stored nodeClass) s of
                 (Inl e, s) \<Rightarrow>
                   if KubeIsConflict (vErrlib V) e then (Inr (10 ^ 9), s)
                   else ((case IgnoreNotFound (vErrlib V) (Some (Errorf ''removing termination finalizer, %w'' [] [e])) of
                            Some e \<Rightarrow> Inl e | None \<Rightarrow> Inr 0), s)
               | (Inr nodeClass, s) \<Rightarrow> (Inr 0, clearCacheEntries V nodeClass s))
         else (Inr 0, clearCacheEntries V nodeClass s))"

definition finalize :: "('w, 'c, 'k) validator \<Rightarrow> LinodeNodeClass \<Rightarrow> ('w, 'c, 'k) v_state \<Rightarrow> int res \<times> ('w, 'c, 'k) v_state" where
  "finalize V nodeClass s =
     (case listUsers V nodeClass s of
        (Some r, s) \<Rightarrow> (r, s)
      | (None, s) \<Rightarrow> releaseClass V nodeClass s)"

text \<open>Validation, then the status patch; \<open>multierr.Append\<close> collects the errors, and the one result is the least.\<close>

definition reconcileStatus :: "('w, 'c, 'k) validator \<Rightarrow> LinodeNodeClass \<Rightarrow> ('w, 'c, 'k) v_state \<Rightarrow> int res \<times> ('w, 'c, 'k) v_state" where
  "reconcileStatus V nodeClass s =
     (let stored = nodeClass
      in case vReconcile V nodeClass s of
           (res, nodeClass, s) \<Rightarrow>
             let err = (case res of Inl e \<Rightarrow> Some e | Inr d \<Rightarrow> None);
                 finish = (\<lambda>errs. case combineErrs errs of Some e \<Rightarrow> Inl e | None \<Rightarrow> res)
             in if stored \<noteq> nodeClass
                then (case onClass (KPatchNodeClassStatus (vKube V) True stored nodeClass) s of
                        (Inl e, s) \<Rightarrow>
                          if KubeIsConflict (vErrlib V) e then (Inr (10 ^ 9), s)
                          else (finish [err, IgnoreNotFound (vErrlib V) (Some e)], s)
                      | (Inr _, s) \<Rightarrow> (finish [err], s))
                else (finish [err], s))"

definition nodeClassReconcile :: "('w, 'c, 'k) validator \<Rightarrow> LinodeNodeClass \<Rightarrow> ('w, 'c, 'k) v_state \<Rightarrow> int res \<times> ('w, 'c, 'k) v_state" where
  "nodeClassReconcile V nodeClass s =
     (if NodeClassDeletion nodeClass \<noteq> None then finalize V nodeClass s
      else if TerminationFinalizer \<notin> set (Finalizers nodeClass)
      then let stored = nodeClass; nodeClass = AddFinalizer TerminationFinalizer nodeClass
           in case onClass (KPatchNodeClass (vKube V) True stored nodeClass) s of
                (Inl e, s) \<Rightarrow>
                  (case IgnoreNotFound (vErrlib V) (Some e) of
                     Some _ \<Rightarrow> if KubeIsConflict (vErrlib V) e then (Inr (10 ^ 9), s) else (Inl e, s)
                   | None \<Rightarrow> reconcileStatus V nodeClass s)
              | (Inr nodeClass, s) \<Rightarrow> reconcileStatus V nodeClass s
      else reconcileStatus V nodeClass s)"

section \<open>The finalizer\<close>

text \<open>
  What the API server documents of NodeClasses: an optimistically locked patch succeeds only on the
  stored object and stores the new one; a status patch, listing and events leave the
  finalizers alone; a failed patch stores nothing, and fails with not found only when nothing is stored. \<open>classes\<close> reads the store.
\<close>

definition classes_ok :: "'k kube_api \<Rightarrow> lib \<Rightarrow> ('k \<Rightarrow> string \<Rightarrow> LinodeNodeClass option) \<Rightarrow> bool" where
  "classes_ok K L classes \<longleftrightarrow>
     (\<forall>old new k nc k'. KPatchNodeClass K True old new k = (Inr nc, k') \<longrightarrow> NodeClassName new = NodeClassName old \<longrightarrow>
        classes k (NodeClassName old) = Some old \<and> classes k' = (classes k)(NodeClassName old \<mapsto> nc) \<and>
        NodeClassName nc = NodeClassName new \<and> Finalizers nc = Finalizers new) \<and>
     (\<forall>old new k e k'. KPatchNodeClass K True old new k = (Inl e, k') \<longrightarrow> classes k' = classes k \<and>
        (KubeIsNotFound L e \<longrightarrow> classes k (NodeClassName old) = None)) \<and>
     (\<forall>old new k. Finalizers new = Finalizers old \<longrightarrow> NodeClassName new = NodeClassName old \<longrightarrow>
        (\<lambda>n. map_option Finalizers (classes (snd (KPatchNodeClassStatus K True old new k)) n)) =
          (\<lambda>n. map_option Finalizers (classes k n))) \<and>
     (\<forall>cls k. classes (snd (KListForNodeClass K cls k)) = classes k) \<and>
     (\<forall>ev k. classes (Publish K ev k) = classes k)"

lemma classes_okD:
  assumes "classes_ok K L classes"
  shows "KPatchNodeClass K True old new k = (Inr nc, k') \<Longrightarrow> NodeClassName new = NodeClassName old \<Longrightarrow>
      classes k (NodeClassName old) = Some old \<and> classes k' = (classes k)(NodeClassName old \<mapsto> nc) \<and>
      NodeClassName nc = NodeClassName new \<and> Finalizers nc = Finalizers new"
    and "KPatchNodeClass K True old new k = (Inl e, k') \<Longrightarrow> classes k' = classes k \<and>
      (KubeIsNotFound L e \<longrightarrow> classes k (NodeClassName old) = None)"
    and "KPatchNodeClassStatus K True old new k = (r, k') \<Longrightarrow> Finalizers new = Finalizers old \<Longrightarrow>
      NodeClassName new = NodeClassName old \<Longrightarrow> map_option Finalizers (classes k' n) = map_option Finalizers (classes k n)"
    and "KListForNodeClass K cls k = (rl, k') \<Longrightarrow> classes k' = classes k"
    and "classes (Publish K ev k) = classes k"
proof -
  note ok = assms [unfolded classes_ok_def]
  show "KPatchNodeClass K True old new k = (Inr nc, k') \<Longrightarrow> NodeClassName new = NodeClassName old \<Longrightarrow>
      classes k (NodeClassName old) = Some old \<and> classes k' = (classes k)(NodeClassName old \<mapsto> nc) \<and>
      NodeClassName nc = NodeClassName new \<and> Finalizers nc = Finalizers new"
    using conjunct1 [OF ok] by blast
  show "KPatchNodeClass K True old new k = (Inl e, k') \<Longrightarrow> classes k' = classes k \<and>
      (KubeIsNotFound L e \<longrightarrow> classes k (NodeClassName old) = None)"
    using conjunct1 [OF conjunct2 [OF ok]] by blast
  show "KPatchNodeClassStatus K True old new k = (r, k') \<Longrightarrow> Finalizers new = Finalizers old \<Longrightarrow>
      NodeClassName new = NodeClassName old \<Longrightarrow> map_option Finalizers (classes k' n) = map_option Finalizers (classes k n)"
    using conjunct1 [OF conjunct2 [OF conjunct2 [OF ok]]] by (metis snd_conv)
  show "KListForNodeClass K cls k = (rl, k') \<Longrightarrow> classes k' = classes k"
    using conjunct1 [OF conjunct2 [OF conjunct2 [OF conjunct2 [OF ok]]]] by (metis snd_conv)
  show "classes (Publish K ev k) = classes k"
    using conjunct2 [OF conjunct2 [OF conjunct2 [OF conjunct2 [OF ok]]]] by blast
qed

definition finalizersIn :: "('k \<Rightarrow> string \<Rightarrow> LinodeNodeClass option) \<Rightarrow> 'k \<Rightarrow> string \<Rightarrow> string list option" where
  "finalizersIn classes k n = map_option Finalizers (classes k n)"

text \<open>Validation asks Linode and may publish an event; the store of NodeClasses stays.\<close>

lemma vReconcile_store:
  assumes "classes_ok (vKube V) (vErrlib V) classes" "status_ok V" "vReconcile V nodeClass s = (r, nodeClass', s')"
  shows "classes (vKubeState s') = classes (vKubeState s) \<and> Finalizers nodeClass' = Finalizers nodeClass \<and>
    NodeClassName nodeClass' = NodeClassName nodeClass"
proof -
  have sets: "Finalizers (setTrue V nc) = Finalizers nc" "NodeClassName (setTrue V nc) = NodeClassName nc"
    "Finalizers (setFalse V x m nc) = Finalizers nc" "NodeClassName (setFalse V x m nc) = NodeClassName nc" for nc x m
    by (subst set_condition_facts(3,4) [OF assms(2)], simp)+
  show ?thesis
    using assms(3) classes_okD(5) [OF assms(1)]
    by (auto simp: vReconcile_def validateTags_def validateLKEUnsupportedFields_def validateInstanceUnsupportedFields_def
        validateLKEClusterTier_def failLKEClusterTierValidation_def Let_def sets
        split: option.splits if_splits sum.splits prod.splits)
qed

lemma onClass_runs: "onClass f s = (r, s') \<Longrightarrow> f (vKubeState s) = (r, vKubeState s') \<and> vCache s' = vCache s \<and> vWorld s' = vWorld s"
  by (auto simp: onClass_def split: prod.splits)

lemma reconcileStatus_store:
  assumes "classes_ok (vKube V) (vErrlib V) classes" "status_ok V" "reconcileStatus V nodeClass s = (r, s')"
  shows "finalizersIn classes (vKubeState s') n = finalizersIn classes (vKubeState s) n"
proof -
  obtain res nc1 s1 where v: "vReconcile V nodeClass s = (res, nc1, s1)" by (metis prod_cases3)
  note kept = vReconcile_store [OF assms(1,2) v]
  have "finalizersIn classes (vKubeState s2) n = finalizersIn classes (vKubeState s1) n"
    if "onClass (KPatchNodeClassStatus (vKube V) True nodeClass nc1) s1 = (r2, s2)" for r2 s2
    using classes_okD(3) [OF assms(1) conjunct1 [OF onClass_runs [OF that]]] kept by (simp add: finalizersIn_def)
  with assms(3) v kept show ?thesis
    by (auto simp: reconcileStatus_def Let_def finalizersIn_def split: if_splits prod.splits sum.splits)
qed

lemma KubeIsNotFound_wrap: "lib_ok L \<Longrightarrow> KubeIsNotFound L (Errorf f a [e]) \<longleftrightarrow> KubeIsNotFound L e"
proof -
  assume "lib_ok L"
  then have "KubeIsNotFound L x \<longleftrightarrow> errors_As (\<lambda>x. case x of KubeErr KubeNotFound t \<Rightarrow> Some () | _ \<Rightarrow> None) x \<noteq> None" for x
    unfolding lib_ok_def by blast
  then show ?thesis by (simp only: errors_As_below [of _ "Errorf f a [e]"] err.case unwrap.simps) (simp split: option.split)
qed

text \<open>The patch that takes the finalizer.\<close>

lemma release_cases:
  assumes ok: "classes_ok (vKube V) (vErrlib V) classes" "lib_ok (vErrlib V)"
    and run: "releaseClass V nodeClass s = (r, s')"
  obtains (held) e where "classes (vKubeState s') = classes (vKubeState s)" "vCache s' = vCache s" "r \<noteq> Inr 0"
      "fst (KPatchNodeClass (vKube V) True nodeClass (RemoveFinalizer TerminationFinalizer nodeClass) (vKubeState s)) = Inl e"
  | (gone) "classes (vKubeState s') = classes (vKubeState s)"
      "classes (vKubeState s) (NodeClassName nodeClass) = None \<or> TerminationFinalizer \<notin> set (Finalizers nodeClass)"
  | (released) nc s2 where "classes (vKubeState s) (NodeClassName nodeClass) = Some nodeClass"
      "classes (vKubeState s') = (classes (vKubeState s))(NodeClassName nodeClass \<mapsto> nc)" "r = Inr 0"
      "Finalizers nc = filter (\<lambda>g. g \<noteq> TerminationFinalizer) (Finalizers nodeClass)"
      "NodeClassName nc = NodeClassName nodeClass" "vCache s2 = vCache s" "vWorld s2 = vWorld s" "s' = clearCacheEntries V nc s2"
proof -
  let ?new = "RemoveFinalizer TerminationFinalizer nodeClass"
  obtain patched s2 where patch: "onClass (KPatchNodeClass (vKube V) True nodeClass ?new) s = (patched, s2)" by fastforce
  note p = onClass_runs [OF patch]
  show ?thesis
  proof (cases "?new = nodeClass")
    case same: True
    then have "TerminationFinalizer \<notin> set (Finalizers nodeClass)"
      unfolding RemoveFinalizer_def by (metis (mono_tags) LinodeNodeClass.select_convs(5) LinodeNodeClass.surjective LinodeNodeClass.update_convs(5) filter_id_conv)
    moreover have "classes (vKubeState s') = classes (vKubeState s)"
      using run same by (auto simp: releaseClass_def clearCacheEntries_def Let_def)
    ultimately show ?thesis using gone by blast
  next
    case new: False
    show ?thesis
    proof (cases patched)
      case (Inl e)
      note kept = classes_okD(2) [OF ok(1) conjunct1 [OF p, unfolded Inl]]
      show ?thesis
      proof (cases "KubeIsNotFound (vErrlib V) e")
        case True
        have "s' = s2" using run new patch Inl by (simp add: releaseClass_def Let_def split: if_splits)
        with gone kept True show ?thesis by simp
      next
        case False
        then have "s' = s2 \<and> r \<noteq> Inr 0"
          using run new patch Inl KubeIsNotFound_wrap [OF ok(2)]
          by (auto simp: releaseClass_def Let_def IgnoreNotFound_def split: if_splits)
        with held [of e] kept p Inl show ?thesis by simp
      qed
    next
      case nc: (Inr nc)
      have "s' = clearCacheEntries V nc s2" "r = Inr 0"
        using run new patch nc by (simp_all add: releaseClass_def Let_def)
      with released [of nc s2] classes_okD(1) [OF ok(1) conjunct1 [OF p, unfolded nc]] p
      show ?thesis by (simp add: RemoveFinalizer_def clearCacheEntries_def Let_def)
    qed
  qed
qed

text \<open>An API server that answers: no listing fails, and no locked patch of the object that is stored.\<close>

definition api_serves :: "'k kube_api \<Rightarrow> ('k \<Rightarrow> string \<Rightarrow> LinodeNodeClass option) \<Rightarrow> bool" where
  "api_serves K classes \<longleftrightarrow> (\<forall>cls k. \<not> isl (fst (KListForNodeClass K cls k))) \<and>
     (\<forall>old new k. classes k (NodeClassName old) = Some old \<longrightarrow> \<not> isl (fst (KPatchNodeClass K True old new k)))"

text \<open>A NodeClass that is deleted is held, found released, or released.\<close>

lemma finalize_cases:
  assumes ok: "classes_ok (vKube V) (vErrlib V) classes" "claims_ok (vKube V) (vErrlib V) claims" "lib_ok (vErrlib V)"
    and run: "finalize V nodeClass s = (r, s')"
  obtains (held) "classes (vKubeState s') = classes (vKubeState s)" "vCache s' = vCache s" "r \<noteq> Inr 0"
      "api_serves (vKube V) classes \<Longrightarrow> classes (vKubeState s) (NodeClassName nodeClass) = Some nodeClass \<Longrightarrow>
         \<exists>m claim. claims (vKubeState s) m = Some claim \<and> NodeClassRef claim = Some (NodeClassName nodeClass)"
  | (gone) "classes (vKubeState s') = classes (vKubeState s)"
      "classes (vKubeState s) (NodeClassName nodeClass) = None \<or> TerminationFinalizer \<notin> set (Finalizers nodeClass)"
  | (released) nc s1 where "\<forall>m claim. claims (vKubeState s) m = Some claim \<longrightarrow> NodeClassRef claim \<noteq> Some (NodeClassName nodeClass)"
      "classes (vKubeState s) (NodeClassName nodeClass) = Some nodeClass"
      "classes (vKubeState s') = (classes (vKubeState s))(NodeClassName nodeClass \<mapsto> nc)" "r = Inr 0"
      "Finalizers nc = filter (\<lambda>g. g \<noteq> TerminationFinalizer) (Finalizers nodeClass)"
      "NodeClassName nc = NodeClassName nodeClass" "vCache s1 = vCache s" "vWorld s1 = vWorld s" "s' = clearCacheEntries V nc s1"
proof -
  obtain listed s1 where list: "onClass (KListForNodeClass (vKube V) (NodeClassName nodeClass)) s = (listed, s1)" by fastforce
  note l = onClass_runs [OF list]
  have same1: "classes (vKubeState s1) = classes (vKubeState s)" using classes_okD(4) [OF ok(1) conjunct1 [OF l]] .
  show ?thesis
  proof (cases listed)
    case (Inl e)
    then have "\<not> api_serves (vKube V) classes" using l unfolding api_serves_def by (metis fst_conv isl_def)
    with Inl run list same1 l held show ?thesis by (auto simp: finalize_def listUsers_def)
  next
    case (Inr ncs)
    note used = claims_okD(1) [OF ok(2) conjunct1 [OF l, unfolded Inr]] claims_okD(4) [OF ok(2)]
    show ?thesis
    proof (cases "ncs = []")
      case False
      then obtain nc where "nc \<in> set ncs" by (cases ncs) auto
      with used have "claims (vKubeState s) (NodeClaimName nc) = Some nc \<and> NodeClassRef nc = Some (NodeClassName nodeClass)" by auto
      then have ex: "\<exists>m claim. claims (vKubeState s) m = Some claim \<and> NodeClassRef claim = Some (NodeClassName nodeClass)" by blast
      from False run list Inr same1 l classes_okD(5) [OF ok(1)] show ?thesis by (intro held [OF _ _ _ ex]) (auto simp: finalize_def listUsers_def)
    next
      case True
      have unused: "\<forall>m claim. claims (vKubeState s) m = Some claim \<longrightarrow> NodeClassRef claim \<noteq> Some (NodeClassName nodeClass)"
        using used True by fastforce
      have "releaseClass V nodeClass s1 = (r, s')" using run list Inr True by (simp add: finalize_def listUsers_def)
      from ok(1,3) this show ?thesis
      proof (cases rule: release_cases)
        case (held e)
        have "\<not> (api_serves (vKube V) classes \<and> classes (vKubeState s) (NodeClassName nodeClass) = Some nodeClass)"
          using held(4) same1 unfolding api_serves_def by (metis isl_def)
        with held same1 l show ?thesis by (intro that(1)) auto
      next
        case gone
        then show ?thesis using same1 by (intro that(2)) simp_all
      next
        case (released nc s2)
        then show ?thesis using same1 l by (intro that(3) [OF unused, of nc s2]) simp_all
      qed
    qed
  qed
qed

text \<open>Reconciling a NodeClass that is not being deleted only adds the finalizer.\<close>

lemma alive_keeps_finalizers:
  assumes "classes_ok (vKube V) (vErrlib V) classes" "status_ok V"
    and "nodeClassReconcile V nodeClass s = (r, s')" "NodeClassDeletion nodeClass = None"
    and "classes (vKubeState s) n = Some stored" "TerminationFinalizer \<in> set (Finalizers stored)"
  shows "finalizersIn classes (vKubeState s') n = finalizersIn classes (vKubeState s) n"
proof -
  note status = reconcileStatus_store [OF assms(1,2)]
  show ?thesis
  proof (cases "TerminationFinalizer \<in> set (Finalizers nodeClass)")
    case True
    with assms(3,4) have "reconcileStatus V nodeClass s = (r, s')" by (simp add: nodeClassReconcile_def)
    from status [OF this] show ?thesis .
  next
    case False
    obtain patched s1 where p: "onClass (KPatchNodeClass (vKube V) True nodeClass (AddFinalizer TerminationFinalizer nodeClass)) s = (patched, s1)"
      by fastforce
    note k = conjunct1 [OF onClass_runs [OF p]]
    show ?thesis
    proof (cases patched)
      case (Inl e)
      with False assms(3,4) p have "s' = s1 \<or> reconcileStatus V (AddFinalizer TerminationFinalizer nodeClass) s1 = (r, s')"
        by (auto simp: nodeClassReconcile_def Let_def split: option.splits if_splits)
      with status classes_okD(2) [OF assms(1) k [unfolded Inl]] show ?thesis by (auto simp: finalizersIn_def)
    next
      case (Inr nc)
      note stored = classes_okD(1) [OF assms(1) k [unfolded Inr]]
      from False assms(3,4) p Inr have run: "reconcileStatus V nc s1 = (r, s')"
        by (simp add: nodeClassReconcile_def Let_def)
      have "n \<noteq> NodeClassName nodeClass" using stored assms(5,6) False by (auto simp: AddFinalizer_def)
      with status [OF run, of n] stored show ?thesis by (simp add: finalizersIn_def AddFinalizer_def)
    qed
  qed
qed

text \<open>
  Whichever copy of a NodeClass the controller is given, however old, it takes the finalizer from no stored NodeClass but
  that one, and only when it is being deleted, the copy is the stored one, and no stored NodeClaim refers to it: a NodeClass in use
  is never released.
\<close>

lemma finalizer_kept_while_used:
  assumes "classes_ok (vKube V) (vErrlib V) classes" "claims_ok (vKube V) (vErrlib V) claims" "lib_ok (vErrlib V)" "status_ok V"
    and "nodeClassReconcile V nodeClass s = (r, s')"
    and "classes (vKubeState s) n = Some stored" "TerminationFinalizer \<in> set (Finalizers stored)"
    and "NodeClassDeletion stored = None \<or> n \<noteq> NodeClassName nodeClass \<or> stored \<noteq> nodeClass \<or>
      (\<exists>m claim. claims (vKubeState s) m = Some claim \<and> NodeClassRef claim = Some n)"
  shows "\<exists>stored'. classes (vKubeState s') n = Some stored' \<and> TerminationFinalizer \<in> set (Finalizers stored')"
proof -
  have keep: ?thesis if "finalizersIn classes (vKubeState s') n = finalizersIn classes (vKubeState s) n"
    using that assms(6,7) by (auto simp: finalizersIn_def)
  show ?thesis
  proof (cases "NodeClassDeletion nodeClass = None")
    case True
    from alive_keeps_finalizers [OF assms(1,4,5) True assms(6,7)] show ?thesis by (rule keep)
  next
    case False
    with assms(5) have "finalize V nodeClass s = (r, s')" by (simp add: nodeClassReconcile_def)
    from assms(1,2,3) this show ?thesis
    proof (cases rule: finalize_cases)
      case (released nc s1)
      with False assms(6,8) have "n \<noteq> NodeClassName nodeClass" by auto
      with released(3) show ?thesis by (intro keep) (simp add: finalizersIn_def)
    qed (use assms(6,7) in auto)
  qed
qed

text \<open>The entries of a NodeClass in the validation cache.\<close>

lemma split_on_not_Nil [simp]: "split_on c xs \<noteq> []"
  by (induction xs) (auto split: list.split)

lemma split_on_Cons:
  "split_on c (x # xs) = (if x = c then [] # split_on c xs else (x # hd (split_on c xs)) # tl (split_on c xs))"
  by (cases "split_on c xs") simp_all

lemma split_on_one: "split_on c xs = [p] \<longleftrightarrow> xs = p \<and> c \<notin> set p"
proof (induction xs arbitrary: p)
  case (Cons x xs)
  have "split_on c (x # xs) = [p] \<longleftrightarrow> x \<noteq> c \<and> (\<exists>p'. p = x # p' \<and> split_on c xs = [p'])"
    by (cases "split_on c xs") (auto simp: split_on_Cons simp del: split_on.simps)
  then show ?case by (auto simp: Cons.IH)
qed auto

lemma split_on_two: "split_on c xs = [p, q] \<longleftrightarrow> xs = p @ c # q \<and> c \<notin> set p \<and> c \<notin> set q"
proof (induction xs arbitrary: p)
  case (Cons x xs)
  have "split_on c (x # xs) = [p, q] \<longleftrightarrow>
      (if x = c then p = [] \<and> split_on c xs = [q] else \<exists>p'. p = x # p' \<and> split_on c xs = [p', q])"
    by (cases "split_on c xs") (auto simp: split_on_Cons simp del: split_on.simps)
  then show ?case by (cases p) (auto simp: split_on_one Cons.IH)
qed simp

lemma CGet_deletes:
  "cache_ok co ttl \<Longrightarrow> CGet co (fold (\<lambda>key c. CDelete co c key) keys c) t k = (if k \<in> set keys then None else CGet co c t k)"
  by (induction keys arbitrary: c) (simp_all add: CGet_CDelete)

definition entryOf :: "string \<Rightarrow> string \<Rightarrow> bool" where
  "entryOf name key \<longleftrightarrow> (\<exists>h. key = name @ '':'' @ h \<and> CHR '':'' \<notin> set h)"

lemma clearCacheEntries_exact:
  assumes "cache_ok (vCacheOps V) ttl" "CHR '':'' \<notin> set (NodeClassName nodeClass)"
  shows "CGet (vCacheOps V) (vCache (clearCacheEntries V nodeClass s)) (vNow V (vWorld s)) k =
    (if entryOf (NodeClassName nodeClass) k then None else CGet (vCacheOps V) (vCache s) (vNow V (vWorld s)) k)"
proof -
  have "(case split_on CHR '':'' key of [p, q] \<Rightarrow> p = NodeClassName nodeClass | _ \<Rightarrow> False) \<longleftrightarrow>
      (\<exists>q. split_on CHR '':'' key = [NodeClassName nodeClass, q])" for key
    by (auto split: list.split)
  then have "(case split_on CHR '':'' key of [p, q] \<Rightarrow> p = NodeClassName nodeClass | _ \<Rightarrow> False) \<longleftrightarrow>
      entryOf (NodeClassName nodeClass) key" for key
    using assms(2) by (auto simp: split_on_two entryOf_def)
  then show ?thesis
    by (auto simp: clearCacheEntries_def Let_def CGet_deletes [OF assms(1)] set_CKeys [OF assms(1)])
qed


end
