(* ===== verification/ClassSample.thy ===== *)
theory ClassSample
  imports NodeClassController MemKube
begin

text \<open>The NodeClass controller on concrete inputs: the witnesses of its theorems.\<close>

definition sampleSet :: "string \<Rightarrow> cond_status \<Rightarrow> string \<Rightarrow> string \<Rightarrow> LinodeNodeClass \<Rightarrow> LinodeNodeClass" where
  "sampleSet t st reason message nodeClass =
     setCondition ConditionReady st reason message (setCondition t st reason message nodeClass)"

definition sampleValidator :: "string \<Rightarrow> (fake_world, string timed, mem_kube) validator" where
  "sampleValidator m = \<lparr>vKube = memKube, vErrlib = documented_lib, vClusterID = 1, vClient = fakeClient,
     vNow = Now fakeRuntime, vCacheOps = timed_ops (seconds 600), dryRunDisabled = False, vMode = m,
     vClusterName = DefaultClusterName, vRange = (\<lambda>m. m), hashKey = (\<lambda>spec annotations tags. Image spec),
     SetCondition = sampleSet, errText = (\<lambda>e. ''error'')\<rparr>"

lemma sampleValidator_simps [simp]:
  "vKube (sampleValidator m) = memKube" "vErrlib (sampleValidator m) = documented_lib"
  "vCacheOps (sampleValidator m) = timed_ops (seconds 600)" "vRange (sampleValidator m) = (\<lambda>m. m)"
  by (simp_all add: sampleValidator_def)

lemma sample_status_ok: "status_ok (sampleValidator m)"
proof -
  have ne: "ConditionTypeValidationSucceeded \<noteq> ConditionReady" by code_simp
  have "nc' = nc\<lparr>Conditions := Conditions nc'\<rparr>" if "nc' = sampleSet t st r m nc" for nc nc' t st r m
    using that by (simp add: sampleSet_def setCondition_def)
  then show ?thesis
    using ne by (simp add: status_ok_def Let_def sampleValidator_def) (simp add: sampleSet_def conditionOf_setCondition)
qed

lemma sample_classes_ok: "classes_ok memKube documented_lib classNamed"
proof -
  have named: "classNamed k n = Some x \<Longrightarrow> NodeClassName x = n" for k n x
    by (auto simp: classNamed_def dest: find_SomeD)
  note patch = classNamed_patch
  show ?thesis
    unfolding classes_ok_def
  proof (intro conjI allI impI)
    fix old new :: LinodeNodeClass and k nc k'
    assume "KPatchNodeClass memKube True old new k = (Inr nc, k')" and same: "NodeClassName new = NodeClassName old"
    then have "classNamed k (NodeClassName old) = Some old" "nc = new"
      "k' = k\<lparr>mkClasses := replaceNamed NodeClassName (NodeClassName old) new (mkClasses k)\<rparr>"
      by (auto simp: memKube_def patchClass_def Let_def split: option.splits if_splits)
    with patch [of k "NodeClassName old" new] same
    show "classNamed k (NodeClassName old) = Some old" "classNamed k' = (classNamed k)(NodeClassName old \<mapsto> nc)"
      "NodeClassName nc = NodeClassName new" "Finalizers nc = Finalizers new" by simp_all
  next
    fix old new :: LinodeNodeClass and k e k'
    assume "KPatchNodeClass memKube True old new k = (Inl e, k')"
    then show "classNamed k' = classNamed k" "KubeIsNotFound documented_lib e \<Longrightarrow> classNamed k (NodeClassName old) = None"
      by (auto simp: memKube_def patchClass_def Let_def kubeNotFound_def documented_lib_def errors_As_below split: option.splits if_splits)
  next
    fix old new :: LinodeNodeClass and k
    assume "Finalizers new = Finalizers old" "NodeClassName new = NodeClassName old"
    then show "(\<lambda>n. map_option Finalizers (classNamed (snd (KPatchNodeClassStatus memKube True old new k)) n)) =
        (\<lambda>n. map_option Finalizers (classNamed k n))"
      using patch [of k "NodeClassName old" new]
      by (auto simp: memKube_def patchClass_def Let_def fun_eq_iff split: option.split)
  qed (simp_all add: memKube_def classNamed_def [abs_def])
qed

section \<open>Validation\<close>

definition freshV :: "mem_kube \<Rightarrow> (fake_world, string timed, mem_kube) v_state" where
  "freshV k = \<lparr>vWorld = NewFakeWorld, vCache = [], vKubeState = k\<rparr>"

text \<open>In lke mode the image may not be set.\<close>

definition imageClass :: LinodeNodeClass where
  "imageClass = readyClass\<lparr>Spec := (Spec readyClass)\<lparr>Image := ''linode/ubuntu22.04''\<rparr>\<rparr>"

lemma validation_accepts_exactly_witness:
  "\<exists>nc1 s1 r2 nc2 s2. vReconcile (sampleValidator ''lke'') readyClass (freshV sampleKube) = (Inr requeueAfterTime, nc1, s1) \<and>
     readinessError nc1 = None \<and> vReconcile (sampleValidator ''lke'') imageClass s1 = (r2, nc2, s2) \<and> r2 \<noteq> Inr requeueAfterTime"
proof -
  let ?V = "sampleValidator ''lke''"
  obtain r1 nc1 s1 where run1: "vReconcile ?V readyClass (freshV sampleKube) = (r1, nc1, s1)" by (metis prod_cases3)
  obtain r2 nc2 s2 where run2: "vReconcile ?V imageClass s1 = (r2, nc2, s2)" by (metis prod_cases3)
  have clean: "cache_clean ?V (vCache (freshV sampleKube))"
    by (simp add: cache_clean_def freshV_def timed_ops_def timed_get_def)
  note step = validation_accepts_exactly [where V = ?V, unfolded sampleValidator_simps, OF sample_status_ok range_ok_id timed_ops_ok]
  have "tags_acceptable ?V readyClass" "fields_acceptable ?V (Spec readyClass)" "LKEK8sVersion (Spec readyClass) = None"
    "\<not> fields_acceptable ?V (Spec imageClass)"
    by code_simp+
  with step [OF clean run1] step [OF _ run2] run1 run2
  have "r1 = Inr requeueAfterTime \<and> readinessError nc1 = None \<and> (isl r2 \<or> r2 = Inr lkeTierRequeueAfterTime)"
    by (auto simp: version_acceptable_def Let_def)
  moreover have "lkeTierRequeueAfterTime \<noteq> requeueAfterTime" by code_simp
  ultimately show ?thesis using run1 run2 by auto
qed

section \<open>The finalizer\<close>

definition heldClass :: LinodeNodeClass where
  "heldClass = readyClass\<lparr>Finalizers := [TerminationFinalizer, ''other''], NodeClassDeletion := Some 5\<rparr>"

definition heldKube :: "NodeClaim list \<Rightarrow> mem_kube" where
  "heldKube claims = sampleKube\<lparr>mkClasses := [heldClass], mkClaims := claims\<rparr>"

lemma heldKube_stores: "classNamed (heldKube claims) ''default'' = Some heldClass" "NodeClassName heldClass = ''default''"
  by (simp_all add: classNamed_def heldKube_def heldClass_def readyClass_def sampleNodeClass_def)

lemma finalizer_kept_while_used_witness:
  "\<exists>r s' stored'. nodeClassReconcile (sampleValidator ''lke'') heldClass (freshV (heldKube [refClaim ''web''])) = (r, s') \<and>
     classNamed (vKubeState s') ''default'' = Some stored' \<and> TerminationFinalizer \<in> set (Finalizers stored')"
proof -
  obtain r s' where run: "nodeClassReconcile (sampleValidator ''lke'') heldClass (freshV (heldKube [refClaim ''web''])) = (r, s')" by fastforce
  have "claimNamed (heldKube [refClaim ''web'']) ''web'' = Some (refClaim ''web'')" "NodeClassRef (refClaim ''web'') = Some ''default''"
    "TerminationFinalizer \<in> set (Finalizers heldClass)"
    by (simp_all add: claimNamed_def heldKube_def refClaim_def sampleClaim_def heldClass_def)
  with finalizer_kept_while_used [where V = "sampleValidator ''lke''", unfolded sampleValidator_simps,
      OF sample_classes_ok mem_claims_ok documented_lib_ok sample_status_ok run, of "''default''" heldClass] heldKube_stores run
  show ?thesis by (auto simp: freshV_def)
qed

definition releasedRun :: "int res \<times> (fake_world, string timed, mem_kube) v_state" where
  "releasedRun = nodeClassReconcile (sampleValidator ''lke'') heldClass (freshV (heldKube []))"

lemma releasedRun_evaluates: "fst releasedRun = Inr 0"
  by code_simp

lemma mem_serves: "api_serves memKube classNamed"
  by (auto simp: api_serves_def memKube_def patchClass_def Let_def split: option.split)


end
