(* ===== verification/Float64.thy ===== *)
theory Float64
  imports Complex_Main "HOL-Library.Log_Nat"
begin

text \<open>
  Go's float64 on the values the code computes with, which are zero or of moderate size: a value is the
  rational it denotes, and an operation rounds its exact result to the nearest value with a
  53-bit significand, ties to even. An operation whose result is not \<open>finite64\<close> gives an infinity in Go;
  NaN and subnormal numbers are left out.
\<close>

definition round_even :: "rat \<Rightarrow> int" where
  "round_even x =
     (let n = \<lfloor>x\<rfloor>; d = x - of_int n
      in if d < 1 / 2 then n else if d > 1 / 2 then n + 1 else if even n then n else n + 1)"

definition pow2 :: "int \<Rightarrow> rat" where
  "pow2 e = (if e \<ge> 0 then 2 ^ nat e else 1 / 2 ^ nat (- e))"

text \<open>The exponent of the last bit of the significand.\<close>

definition ulp_exp :: "rat \<Rightarrow> int" where
  "ulp_exp x =
     (case quotient_of \<bar>x\<bar> of (a, b) \<Rightarrow>
        let e = bitlen a - bitlen b - 53
        in if \<bar>x\<bar> \<ge> pow2 (e + 53) then e + 1 else e)"

definition fl :: "rat \<Rightarrow> rat" where
  "fl x = (if x = 0 then 0 else let e = ulp_exp x in sgn x * of_int (round_even (\<bar>x\<bar> / pow2 e)) * pow2 e)"

definition finite64 :: "rat \<Rightarrow> bool" where
  "finite64 x \<longleftrightarrow> \<bar>x\<bar> < 2 ^ 1024"

text \<open>\<open>int64(f)\<close> drops the fraction.\<close>

definition int64 :: "rat \<Rightarrow> int" where
  "int64 x = (if x \<ge> 0 then \<lfloor>x\<rfloor> else \<lceil>x\<rceil>)"

section \<open>Rounding\<close>

lemma round_even_error: "\<bar>of_int (round_even x) - x\<bar> \<le> 1 / 2"
proof -
  have "of_int \<lfloor>x\<rfloor> \<le> x" "x < of_int \<lfloor>x\<rfloor> + 1" by linarith+
  then show ?thesis
    unfolding round_even_def Let_def
    by (cases "x - of_int \<lfloor>x\<rfloor> < 1 / 2"; cases "x - of_int \<lfloor>x\<rfloor> > 1 / 2"; cases "even \<lfloor>x\<rfloor>")
      (simp_all only: if_True if_False of_int_add of_int_1 abs_le_iff, linarith+)
qed

lemma round_even_int [simp]: "round_even (of_int n) = n"
  by (simp add: round_even_def)

lemma pow2_powi: "pow2 e = 2 powi e"
  by (simp add: pow2_def power_int_def power_one_over)

lemma pow2_pos [simp]: "0 < pow2 e"
  by (simp add: pow2_def)

lemma pow2_neq_0 [simp]: "pow2 e \<noteq> 0"
  using pow2_pos [of e] by linarith

lemma pow2_add: "pow2 (a + b) = pow2 a * pow2 b"
  by (simp add: pow2_powi power_int_add)

lemma pow2_nat [simp]: "pow2 (numeral k) = 2 ^ numeral k" "pow2 0 = 1" "pow2 1 = 2"
  by (simp_all add: pow2_def)

lemma ulp_exp_bounds:
  assumes "x \<noteq> 0"
  shows "pow2 (ulp_exp x + 52) \<le> \<bar>x\<bar>" "\<bar>x\<bar> < pow2 (ulp_exp x + 53)"
proof -
  obtain a b where q: "quotient_of \<bar>x\<bar> = (a, b)" by fastforce
  then have b: "b > 0" and x: "\<bar>x\<bar> = of_int a / of_int b"
    using quotient_of_denom_pos quotient_of_div by blast+
  from assms have "0 < \<bar>x\<bar>" by simp
  with x b have a: "a > 0" by (simp add: zero_less_divide_iff)
  have bit: "pow2 (bitlen n - 1) \<le> of_int n \<and> of_int n < pow2 (bitlen n)" if "n > 0" for n
  proof -
    have "bitlen n \<ge> 1" using that bitlen_bounds [OF that] bitlen_nonneg [of n] by (cases "bitlen n = 0") auto
    then show ?thesis using bitlen_bounds [OF that] unfolding pow2_def
      by simp
  qed
  define e where "e = bitlen a - bitlen b - 53"
  have ulp: "ulp_exp x = (if \<bar>x\<bar> \<ge> pow2 (e + 53) then e + 1 else e)"
    by (simp add: ulp_exp_def q e_def Let_def)
  have "pow2 (e + 52) \<le> \<bar>x\<bar>"
  proof -
    have "pow2 (e + 52) * of_int b \<le> pow2 (e + 52) * pow2 (bitlen b)"
      using bit [OF b] by (intro mult_left_mono) (auto simp: less_imp_le)
    also have "\<dots> = pow2 (bitlen a - 1)" unfolding pow2_add [symmetric] e_def by simp
    also have "\<dots> \<le> of_int a" using bit [OF a] by simp
    finally show ?thesis using b x by (simp add: pos_le_divide_eq)
  qed
  moreover have "\<bar>x\<bar> < pow2 (e + 54)"
  proof -
    have "of_int a < pow2 (bitlen a)" using bit [OF a] by simp
    also have "\<dots> = pow2 (e + 54) * pow2 (bitlen b - 1)" unfolding pow2_add [symmetric] e_def by simp
    also have "\<dots> \<le> pow2 (e + 54) * of_int b" using bit [OF b] by (intro mult_left_mono) (auto simp: less_imp_le)
    finally show ?thesis using b x by (simp add: pos_divide_less_eq)
  qed
  ultimately show "pow2 (ulp_exp x + 52) \<le> \<bar>x\<bar>" "\<bar>x\<bar> < pow2 (ulp_exp x + 53)"
    unfolding ulp by (auto simp: add.commute split: if_splits)
qed

text \<open>The relative error of one operation.\<close>

lemma fl_error: "\<bar>fl x - x\<bar> \<le> \<bar>x\<bar> / 2 ^ 53"
proof (cases "x = 0")
  case False
  define e where "e = ulp_exp x"
  define r where "r = round_even (\<bar>x\<bar> / pow2 e)"
  have "\<bar>of_int r * pow2 e - \<bar>x\<bar>\<bar> = \<bar>of_int r - \<bar>x\<bar> / pow2 e\<bar> * pow2 e"
  proof -
    have "of_int r * pow2 e - \<bar>x\<bar> = (of_int r - \<bar>x\<bar> / pow2 e) * pow2 e" by (simp add: left_diff_distrib)
    then show ?thesis by (simp only: abs_mult abs_of_pos [OF pow2_pos])
  qed
  also have "\<dots> \<le> 1 / 2 * pow2 e"
    using round_even_error unfolding r_def by (intro mult_right_mono) (auto simp: less_imp_le)
  also have "1 / 2 * pow2 e = pow2 (e + 52) / 2 ^ 53" by (simp add: pow2_add)
  also have "\<dots> \<le> \<bar>x\<bar> / 2 ^ 53"
    using ulp_exp_bounds(1) [OF False] unfolding e_def by (simp add: divide_right_mono)
  finally have err: "\<bar>of_int r * pow2 e - \<bar>x\<bar>\<bar> \<le> \<bar>x\<bar> / 2 ^ 53" .
  have "fl x = sgn x * (of_int r * pow2 e)" using False by (simp add: fl_def e_def r_def Let_def mult.assoc)
  with err False show ?thesis by (cases "x > 0") (simp_all add: sgn_if abs_if split: if_splits)
qed (simp add: fl_def)

lemma fl_double: "\<bar>x\<bar> \<le> b \<Longrightarrow> \<bar>fl x\<bar> \<le> 2 * b"
proof -
  assume "\<bar>x\<bar> \<le> b"
  moreover have "\<bar>x\<bar> / 2 ^ 53 \<le> \<bar>x\<bar>" by (simp add: pos_divide_le_eq)
  ultimately show ?thesis using fl_error [of x] by (simp only: abs_le_iff) linarith
qed

lemma fl_nonneg: "0 \<le> x \<Longrightarrow> 0 \<le> fl x"
proof -
  assume "0 \<le> x"
  with fl_error [of x] have "x - fl x \<le> x / 2 ^ 53" by (simp only: abs_le_iff abs_of_nonneg) linarith
  moreover have "x / 2 ^ 53 \<le> x" using \<open>0 \<le> x\<close> by (simp add: pos_divide_le_eq)
  ultimately show ?thesis by linarith
qed

text \<open>Values of up to 53 bits are exact.\<close>

lemma fl_exact:
  assumes "x = of_int n * pow2 k" "\<bar>n\<bar> < 2 ^ 53"
  shows "fl x = x"
proof (cases "x = 0")
  case False
  define e where "e = ulp_exp x"
  have "pow2 (e + 52) \<le> \<bar>x\<bar>" using ulp_exp_bounds(1) [OF False] by (simp add: e_def)
  also have "\<dots> = of_int \<bar>n\<bar> * pow2 k" using assms(1) by (simp add: abs_mult less_imp_le)
  also have "\<dots> < 2 ^ 53 * pow2 k"
  proof -
    have "(of_int \<bar>n\<bar> :: rat) < of_int (2 ^ 53)" using assms(2) by (simp only: of_int_less_iff)
    then show ?thesis by (intro mult_strict_right_mono) (simp_all only: of_int_power of_int_numeral pow2_pos)
  qed
  also have "\<dots> = pow2 (k + 53)" by (simp add: pow2_add)
  finally have "pow2 (e + 52) < pow2 (k + 53)" .
  then have "e \<le> k" using power_int_increasing [of "k + 53" "e + 52" "2 :: rat"] unfolding pow2_powi by linarith
  define m where "m = \<bar>n\<bar> * 2 ^ nat (k - e)"
  from \<open>e \<le> k\<close> have m: "\<bar>x\<bar> / pow2 e = of_int m"
    using pow2_add [of "k - e" e] assms(1) by (simp add: m_def abs_mult less_imp_le pow2_def [of "k - e"])
  then have "fl x = sgn x * of_int m * pow2 e"
    using False by (simp only: fl_def Let_def e_def [symmetric] m round_even_int if_False)
  also have "of_int m * pow2 e = \<bar>x\<bar>" using m by (simp add: divide_eq_eq)
  then have "sgn x * of_int m * pow2 e = x" by (simp only: mult.assoc) (simp add: sgn_mult_abs)
  finally show ?thesis .
qed (simp add: fl_def)

lemma fl_int: "\<bar>n\<bar> < 2 ^ 53 \<Longrightarrow> fl (of_int n) = of_int n"
  by (rule fl_exact [of _ n 0]) simp_all

text \<open>Rounding does not cross a value of 53 bits.\<close>

lemma round_even_le: "x \<le> of_int n \<Longrightarrow> round_even x \<le> n"
proof -
  assume x: "x \<le> of_int n"
  then have "\<lfloor>x\<rfloor> \<le> n" by linarith
  moreover have "x = of_int n" if "\<lfloor>x\<rfloor> = n" using x that by linarith
  ultimately show ?thesis using round_even_int [of n] by (cases "\<lfloor>x\<rfloor> = n") (auto simp: round_even_def Let_def)
qed

lemma round_even_ge: "of_int n \<le> x \<Longrightarrow> n \<le> round_even x"
proof -
  assume "of_int n \<le> x"
  then have "n \<le> \<lfloor>x\<rfloor>" by (simp add: le_floor_iff)
  then show ?thesis by (auto simp: round_even_def Let_def)
qed

lemma fl_pos: "0 < x \<Longrightarrow> fl x = of_int (round_even (x / pow2 (ulp_exp x))) * pow2 (ulp_exp x)"
  by (simp add: fl_def Let_def)

lemma multiple_of_pow2:
  assumes "e \<le> k"
  shows "of_int n * pow2 k = of_int (n * 2 ^ nat (k - e)) * pow2 e"
  using pow2_add [of "k - e" e] assms by (simp add: pow2_def [of "k - e"])

lemma pow2_less_iff: "pow2 a < pow2 b \<longleftrightarrow> a < b"
proof
  show "pow2 a < pow2 b" if "a < b" using power_int_strict_increasing [OF that, of "2 :: rat"] by (simp add: pow2_powi)
  show "a < b" if "pow2 a < pow2 b"
    using that power_int_increasing [of b a "2 :: rat"] unfolding pow2_powi by linarith
qed

lemma exponent_below:
  assumes "x \<noteq> 0" "\<bar>x\<bar> \<le> of_int n * pow2 k" "n < 2 ^ 53"
  shows "ulp_exp x \<le> k"
proof -
  have "pow2 (ulp_exp x + 52) \<le> of_int n * pow2 k" using ulp_exp_bounds(1) [OF assms(1)] assms(2) by linarith
  also have "\<dots> < 2 ^ 53 * pow2 k"
  proof -
    have "(of_int n :: rat) < of_int (2 ^ 53)" using assms(3) by (simp only: of_int_less_iff)
    then show ?thesis by (intro mult_strict_right_mono) (simp_all only: of_int_power of_int_numeral pow2_pos)
  qed
  also have "\<dots> = pow2 (k + 53)" by (simp add: pow2_add)
  finally show ?thesis by (simp add: pow2_less_iff)
qed

lemma fl_le:
  assumes "0 < x" "x \<le> of_int n * pow2 k" "n < 2 ^ 53"
  shows "fl x \<le> of_int n * pow2 k"
proof -
  let ?e = "ulp_exp x"
  have z: "of_int n * pow2 k = of_int (n * 2 ^ nat (k - ?e)) * pow2 ?e"
    using exponent_below [of x n k] assms by (intro multiple_of_pow2) auto
  with assms(2) have "x / pow2 ?e \<le> of_int (n * 2 ^ nat (k - ?e))" by (simp add: pos_divide_le_eq)
  then have "round_even (x / pow2 ?e) \<le> n * 2 ^ nat (k - ?e)" by (rule round_even_le)
  then have "(of_int (round_even (x / pow2 ?e)) :: rat) \<le> of_int (n * 2 ^ nat (k - ?e))" by (simp only: of_int_le_iff)
  then show ?thesis unfolding fl_pos [OF assms(1)] z by (intro mult_right_mono) (simp_all add: less_imp_le)
qed

lemma fl_ge:
  assumes "0 < x" "of_int n * pow2 k \<le> x" "0 \<le> n" "n < 2 ^ 53"
  shows "of_int n * pow2 k \<le> fl x"
proof (cases "ulp_exp x \<le> k")
  case True
  let ?e = "ulp_exp x"
  note z = multiple_of_pow2 [OF True, of n]
  with assms(2) have "of_int (n * 2 ^ nat (k - ?e)) \<le> x / pow2 ?e" by (simp add: pos_le_divide_eq)
  then have "n * 2 ^ nat (k - ?e) \<le> round_even (x / pow2 ?e)" by (rule round_even_ge)
  then have "(of_int (n * 2 ^ nat (k - ?e)) :: rat) \<le> of_int (round_even (x / pow2 ?e))" by (simp only: of_int_le_iff)
  then show ?thesis unfolding fl_pos [OF assms(1)] z by (intro mult_right_mono) (simp_all add: less_imp_le)
next
  case False
  let ?e = "ulp_exp x"
  have "of_int n * pow2 k \<le> 2 ^ 53 * pow2 k"
  proof -
    have "(of_int n :: rat) \<le> of_int (2 ^ 53)" using assms(4) by (simp only: of_int_le_iff)
    then show ?thesis by (intro mult_right_mono) (simp_all only: of_int_power of_int_numeral less_imp_le [OF pow2_pos])
  qed
  also have "\<dots> = pow2 (k + 53)" by (simp add: pow2_add)
  also have "\<dots> \<le> pow2 (?e + 52)" using False pow2_less_iff [of "?e + 52" "k + 53"] by linarith
  also have "\<dots> = 2 ^ 52 * pow2 ?e" by (simp add: pow2_add)
  also have "\<dots> \<le> fl x"
  proof -
    have "of_int (2 ^ 52) \<le> x / pow2 ?e"
      using ulp_exp_bounds(1) [of x] assms(1) by (simp add: pos_le_divide_eq pow2_add)
    then have "2 ^ 52 \<le> round_even (x / pow2 ?e)" by (rule round_even_ge)
    then have "(of_int (2 ^ 52) :: rat) \<le> of_int (round_even (x / pow2 ?e))" by (simp only: of_int_le_iff)
    then show ?thesis unfolding fl_pos [OF assms(1)]
      by (intro mult_right_mono) (simp_all only: of_int_power of_int_numeral less_imp_le [OF pow2_pos])
  qed
  finally show ?thesis .
qed

text \<open>Dividing a float by a power of two is exact.\<close>

lemma fl_scale: "0 \<le> x \<Longrightarrow> fl (fl x * pow2 k) = fl x * pow2 k"
proof (cases "x = 0")
  case False
  assume "0 \<le> x"
  with False have x: "0 < x" by simp
  let ?e = "ulp_exp x" and ?r = "round_even (x / pow2 (ulp_exp x))"
  have "x / pow2 ?e \<le> of_int (2 ^ 53)"
    using ulp_exp_bounds(2) [of x] x by (simp add: pos_divide_le_eq pow2_add)
  then have r: "?r \<le> 2 ^ 53" by (rule round_even_le)
  have "0 \<le> ?r" by (rule round_even_ge) (simp add: x less_imp_le)
  have eq: "fl x * pow2 k = of_int ?r * pow2 (?e + k)" unfolding fl_pos [OF x] by (simp add: pow2_add)
  show ?thesis
  proof (cases "?r = 2 ^ 53")
    case True
    have "fl x * pow2 k = of_int 1 * pow2 (?e + k + 53)" unfolding eq True by (simp add: pow2_add)
    then show ?thesis by (rule fl_exact) simp
  next
    case False
    with r \<open>0 \<le> ?r\<close> have "\<bar>?r\<bar> < 2 ^ 53" by simp
    with eq show ?thesis by (rule fl_exact)
  qed
qed (simp add: fl_def)

end
