(* ===== verification/InstanceTypes.thy ===== *)
theory InstanceTypes
  imports Float64 NodeClassHash "HOL-Library.Monad_Syntax"
begin

text \<open>
  pkg/providers/instancetype/types.go, dynamicresources.go and nvidiagpu.go: the Karpenter
  instance type of a Linode plan, from the plan and the kubelet settings of the NodeClass.
  Quantities are their exact values, in cores, bytes and pods. The parsers of quantities
  (apimachinery) and of floats (strconv) are parameters; where the code panics on a string they do
  not accept, the result is \<open>None\<close>.
\<close>

record parsers =
  ParseQuantity :: "string \<Rightarrow> quantity option"
  ParseFloat :: "string \<Rightarrow> rat option"

definition MemoryAvailable :: string where "MemoryAvailable = ''memory.available''"
definition nodeFSAvailable :: string where "nodeFSAvailable = ''nodefs.available''"
definition imageFSAvailable :: string where "imageFSAvailable = ''imagefs.available''"

definition ResourceCPU :: string where "ResourceCPU = ''cpu''"
definition ResourceMemory :: string where "ResourceMemory = ''memory''"
definition ResourceEphemeralStorage :: string where "ResourceEphemeralStorage = ''ephemeral-storage''"
definition ResourcePods :: string where "ResourcePods = ''pods''"

definition MiB :: quantity where "MiB = 2 ^ 20"

section \<open>Capacity\<close>

definition cpu :: "LinodeType \<Rightarrow> quantity" where
  "cpu info = of_int (LtVCPUs info)"

text \<open>\<open>float64(mem.Value()) * percent / 1024 / 1024\<close>, rounded up.\<close>

definition overheadInMiB :: "rat \<Rightarrow> LinodeType \<Rightarrow> int" where
  "overheadInMiB percent info = \<lceil>fl (fl (fl (fl (of_int (LtMemory info) * MiB) * percent) / 1024) / 1024)\<rceil>"

definition memory :: "rat \<Rightarrow> LinodeType \<Rightarrow> quantity" where
  "memory percent info =
     (let mem = of_int (LtMemory info) * MiB
      in mem - of_int (overheadInMiB percent info) * MiB)"

definition ephemeralStorage :: "LinodeType \<Rightarrow> quantity" where
  "ephemeralStorage info = of_int (LtDisk info) * MiB"

definition pods :: "LinodeType \<Rightarrow> int option \<Rightarrow> int option \<Rightarrow> quantity" where
  "pods info maxPods podsPerCore =
     (let count = (case maxPods of Some m \<Rightarrow> m | None \<Rightarrow> 110);
          perCore = (case podsPerCore of Some p \<Rightarrow> p | None \<Rightarrow> 0);
          count = (if perCore > 0 then min (perCore * LtVCPUs info) count else count)
      in of_int count)"

definition computeCapacity :: "rat \<Rightarrow> LinodeType \<Rightarrow> int option \<Rightarrow> int option \<Rightarrow> resource_list" where
  "computeCapacity percent info maxPods podsPerCore =
     [(ResourceCPU, cpu info), (ResourceMemory, memory percent info),
      (ResourceEphemeralStorage, ephemeralStorage info), (ResourcePods, pods info maxPods podsPerCore)]"

section \<open>Reserved resources\<close>

text \<open>\<open>lo.MapEntries\<close> with \<open>resource.MustParse\<close>.\<close>

fun mustParseAll :: "parsers \<Rightarrow> tagmap \<Rightarrow> resource_list option" where
  "mustParseAll P [] = Some []"
| "mustParseAll P ((k, v) # m) = do {
     q \<leftarrow> ParseQuantity P v;
     rest \<leftarrow> mustParseAll P m;
     Some ((k, q) # rest) }"

definition systemReservedResources :: "parsers \<Rightarrow> tagmap \<Rightarrow> resource_list option" where
  "systemReservedResources P systemReserved = mustParseAll P systemReserved"

definition cpuRanges :: "(int \<times> int \<times> rat) list" where
  "cpuRanges = [(0, 1000, fl (6 / 100)), (1000, 2000, fl (1 / 100)), (2000, 4000, fl (5 / 1000)), (4000, 2 ^ 31, fl (25 / 10000))]"

text \<open>The loop over the ranges, in millicores; \<open>int64(f)\<close> truncates.\<close>

definition addRange :: "int \<Rightarrow> int \<times> int \<times> rat \<Rightarrow> resource_list \<Rightarrow> resource_list" where
  "addRange cpuMilli cpuRange resourceList = (case cpuRange of (start, end', percentage) \<Rightarrow>
     if cpuMilli < start then resourceList
     else let r = (if cpuMilli < end' then fl (of_int (cpuMilli - start)) else fl (of_int (end' - start)));
              cpuOverhead = (case map_of resourceList ResourceCPU of Some q \<Rightarrow> q | None \<Rightarrow> 0)
          in AList.update ResourceCPU (cpuOverhead + of_int (int64 (fl (r * percentage))) / 1000) resourceList)"

definition kubeReservedResources :: "parsers \<Rightarrow> quantity \<Rightarrow> quantity \<Rightarrow> tagmap \<Rightarrow> resource_list option" where
  "kubeReservedResources P cpus podCount kubeReserved =
     (let resourceList = [(ResourceMemory, of_int (11 * \<lceil>podCount\<rceil> + 255) * MiB), (ResourceEphemeralStorage, 1024 * MiB)];
          resourceList = fold (addRange \<lceil>cpus * 1000\<rceil>) cpuRanges resourceList
      in do {
        overrides \<leftarrow> mustParseAll P kubeReserved;
        Some (assign [resourceList, overrides]) })"

section \<open>Eviction thresholds\<close>

definition trimPercent :: "string \<Rightarrow> string" where
  "trimPercent v = rev (dropWhile (\<lambda>c. c = CHR ''%'') (rev (dropWhile (\<lambda>c. c = CHR ''%'') v)))"

definition mustParsePercentage :: "parsers \<Rightarrow> string \<Rightarrow> rat option" where
  "mustParsePercentage P v =
     map_option (\<lambda>p. if p = 100 then 0 else p) (ParseFloat P (trimPercent v))"

text \<open>
  A threshold in percent is printed and parsed again, which keeps whole numbers below 2^53; an infinity is printed as
  a string that is no quantity. \<open>ParseFloat\<close> stands for a parse that gives a finite number: from \<open>inf\<close> and
  \<open>nan\<close> the threshold is an infinity or no number, which does not parse either.
\<close>

definition computeEvictionSignal :: "parsers \<Rightarrow> quantity \<Rightarrow> string \<Rightarrow> quantity option" where
  "computeEvictionSignal P capacity signalValue =
     (if signalValue \<noteq> [] \<and> last signalValue = CHR ''%''
      then do {
        p \<leftarrow> mustParsePercentage P signalValue;
        let threshold = fl (fl (fl capacity / 100) * p);
        if finite64 threshold then Some (of_int \<lceil>threshold\<rceil>) else None }
      else ParseQuantity P signalValue)"

text \<open>\<open>Some None\<close>: neither signal is set.\<close>

fun signalLoop :: "parsers \<Rightarrow> quantity \<Rightarrow> tagmap \<Rightarrow> quantity option \<Rightarrow> string list \<Rightarrow> quantity option option" where
  "signalLoop P capacity signals threshold [] = Some threshold"
| "signalLoop P capacity signals threshold (s # ss) =
     (case map_of signals s of
        None \<Rightarrow> signalLoop P capacity signals threshold ss
      | Some value \<Rightarrow> do {
          candidate \<leftarrow> computeEvictionSignal P capacity value;
          signalLoop P capacity signals
            (case threshold of
               None \<Rightarrow> Some candidate
             | Some t \<Rightarrow> if candidate > t then Some candidate else Some t) ss })"

definition storageEvictionSignal :: "parsers \<Rightarrow> quantity \<Rightarrow> tagmap \<Rightarrow> quantity option option" where
  "storageEvictionSignal P capacity signals = signalLoop P capacity signals None [nodeFSAvailable, imageFSAvailable]"

text \<open>\<open>resources.MaxResources\<close>: the larger value of each resource.\<close>

definition MaxResources :: "resource_list \<Rightarrow> resource_list \<Rightarrow> resource_list" where
  "MaxResources a b = fold (\<lambda>(k, v) m. case map_of m k of
      Some w \<Rightarrow> if w < v then AList.update k v m else m | None \<Rightarrow> AList.update k v m) b a"

fun overrideLoop :: "parsers \<Rightarrow> quantity \<Rightarrow> quantity \<Rightarrow> resource_list \<Rightarrow> tagmap list \<Rightarrow> resource_list option" where
  "overrideLoop P mem storage override [] = Some override"
| "overrideLoop P mem storage override (m # ms) = do {
     mTemp \<leftarrow> (case map_of m MemoryAvailable of
        None \<Rightarrow> Some []
      | Some v \<Rightarrow> map_option (\<lambda>q. [(ResourceMemory, q)]) (computeEvictionSignal P mem v));
     threshold \<leftarrow> storageEvictionSignal P storage m;
     let temp = (case threshold of None \<Rightarrow> mTemp | Some q \<Rightarrow> AList.update ResourceEphemeralStorage q mTemp);
     overrideLoop P mem storage (MaxResources override temp) ms }"

definition evictionThreshold :: "parsers \<Rightarrow> quantity \<Rightarrow> quantity \<Rightarrow> tagmap option \<Rightarrow> tagmap option \<Rightarrow> resource_list option" where
  "evictionThreshold P mem storage evictionHard evictionSoft =
     (let overhead = [(ResourceMemory, 100 * MiB)];
          evictionSignals = (case evictionHard of Some m \<Rightarrow> [m] | None \<Rightarrow> []) @ (case evictionSoft of Some m \<Rightarrow> [m] | None \<Rightarrow> [])
      in do {
        override \<leftarrow> overrideLoop P mem storage [] evictionSignals;
        override \<leftarrow>
          (if (case evictionHard of None \<Rightarrow> True | Some m \<Rightarrow> length m = 0)
           then do {
             nodeFSThreshold \<leftarrow> computeEvictionSignal P storage ''10%'';
             imageFSThreshold \<leftarrow> computeEvictionSignal P storage ''15%'';
             Some (MaxResources override [(ResourceEphemeralStorage,
               if imageFSThreshold > nodeFSThreshold then imageFSThreshold else nodeFSThreshold)]) }
           else Some override);
        Some (assign [overhead, override]) })"

section \<open>Requirements\<close>

definition LabelInstanceTypeStable :: string where "LabelInstanceTypeStable = ''node.kubernetes.io/instance-type''"
definition LabelTopologyRegion :: string where "LabelTopologyRegion = ''topology.kubernetes.io/region''"
definition LabelArchStable :: string where "LabelArchStable = ''kubernetes.io/arch''"
definition LabelOSStable :: string where "LabelOSStable = ''kubernetes.io/os''"
definition LabelBlockStorageCSIRegion :: string where "LabelBlockStorageCSIRegion = ''topology.linode.com/region''"
definition LabelInstanceTransfer :: string where "LabelInstanceTransfer = Group @ ''/instance-transfer''"
definition LabelInstanceNetworkOut :: string where "LabelInstanceNetworkOut = Group @ ''/instance-network-out''"
definition LabelInstanceCPU :: string where "LabelInstanceCPU = Group @ ''/instance-cpu''"
definition LabelInstanceGPUCount :: string where "LabelInstanceGPUCount = Group @ ''/instance-gpu-count''"
definition LabelInstanceGPUName :: string where "LabelInstanceGPUName = Group @ ''/instance-gpu-name''"
definition LabelInstanceAcceleratedDevicesCount :: string where
  "LabelInstanceAcceleratedDevicesCount = Group @ ''/instance-accelerated-devices-count''"
definition LabelInstanceClass :: string where "LabelInstanceClass = Group @ ''/instance-class''"
definition LabelInstanceGeneration :: string where "LabelInstanceGeneration = Group @ ''/instance-generation''"
definition LabelInstanceMemory :: string where "LabelInstanceMemory = Group @ ''/instance-memory''"
definition LabelInstanceDisk :: string where "LabelInstanceDisk = Group @ ''/instance-disk''"

lemmas type_label_defs = LabelInstanceTypeStable_def LabelTopologyRegion_def LabelArchStable_def LabelOSStable_def
  LabelBlockStorageCSIRegion_def LabelInstanceTransfer_def LabelInstanceNetworkOut_def LabelInstanceCPU_def
  LabelInstanceGPUCount_def LabelInstanceGPUName_def LabelInstanceAcceleratedDevicesCount_def LabelInstanceClass_def
  LabelInstanceGeneration_def LabelInstanceMemory_def LabelInstanceDisk_def LabelTopologyZone_def CapacityTypeLabelKey_def
  Group_def coreGroup_def

text \<open>
  \<open>scheduling.NewRequirement(key, In, value)\<close>, and adding one to a set of requirements, which
  intersects with the one there.
\<close>

definition NewRequirement :: "string \<Rightarrow> string \<Rightarrow> string \<times> requirement" where
  "NewRequirement key v = (key, \<lparr>ReqKey = key, ReqValues = [v]\<rparr>)"

definition addRequirement :: "requirements \<Rightarrow> string \<times> requirement \<Rightarrow> requirements" where
  "addRequirement reqs kr = (case kr of (k, r) \<Rightarrow> AList.update k
     (case map_of reqs k of
        None \<Rightarrow> r
      | Some old \<Rightarrow> \<lparr>ReqKey = k, ReqValues = filter (\<lambda>v. v \<in> set (ReqValues old)) (ReqValues r)\<rparr>) reqs)"

definition NewRequirements :: "(string \<times> requirement) list \<Rightarrow> requirements" where
  "NewRequirements rs = fold (\<lambda>r reqs. addRequirement reqs r) rs []"

definition TrimPrefix :: "string \<Rightarrow> string \<Rightarrow> string" where
  "TrimPrefix s p = (if HasPrefix s p then drop (length p) s else s)"

definition computeRequirements :: "LinodeType \<Rightarrow> string \<Rightarrow> requirements" where
  "computeRequirements info home =
     (let requirements = NewRequirements
            [NewRequirement LabelInstanceTypeStable (LtID info),
             NewRequirement LabelTopologyRegion home,
             NewRequirement LabelBlockStorageCSIRegion home,
             NewRequirement LabelTopologyZone home,
             NewRequirement CapacityTypeLabelKey ''on-demand'',
             NewRequirement LabelArchStable ''amd64'',
             NewRequirement LabelOSStable ''linux'',
             NewRequirement LabelInstanceCPU (Itoa (LtVCPUs info)),
             NewRequirement LabelInstanceMemory (Itoa (LtMemory info)),
             NewRequirement LabelInstanceTransfer (Itoa (LtTransfer info)),
             NewRequirement LabelInstanceNetworkOut (Itoa (LtNetworkOut info)),
             NewRequirement LabelInstanceClass (LtClass info),
             NewRequirement LabelInstanceGPUCount (Itoa (LtGPUs info)),
             NewRequirement LabelInstanceAcceleratedDevicesCount (Itoa (LtAcceleratedDevices info)),
             NewRequirement LabelInstanceDisk (Itoa (LtDisk info))];
          instanceTypeParts = split_on (CHR ''-'') (LtID info)
      in if length instanceTypeParts \<ge> 2
         then let requirements = addRequirement requirements
                    (NewRequirement LabelInstanceGeneration (TrimPrefix (instanceTypeParts ! 0) ''g''))
              in if instanceTypeParts ! 1 = ''gpu'' \<and> length instanceTypeParts \<ge> 3
                 then addRequirement requirements (NewRequirement LabelInstanceGPUName (instanceTypeParts ! 2))
                 else requirements
         else requirements)"

section \<open>GPUs\<close>

record nvidiaGPUModel =
  gpuAttributes :: "(string, device_attribute) gomap"
  gpuCapacity :: "(string, quantity) gomap"

definition nvidiaGPUTypeAttributes :: "(string, device_attribute) gomap" where
  "nvidiaGPUTypeAttributes = [(''type'', AttributeString ''gpu'')]"

definition nvidiaAda :: nvidiaGPUModel where
  "nvidiaAda = \<lparr>gpuAttributes =
       [(''type'', AttributeString ''gpu''), (''productName'', AttributeString ''NVIDIA RTX 4000 Ada Generation''),
        (''brand'', AttributeString ''NvidiaRTX''), (''architecture'', AttributeString ''Ada Lovelace''),
        (''cudaComputeCapability'', AttributeVersion ''8.9.0'')],
     gpuCapacity = [(''memory'', 20475 * MiB)]\<rparr>"

definition nvidiaBlackwell :: nvidiaGPUModel where
  "nvidiaBlackwell = \<lparr>gpuAttributes =
       [(''type'', AttributeString ''gpu''), (''productName'', AttributeString ''NVIDIA RTX PRO 6000 Blackwell Server Edition''),
        (''brand'', AttributeString ''Nvidia''), (''architecture'', AttributeString ''Blackwell''),
        (''cudaComputeCapability'', AttributeVersion ''12.0.0'')],
     gpuCapacity = [(''memory'', 97887 * MiB)]\<rparr>"

definition isDigit :: "char \<Rightarrow> bool" where "isDigit c \<longleftrightarrow> c \<in> set ''0123456789''"
definition isPositive :: "char \<Rightarrow> bool" where "isPositive c \<longleftrightarrow> c \<in> set ''123456789''"
definition isLower :: "char \<Rightarrow> bool" where "isLower c \<longleftrightarrow> c \<in> set ''abcdefghijklmnopqrstuvwxyz''"

text \<open>The two patterns: \<open>^g2-gpu-rtx4000a[1-9]\d*-[a-z]+$\<close> and \<open>^g3-gpu-rtxpro6000-blackwell-[1-9]\d*$\<close>.\<close>

definition matchesAda :: "string \<Rightarrow> bool" where
  "matchesAda i \<longleftrightarrow> HasPrefix i ''g2-gpu-rtx4000a'' \<and>
     (case drop (length ''g2-gpu-rtx4000a'') i of
        [] \<Rightarrow> False
      | d # ds \<Rightarrow> isPositive d \<and>
          (case dropWhile isDigit ds of [] \<Rightarrow> False | c # ls \<Rightarrow> c = CHR ''-'' \<and> ls \<noteq> [] \<and> list_all isLower ls))"

definition matchesBlackwell :: "string \<Rightarrow> bool" where
  "matchesBlackwell i \<longleftrightarrow> HasPrefix i ''g3-gpu-rtxpro6000-blackwell-'' \<and>
     (case drop (length ''g3-gpu-rtxpro6000-blackwell-'') i of
        [] \<Rightarrow> False
      | d # ds \<Rightarrow> isPositive d \<and> list_all isDigit ds)"

definition nvidiaGPUMetadata :: "((string \<Rightarrow> bool) \<times> nvidiaGPUModel) list" where
  "nvidiaGPUMetadata = [(matchesAda, nvidiaAda), (matchesBlackwell, nvidiaBlackwell)]"

text \<open>\<open>order\<close> is the order in which Go ranges over the patterns.\<close>

type_synonym gpu_order = "((string \<Rightarrow> bool) \<times> nvidiaGPUModel) list \<Rightarrow> ((string \<Rightarrow> bool) \<times> nvidiaGPUModel) list"

definition modelOf :: "gpu_order \<Rightarrow> string \<Rightarrow> nvidiaGPUModel" where
  "modelOf order i =
     (case find (\<lambda>(pattern, metadata). pattern i) (order nvidiaGPUMetadata) of
        Some (pattern, metadata) \<Rightarrow> metadata
      | None \<Rightarrow> \<lparr>gpuAttributes = nvidiaGPUTypeAttributes, gpuCapacity = []\<rparr>)"

definition nvidiaGPUResources :: "gpu_order \<Rightarrow> LinodeType \<Rightarrow> slice_template list" where
  "nvidiaGPUResources order info =
     (if LtGPUs info \<le> 0 then []
      else let model = modelOf order (LtID info);
               devices = map (\<lambda>i. \<lparr>DeviceName = ''gpu-'' @ Itoa (int i), DeviceAttributes = gpuAttributes model,
                                  DeviceCapacity = gpuCapacity model\<rparr>) [0..<nat (LtGPUs info)]
           in [\<lparr>SliceDriver = ''gpu.nvidia.com'', SlicePool = ''gpus-'' @ LtID info, SliceDevices = devices\<rparr>])"

section \<open>The instance type\<close>

text \<open>The offerings are injected later; a plan without GPUs has no dynamic resources.\<close>

definition NewInstanceType :: "parsers \<Rightarrow> rat \<Rightarrow> LinodeType \<Rightarrow> string \<Rightarrow> int option \<Rightarrow> int option \<Rightarrow> tagmap \<Rightarrow> tagmap \<Rightarrow>
    tagmap option \<Rightarrow> tagmap option \<Rightarrow> instance_type option" where
  "NewInstanceType P percent info home maxPods podsPerCore kubeReserved systemReserved evictionHard evictionSoft = do {
     kube \<leftarrow> kubeReservedResources P (cpu info) (pods info maxPods podsPerCore) kubeReserved;
     system \<leftarrow> systemReservedResources P systemReserved;
     eviction \<leftarrow> evictionThreshold P (memory percent info) (ephemeralStorage info) evictionHard evictionSoft;
     Some \<lparr>ItName = LtID info, ItRequirements = computeRequirements info home, ItOfferings = [],
       ItCapacity = computeCapacity percent info maxPods podsPerCore,
       ItOverhead = \<lparr>OverKubeReserved = kube, OverSystemReserved = system, OverEvictionThreshold = eviction\<rparr>,
       ItDynamicResources = []\<rparr> }"

definition blankKubelet :: KubeletConfiguration where
  "blankKubelet = \<lparr>ClusterDNS = [], MaxPods = None, PodsPerCore = None, SystemReserved = [], KubeReserved = [],
     EvictionHard = None, EvictionSoft = None, EvictionSoftGracePeriod = [], EvictionMaxPodGracePeriod = None, CPUCFSQuota = None\<rparr>"

record resolver =
  rParsers :: parsers
  rPercent :: rat
  rRegion :: string
  rGPUOrder :: gpu_order
  kubeletHash :: "KubeletConfiguration \<Rightarrow> string"
  imagesHash :: "LinodeImage list \<Rightarrow> string"

definition kubeletOf :: "LinodeNodeClass \<Rightarrow> KubeletConfiguration" where
  "kubeletOf nodeClass = (case Kubelet (Spec nodeClass) of Some kc \<Rightarrow> kc | None \<Rightarrow> blankKubelet)"

definition CacheKey :: "resolver \<Rightarrow> LinodeNodeClass \<Rightarrow> string" where
  "CacheKey R nodeClass = NodeClassName nodeClass @ ''-'' @ kubeletHash R (kubeletOf nodeClass)"

definition Resolve :: "resolver \<Rightarrow> LinodeType \<Rightarrow> LinodeNodeClass \<Rightarrow> instance_type option" where
  "Resolve R info nodeClass =
     (let kc = kubeletOf nodeClass
      in do {
        it \<leftarrow> NewInstanceType (rParsers R) (rPercent R) info (rRegion R) (MaxPods kc) (PodsPerCore kc)
                (KubeReserved kc) (SystemReserved kc) (EvictionHard kc) (EvictionSoft kc);
        Some (it\<lparr>ItDynamicResources := nvidiaGPUResources (rGPUOrder R) info\<rparr>) })"

end
