(* ===== verification/Offerings.thy ===== *)
theory Offerings
  imports InstanceTypes Unavailable LinodeApi
begin

text \<open>
  pkg/providers/instancetype/offering/offering.go: the offerings of an instance type, one for each
  region, cached until the marks of unavailable offerings change. A Go set is a list without
  repetition, and \<open>oRange\<close> the order Go ranges over it.
\<close>

type_synonym goset = "string list"

record ('oc, 'u) offering_provider =
  oCacheOps :: "('oc, offering list) cache_ops"
  oMarkOps :: "'u mark_ops"
  regionsHash :: "string list \<Rightarrow> string"
  oRange :: "goset \<Rightarrow> goset"

text \<open>A missing sequence number is the int 0, which no uint64 equals.\<close>

record 'oc offering_state =
  offeringsCache :: 'oc
  lastUnavailableOfferingsSeqNum :: "(string, 64 word) gomap"

definition requirementValues :: "requirements \<Rightarrow> string \<Rightarrow> string list" where
  "requirementValues reqs k = (case map_of reqs k of Some r \<Rightarrow> ReqValues r | None \<Rightarrow> [])"

definition cacheKeyFromInstanceType :: "('oc, 'u) offering_provider \<Rightarrow> instance_type \<Rightarrow> string" where
  "cacheKeyFromInstanceType O' it = ItName it @ ''-'' @ regionsHash O' (requirementValues (ItRequirements it) LabelTopologyRegion)"

definition hasRegion :: "(string, goset) gomap \<Rightarrow> string \<Rightarrow> string \<Rightarrow> bool" where
  "hasRegion instanceTypesOfferings name r = (case map_of instanceTypesOfferings name of Some s \<Rightarrow> r \<in> set s | None \<Rightarrow> False)"

definition priceOf :: "(string, LinodeType) gomap \<Rightarrow> string \<Rightarrow> rat" where
  "priceOf instanceTypesInfo name =
     (case map_of instanceTypesInfo name of
        Some linodeType \<Rightarrow> (case LtHourly linodeType of Some h \<Rightarrow> h | None \<Rightarrow> 0)
      | None \<Rightarrow> 0)"

definition newOffering :: "('oc, 'u) offering_provider \<Rightarrow> string \<Rightarrow> (string, LinodeType) gomap \<Rightarrow> (string, goset) gomap \<Rightarrow>
    'u UnavailableOfferings \<Rightarrow> int \<Rightarrow> string \<Rightarrow> offering" where
  "newOffering O' name instanceTypesInfo instanceTypesOfferings u now r =
     \<lparr>OffRequirements = NewRequirements
        [NewRequirement LabelTopologyRegion r, NewRequirement LabelTopologyZone r, NewRequirement CapacityTypeLabelKey ''on-demand''],
      Price = priceOf instanceTypesInfo name,
      Available = (hasRegion instanceTypesOfferings name r \<and> \<not> IsUnavailable (oMarkOps O') u now name r)\<rparr>"

definition createOfferings :: "('oc, 'u) offering_provider \<Rightarrow> instance_type \<Rightarrow> (string, LinodeType) gomap \<Rightarrow> goset \<Rightarrow>
    (string, goset) gomap \<Rightarrow> 'u UnavailableOfferings \<Rightarrow> int \<Rightarrow> 'oc offering_state \<Rightarrow> offering list \<times> 'oc offering_state" where
  "createOfferings O' it instanceTypesInfo allRegions instanceTypesOfferings u now s =
     (let lastSeqNum = map_of (lastUnavailableOfferingsSeqNum s) (ItName it);
          seqNum = SeqNum u (ItName it);
          key = cacheKeyFromInstanceType O' it
      in case (if lastSeqNum = Some seqNum then CGet (oCacheOps O') (offeringsCache s) now key else None) of
           Some ofs \<Rightarrow> (ofs, s)
         | None \<Rightarrow>
             let cachedOfferings = map (newOffering O' (ItName it) instanceTypesInfo instanceTypesOfferings u now) (oRange O' allRegions)
             in (cachedOfferings,
                 s\<lparr>offeringsCache := CSet (oCacheOps O') (offeringsCache s) now key cachedOfferings,
                   lastUnavailableOfferingsSeqNum := AList.update (ItName it) seqNum (lastUnavailableOfferingsSeqNum s)\<rparr>))"

fun InjectOfferings :: "('oc, 'u) offering_provider \<Rightarrow> instance_type list \<Rightarrow> (string, LinodeType) gomap \<Rightarrow> goset \<Rightarrow>
    (string, goset) gomap \<Rightarrow> 'u UnavailableOfferings \<Rightarrow> int \<Rightarrow> 'oc offering_state \<Rightarrow> instance_type list \<times> 'oc offering_state" where
  "InjectOfferings O' [] instanceTypesInfo allRegions instanceTypesOfferings u now s = ([], s)"
| "InjectOfferings O' (it # its) instanceTypesInfo allRegions instanceTypesOfferings u now s =
     (case createOfferings O' it instanceTypesInfo allRegions instanceTypesOfferings u now s of
        (offerings, s) \<Rightarrow>
          (case InjectOfferings O' its instanceTypesInfo allRegions instanceTypesOfferings u now s of
             (its', s) \<Rightarrow> (it\<lparr>ItOfferings := offerings\<rparr> # its', s)))"

definition InvalidateCache :: "('oc, 'u) offering_provider \<Rightarrow> 'oc offering_state \<Rightarrow> 'oc offering_state" where
  "InvalidateCache O' s = s\<lparr>offeringsCache := CFlush (oCacheOps O') (offeringsCache s)\<rparr>"

end
