(* ===== verification/TypeProvider.thy ===== *)
theory TypeProvider
  imports Offerings
begin

text \<open>
  pkg/providers/instancetype/instancetype.go: the provider of instance types, hydrated from the Linode API,
  and the two controllers that feed it, pkg/controllers/providers/instancetype and its
  capacity. The locks do nothing in one thread, the gauges are left out; \<open>None\<close> is a
  panic of the resolver. Karpenter's \<open>ChangeMonitor\<close> is a parameter with an operation for each key
  the code uses.
\<close>

section \<open>State\<close>

record 'm change_monitor =
  TypesChanged :: "LinodeType list \<Rightarrow> 'm \<Rightarrow> bool \<times> 'm"
  OfferingsChanged :: "(string, goset) gomap \<Rightarrow> 'm \<Rightarrow> bool \<times> 'm"
  RegionsChanged :: "goset \<Rightarrow> 'm \<Rightarrow> bool \<times> 'm"

record ('ic, 'dc, 'oc, 'u, 'm) type_provider =
  tResolver :: resolver
  tTypesOps :: "('ic, instance_type list) cache_ops"
  tCapacityOps :: "('dc, resource_list) cache_ops"
  tOfferings :: "('oc, 'u) offering_provider"
  tMonitor :: "'m change_monitor"
  tInfoRange :: "(string, LinodeType) gomap \<Rightarrow> (string, LinodeType) gomap"
  tSetRange :: "(string, goset) gomap \<Rightarrow> (string, goset) gomap"

record ('ic, 'dc, 'oc, 'm) type_state =
  instanceTypesInfo :: "(string, LinodeType) gomap"
  instanceTypesOfferings :: "(string, goset) gomap"
  allRegions :: goset
  instanceTypesCache :: 'ic
  discoveredCapacityCache :: 'dc
  changeMonitor :: 'm
  offeringState :: "'oc offering_state"

section \<open>Keys\<close>

definition discoveredCapacityCacheKey :: "('ic, 'dc, 'oc, 'u, 'm) type_provider \<Rightarrow> string \<Rightarrow> LinodeNodeClass \<Rightarrow> string" where
  "discoveredCapacityCacheKey T instanceType nodeClass = instanceType @ ''-'' @ imagesHash (tResolver T) (LinodeImages nodeClass)"

definition typesKey :: "('ic, 'dc, 'oc, 'u, 'm) type_provider \<Rightarrow> LinodeNodeClass \<Rightarrow> string" where
  "typesKey T nodeClass = imagesHash (tResolver T) (LinodeImages nodeClass) @ ''-'' @ CacheKey (tResolver T) nodeClass"

section \<open>Reading instance types\<close>

text \<open>Discovered capacity replaces the prediction, resource by resource.\<close>

definition getType :: "('ic, 'dc, 'oc, 'u, 'm) type_provider \<Rightarrow> LinodeNodeClass \<Rightarrow> string \<Rightarrow> int \<Rightarrow>
    ('ic, 'dc, 'oc, 'm) type_state \<Rightarrow> instance_type res option" where
  "getType T nodeClass name now s =
     (case map_of (instanceTypesInfo s) name of
        None \<Rightarrow> Some (Inl (Errorf ''instance type %s not found in cache'' [name] []))
      | Some info \<Rightarrow>
        (case Resolve (tResolver T) info nodeClass of
           None \<Rightarrow> None
         | Some it \<Rightarrow>
           (case CGet (tCapacityOps T) (discoveredCapacityCache s) now (discoveredCapacityCacheKey T (ItName it) nodeClass) of
              None \<Rightarrow> Some (Inr it)
            | Some discoveredCapacity \<Rightarrow>
                Some (Inr (it\<lparr>ItCapacity := fold (\<lambda>(k, q). AList.update k q) discoveredCapacity (ItCapacity it)\<rparr>)))))"

definition notHydrated :: "('ic, 'dc, 'oc, 'm) type_state \<Rightarrow> nilerr" where
  "notHydrated s =
     (if length (instanceTypesInfo s) = 0 then Some (Errorf ''no instance types found'' [] [])
      else if length (instanceTypesOfferings s) = 0 then Some (Errorf ''no instance types offerings found'' [] [])
      else None)"

text \<open>\<open>lo.FilterMapToSlice\<close>: what fails is left out.\<close>

fun resolveAll :: "('ic, 'dc, 'oc, 'u, 'm) type_provider \<Rightarrow> LinodeNodeClass \<Rightarrow> int \<Rightarrow> ('ic, 'dc, 'oc, 'm) type_state \<Rightarrow>
    string list \<Rightarrow> instance_type list option" where
  "resolveAll T nodeClass now s [] = Some []"
| "resolveAll T nodeClass now s (name # names) =
     (case getType T nodeClass name now s of
        None \<Rightarrow> None
      | Some r \<Rightarrow>
        (case resolveAll T nodeClass now s names of
           None \<Rightarrow> None
         | Some its \<Rightarrow> Some (case r of Inl e \<Rightarrow> its | Inr it \<Rightarrow> it # its)))"

definition typesOf :: "('ic, 'dc, 'oc, 'u, 'm) type_provider \<Rightarrow> LinodeNodeClass \<Rightarrow> int \<Rightarrow> ('ic, 'dc, 'oc, 'm) type_state \<Rightarrow>
    (instance_type list \<times> ('ic, 'dc, 'oc, 'm) type_state) option" where
  "typesOf T nodeClass now s =
     (let key = typesKey T nodeClass
      in case CGet (tTypesOps T) (instanceTypesCache s) now key of
           Some item \<Rightarrow> Some (item, s)
         | None \<Rightarrow>
           (case resolveAll T nodeClass now s (map fst (tInfoRange T (instanceTypesInfo s))) of
              None \<Rightarrow> None
            | Some its \<Rightarrow> Some (its, s\<lparr>instanceTypesCache := CSet (tTypesOps T) (instanceTypesCache s) now key its\<rparr>)))"

definition typeList :: "('ic, 'dc, 'oc, 'u, 'm) type_provider \<Rightarrow> LinodeNodeClass \<Rightarrow> 'u UnavailableOfferings \<Rightarrow> int \<Rightarrow>
    ('ic, 'dc, 'oc, 'm) type_state \<Rightarrow> (instance_type list res \<times> ('ic, 'dc, 'oc, 'm) type_state) option" where
  "typeList T nodeClass u now s =
     (case notHydrated s of
        Some e \<Rightarrow> Some (Inl e, s)
      | None \<Rightarrow>
        (case typesOf T nodeClass now s of
           None \<Rightarrow> None
         | Some (instanceTypes, s) \<Rightarrow>
           (case InjectOfferings (tOfferings T) instanceTypes (instanceTypesInfo s) (allRegions s) (instanceTypesOfferings s)
                   u now (offeringState s) of
              (its, os) \<Rightarrow> Some (Inr its, s\<lparr>offeringState := os\<rparr>))))"

text \<open>\<open>Get\<close> leaves the offerings out.\<close>

definition typeGet :: "('ic, 'dc, 'oc, 'u, 'm) type_provider \<Rightarrow> LinodeNodeClass \<Rightarrow> string \<Rightarrow> int \<Rightarrow>
    ('ic, 'dc, 'oc, 'm) type_state \<Rightarrow> instance_type res option" where
  "typeGet T nodeClass name now s =
     (case notHydrated s of
        Some e \<Rightarrow> Some (Inl e)
      | None \<Rightarrow>
        (case (case CGet (tTypesOps T) (instanceTypesCache s) now (typesKey T nodeClass) of
                 Some item \<Rightarrow> find (\<lambda>i. ItName i = name) item
               | None \<Rightarrow> None) of
           Some instanceType \<Rightarrow> Some (Inr instanceType)
         | None \<Rightarrow> getType T nodeClass name now s))"

section \<open>Hydration\<close>

definition UpdateInstanceTypes :: "('ic, 'dc, 'oc, 'u, 'm) type_provider \<Rightarrow> 'w linode_api \<Rightarrow>
    'w \<times> ('ic, 'dc, 'oc, 'm) type_state \<Rightarrow> nilerr \<times> 'w \<times> ('ic, 'dc, 'oc, 'm) type_state" where
  "UpdateInstanceTypes T api ws = (case ws of (w, s) \<Rightarrow>
     (case ListTypes api w of
        (Inl e, w) \<Rightarrow> (Some (Errorf ''listing linode instance types, %w'' [] [e]), w, s)
      | (Inr instanceTypes, w) \<Rightarrow>
        (case TypesChanged (tMonitor T) instanceTypes (changeMonitor s) of
           (changed, m) \<Rightarrow>
             let s = s\<lparr>changeMonitor := m\<rparr>;
                 s = (if changed then s\<lparr>instanceTypesCache := CFlush (tTypesOps T) (instanceTypesCache s)\<rparr> else s)
             in (None, w, s\<lparr>instanceTypesInfo := fold (\<lambda>i. AList.update (LtID i) i) instanceTypes []\<rparr>))))"

definition insertRegion :: "string \<Rightarrow> goset \<Rightarrow> goset" where
  "insertRegion r s = (if r \<in> set s then s else s @ [r])"

definition addAvailability :: "RegionAvailability \<Rightarrow> (string, goset) gomap \<Rightarrow> (string, goset) gomap" where
  "addAvailability off m =
     (let m = (if map_of m (AvPlan off) = None then AList.update (AvPlan off) [] m else m)
      in if AvAvailable off
         then AList.update (AvPlan off) (insertRegion (AvRegion off) (case map_of m (AvPlan off) of Some s \<Rightarrow> s | None \<Rightarrow> [])) m
         else m)"

definition regionsOf :: "(string, goset) gomap \<Rightarrow> goset" where
  "regionsOf m = fold (\<lambda>(plan, rs) all. fold insertRegion rs all) m []"

definition UpdateInstanceTypeOfferings :: "('ic, 'dc, 'oc, 'u, 'm) type_provider \<Rightarrow> 'w linode_api \<Rightarrow> string \<Rightarrow>
    'w \<times> ('ic, 'dc, 'oc, 'm) type_state \<Rightarrow> nilerr \<times> 'w \<times> ('ic, 'dc, 'oc, 'm) type_state" where
  "UpdateInstanceTypeOfferings T api clusterRegion ws = (case ws of (w, s) \<Rightarrow>
     (case GetRegionAvailability api clusterRegion w of
        (Inl e, w) \<Rightarrow> (Some (Errorf ''getting region availability %w'' [] [e]), w, s)
      | (Inr regionAvail, w) \<Rightarrow>
          let instanceTypeOfferings = fold addAvailability regionAvail []
          in case OfferingsChanged (tMonitor T) instanceTypeOfferings (changeMonitor s) of
               (changed, m) \<Rightarrow>
                 let s = s\<lparr>changeMonitor := m\<rparr>;
                     s = (if changed
                          then s\<lparr>instanceTypesCache := CFlush (tTypesOps T) (instanceTypesCache s),
                                 offeringState := InvalidateCache (tOfferings T) (offeringState s)\<rparr>
                          else s);
                     s = s\<lparr>instanceTypesOfferings := instanceTypeOfferings\<rparr>;
                     all = regionsOf (tSetRange T instanceTypeOfferings)
                 in case RegionsChanged (tMonitor T) all (changeMonitor s) of
                      (changed, m) \<Rightarrow> (None, w, s\<lparr>changeMonitor := m, allRegions := all\<rparr>)))"

section \<open>Discovered capacity\<close>

record capacity_node =
  CapNodeLabels :: tagmap
  CapNodeCapacity :: resource_list

definition observedCapacity :: "capacity_node \<Rightarrow> resource_list" where
  "observedCapacity node = concat (map (\<lambda>r. case map_of (CapNodeCapacity node) r of Some q \<Rightarrow> [(r, q)] | None \<Rightarrow> [])
     [ResourceMemory, ResourceEphemeralStorage])"

text \<open>The loop over the observed resources: the capacity, and whether to refresh the cache and whether it changed.\<close>

definition lowerCapacity :: "string \<times> quantity \<Rightarrow> resource_list \<times> bool \<times> bool \<Rightarrow> resource_list \<times> bool \<times> bool" where
  "lowerCapacity rq acc = (case (rq, acc) of ((resourceName, quantity), (cachedCapacity, refreshCache, capacityChanged)) \<Rightarrow>
     (case map_of cachedCapacity resourceName of
        None \<Rightarrow> (AList.update resourceName quantity cachedCapacity, True, True)
      | Some cachedQuantity \<Rightarrow>
          if quantity \<le> cachedQuantity
          then (AList.update resourceName quantity cachedCapacity, True, capacityChanged \<or> quantity < cachedQuantity)
          else (cachedCapacity, refreshCache, capacityChanged)))"

definition UpdateInstanceTypeCapacityFromNode :: "('ic, 'dc, 'oc, 'u, 'm) type_provider \<Rightarrow> capacity_node \<Rightarrow> LinodeNodeClass \<Rightarrow> int \<Rightarrow>
    ('ic, 'dc, 'oc, 'm) type_state \<Rightarrow> ('ic, 'dc, 'oc, 'm) type_state" where
  "UpdateInstanceTypeCapacityFromNode T node nodeClass now s =
     (let instanceTypeName = labelOf (CapNodeLabels node) LabelInstanceTypeStable;
          actualCapacity = observedCapacity node
      in if length actualCapacity = 0 then s
         else let key = discoveredCapacityCacheKey T instanceTypeName nodeClass;
                  cachedCapacity = (case CGet (tCapacityOps T) (discoveredCapacityCache s) now key of Some c \<Rightarrow> c | None \<Rightarrow> [])
              in case fold lowerCapacity actualCapacity (cachedCapacity, False, False) of
                   (cachedCapacity, refreshCache, capacityChanged) \<Rightarrow>
                     if refreshCache
                     then let s = s\<lparr>discoveredCapacityCache := CSet (tCapacityOps T) (discoveredCapacityCache s) now key cachedCapacity\<rparr>
                          in if capacityChanged
                             then s\<lparr>instanceTypesCache := CDelete (tTypesOps T) (instanceTypesCache s) (typesKey T nodeClass)\<rparr>
                             else s
                     else s)"

definition Reset :: "('ic, 'dc, 'oc, 'u, 'm) type_provider \<Rightarrow> ('ic, 'dc, 'oc, 'm) type_state \<Rightarrow> ('ic, 'dc, 'oc, 'm) type_state" where
  "Reset T s = s\<lparr>instanceTypesInfo := [], instanceTypesOfferings := [],
     instanceTypesCache := CFlush (tTypesOps T) (instanceTypesCache s),
     discoveredCapacityCache := CFlush (tCapacityOps T) (discoveredCapacityCache s)\<rparr>"

section \<open>The controllers\<close>

text \<open>
  The hydration controller runs both updates at once; in the model \<open>offeringsFirst\<close> says in which order they take
  effect. Its result is the delay of the next run.
\<close>

definition hydrate :: "('ic, 'dc, 'oc, 'u, 'm) type_provider \<Rightarrow> 'w linode_api \<Rightarrow> string \<Rightarrow> bool \<Rightarrow>
    'w \<times> ('ic, 'dc, 'oc, 'm) type_state \<Rightarrow> int res \<times> 'w \<times> ('ic, 'dc, 'oc, 'm) type_state" where
  "hydrate T api clusterRegion offeringsFirst ws =
     (let both = (if offeringsFirst
          then (case UpdateInstanceTypeOfferings T api clusterRegion ws of (e2, ws) \<Rightarrow>
                  (case UpdateInstanceTypes T api ws of (e1, ws) \<Rightarrow> ([e1, e2], ws)))
          else (case UpdateInstanceTypes T api ws of (e1, ws) \<Rightarrow>
                  (case UpdateInstanceTypeOfferings T api clusterRegion ws of (e2, ws) \<Rightarrow> ([e1, e2], ws))))
      in case both of (errs, ws) \<Rightarrow>
           (case combineErrs errs of
              Some e \<Rightarrow> (Inl (Errorf ''updating instancetype, %w'' [] [e]), ws)
            | None \<Rightarrow> (Inr (5 * 60 * 10 ^ 9), ws)))"

text \<open>
  The capacity controller: \<open>managed\<close> is Karpenter's \<open>IsManaged\<close>, \<open>claimFor\<close> its \<open>NodeClaimForNode\<close> and
  \<open>ignoreClaim\<close> its \<open>IgnoreNodeClaimNotFoundError\<close>. A nil NodeClassRef panics.
\<close>

definition capacityReconcile :: "('ic, 'dc, 'oc, 'u, 'm) type_provider \<Rightarrow> (capacity_node \<Rightarrow> bool) \<Rightarrow>
    (capacity_node \<Rightarrow> 'k \<Rightarrow> NodeClaim res \<times> 'k) \<Rightarrow> (err \<Rightarrow> nilerr) \<Rightarrow> 'k kube_api \<Rightarrow> capacity_node \<Rightarrow> int \<Rightarrow>
    'k \<times> ('ic, 'dc, 'oc, 'm) type_state \<Rightarrow> (nilerr \<times> 'k \<times> ('ic, 'dc, 'oc, 'm) type_state) option" where
  "capacityReconcile T managed claimFor ignoreClaim K node now ks = (case ks of (k, s) \<Rightarrow>
     if \<not> managed node then Some (None, k, s)
     else case claimFor node k of
       (Inl e, k) \<Rightarrow> Some (ignoreClaim (Errorf ''failed to get nodeclaim for node, %w'' [] [e]), k, s)
     | (Inr nodeClaim, k) \<Rightarrow>
       (case NodeClassRef nodeClaim of
          None \<Rightarrow> None
        | Some name \<Rightarrow>
          (case KGetNodeClass K name k of
             (Inl e, k) \<Rightarrow> Some (Some (Errorf ''failed to get Linodenodeclass, %w'' [] [e]), k, s)
           | (Inr nodeClass, k) \<Rightarrow> Some (None, k, UpdateInstanceTypeCapacityFromNode T node nodeClass now s))))"

end
