(* ===== verification/CapacityProps.thy ===== *)
theory CapacityProps
  imports TypeProvider
begin

text \<open>
  What the provider learns from registered nodes: the least capacity seen of a type, in the reads that
  resolve a type and in those that the cache of resolved types answers.
\<close>

definition leastOf :: "quantity option \<Rightarrow> quantity option \<Rightarrow> quantity option" where
  "leastOf a b = (case a of None \<Rightarrow> b | Some x \<Rightarrow> (case b of None \<Rightarrow> a | Some y \<Rightarrow> Some (min x y)))"

lemma leastOf_simps [simp]: "leastOf None b = b" "leastOf a None = a" "leastOf (Some x) (Some y) = Some (min x y)"
  by (simp_all add: leastOf_def split: option.split)

lemma leastOf_assoc: "leastOf (leastOf a b) c = leastOf a (leastOf b c)"
  by (simp add: leastOf_def min.assoc split: option.split)

lemma lowerCapacity_map:
  "wf_map obs \<Longrightarrow> map_of (fst (fold lowerCapacity obs (c, rf, ch))) r = leastOf (map_of c r) (map_of obs r)"
proof (induction obs arbitrary: c rf ch)
  case (Cons rq obs)
  obtain k q where rq: "rq = (k, q)" by fastforce
  obtain c' rf' ch' where step: "lowerCapacity (k, q) (c, rf, ch) = (c', rf', ch')" by (metis prod_cases3)
  then have c': "map_of c' r = (if r = k then leastOf (map_of c k) (Some q) else map_of c r)" for r
    by (auto simp: lowerCapacity_def update_conv' min_def split: option.splits if_splits)
  from Cons.prems have "map_of obs k = None" by (simp add: rq map_of_eq_None_iff)
  with Cons.IH [of c' rf' ch'] Cons.prems show ?case by (simp add: rq step c' leastOf_assoc)
qed simp

lemma lowerCapacity_kept: "snd (fold lowerCapacity obs (c, rf, ch)) = (False, ch') \<Longrightarrow> \<not> rf \<and> fst (fold lowerCapacity obs (c, rf, ch)) = c"
proof (induction obs arbitrary: c rf ch)
  case (Cons rq obs)
  obtain k q where rq: "rq = (k, q)" by fastforce
  obtain c' rf' ch1 where step: "lowerCapacity (k, q) (c, rf, ch) = (c', rf', ch1)" by (metis prod_cases3)
  from Cons.prems have "snd (fold lowerCapacity obs (c', rf', ch1)) = (False, ch')" by (simp add: rq step)
  from Cons.IH [OF this] have "\<not> rf'" "fst (fold lowerCapacity obs (c', rf', ch1)) = c'" by blast+
  moreover from step have "\<not> rf' \<Longrightarrow> \<not> rf \<and> c' = c"
    by (auto simp: lowerCapacity_def split: option.splits if_splits)
  ultimately have "\<not> rf \<and> c' = c" by blast
  with \<open>fst (fold lowerCapacity obs (c', rf', ch1)) = c'\<close> show ?case unfolding rq fold_simps step by (simp only: simp_thms)
qed simp

lemma lowerCapacity_unchanged: "snd (snd (fold lowerCapacity obs (c, rf, ch))) = False \<Longrightarrow> \<not> ch \<and> map_of (fst (fold lowerCapacity obs (c, rf, ch))) = map_of c"
proof (induction obs arbitrary: c rf ch)
  case (Cons rq obs)
  obtain k q where rq: "rq = (k, q)" by fastforce
  obtain c' rf' ch' where step: "lowerCapacity (k, q) (c, rf, ch) = (c', rf', ch')" by (metis prod_cases3)
  from Cons.prems have "snd (snd (fold lowerCapacity obs (c', rf', ch'))) = False" by (simp add: rq step)
  from Cons.IH [OF this] have IH: "\<not> ch'" "map_of (fst (fold lowerCapacity obs (c', rf', ch'))) = map_of c'" by blast+
  from step have "\<not> ch' \<Longrightarrow> \<not> ch \<and> map_of c' = map_of c"
    by (auto simp: lowerCapacity_def fun_eq_iff update_conv' split: option.splits if_splits)
  with IH show ?case unfolding rq fold_simps step by simp
qed simp

lemma lowerCapacity_wf: "wf_map c \<Longrightarrow> wf_map (fst (fold lowerCapacity obs (c, rf, ch)))"
proof (induction obs arbitrary: c rf ch)
  case (Cons rq obs)
  obtain c' rf' ch' where step: "lowerCapacity rq (c, rf, ch) = (c', rf', ch')" by (metis prod_cases3)
  with Cons.prems have "wf_map c'" by (auto simp: lowerCapacity_def distinct_update split: option.splits if_splits prod.splits)
  with Cons.IH [of c' rf' ch'] show ?case by (simp add: step)
qed simp

lemma wf_observedCapacity: "wf_map (observedCapacity node)"
  by (simp add: observedCapacity_def ResourceMemory_def ResourceEphemeralStorage_def split: option.split)

definition capacityAt :: "('ic, 'dc, 'oc, 'u, 'm) type_provider \<Rightarrow> ('ic, 'dc, 'oc, 'm) type_state \<Rightarrow> string \<Rightarrow> int \<Rightarrow> string \<Rightarrow> quantity option" where
  "capacityAt T s key t r =
     (case CGet (tCapacityOps T) (discoveredCapacityCache s) t key of None \<Rightarrow> None | Some c \<Rightarrow> map_of c r)"

text \<open>The entry of a key, alive or absent, is a Go map and does not change until the time \<open>t1\<close>.\<close>

definition steady :: "('ic, 'dc, 'oc, 'u, 'm) type_provider \<Rightarrow> ('ic, 'dc, 'oc, 'm) type_state \<Rightarrow> string \<Rightarrow> int \<Rightarrow> bool" where
  "steady T s key t1 \<longleftrightarrow> (\<forall>t \<le> t1. CGet (tCapacityOps T) (discoveredCapacityCache s) t key =
     CGet (tCapacityOps T) (discoveredCapacityCache s) t1 key) \<and>
     (\<forall>c. CGet (tCapacityOps T) (discoveredCapacityCache s) t1 key = Some c \<longrightarrow> wf_map c)"

lemma steadyD:
  assumes "steady T s key t1"
  shows "t \<le> t1 \<Longrightarrow> CGet (tCapacityOps T) (discoveredCapacityCache s) t key = CGet (tCapacityOps T) (discoveredCapacityCache s) t1 key"
    and "CGet (tCapacityOps T) (discoveredCapacityCache s) t1 key = Some c \<Longrightarrow> wf_map c"
  using assms unfolding steady_def by blast+

lemma steady_earlier: "steady T s key t1 \<Longrightarrow> t \<le> t1 \<Longrightarrow> steady T s key t \<and> capacityAt T s key t r = capacityAt T s key t1 r"
proof -
  assume s: "steady T s key t1" and t: "t \<le> t1"
  have "steady T s key t" unfolding steady_def
  proof (intro conjI allI impI)
    show "CGet (tCapacityOps T) (discoveredCapacityCache s) u key = CGet (tCapacityOps T) (discoveredCapacityCache s) t key" if "u \<le> t" for u
      using steadyD(1) [OF s, of u] steadyD(1) [OF s t] that t by simp
    show "wf_map c" if "CGet (tCapacityOps T) (discoveredCapacityCache s) t key = Some c" for c
      using steadyD(2) [OF s] steadyD(1) [OF s t] that by simp
  qed
  then show ?thesis using steadyD(1) [OF s t] by (simp add: capacityAt_def)
qed

lemma capacity_cong:
  assumes "\<And>t. CGet (tCapacityOps T) (discoveredCapacityCache s') t key = CGet (tCapacityOps T) (discoveredCapacityCache s) t key"
  shows "steady T s' key t1 = steady T s key t1" "capacityAt T s' key t1 = capacityAt T s key t1"
  unfolding steady_def capacityAt_def assms by (rule refl)+

lemma observe_none:
  "observedCapacity node = [] \<Longrightarrow> UpdateInstanceTypeCapacityFromNode T node nodeClass now s = s"
  by (simp add: UpdateInstanceTypeCapacityFromNode_def)

text \<open>What an observation does to the two caches.\<close>

lemma observe_caches:
  assumes "observedCapacity node \<noteq> []" "key = discoveredCapacityCacheKey T (labelOf (CapNodeLabels node) LabelInstanceTypeStable) nodeClass"
    and "fold lowerCapacity (observedCapacity node)
      (case CGet (tCapacityOps T) (discoveredCapacityCache s) now key of Some c \<Rightarrow> c | None \<Rightarrow> [], False, False) = (c, rf, ch)"
  shows "UpdateInstanceTypeCapacityFromNode T node nodeClass now s =
    (if rf then s\<lparr>discoveredCapacityCache := CSet (tCapacityOps T) (discoveredCapacityCache s) now key c,
         instanceTypesCache := (if ch then CDelete (tTypesOps T) (instanceTypesCache s) (typesKey T nodeClass) else instanceTypesCache s)\<rparr>
     else s)"
  using assms(1) unfolding UpdateInstanceTypeCapacityFromNode_def Let_def assms(2) [symmetric] assms(3) prod.case by simp

lemma observe_keeps:
  assumes "s' = UpdateInstanceTypeCapacityFromNode T node nodeClass now s"
  shows "instanceTypesInfo s' = instanceTypesInfo s" "instanceTypesOfferings s' = instanceTypesOfferings s"
    and "instanceTypesCache s' = instanceTypesCache s \<or>
      instanceTypesCache s' = CDelete (tTypesOps T) (instanceTypesCache s) (typesKey T nodeClass)"
  using assms by (simp_all add: UpdateInstanceTypeCapacityFromNode_def Let_def split_beta)

lemma observe_step:
  assumes "cache_ok (tCapacityOps T) ttl" "steady T s key t1" "now \<le> t1" "t1 \<le> now + ttl"
    and "key = discoveredCapacityCacheKey T (labelOf (CapNodeLabels node) LabelInstanceTypeStable) nodeClass"
    and "s' = UpdateInstanceTypeCapacityFromNode T node nodeClass now s"
  shows "steady T s' key t1" "capacityAt T s' key t1 r = leastOf (capacityAt T s key t1 r) (map_of (observedCapacity node) r)"
    and "instanceTypesCache s' = CDelete (tTypesOps T) (instanceTypesCache s) (typesKey T nodeClass) \<or>
      instanceTypesCache s' = instanceTypesCache s \<and> capacityAt T s' key t1 = capacityAt T s key t1"
proof -
  let ?obs = "observedCapacity node" and ?old = "case CGet (tCapacityOps T) (discoveredCapacityCache s) t1 key of Some c \<Rightarrow> c | None \<Rightarrow> []"
  have now: "CGet (tCapacityOps T) (discoveredCapacityCache s) now key = CGet (tCapacityOps T) (discoveredCapacityCache s) t1 key"
    using steadyD(1) [OF assms(2,3)] .
  obtain c rf ch where run: "fold lowerCapacity ?obs (?old, False, False) = (c, rf, ch)" by (metis prod_cases3)
  have "map_of c r = leastOf (map_of ?old r) (map_of ?obs r)" for r
    using lowerCapacity_map [OF wf_observedCapacity, of node ?old False False r] by (simp add: run)
  moreover have "wf_map ?old" using steadyD(2) [OF assms(2)] by (simp split: option.split)
  from lowerCapacity_wf [OF this, of ?obs False False] have wf: "wf_map c" by (simp add: run)
  moreover have old: "capacityAt T s key t1 = map_of ?old" by (simp add: capacityAt_def fun_eq_iff split: option.split)
  ultimately have c: "map_of c r = leastOf (capacityAt T s key t1 r) (map_of ?obs r)" for r by simp
  have "steady T s' key t1 \<and> (\<forall>r. capacityAt T s' key t1 r = leastOf (capacityAt T s key t1 r) (map_of ?obs r)) \<and>
    (instanceTypesCache s' = CDelete (tTypesOps T) (instanceTypesCache s) (typesKey T nodeClass) \<or>
      instanceTypesCache s' = instanceTypesCache s \<and> capacityAt T s' key t1 = capacityAt T s key t1)"
  proof (cases "?obs = []")
    case True
    with assms(2) show ?thesis by (simp add: assms(6) observe_none)
  next
    case False
    note caches = observe_caches [OF False assms(5), of s now c rf ch, unfolded now, OF run, folded assms(6)]
    show ?thesis
    proof (cases rf)
      case True
      then have got: "CGet (tCapacityOps T) (discoveredCapacityCache s') t key = Some c" if "t \<le> t1" for t
        using that assms(4) by (simp add: caches CGet_CSet [OF assms(1)])
      have at: "capacityAt T s' key t1 = map_of c" by (simp add: capacityAt_def fun_eq_iff got)
      have "map_of c = capacityAt T s key t1" if "\<not> ch"
        using lowerCapacity_unchanged [of ?obs ?old False False] that by (simp add: run old)
      with True got wf c at show ?thesis by (auto simp: steady_def caches)
    next
      case kept: False
      have "c = ?old" using lowerCapacity_kept [of ?obs ?old False False ch] run kept by simp
      with old c have "capacityAt T s key t1 r = leastOf (capacityAt T s key t1 r) (map_of ?obs r)" for r by simp
      moreover from kept caches have "s' = s" by simp
      ultimately show ?thesis using assms(2) by blast
    qed
  qed
  then show "steady T s' key t1" "capacityAt T s' key t1 r = leastOf (capacityAt T s key t1 r) (map_of (observedCapacity node) r)"
    "instanceTypesCache s' = CDelete (tTypesOps T) (instanceTypesCache s) (typesKey T nodeClass) \<or>
      instanceTypesCache s' = instanceTypesCache s \<and> capacityAt T s' key t1 = capacityAt T s key t1"
    by simp_all
qed

text \<open>An observation that goes to another entry.\<close>

lemma observe_elsewhere:
  assumes "cache_ok (tCapacityOps T) ttl"
    and "key \<noteq> discoveredCapacityCacheKey T (labelOf (CapNodeLabels node) LabelInstanceTypeStable) nodeClass"
    and "s' = UpdateInstanceTypeCapacityFromNode T node nodeClass now s"
  shows "CGet (tCapacityOps T) (discoveredCapacityCache s') t key = CGet (tCapacityOps T) (discoveredCapacityCache s) t key"
  using assms(2) unfolding assms(3) UpdateInstanceTypeCapacityFromNode_def Let_def
  by (simp add: split_beta CGet_CSet [OF assms(1)])

section \<open>Registrations and listings\<close>

text \<open>
  What may happen in whatever order: a node registers, which the capacity controller reports with its NodeClass, or
  somebody lists the types for a NodeClass, which fills the cache of resolved types.
\<close>

datatype 'u type_event =
    Registered int capacity_node LinodeNodeClass
  | Listed int LinodeNodeClass "'u UnavailableOfferings"

fun typeEvents :: "('ic, 'dc, 'oc, 'u, 'm) type_provider \<Rightarrow> 'u type_event list \<Rightarrow> ('ic, 'dc, 'oc, 'm) type_state \<Rightarrow>
    ('ic, 'dc, 'oc, 'm) type_state option" where
  "typeEvents T [] s = Some s"
| "typeEvents T (Registered now node nc # evs) s = typeEvents T evs (UpdateInstanceTypeCapacityFromNode T node nc now s)"
| "typeEvents T (Listed now nc u # evs) s =
     (case typeList T nc u now s of None \<Rightarrow> None | Some (r, s) \<Rightarrow> typeEvents T evs s)"

text \<open>The nodes that count for a type and a NodeClass: those of the type, under a NodeClass with the same images.\<close>

definition counts :: "LinodeNodeClass \<Rightarrow> string \<Rightarrow> capacity_node \<Rightarrow> LinodeNodeClass \<Rightarrow> bool" where
  "counts nodeClass name node nc \<longleftrightarrow> labelOf (CapNodeLabels node) LabelInstanceTypeStable = name \<and> LinodeImages nc = LinodeImages nodeClass"

fun seenOf :: "LinodeNodeClass \<Rightarrow> string \<Rightarrow> 'u type_event \<Rightarrow> (string \<Rightarrow> quantity option) \<Rightarrow> string \<Rightarrow> quantity option" where
  "seenOf nodeClass name (Registered now node nc) acc =
     (if counts nodeClass name node nc then (\<lambda>r. leastOf (acc r) (map_of (observedCapacity node) r)) else acc)"
| "seenOf nodeClass name (Listed now nc u) acc = acc"

definition leastSeen :: "LinodeNodeClass \<Rightarrow> string \<Rightarrow> 'u type_event list \<Rightarrow> string \<Rightarrow> quantity option" where
  "leastSeen nodeClass name evs = fold (seenOf nodeClass name) evs (\<lambda>r. None)"

text \<open>
  What the theorem asks of an event, up to the time \<open>t1\<close>: a node that counts is not older than the lifetime of its entry
  and its NodeClass has the cache key of this one, any other goes to another entry; and a listing that
  goes to the entry of this NodeClass is for the same images and resolves the type the same way.
\<close>

fun event_fits :: "('ic, 'dc, 'oc, 'u, 'm) type_provider \<Rightarrow> int \<Rightarrow> LinodeNodeClass \<Rightarrow> string \<Rightarrow> LinodeType \<Rightarrow> int \<Rightarrow> 'u type_event \<Rightarrow> bool" where
  "event_fits T ttl nodeClass name info t1 (Registered now node nc) \<longleftrightarrow>
     (if counts nodeClass name node nc then now \<le> t1 \<and> t1 \<le> now + ttl \<and> CacheKey (tResolver T) nc = CacheKey (tResolver T) nodeClass
      else discoveredCapacityCacheKey T (labelOf (CapNodeLabels node) LabelInstanceTypeStable) nc \<noteq> discoveredCapacityCacheKey T name nodeClass)"
| "event_fits T ttl nodeClass name info t1 (Listed now nc u) \<longleftrightarrow> now \<le> t1 \<and>
     (typesKey T nc = typesKey T nodeClass \<longrightarrow>
        LinodeImages nc = LinodeImages nodeClass \<and> Resolve (tResolver T) info nc = Resolve (tResolver T) info nodeClass)"

text \<open>A type as predicted, with the capacity learned.\<close>

definition learned :: "instance_type \<Rightarrow> (string \<Rightarrow> quantity option) \<Rightarrow> instance_type \<Rightarrow> bool" where
  "learned it acc i \<longleftrightarrow> (\<exists>cap. i = it\<lparr>ItCapacity := cap\<rparr> \<and>
     (\<forall>r. map_of cap r = (case acc r of Some q \<Rightarrow> Some q | None \<Rightarrow> map_of (ItCapacity it) r)))"

definition lists_learned :: "string \<Rightarrow> instance_type \<Rightarrow> (string \<Rightarrow> quantity option) \<Rightarrow> instance_type list \<Rightarrow> bool" where
  "lists_learned name it acc its \<longleftrightarrow> (\<exists>i \<in> set its. ItName i = name) \<and> (\<forall>i \<in> set its. ItName i = name \<longrightarrow> learned it acc i)"

text \<open>The invariant: what either cache answers up to \<open>t1\<close>.\<close>

definition knows :: "('ic, 'dc, 'oc, 'u, 'm) type_provider \<Rightarrow> LinodeNodeClass \<Rightarrow> string \<Rightarrow> instance_type \<Rightarrow> int \<Rightarrow>
    (string \<Rightarrow> quantity option) \<Rightarrow> ('ic, 'dc, 'oc, 'm) type_state \<Rightarrow> bool" where
  "knows T nodeClass name it t1 acc s \<longleftrightarrow> steady T s (discoveredCapacityCacheKey T name nodeClass) t1 \<and>
     capacityAt T s (discoveredCapacityCacheKey T name nodeClass) t1 = acc \<and>
     (\<forall>t \<le> t1. \<forall>item. CGet (tTypesOps T) (instanceTypesCache s) t (typesKey T nodeClass) = Some item \<longrightarrow> lists_learned name it acc item)"

lemma knowsD:
  assumes "knows T nodeClass name it t1 acc s"
  shows "steady T s (discoveredCapacityCacheKey T name nodeClass) t1" "capacityAt T s (discoveredCapacityCacheKey T name nodeClass) t1 = acc"
    and "t \<le> t1 \<Longrightarrow> CGet (tTypesOps T) (instanceTypesCache s) t (typesKey T nodeClass) = Some item \<Longrightarrow> lists_learned name it acc item"
  using assms unfolding knows_def by blast+

lemma Resolve_name: "Resolve R info nodeClass = Some it \<Longrightarrow> ItName it = LtID info"
  by (auto simp: Resolve_def NewInstanceType_def Let_def bind_eq_Some_conv split: option.splits)

lemma getType_capacity:
  assumes "steady T s (discoveredCapacityCacheKey T name nodeClass) now"
    and "map_of (instanceTypesInfo s) name = Some info" "LtID info = name" "Resolve (tResolver T) info nodeClass = Some it"
  shows "\<exists>i. getType T nodeClass name now s = Some (Inr i) \<and> learned it (capacityAt T s (discoveredCapacityCacheKey T name nodeClass) now) i"
proof (cases "CGet (tCapacityOps T) (discoveredCapacityCache s) now (discoveredCapacityCacheKey T name nodeClass)")
  case None
  with assms(2-4) show ?thesis
    unfolding learned_def
    by (intro exI [of _ it] conjI exI [of _ "ItCapacity it"]) (simp_all add: getType_def Resolve_name capacityAt_def)
next
  case (Some c)
  with assms(2-4) steadyD(2) [OF assms(1) Some] show ?thesis
    unfolding learned_def
    by (intro exI [of _ "it\<lparr>ItCapacity := assign2 (ItCapacity it) c\<rparr>"] conjI exI [of _ "assign2 (ItCapacity it) c"])
      (simp_all add: getType_def Resolve_name capacityAt_def assign2_def [symmetric] map_of_assign2 map_add_def)
qed

text \<open>A read that resolves the type, at any time up to \<open>t1\<close>.\<close>

lemma getType_learned:
  assumes "knows T nodeClass name it t1 acc s" "t \<le> t1" "LinodeImages nc = LinodeImages nodeClass"
    and "map_of (instanceTypesInfo s) name = Some info" "LtID info = name" "Resolve (tResolver T) info nc = Some it"
  shows "\<exists>i. getType T nc name t s = Some (Inr i) \<and> learned it acc i"
proof -
  have key: "discoveredCapacityCacheKey T name nc = discoveredCapacityCacheKey T name nodeClass"
    by (simp add: discoveredCapacityCacheKey_def assms(3))
  note e = steady_earlier [OF knowsD(1) [OF assms(1)] assms(2), folded key]
  have "capacityAt T s (discoveredCapacityCacheKey T name nc) t = acc"
    using e knowsD(2) [OF assms(1)] by (simp add: fun_eq_iff key)
  with getType_capacity [OF conjunct1 [OF e] assms(4-6)] show ?thesis by simp
qed

lemma getType_name:
  assumes "getType T nc n t s = Some (Inr i)" "\<forall>n x. map_of (instanceTypesInfo s) n = Some x \<longrightarrow> LtID x = n"
  shows "ItName i = n"
  using assms by (auto simp: getType_def Resolve_name split: option.splits)

lemma resolveAll_learned:
  assumes keys: "\<forall>n x. map_of (instanceTypesInfo s) n = Some x \<longrightarrow> LtID x = n"
    and one: "\<exists>i. getType T nc name t s = Some (Inr i) \<and> learned it acc i"
  shows "resolveAll T nc t s names = Some its \<Longrightarrow>
    (name \<in> set names \<longrightarrow> (\<exists>i \<in> set its. ItName i = name)) \<and> (\<forall>i \<in> set its. ItName i = name \<longrightarrow> learned it acc i)"
proof (induction names arbitrary: its)
  case (Cons n names)
  then obtain r rest where r: "getType T nc n t s = Some r" "resolveAll T nc t s names = Some rest"
    "its = (case r of Inl e \<Rightarrow> rest | Inr i \<Rightarrow> i # rest)" by (auto split: option.splits)
  note IH = Cons.IH [OF r(2)]
  show ?case
  proof (cases r)
    case (Inl e)
    with one r(1) have "n \<noteq> name" by auto
    with IH r(3) Inl show ?thesis by auto
  next
    case (Inr i)
    with getType_name [OF _ keys] r(1) have "ItName i = n" by blast
    moreover have "learned it acc i" if "n = name" using one r(1) Inr that by auto
    ultimately show ?thesis using IH r(3) Inr by auto
  qed
qed simp

text \<open>A listing keeps the invariant, and one for this entry lists what is known.\<close>

lemma typesOf_learned:
  assumes cache: "cache_ok (tTypesOps T) tt" and range: "\<forall>m. set (tInfoRange T m) = set m"
    and known: "knows T nodeClass name it t1 acc s" and info: "map_of (instanceTypesInfo s) name = Some info"
    and keys: "\<forall>n x. map_of (instanceTypesInfo s) n = Some x \<longrightarrow> LtID x = n"
    and it: "Resolve (tResolver T) info nodeClass = Some it"
    and fits: "event_fits T ttl nodeClass name info t1 (Listed now nc u)"
    and run: "typesOf T nc now s = Some (item, s')"
  shows "knows T nodeClass name it t1 acc s' \<and> (typesKey T nc = typesKey T nodeClass \<longrightarrow> lists_learned name it acc item)"
proof (cases "CGet (tTypesOps T) (instanceTypesCache s) now (typesKey T nc)")
  case (Some x)
  with run known knowsD(3) [OF known, of now item] fits show ?thesis by (auto simp: typesOf_def Let_def)
next
  case None
  with run have all: "resolveAll T nc now s (map fst (tInfoRange T (instanceTypesInfo s))) = Some item"
    and s': "s' = s\<lparr>instanceTypesCache := CSet (tTypesOps T) (instanceTypesCache s) now (typesKey T nc) item\<rparr>"
    by (auto simp: typesOf_def Let_def split: option.splits)
  have listed: "lists_learned name it acc item" if same: "typesKey T nc = typesKey T nodeClass"
  proof -
    have "name \<in> set (map fst (tInfoRange T (instanceTypesInfo s)))"
      using map_of_SomeD [OF info] range by force
    moreover have "\<exists>i. getType T nc name now s = Some (Inr i) \<and> learned it acc i"
      using getType_learned [OF known _ _ info] fits same keys info it by simp
    ultimately show ?thesis using resolveAll_learned [OF keys _ all, of name it acc] by (simp add: lists_learned_def)
  qed
  have "knows T nodeClass name it t1 acc s'"
    unfolding knows_def
  proof (intro conjI allI impI)
    fix t x
    assume "t \<le> t1" "CGet (tTypesOps T) (instanceTypesCache s') t (typesKey T nodeClass) = Some x"
    then show "lists_learned name it acc x"
      using knowsD(3) [OF known] listed by (auto simp: s' CGet_CSet [OF cache] split: if_splits)
  qed (use knowsD(1,2) [OF known] in \<open>simp_all add: capacity_cong [of T "s\<lparr>instanceTypesCache := _\<rparr>" _ s] s'\<close>)
  with listed show ?thesis by blast
qed

lemma typesOf_keeps:
  "typesOf T nc now s = Some (item, s') \<Longrightarrow> instanceTypesInfo s' = instanceTypesInfo s \<and> instanceTypesOfferings s' = instanceTypesOfferings s"
  by (auto simp: typesOf_def Let_def split: option.splits)

lemma knows_offeringState [simp]: "knows T nodeClass name it t1 acc (s\<lparr>offeringState := os\<rparr>) = knows T nodeClass name it t1 acc s"
  by (simp add: knows_def capacity_cong [of T "s\<lparr>offeringState := os\<rparr>" _ s])

lemma InjectOfferings_types:
  "InjectOfferings O' its infos all avail u now os = (its', os') \<Longrightarrow> list_all2 (\<lambda>i i'. \<exists>offs. i' = i\<lparr>ItOfferings := offs\<rparr>) its its'"
  by (induction its arbitrary: os its' os') (auto split: prod.splits)

text \<open>One event, then all.\<close>

lemma event_knows:
  assumes caches: "cache_ok (tCapacityOps T) ttl" "cache_ok (tTypesOps T) tt" and range: "\<forall>m. set (tInfoRange T m) = set m"
    and info: "map_of infos name = Some info" "\<forall>n x. map_of infos n = Some x \<longrightarrow> LtID x = n"
    and it: "Resolve (tResolver T) info nodeClass = Some it"
    and known: "knows T nodeClass name it t1 acc s" "instanceTypesInfo s = infos" "instanceTypesOfferings s = offs"
    and fits: "event_fits T ttl nodeClass name info t1 ev" and run: "typeEvents T [ev] s = Some s'"
  shows "knows T nodeClass name it t1 (seenOf nodeClass name ev acc) s' \<and> instanceTypesInfo s' = infos \<and> instanceTypesOfferings s' = offs"
proof (cases ev)
  case (Listed now nc u)
  with run obtain r where r: "typeList T nc u now s = Some (r, s')" by (auto split: option.splits)
  show ?thesis
  proof (cases "notHydrated s")
    case None
    with r obtain item s1 os where "typesOf T nc now s = Some (item, s1)" "s' = s1\<lparr>offeringState := os\<rparr>"
      by (auto simp: typeList_def split: option.splits prod.splits)
    with typesOf_learned [OF caches(2) range known(1) _ _ it, of ttl now nc u item s1] typesOf_keeps [of T nc now s item s1] info known(2,3) fits Listed
    show ?thesis by simp
  qed (use r known Listed in \<open>simp add: typeList_def\<close>)
next
  case (Registered now node nc)
  with run have s': "s' = UpdateInstanceTypeCapacityFromNode T node nc now s" by simp
  note keeps = observe_keeps [OF s']
  have "knows T nodeClass name it t1 (seenOf nodeClass name ev acc) s'"
  proof (cases "counts nodeClass name node nc")
    case True
    then have key: "discoveredCapacityCacheKey T name nodeClass =
        discoveredCapacityCacheKey T (labelOf (CapNodeLabels node) LabelInstanceTypeStable) nc"
      by (simp add: counts_def discoveredCapacityCacheKey_def)
    from True fits Registered have here: "now \<le> t1" "t1 \<le> now + ttl" "typesKey T nc = typesKey T nodeClass"
      by (simp_all add: typesKey_def counts_def)
    note step = observe_step [OF caches(1) knowsD(1) [OF known(1)] here(1,2) key s']
    have acc: "capacityAt T s' (discoveredCapacityCacheKey T name nodeClass) t1 = seenOf nodeClass name ev acc"
      using step(2) knowsD(2) [OF known(1)] True Registered by (simp add: fun_eq_iff)
    from step(3) show ?thesis
    proof
      assume "instanceTypesCache s' = CDelete (tTypesOps T) (instanceTypesCache s) (typesKey T nc)"
      with here(3) step(1) acc show ?thesis by (simp add: knows_def CGet_CDelete [OF caches(2)])
    next
      assume "instanceTypesCache s' = instanceTypesCache s \<and> capacityAt T s' (discoveredCapacityCacheKey T name nodeClass) t1 =
        capacityAt T s (discoveredCapacityCacheKey T name nodeClass) t1"
      with known(1) step(1) acc show ?thesis by (simp add: knows_def)
    qed
  next
    case False
    with fits Registered have "discoveredCapacityCacheKey T name nodeClass \<noteq>
        discoveredCapacityCacheKey T (labelOf (CapNodeLabels node) LabelInstanceTypeStable) nc" by simp
    note same = observe_elsewhere [OF caches(1) this s']
    have "CGet (tTypesOps T) (instanceTypesCache s') t (typesKey T nodeClass) = Some item \<Longrightarrow>
        CGet (tTypesOps T) (instanceTypesCache s) t (typesKey T nodeClass) = Some item" for t item
      using keeps(3) by (auto simp: CGet_CDelete [OF caches(2)] split: if_splits)
    with knowsD [OF known(1)] False Registered show ?thesis unfolding knows_def by (simp add: capacity_cong [of T s' _ s, OF same])
  qed
  with keeps known(2,3) show ?thesis by simp
qed

text \<open>Listings return when every type resolves.\<close>

lemma getType_returns: "(\<And>n x. map_of (instanceTypesInfo s) n = Some x \<Longrightarrow> Resolve (tResolver T) x nc \<noteq> None) \<Longrightarrow> getType T nc name now s \<noteq> None"
  by (fastforce simp: getType_def split: option.splits)

lemma resolveAll_returns: "(\<And>n x. map_of (instanceTypesInfo s) n = Some x \<Longrightarrow> Resolve (tResolver T) x nc \<noteq> None) \<Longrightarrow> resolveAll T nc now s names \<noteq> None"
proof (induction names)
  case (Cons n names)
  then show ?case using getType_returns [of s T nc n now] by (fastforce split: option.splits)
qed simp

lemma typeList_returns:
  assumes "\<And>n x. map_of (instanceTypesInfo s) n = Some x \<Longrightarrow> Resolve (tResolver T) x nc \<noteq> None"
  obtains r s' where "typeList T nc u now s = Some (r, s')"
proof -
  have "typesOf T nc now s \<noteq> None"
    using resolveAll_returns [of s T nc now "map fst (tInfoRange T (instanceTypesInfo s))"] assms
    by (cases "CGet (tTypesOps T) (instanceTypesCache s) now (typesKey T nc)") (auto simp: typesOf_def Let_def)
  then have "typeList T nc u now s \<noteq> None" by (auto simp: typeList_def split: option.splits prod.splits)
  with that show thesis by fastforce
qed

lemma typeEvents_Cons: "typeEvents T (ev # evs) s = (case typeEvents T [ev] s of None \<Rightarrow> None | Some s1 \<Rightarrow> typeEvents T evs s1)"
  by (cases ev) (simp_all split: option.split)

lemma events_know:
  assumes caches: "cache_ok (tCapacityOps T) ttl" "cache_ok (tTypesOps T) tt" and range: "\<forall>m. set (tInfoRange T m) = set m"
    and info: "map_of infos name = Some info" "\<forall>n x. map_of infos n = Some x \<longrightarrow> LtID x = n"
    and it: "Resolve (tResolver T) info nodeClass = Some it"
  shows "knows T nodeClass name it t1 acc s \<Longrightarrow> instanceTypesInfo s = infos \<Longrightarrow> instanceTypesOfferings s = offs \<Longrightarrow>
    list_all (event_fits T ttl nodeClass name info t1) evs \<Longrightarrow> typeEvents T evs s = Some s' \<Longrightarrow>
    knows T nodeClass name it t1 (fold (seenOf nodeClass name) evs acc) s' \<and> instanceTypesInfo s' = infos \<and> instanceTypesOfferings s' = offs"
proof (induction evs arbitrary: s acc)
  case (Cons ev evs)
  from Cons.prems(5) obtain s1 where run: "typeEvents T [ev] s = Some s1" "typeEvents T evs s1 = Some s'"
    by (auto simp: typeEvents_Cons [of T ev evs] simp del: typeEvents.simps split: option.splits)
  from Cons.prems(4) have fits: "event_fits T ttl nodeClass name info t1 ev" "list_all (event_fits T ttl nodeClass name info t1) evs"
    by simp_all
  note step = event_knows [OF assms Cons.prems(1-3) fits(1) run(1)]
  from Cons.IH [OF conjunct1 [OF step] conjunct1 [OF conjunct2 [OF step]] conjunct2 [OF conjunct2 [OF step]] fits(2) run(2)]
  show ?case by simp
qed simp

text \<open>
  C0: What nodes report replaces what the plan predicts, and only the least counts, in everything the provider answers
  for a type and a NodeClass, from its caches or not: after any registrations of nodes and any listings, in whatever
  order, starting from empty caches, both \<open>Get\<close> and \<open>List\<close> give the type the least memory and the least ephemeral storage that
  any node of the type under a NodeClass with the same images reported; a resource none of them reported, and every
  other property of the type but the offerings of \<open>List\<close>, is as predicted from the plan. A cached list is dropped for the
  NodeClass of the node only, by its cache key: so the nodes that count have to be under NodeClasses with the cache
  key of this one (and not older than the lifetime of their entry), or \<open>Get\<close> and \<open>List\<close> may answer from a list that is
  out of date.
\<close>

theorem discovered_capacity_is_least:
  assumes "cache_ok (tCapacityOps T) ttl" "cache_ok (tTypesOps T) tt" "\<forall>m. set (tInfoRange T m) = set m"
    and "empty_cache (tCapacityOps T) (discoveredCapacityCache s)" "empty_cache (tTypesOps T) (instanceTypesCache s)"
    and "map_of (instanceTypesInfo s) name = Some info" "\<forall>n x. map_of (instanceTypesInfo s) n = Some x \<longrightarrow> LtID x = n"
    and "instanceTypesOfferings s \<noteq> []" "Resolve (tResolver T) info nodeClass = Some it"
    and "list_all (event_fits T ttl nodeClass name info t1) evs" "typeEvents T evs s = Some s1"
  shows "(\<exists>i. typeGet T nodeClass name t1 s1 = Some (Inr i) \<and> learned it (leastSeen nodeClass name evs) i) \<and>
    (\<forall>u rl s2. typeList T nodeClass u t1 s1 = Some (rl, s2) \<longrightarrow> (\<exists>its. rl = Inr its \<and> (\<exists>i \<in> set its. ItName i = name) \<and>
       (\<forall>i \<in> set its. ItName i = name \<longrightarrow> (\<exists>i0 offs. learned it (leastSeen nodeClass name evs) i0 \<and> i = i0\<lparr>ItOfferings := offs\<rparr>))))"
proof -
  let ?acc = "leastSeen nodeClass name evs"
  have "knows T nodeClass name it t1 (\<lambda>r. None) s"
    by (simp add: knows_def steady_def capacityAt_def fun_eq_iff empty_cache_CGet [OF assms(1,4)] empty_cache_CGet [OF assms(2,5)])
  from events_know [OF assms(1-3,6,7,9) this refl refl assms(10,11), folded leastSeen_def]
  have known: "knows T nodeClass name it t1 ?acc s1" and infos: "instanceTypesInfo s1 = instanceTypesInfo s"
    "instanceTypesOfferings s1 = instanceTypesOfferings s" by simp_all
  have hydrated: "notHydrated s1 = None" using assms(6,8) by (auto simp: notHydrated_def infos)
  have info: "map_of (instanceTypesInfo s1) name = Some info" "LtID info = name" using assms(6,7) by (auto simp: infos)
  have name: "ItName it = name" using Resolve_name [OF assms(9)] info(2) by simp
  have "\<exists>i. typeGet T nodeClass name t1 s1 = Some (Inr i) \<and> learned it ?acc i"
  proof (cases "CGet (tTypesOps T) (instanceTypesCache s1) t1 (typesKey T nodeClass)")
    case None
    with getType_learned [OF known order_refl refl info assms(9)] hydrated show ?thesis by (simp add: typeGet_def)
  next
    case (Some item)
    from knowsD(3) [OF known order_refl Some] have l: "lists_learned name it ?acc item" .
    then obtain i where i: "find (\<lambda>i. ItName i = name) item = Some i"
      by (cases "find (\<lambda>i. ItName i = name) item") (auto simp: lists_learned_def find_None_iff)
    with l have "learned it ?acc i" by (auto simp: lists_learned_def dest: find_SomeD)
    with i Some hydrated show ?thesis by (simp add: typeGet_def)
  qed
  moreover have "\<exists>its. rl = Inr its \<and> (\<exists>i \<in> set its. ItName i = name) \<and>
      (\<forall>i \<in> set its. ItName i = name \<longrightarrow> (\<exists>i0 offs. learned it ?acc i0 \<and> i = i0\<lparr>ItOfferings := offs\<rparr>))"
    if run: "typeList T nodeClass u t1 s1 = Some (rl, s2)" for u rl s2
  proof -
    from run hydrated obtain item s3 its os where t: "typesOf T nodeClass t1 s1 = Some (item, s3)" and rl: "rl = Inr its"
      and inj: "InjectOfferings (tOfferings T) item (instanceTypesInfo s3) (allRegions s3) (instanceTypesOfferings s3) u t1 (offeringState s3) = (its, os)"
      by (auto simp: typeList_def split: option.splits prod.splits)
    have l: "lists_learned name it ?acc item"
      using typesOf_learned [OF assms(2,3) known info(1) _ assms(9) _ t, of ttl u] assms(7) by (simp add: infos)
    note rel = InjectOfferings_types [OF inj]
    from l obtain i where "i \<in> set item" "ItName i = name" by (auto simp: lists_learned_def)
    moreover from rel this(1) obtain i' offs where "i' \<in> set its" "i' = i\<lparr>ItOfferings := offs\<rparr>"
      by (auto simp: list_all2_conv_all_nth in_set_conv_nth) (metis nth_mem)
    ultimately have "\<exists>i \<in> set its. ItName i = name" by (intro bexI [of _ i']) simp_all
    moreover have "\<exists>i0 offs. learned it ?acc i0 \<and> i = i0\<lparr>ItOfferings := offs\<rparr>" if "i \<in> set its" "ItName i = name" for i
    proof -
      from rel that(1) obtain i0 offs where "i0 \<in> set item" "i = i0\<lparr>ItOfferings := offs\<rparr>"
        by (auto simp: list_all2_conv_all_nth in_set_conv_nth) (metis nth_mem)
      with that(2) l show ?thesis by (auto simp: lists_learned_def)
    qed
    ultimately show ?thesis using rl by blast
  qed
  ultimately show ?thesis by blast
qed

end
