(* ===== verification/InstanceTypeProps.thy ===== *)
theory InstanceTypeProps
  imports InstanceTypes
begin

text \<open>What the instance type of a plan promises: its capacity, reservations, GPUs, requirements and panics.\<close>

section \<open>Capacity\<close>

lemma overhead_exact:
  assumes "0 \<le> LtMemory info" "LtMemory info < 2 ^ 33" "0 \<le> percent"
  shows "overheadInMiB percent info = \<lceil>fl (of_int (LtMemory info) * MiB * percent) / MiB\<rceil>"
proof -
  have m: "fl (of_int (LtMemory info) * MiB) = of_int (LtMemory info) * MiB"
    using assms(1,2) by (intro fl_exact [of _ "LtMemory info" 20]) (simp_all add: MiB_def)
  let ?y = "of_int (LtMemory info) * MiB * percent"
  have y: "0 \<le> ?y" using assms(1,3) by (simp add: MiB_def)
  have half: "fl (fl ?y / 1024) = fl ?y / 1024" using fl_scale [OF y, of "-10"] by (simp add: pow2_def)
  have all: "fl (fl ?y / 1024 / 1024) = fl ?y / MiB" using fl_scale [OF y, of "-20"] by (simp add: pow2_def MiB_def)
  show ?thesis unfolding overheadInMiB_def m half all ..
qed

text \<open>The overhead is the exact one rounded up, but for the error of one float multiplication.\<close>

lemma overhead_bounds:
  assumes "0 \<le> LtMemory info" "LtMemory info < 2 ^ 33" "0 \<le> percent" "percent \<le> 1"
  defines "o' \<equiv> overheadInMiB percent info"
  shows "0 \<le> o'" "o' \<le> LtMemory info"
    "\<bar>of_int (LtMemory info - o') - (1 - percent) * of_int (LtMemory info)\<bar> \<le> 1 + 1 / 2 ^ 20"
proof -
  let ?M = "of_int (LtMemory info) :: rat"
  define y where "y = fl (?M * MiB * percent)"
  have o': "o' = \<lceil>y / MiB\<rceil>" unfolding o'_def y_def by (rule overhead_exact [OF assms(1-3)])
  have M: "0 \<le> ?M" "?M \<le> 2 ^ 33"
    using assms(1,2) by simp_all
  have y_le: "y \<le> ?M * MiB"
  proof (cases "?M * MiB * percent = 0")
    case False
    then have "0 < ?M * MiB * percent" using M assms(3) by (simp add: MiB_def less_le)
    moreover have "?M * MiB * percent \<le> of_int (LtMemory info) * pow2 20"
      using M assms(4) by (simp add: MiB_def mult_left_le)
    moreover have "LtMemory info < 2 ^ 53" using assms(2) by simp
    ultimately have "y \<le> of_int (LtMemory info) * pow2 20" unfolding y_def by (rule fl_le)
    then show ?thesis by (simp add: MiB_def)
  qed (use M in \<open>simp add: y_def MiB_def fl_def\<close>)
  have y_ge: "0 \<le> y" unfolding y_def using M assms(3) by (intro fl_nonneg) (simp add: MiB_def)
  have err: "\<bar>y / MiB - ?M * percent\<bar> \<le> 1 / 2 ^ 20"
  proof -
    have "\<bar>y - ?M * MiB * percent\<bar> \<le> \<bar>?M * MiB * percent\<bar> / 2 ^ 53" unfolding y_def by (rule fl_error)
    also have "\<bar>?M * MiB * percent\<bar> = ?M * percent * MiB" using M assms(3) by (simp add: MiB_def)
    also have "?M * percent * MiB / 2 ^ 53 \<le> 2 ^ 33 * MiB / 2 ^ 53"
    proof -
      have "?M * percent \<le> 2 ^ 33 * 1" using M assms(3,4) by (intro mult_mono) simp_all
      then show ?thesis by (simp add: MiB_def mult.commute)
    qed
    finally have "\<bar>y - ?M * MiB * percent\<bar> \<le> 1" by (simp add: MiB_def)
    then show ?thesis by (simp add: MiB_def abs_le_iff field_simps)
  qed
  have b: "y / MiB \<le> of_int o'" "of_int o' < y / MiB + 1" unfolding o' by linarith+
  have d: "0 \<le> y / MiB" "y / MiB \<le> ?M" using y_ge y_le by (simp_all add: MiB_def pos_divide_le_eq)
  from b(1) d(1) have "(0 :: rat) \<le> of_int o'" by linarith
  then show "0 \<le> o'" by simp
  show "o' \<le> LtMemory info" using d(2) unfolding o' by (simp add: ceiling_le_iff)
  have "of_int (LtMemory info - o') - (1 - percent) * ?M = ?M * percent - of_int o'" by (simp add: algebra_simps)
  then show "\<bar>of_int (LtMemory info - o') - (1 - percent) * ?M\<bar> \<le> 1 + 1 / 2 ^ 20"
    using err b by (simp only: abs_le_iff) linarith
qed

text \<open>
  C34: For a plan of less than 2^33 MiB and an overhead between 0 and 1, the memory capacity is a whole number of MiB
  between 0 and the advertised memory, and, for all the float arithmetic, within 1 MiB and 2^-20 of the advertised
  memory less the overhead; the storage is that of the plan, and the pods respect both kubelet limits.
\<close>

lemma capacity_bounds:
  assumes "0 \<le> LtMemory info" "LtMemory info < 2 ^ 33" "0 \<le> percent" "percent \<le> 1"
  shows "\<exists>m. map_of (computeCapacity percent info maxPods podsPerCore) ResourceMemory = Some (of_int m * MiB) \<and>
      0 \<le> m \<and> m \<le> LtMemory info \<and> \<bar>of_int m - (1 - percent) * of_int (LtMemory info)\<bar> \<le> 1 + 1 / 2 ^ 20 \<and>
      map_of (computeCapacity percent info maxPods podsPerCore) ResourceEphemeralStorage = Some (of_int (LtDisk info) * MiB) \<and>
      (\<exists>n. map_of (computeCapacity percent info maxPods podsPerCore) ResourcePods = Some (of_int n) \<and>
         n \<le> (case maxPods of Some k \<Rightarrow> k | None \<Rightarrow> 110) \<and>
         (\<forall>k. podsPerCore = Some k \<longrightarrow> 0 < k \<longrightarrow> n \<le> k * LtVCPUs info))"
proof -
  define o' where "o' = overheadInMiB percent info"
  note overhead_bounds [OF assms, folded o'_def]
  moreover have "map_of (computeCapacity percent info maxPods podsPerCore) ResourceMemory = Some (of_int (LtMemory info - o') * MiB)"
    by (simp add: computeCapacity_def memory_def o'_def ResourceMemory_def ResourceCPU_def left_diff_distrib)
  moreover have "map_of (computeCapacity percent info maxPods podsPerCore) ResourceEphemeralStorage = Some (of_int (LtDisk info) * MiB)"
    "map_of (computeCapacity percent info maxPods podsPerCore) ResourcePods = Some (pods info maxPods podsPerCore)"
    by (simp_all add: computeCapacity_def ephemeralStorage_def ResourceMemory_def ResourceCPU_def ResourceEphemeralStorage_def ResourcePods_def)
  moreover have "\<exists>n. pods info maxPods podsPerCore = of_int n \<and> n \<le> (case maxPods of Some k \<Rightarrow> k | None \<Rightarrow> 110) \<and>
      (\<forall>k. podsPerCore = Some k \<longrightarrow> 0 < k \<longrightarrow> n \<le> k * LtVCPUs info)"
    by (auto simp: pods_def Let_def split: option.split)
  ultimately show ?thesis by (intro exI [of _ "LtMemory info - o'"]) auto
qed

section \<open>The CPU reservation\<close>

lemma quarter_percent:
  assumes "0 \<le> k" "k < 2 ^ 22"
  shows "int64 (fl (of_int (1000 * k) * fl (25 / 10000))) = 5 * k div 2"
proof (cases "k = 0")
  case False
  let ?c = "fl (25 / 10000)" and ?k = "of_int k :: rat"
  have c: "25 / 10000 \<le> ?c" "?c \<le> 25 / 10000 + 1 / 2 ^ 60" by code_simp+
  have k: "0 < ?k" "?k < 2 ^ 22"
    using assms False by simp_all
  define x where "x = of_int (1000 * k) * ?c"
  have x: "5 * ?k / 2 \<le> x" "x \<le> 5 * ?k / 2 + 1000 * ?k / 2 ^ 60"
    using mult_left_mono [OF c(1), of "1000 * ?k"] mult_left_mono [OF c(2), of "1000 * ?k"] k unfolding x_def by (simp_all add: algebra_simps)
  then have pos: "0 < x" using k by linarith
  have "of_int (5 * k) * pow2 (- 1) \<le> fl x"
    using x(1) assms by (intro fl_ge [OF pos]) (simp_all add: pow2_def)
  then have ge: "5 * ?k / 2 \<le> fl x" by (simp add: pow2_def)
  have "fl x - x \<le> x / 2 ^ 53" using fl_error [of x] pos by (simp only: abs_of_pos abs_le_iff)
  moreover have "x / 2 ^ 53 \<le> 1 / 4" "1000 * ?k / 2 ^ 60 \<le> 1 / 8" using x(2) k by simp_all
  ultimately have lt: "fl x < 5 * ?k / 2 + 1 / 2" using x(2) by linarith
  have "2 * (5 * k div 2) \<le> 5 * k" "5 * k \<le> 2 * (5 * k div 2) + 1" by presburger+
  then have "2 * of_int (5 * k div 2) \<le> 5 * ?k" "5 * ?k \<le> 2 * of_int (5 * k div 2) + 1"
    by (simp_all only: of_int_le_iff [symmetric, where 'a = rat] of_int_mult of_int_add of_int_numeral of_int_1)
  with ge lt have "\<lfloor>fl x\<rfloor> = 5 * k div 2" by (intro floor_unique) linarith+
  moreover have "0 \<le> fl x" using ge k by linarith
  ultimately show ?thesis unfolding int64_def x_def [symmetric] by simp
qed (simp add: fl_def int64_def)

text \<open>The formula behind the ranges, in whole numbers.\<close>

definition reservedMillicores :: "int \<Rightarrow> int" where
  "reservedMillicores n = 60 + (if n \<ge> 2 then 10 else 0) + 5 * (max 2 (min n 4) - 2) + (if n \<ge> 4 then 5 * (n - 4) div 2 else 0)"

definition milli :: "resource_list \<Rightarrow> int \<Rightarrow> bool" where
  "milli resourceList m \<longleftrightarrow> (case map_of resourceList ResourceCPU of Some q \<Rightarrow> q | None \<Rightarrow> 0) = of_int m / 1000"

definition rangeMillis :: "int \<Rightarrow> int \<times> int \<times> rat \<Rightarrow> int" where
  "rangeMillis c rg = (case rg of (start, end', p) \<Rightarrow> if c < start then 0
     else int64 (fl ((if c < end' then fl (of_int (c - start)) else fl (of_int (end' - start))) * p)))"

lemma addRange_milli: "milli rs m \<Longrightarrow> milli (addRange c rg rs) (m + rangeMillis c rg)"
  by (auto simp: milli_def addRange_def rangeMillis_def Let_def update_conv' add_divide_distrib split: option.splits prod.splits)

lemma addRange_other: "k \<noteq> ResourceCPU \<Longrightarrow> map_of (addRange c rg rs) k = map_of rs k"
  by (simp add: addRange_def Let_def update_conv' split: prod.split)

lemma wf_addRange: "wf_map rs \<Longrightarrow> wf_map (addRange c rg rs)"
  by (simp add: addRange_def Let_def distinct_update split: prod.split)

lemma addRange_cpu: "0 \<le> c \<Longrightarrow> map_of (addRange c (0, e, p) rs) ResourceCPU \<noteq> None"
  by (simp add: addRange_def Let_def update_conv')

lemma addRange_keeps: "map_of rs k \<noteq> None \<Longrightarrow> map_of (addRange c rg rs) k \<noteq> None"
  by (simp add: addRange_def Let_def update_conv' split: prod.split)

lemma small_ranges:
  "fl 1000 = 1000" "fl 2000 = 2000" "fl 0 = 0"
  "int64 (fl (1000 * fl (6 / 100))) = 60" "int64 (fl (1000 * fl (1 / 100))) = 10"
  "int64 (fl (1000 * fl (5 / 1000))) = 5" "int64 (fl (2000 * fl (5 / 1000))) = 10" "int64 (fl 0) = 0"
  by code_simp+

text \<open>The CPU entry that the ranges leave, from a list with none.\<close>

lemma ranges_millis:
  assumes "1 \<le> n" "n \<le> 2147483" and start: "milli rs0 0"
  shows "milli (fold (addRange (1000 * n)) cpuRanges rs0) (reservedMillicores n)"
    "map_of (fold (addRange (1000 * n)) cpuRanges rs0) ResourceCPU \<noteq> None"
proof -
  let ?c = "1000 * n"
  define rs where "rs = fold (addRange ?c) cpuRanges rs0"
  have rs: "rs = addRange ?c (4000, 2 ^ 31, fl (25 / 10000)) (addRange ?c (2000, 4000, fl (5 / 1000))
      (addRange ?c (1000, 2000, fl (1 / 100)) (addRange ?c (0, 1000, fl (6 / 100)) rs0)))"
    by (simp add: rs_def cpuRanges_def)
  have "milli rs (0 + rangeMillis ?c (0, 1000, fl (6 / 100)) + rangeMillis ?c (1000, 2000, fl (1 / 100)) +
      rangeMillis ?c (2000, 4000, fl (5 / 1000)) + rangeMillis ?c (4000, 2 ^ 31, fl (25 / 10000)))"
    unfolding rs by (intro addRange_milli start)
  moreover have "rangeMillis ?c (0, 1000, fl (6 / 100)) = 60"
    using assms(1) small_ranges by (simp add: rangeMillis_def)
  moreover have "rangeMillis ?c (1000, 2000, fl (1 / 100)) = (if n \<ge> 2 then 10 else 0)"
    using assms(1) small_ranges by (cases "n = 1") (simp_all add: rangeMillis_def)
  moreover have "rangeMillis ?c (2000, 4000, fl (5 / 1000)) = 5 * (max 2 (min n 4) - 2)"
  proof -
    consider "n = 1" | "n = 2" | "n = 3" | "n \<ge> 4" using assms(1) by linarith
    then show ?thesis using small_ranges by cases (simp_all add: rangeMillis_def)
  qed
  moreover have "rangeMillis ?c (4000, 2 ^ 31, fl (25 / 10000)) = (if n \<ge> 4 then 5 * (n - 4) div 2 else 0)"
  proof (cases "n \<ge> 4")
    case True
    then have exact: "fl (of_int (1000 * (n - 4))) = of_int (1000 * (n - 4))" using assms by (intro fl_int) simp
    have c: "?c - 4000 = 1000 * (n - 4)" by simp
    have "rangeMillis ?c (4000, 2 ^ 31, fl (25 / 10000)) = int64 (fl (fl (of_int (?c - 4000)) * fl (25 / 10000)))"
      using True assms(2) by (simp add: rangeMillis_def)
    also have "\<dots> = int64 (fl (of_int (1000 * (n - 4)) * fl (25 / 10000)))" unfolding c exact ..
    also have "\<dots> = 5 * (n - 4) div 2" by (rule quarter_percent) (use assms True in simp_all)
    finally show ?thesis using True by simp
  qed (simp add: rangeMillis_def)
  ultimately show "milli rs (reservedMillicores n)" by (simp only: reservedMillicores_def add_0_left)
  show "map_of rs ResourceCPU \<noteq> None"
    using assms(1) unfolding rs by (intro addRange_keeps addRange_cpu) simp
qed

text \<open>
  C35: The CPU the kubelet reserves, which the code computes in floats over four ranges, is for every whole number of cores
  from 1 to 2147483 exactly 60 millicores for the first, 10 for the second, 5 each for the next two, and 2.5 for every
  further core, rounded down; memory is 255 MiB and 11 for each pod.
\<close>

lemma kube_reserved_exact:
  assumes "1 \<le> n" "n \<le> 2147483"
  shows "\<exists>rs. kubeReservedResources P (of_int n) (of_int podCount) [] = Some rs \<and>
    map_of rs ResourceCPU = Some (of_int (reservedMillicores n) / 1000) \<and>
    map_of rs ResourceMemory = Some (of_int (11 * podCount + 255) * MiB) \<and>
    map_of rs ResourceEphemeralStorage = Some (1024 * MiB)"
proof -
  define rs0 :: resource_list where "rs0 = [(ResourceMemory, of_int (11 * podCount + 255) * MiB), (ResourceEphemeralStorage, 1024 * MiB)]"
  define rs where "rs = fold (addRange (1000 * n)) cpuRanges rs0"
  have start: "milli rs0 0" by (simp add: milli_def rs0_def ResourceMemory_def ResourceEphemeralStorage_def ResourceCPU_def)
  then have "map_of rs ResourceCPU = Some (of_int (reservedMillicores n) / 1000)"
    using ranges_millis [OF assms, of rs0] unfolding rs_def by (auto simp: milli_def)
  moreover have "map_of rs k = map_of rs0 k" if "k \<noteq> ResourceCPU" for k
    by (simp add: rs_def cpuRanges_def addRange_other [OF that])
  moreover have "kubeReservedResources P (of_int n) (of_int podCount) [] = Some (assign [rs, []])"
  proof -
    have "\<lceil>(of_int n :: quantity) * 1000\<rceil> = 1000 * n" by (simp add: ceiling_unique)
    then show ?thesis unfolding kubeReservedResources_def Let_def rs_def rs0_def by simp
  qed
  moreover have "wf_map rs" unfolding rs_def rs0_def cpuRanges_def fold.simps comp_apply id_apply
    by (intro wf_addRange) (simp add: ResourceMemory_def ResourceEphemeralStorage_def)
  then have "map_of (assign [rs, []]) = map_of rs" by (simp add: map_of_assign)
  moreover have "map_of rs0 ResourceMemory = Some (of_int (11 * podCount + 255) * MiB)"
    "map_of rs0 ResourceEphemeralStorage = Some (1024 * MiB)" "ResourceMemory \<noteq> ResourceCPU" "ResourceEphemeralStorage \<noteq> ResourceCPU"
    by (simp_all add: rs0_def ResourceMemory_def ResourceCPU_def ResourceEphemeralStorage_def)
  ultimately show ?thesis by (intro exI [of _ "assign [rs, []]"]) (simp only: simp_thms)
qed

section \<open>GPUs\<close>

lemma patterns_disjoint: "matchesAda i \<Longrightarrow> \<not> matchesBlackwell i"
proof -
  have nth: "HasPrefix i p \<Longrightarrow> n < length p \<Longrightarrow> i ! n = p ! n" for p n
    unfolding HasPrefix_def by (metis nth_take)
  assume "matchesAda i"
  then have "i ! 1 = CHR ''2''" using nth [of "''g2-gpu-rtx4000a''" 1] by (simp add: matchesAda_def)
  then show ?thesis using nth [of "''g3-gpu-rtxpro6000-blackwell-''" 1] by (auto simp: matchesBlackwell_def)
qed

lemma find_any_order:
  assumes "mset ys = mset xs" "\<And>x y. x \<in> set xs \<Longrightarrow> y \<in> set xs \<Longrightarrow> P x \<Longrightarrow> P y \<Longrightarrow> x = y"
  shows "find P ys = find P xs"
proof -
  have sets: "set ys = set xs" using assms(1) by (rule mset_eq_setD)
  show ?thesis
  proof (cases "find P xs")
    case None
    then have "find P ys = None" using sets by (simp add: find_None_iff)
    with None show ?thesis by simp
  next
    case (Some x)
    then have x: "x \<in> set xs" "P x" by (auto simp: find_Some_iff)
    then obtain y where y: "find P ys = Some y" using sets by (cases "find P ys") (auto simp: find_None_iff)
    then have "y \<in> set xs" "P y" using sets by (auto simp: find_Some_iff)
    with x assms(2) have "x = y" by blast
    with Some y show ?thesis by simp
  qed
qed

text \<open>
  C37: The GPUs predicted for a plan do not depend on the order in which Go ranges over the model patterns; there is
  none for a plan without GPUs, and else one template in a pool of the plan's own, with as many devices as the
  plan reports, all of different names and of the same model.
\<close>

lemma gpu_resources_determined:
  assumes "\<And>l. mset (order l) = mset l" "\<And>l. mset (order' l) = mset l"
  shows "nvidiaGPUResources order info = nvidiaGPUResources order' info \<and>
    (if LtGPUs info \<le> 0 then nvidiaGPUResources order info = []
     else \<exists>devices. nvidiaGPUResources order info =
         [\<lparr>SliceDriver = ''gpu.nvidia.com'', SlicePool = ''gpus-'' @ LtID info, SliceDevices = devices\<rparr>] \<and>
       int (length devices) = LtGPUs info \<and> distinct (map DeviceName devices) \<and>
       (\<forall>d \<in> set devices. \<forall>d' \<in> set devices. DeviceAttributes d = DeviceAttributes d' \<and> DeviceCapacity d = DeviceCapacity d'))"
proof -
  have "x = y" if "x \<in> set nvidiaGPUMetadata" "y \<in> set nvidiaGPUMetadata" "fst x (LtID info)" "fst y (LtID info)" for x y
    using that patterns_disjoint by (auto simp: nvidiaGPUMetadata_def)
  then have "find (\<lambda>x. fst x (LtID info)) (ord nvidiaGPUMetadata) = find (\<lambda>x. fst x (LtID info)) nvidiaGPUMetadata"
    if "\<And>l. mset (ord l) = mset l" for ord
    by (intro find_any_order that)
  from this [OF assms(1)] this [OF assms(2)]
  have "modelOf order (LtID info) = modelOf order' (LtID info)"
    by (simp only: modelOf_def case_prod_unfold)
  moreover have "distinct (map (\<lambda>i. ''gpu-'' @ Itoa (int i)) [0..<nat (LtGPUs info)])"
    by (simp add: distinct_map inj_on_def Itoa_inj)
  ultimately show ?thesis by (auto simp: nvidiaGPUResources_def Let_def comp_def)
qed

section \<open>Requirements\<close>

lemma addRequirement_new: "map_of reqs k = None \<Longrightarrow> addRequirement reqs (NewRequirement k v) = reqs @ [NewRequirement k v]"
  by (induction reqs) (auto simp: addRequirement_def NewRequirement_def split: if_splits)

lemma NewRequirements_distinct:
  assumes "distinct (map fst rs)" "\<forall>r \<in> set rs. ReqKey (snd r) = fst r"
  shows "NewRequirements rs = rs"
proof -
  have "fold (\<lambda>r reqs. addRequirement reqs r) rs reqs = reqs @ rs" if "distinct (map fst (reqs @ rs))" for reqs
    using that
  proof (induction rs arbitrary: reqs)
    case (Cons r rs)
    then have "map_of reqs (fst r) = None" by (auto simp: map_of_eq_None_iff)
    then have "addRequirement reqs r = reqs @ [r]"
      by (cases r, induction reqs) (auto simp: addRequirement_def split: if_splits)
    with Cons show ?case by simp
  qed simp
  from this [of "[]"] assms(1) show ?thesis by (simp add: NewRequirements_def)
qed

definition planLabels :: "LinodeType \<Rightarrow> string \<Rightarrow> tagmap" where
  "planLabels info home =
     [(LabelInstanceTypeStable, LtID info), (LabelTopologyRegion, home), (LabelBlockStorageCSIRegion, home),
      (LabelTopologyZone, home), (CapacityTypeLabelKey, ''on-demand''), (LabelArchStable, ''amd64''), (LabelOSStable, ''linux''),
      (LabelInstanceCPU, Itoa (LtVCPUs info)), (LabelInstanceMemory, Itoa (LtMemory info)),
      (LabelInstanceTransfer, Itoa (LtTransfer info)), (LabelInstanceNetworkOut, Itoa (LtNetworkOut info)),
      (LabelInstanceClass, LtClass info), (LabelInstanceGPUCount, Itoa (LtGPUs info)),
      (LabelInstanceAcceleratedDevicesCount, Itoa (LtAcceleratedDevices info)), (LabelInstanceDisk, Itoa (LtDisk info))] @
     (case split_on (CHR ''-'') (LtID info) of
        g # c # rest \<Rightarrow> (LabelInstanceGeneration, TrimPrefix g ''g'') #
          (case rest of name # _ \<Rightarrow> if c = ''gpu'' then [(LabelInstanceGPUName, name)] else [] | [] \<Rightarrow> [])
      | _ \<Rightarrow> [])"

definition planLabelKeys :: "string list" where
  "planLabelKeys = [LabelInstanceTypeStable, LabelTopologyRegion, LabelBlockStorageCSIRegion, LabelTopologyZone, CapacityTypeLabelKey,
     LabelArchStable, LabelOSStable, LabelInstanceCPU, LabelInstanceMemory, LabelInstanceTransfer, LabelInstanceNetworkOut,
     LabelInstanceClass, LabelInstanceGPUCount, LabelInstanceAcceleratedDevicesCount, LabelInstanceDisk,
     LabelInstanceGeneration, LabelInstanceGPUName]"

lemma distinct_planLabelKeys: "distinct planLabelKeys"
  by code_simp

lemma computeRequirements_plan:
  "computeRequirements info home = map (\<lambda>(k, v). NewRequirement k v) (planLabels info home)"
proof -
  note keys = distinct_planLabelKeys [unfolded planLabelKeys_def, simplified]
  have fst_new: "fst (NewRequirement k v) = k" "ReqKey (snd (NewRequirement k v)) = k" for k v
    by (simp_all add: NewRequirement_def)
  have grow: "addRequirement (map (\<lambda>(k, v). NewRequirement k v) m) (NewRequirement k v) =
      map (\<lambda>(k, v). NewRequirement k v) (m @ [(k, v)])" if "k \<notin> fst ` set m" for m k v
  proof -
    have "map_of (map (\<lambda>(k, v). NewRequirement k v) m) k = None"
      using that by (force simp: map_of_eq_None_iff NewRequirement_def)
    from addRequirement_new [OF this] show ?thesis by simp
  qed
  define base :: tagmap where "base = take 15 (planLabels info home)"
  have base: "base = [(LabelInstanceTypeStable, LtID info), (LabelTopologyRegion, home), (LabelBlockStorageCSIRegion, home),
      (LabelTopologyZone, home), (CapacityTypeLabelKey, ''on-demand''), (LabelArchStable, ''amd64''), (LabelOSStable, ''linux''),
      (LabelInstanceCPU, Itoa (LtVCPUs info)), (LabelInstanceMemory, Itoa (LtMemory info)),
      (LabelInstanceTransfer, Itoa (LtTransfer info)), (LabelInstanceNetworkOut, Itoa (LtNetworkOut info)),
      (LabelInstanceClass, LtClass info), (LabelInstanceGPUCount, Itoa (LtGPUs info)),
      (LabelInstanceAcceleratedDevicesCount, Itoa (LtAcceleratedDevices info)), (LabelInstanceDisk, Itoa (LtDisk info))]"
    by (simp add: base_def planLabels_def)
  have same: "NewRequirements (map (\<lambda>(k, v). NewRequirement k v) base) = map (\<lambda>(k, v). NewRequirement k v) base"
    by (rule NewRequirements_distinct) (use keys in \<open>simp_all add: base fst_new\<close>)
  have comp: "computeRequirements info home =
      (let reqs = map (\<lambda>(k, v). NewRequirement k v) base; parts = split_on (CHR ''-'') (LtID info)
       in if length parts \<ge> 2
          then let reqs = addRequirement reqs (NewRequirement LabelInstanceGeneration (TrimPrefix (parts ! 0) ''g''))
               in if parts ! 1 = ''gpu'' \<and> length parts \<ge> 3 then addRequirement reqs (NewRequirement LabelInstanceGPUName (parts ! 2)) else reqs
          else reqs)"
    by (simp only: computeRequirements_def same [unfolded base list.map prod.case] base list.map prod.case)
  have gen: "LabelInstanceGeneration \<notin> fst ` set base" "LabelInstanceGPUName \<notin> fst ` set (base @ [(LabelInstanceGeneration, x)])" for x
    using keys by (auto simp: base)
  have plan: "planLabels info home = base @ drop 15 (planLabels info home)" by (simp add: base_def)
  show ?thesis
  proof (cases "split_on (CHR ''-'') (LtID info)")
    case (Cons p parts)
    then show ?thesis
    proof (cases parts)
      case (Cons q rest)
      with \<open>split_on _ _ = p # parts\<close> show ?thesis
        by (subst plan, cases rest) (simp_all add: comp Let_def grow [OF gen(1)] grow [OF gen(2)] planLabels_def del: map_append)
    qed (subst plan, simp add: comp planLabels_def)
  qed (subst plan, simp add: comp planLabels_def)
qed

lemma wf_planLabels: "wf_map (planLabels info home)"
proof -
  have "\<exists>n \<in> {15, 16, 17}. map fst (planLabels info home) = take n planLabelKeys"
    by (simp add: planLabels_def planLabelKeys_def split: list.split)
  then show ?thesis using distinct_take [OF distinct_planLabelKeys] by auto
qed

lemma typeLabels_plan:
  assumes "wf_map m" "reservationLabel c \<notin> set (map fst m)"
  shows "map_of (typeLabels c (map (\<lambda>(k, v). NewRequirement k v) m)) = map_of m"
proof -
  have all: "filter (\<lambda>(key, r). length (ReqValues r) = 1 \<and> ReqKey r \<noteq> reservationLabel c) (map (\<lambda>(k, v). NewRequirement k v) m) =
      map (\<lambda>(k, v). NewRequirement k v) m"
    using assms(2) by (force simp: filter_id_conv NewRequirement_def)
  have "map_of (fold (\<lambda>(key, r). AList.update key (hd (ReqValues r))) (map (\<lambda>(k, v). NewRequirement k v) m) l) = map_of l ++ map_of m" for l
    using assms(1)
  proof (induction m arbitrary: l)
    case (Cons kv m)
    obtain k v where kv: "kv = (k, v)" by fastforce
    from Cons.prems have "map_of m k = None" by (simp add: kv map_of_eq_None_iff)
    with Cons show ?case by (auto simp: kv NewRequirement_def update_conv' map_add_def fun_eq_iff split: option.split)
  qed simp
  from this [of "[]"] show ?thesis unfolding typeLabels_def all by simp
qed

section \<open>Panics\<close>

lemma mustParseAll_None: "mustParseAll P m = None \<longleftrightarrow> (\<exists>v \<in> set (map snd m). ParseQuantity P v = None)"
proof (induction m)
  case (Cons kv m)
  then show ?case
    by (cases kv; cases "ParseQuantity P (snd kv)"; cases "mustParseAll P m") auto
qed simp

text \<open>A signal in percent is a number, of which the part of the capacity is finite in float64; any other is a quantity.\<close>

definition signal_parses :: "parsers \<Rightarrow> quantity \<Rightarrow> string \<Rightarrow> bool" where
  "signal_parses P capacity v \<longleftrightarrow>
     (if v \<noteq> [] \<and> last v = CHR ''%''
      then (case ParseFloat P (trimPercent v) of None \<Rightarrow> False
            | Some p \<Rightarrow> p = 100 \<or> finite64 (fl (fl (fl capacity / 100) * p)))
      else ParseQuantity P v \<noteq> None)"

lemma computeEvictionSignal_None: "computeEvictionSignal P capacity v = None \<longleftrightarrow> \<not> signal_parses P capacity v"
proof -
  have zero: "finite64 (fl 0)" by (simp add: fl_def finite64_def)
  show ?thesis
    by (cases "ParseFloat P (trimPercent v)") (simp_all add: computeEvictionSignal_def signal_parses_def mustParsePercentage_def Let_def zero)
qed

definition signals_parse :: "parsers \<Rightarrow> quantity \<Rightarrow> string list \<Rightarrow> tagmap \<Rightarrow> bool" where
  "signals_parse P capacity signals m \<longleftrightarrow>
     list_all (\<lambda>s. case map_of m s of None \<Rightarrow> True | Some v \<Rightarrow> signal_parses P capacity v) signals"

lemma signalLoop_None: "signalLoop P capacity m t ss = None \<longleftrightarrow> \<not> signals_parse P capacity ss m"
proof (induction ss arbitrary: t)
  case (Cons s ss)
  then show ?case
  proof (cases "map_of m s")
    case (Some v)
    with Cons computeEvictionSignal_None [of P capacity v] show ?thesis
      by (cases "computeEvictionSignal P capacity v") (auto simp: signals_parse_def)
  qed (simp add: signals_parse_def)
qed (simp add: signals_parse_def)

text \<open>The signals of one map: that on memory, and the two on storage.\<close>

definition thresholds_parse :: "parsers \<Rightarrow> quantity \<Rightarrow> quantity \<Rightarrow> tagmap \<Rightarrow> bool" where
  "thresholds_parse P mem storage m \<longleftrightarrow> signals_parse P mem [MemoryAvailable] m \<and> signals_parse P storage [nodeFSAvailable, imageFSAvailable] m"

lemma overrideLoop_None:
  "overrideLoop P mem storage override ms = None \<longleftrightarrow> \<not> list_all (thresholds_parse P mem storage) ms"
proof (induction ms arbitrary: override)
  case (Cons m ms)
  have first: "thresholds_parse P mem storage m \<longleftrightarrow>
      (case map_of m MemoryAvailable of None \<Rightarrow> True | Some v \<Rightarrow> computeEvictionSignal P mem v \<noteq> None) \<and>
      storageEvictionSignal P storage m \<noteq> None"
    unfolding storageEvictionSignal_def signalLoop_None computeEvictionSignal_None
    by (simp add: thresholds_parse_def signals_parse_def split: option.split)
  show ?case
    by (cases "map_of m MemoryAvailable"; cases "storageEvictionSignal P storage m";
        cases "computeEvictionSignal P mem (the (map_of m MemoryAvailable))")
      (simp_all add: Cons.IH first)
qed simp

definition listOf :: "'a option \<Rightarrow> 'a list" where
  "listOf x = (case x of None \<Rightarrow> [] | Some y \<Rightarrow> [y])"

text \<open>The thresholds that hold without a hard one are finite for the storage of every plan.\<close>

lemma defaults_parse:
  assumes "ParseFloat P ''10'' = Some 10" "ParseFloat P ''15'' = Some 15" "\<bar>LtDisk info\<bar> < 2 ^ 63"
  shows "signal_parses P (ephemeralStorage info) ''10%''" "signal_parses P (ephemeralStorage info) ''15%''"
proof -
  have "(of_int \<bar>LtDisk info\<bar> :: rat) \<le> of_int (2 ^ 63)" using assms(3) by (simp only: of_int_le_iff less_imp_le)
  then have "\<bar>of_int (LtDisk info) :: rat\<bar> \<le> 2 ^ 63" by simp
  then have "\<bar>ephemeralStorage info\<bar> \<le> 2 ^ 83" by (simp add: ephemeralStorage_def abs_mult MiB_def)
  from fl_double [OF this] have "\<bar>fl (ephemeralStorage info) / 100\<bar> \<le> 2 ^ 84" by (simp add: abs_divide pos_divide_le_eq)
  from fl_double [OF this] have part: "\<bar>fl (fl (ephemeralStorage info) / 100)\<bar> \<le> 2 ^ 85" by simp
  have finite: "finite64 (fl (fl (fl (ephemeralStorage info) / 100) * p))" if "\<bar>p\<bar> \<le> 16" for p
  proof -
    have "\<bar>fl (fl (ephemeralStorage info) / 100) * p\<bar> \<le> 2 ^ 85 * 16"
      unfolding abs_mult by (rule mult_mono [OF part that]) simp_all
    from fl_double [OF this] have "\<bar>fl (fl (fl (ephemeralStorage info) / 100) * p)\<bar> \<le> 2 ^ 90" by simp
    also have "(2 :: rat) ^ 90 < 2 ^ 1024" by (rule power_strict_increasing) simp_all
    finally show ?thesis by (simp only: finite64_def)
  qed
  show "signal_parses P (ephemeralStorage info) ''10%''" "signal_parses P (ephemeralStorage info) ''15%''"
    using finite [of 10] finite [of 15] assms(1,2) by (simp_all add: signal_parses_def trimPercent_def)
qed

lemma evictionThreshold_None:
  assumes "ParseFloat P ''10'' = Some 10" "ParseFloat P ''15'' = Some 15" "\<bar>LtDisk info\<bar> < 2 ^ 63"
  shows "evictionThreshold P mem (ephemeralStorage info) hard soft = None \<longleftrightarrow>
    \<not> list_all (thresholds_parse P mem (ephemeralStorage info)) (listOf hard @ listOf soft)"
proof -
  let ?storage = "ephemeralStorage info"
  have percent: "computeEvictionSignal P ?storage ''10%'' \<noteq> None" "computeEvictionSignal P ?storage ''15%'' \<noteq> None"
    using defaults_parse [OF assms] by (simp_all only: computeEvictionSignal_None) simp_all
  have "evictionThreshold P mem ?storage hard soft = None \<longleftrightarrow> overrideLoop P mem ?storage [] (listOf hard @ listOf soft) = None"
    using percent unfolding evictionThreshold_def listOf_def Let_def
    by (cases "overrideLoop P mem ?storage [] (listOf hard @ listOf soft)") (auto simp: listOf_def)
  then show ?thesis by (simp only: overrideLoop_None)
qed

lemma kubeReservedResources_None: "kubeReservedResources P cpus podCount m = None \<longleftrightarrow> mustParseAll P m = None"
  by (cases "mustParseAll P m") (simp_all add: kubeReservedResources_def Let_def)

lemma Resolve_None:
  "Resolve R info nodeClass = None \<longleftrightarrow> (let kc = kubeletOf nodeClass; P = rParsers R
     in kubeReservedResources P (cpu info) (pods info (MaxPods kc) (PodsPerCore kc)) (KubeReserved kc) = None \<or>
        systemReservedResources P (SystemReserved kc) = None \<or>
        evictionThreshold P (memory (rPercent R) info) (ephemeralStorage info) (EvictionHard kc) (EvictionSoft kc) = None)"
  by (auto simp: Resolve_def NewInstanceType_def Let_def split: bind_splits)

text \<open>
  C39: Resolving a plan panics exactly when a string of the kubelet settings of the NodeClass does not parse:
  a reserved quantity, or one of the three eviction signals that are read, as a quantity, or as a percentage, of which the
  part of the capacity has to be finite in float64. Nothing the API server checks keeps such a string out.
\<close>

lemma Resolve_panics_iff:
  assumes "ParseFloat (rParsers R) ''10'' = Some 10" "ParseFloat (rParsers R) ''15'' = Some 15" "\<bar>LtDisk info\<bar> < 2 ^ 63"
  shows "Resolve R info nodeClass = None \<longleftrightarrow>
    (let kc = kubeletOf nodeClass; P = rParsers R
     in \<not> (list_all (\<lambda>v. ParseQuantity P v \<noteq> None) (map snd (KubeReserved kc) @ map snd (SystemReserved kc)) \<and>
        list_all (thresholds_parse P (memory (rPercent R) info) (ephemeralStorage info)) (listOf (EvictionHard kc) @ listOf (EvictionSoft kc))))"
  unfolding Resolve_None Let_def kubeReservedResources_None systemReservedResources_def mustParseAll_None evictionThreshold_None [OF assms]
  by (auto simp: list_all_iff)

end
