(* ===== verification/OfferingsFresh.thy ===== *)
theory OfferingsFresh
  imports TypeProvider InstanceTypeProps
begin

text \<open>
  The offerings that \<open>List\<close> shows while marks are set and expire, availability data arrive and caches fill:
  a step relation over the provider, the marks and the clock, and its invariant.
\<close>

section \<open>What fresh offerings are\<close>

definition offeringRegion :: "offering \<Rightarrow> string list" where
  "offeringRegion of' = requirementValues (OffRequirements of') LabelTopologyRegion"

definition offerings_fresh :: "('oc, 'u) offering_provider \<Rightarrow> (string, goset) gomap \<Rightarrow> 'u UnavailableOfferings \<Rightarrow> int \<Rightarrow> string \<Rightarrow>
    offering list \<Rightarrow> bool" where
  "offerings_fresh O' avail u now name ofs \<longleftrightarrow>
     (\<exists>rs. map offeringRegion ofs = map (\<lambda>r. [r]) rs \<and> distinct rs \<and> set rs = {r. \<exists>n. hasRegion avail n r}) \<and>
     (\<forall>of' \<in> set ofs. \<forall>r. Available of' \<longrightarrow> offeringRegion of' = [r] \<longrightarrow>
        hasRegion avail name r \<and> \<not> IsUnavailable (oMarkOps O') u now name r)"

lemma offeringRegion_new [simp]: "offeringRegion (newOffering O' name info avail u now r) = [r]"
proof -
  have "NewRequirements [NewRequirement LabelTopologyRegion r, NewRequirement LabelTopologyZone r, NewRequirement CapacityTypeLabelKey ''on-demand'']
    = [NewRequirement LabelTopologyRegion r, NewRequirement LabelTopologyZone r, NewRequirement CapacityTypeLabelKey ''on-demand'']"
    by (rule NewRequirements_distinct) (simp_all add: NewRequirement_def type_label_defs)
  then show ?thesis by (simp add: offeringRegion_def newOffering_def requirementValues_def NewRequirement_def)
qed

lemma Available_new [simp]: "Available (newOffering O' name info avail u now r) \<longleftrightarrow>
    hasRegion avail name r \<and> \<not> IsUnavailable (oMarkOps O') u now name r"
  by (simp add: newOffering_def)

lemma new_offerings_fresh:
  assumes "mset rs = mset all" "distinct all" "set all = {r. \<exists>n. hasRegion avail n r}"
  shows "offerings_fresh O' avail u now name (map (newOffering O' name info avail u now) rs)"
proof -
  have "distinct rs" "set rs = set all" using assms(1,2) mset_eq_imp_distinct_iff mset_eq_setD by blast+
  with assms(3) show ?thesis
    unfolding offerings_fresh_def
    by (intro conjI exI [of _ rs]) auto
qed

section \<open>The invariant of the offering cache\<close>

text \<open>
  Of each type the cache holds, the number it was computed under is \<open>n\<close> marks behind, and when \<open>n\<close> is 0 it is fresh.
\<close>

definition offerKey :: "('oc, 'u) offering_provider \<Rightarrow> string \<Rightarrow> string \<Rightarrow> string" where
  "offerKey O' home name = name @ ''-'' @ regionsHash O' [home]"

definition cached_fresh :: "('oc, 'u) offering_provider \<Rightarrow> string \<Rightarrow> (string, goset) gomap \<Rightarrow> 'u UnavailableOfferings \<Rightarrow> int \<Rightarrow>
    (string \<Rightarrow> nat) \<Rightarrow> 'oc offering_state \<Rightarrow> bool" where
  "cached_fresh O' home avail u now churn os \<longleftrightarrow>
     (\<forall>name last. plain_name name \<longrightarrow> map_of (lastUnavailableOfferingsSeqNum os) name = Some last \<longrightarrow>
        (\<exists>n. SeqNum u name = last + of_nat n \<and> n \<le> churn name \<and>
          (n = 0 \<longrightarrow> (\<forall>ofs. CGet (oCacheOps O') (offeringsCache os) now (offerKey O' home name) = Some ofs \<longrightarrow>
             offerings_fresh O' avail u now name ofs))))"

lemma cached_freshD:
  assumes "cached_fresh O' home avail u now churn os" "plain_name name" "churn name < 2 ^ 64"
    and "map_of (lastUnavailableOfferingsSeqNum os) name = Some (SeqNum u name)"
    and "CGet (oCacheOps O') (offeringsCache os) now (offerKey O' home name) = Some ofs"
  shows "offerings_fresh O' avail u now name ofs"
proof -
  from assms obtain n where n: "SeqNum u name = SeqNum u name + of_nat n" "n \<le> churn name" "n = 0 \<longrightarrow> offerings_fresh O' avail u now name ofs"
    unfolding cached_fresh_def by blast
  then have "2 ^ 64 dvd n" by (simp add: word_of_nat_eq_0_iff [where 'a = 64, simplified])
  with n(2,3) assms(3) show ?thesis using dvd_imp_le by fastforce
qed

text \<open>What keeps it: marks, time, and data that say the same.\<close>

lemma offerings_fresh_kept:
  assumes "offerings_fresh O' avail u now name ofs"
    and "\<And>r. \<not> IsUnavailable (oMarkOps O') u now name r \<Longrightarrow> \<not> IsUnavailable (oMarkOps O') u' now' name r"
  shows "offerings_fresh O' avail u' now' name ofs"
  using assms unfolding offerings_fresh_def by blast

lemma cached_fresh_mark:
  assumes "cache_ok (oMarkOps O') ttl" "keys_ok (oMarkOps O') u" "uo_plain ev" "uo_before now ev"
    and "uo_step (oMarkOps O') ev u = Some u'" "cached_fresh O' home avail u now churn os"
  shows "cached_fresh O' home avail u' now (\<lambda>i. churn i + uo_changes (oMarkOps O') i ev u) os"
  unfolding cached_fresh_def
proof (intro allI impI)
  fix name last assume name: "plain_name name" and last: "map_of (lastUnavailableOfferingsSeqNum os) name = Some last"
  let ?d = "uo_changes (oMarkOps O') name ev u"
  from uo_step_ok [OF assms(1-3) name] assms(4,5) have u': "SeqNum u' name = SeqNum u name + of_nat ?d"
    "?d = 0 \<longrightarrow> (\<forall>r. IsUnavailable (oMarkOps O') u' now name r = IsUnavailable (oMarkOps O') u now name r)" by auto
  from assms(6) name last obtain n where n: "SeqNum u name = last + of_nat n" "n \<le> churn name"
    "n = 0 \<longrightarrow> (\<forall>ofs. CGet (oCacheOps O') (offeringsCache os) now (offerKey O' home name) = Some ofs \<longrightarrow> offerings_fresh O' avail u now name ofs)"
    unfolding cached_fresh_def by blast
  from u'(2) n(3) offerings_fresh_kept [of O' avail u now name _ u' now]
  have "n + ?d = 0 \<longrightarrow> (\<forall>ofs. CGet (oCacheOps O') (offeringsCache os) now (offerKey O' home name) = Some ofs \<longrightarrow>
      offerings_fresh O' avail u' now name ofs)" by auto
  with u'(1) n(1,2) show "\<exists>n. SeqNum u' name = last + of_nat n \<and> n \<le> churn name + ?d \<and>
      (n = 0 \<longrightarrow> (\<forall>ofs. CGet (oCacheOps O') (offeringsCache os) now (offerKey O' home name) = Some ofs \<longrightarrow> offerings_fresh O' avail u' now name ofs))"
    by (intro exI [of _ "n + ?d"]) (simp add: add.assoc)
qed

lemma cached_fresh_weaken:
  assumes "cached_fresh O' home avail u now churn os"
    and "lastUnavailableOfferingsSeqNum os' = lastUnavailableOfferingsSeqNum os"
    and "\<And>name ofs. CGet (oCacheOps O') (offeringsCache os') now' (offerKey O' home name) = Some ofs \<Longrightarrow>
      CGet (oCacheOps O') (offeringsCache os) now (offerKey O' home name) = Some ofs \<and>
      (offerings_fresh O' avail u now name ofs \<longrightarrow> offerings_fresh O' avail' u now' name ofs)"
  shows "cached_fresh O' home avail' u now' churn os'"
  unfolding cached_fresh_def assms(2)
proof (intro allI impI)
  fix name last assume "plain_name name" "map_of (lastUnavailableOfferingsSeqNum os) name = Some last"
  with assms(1) obtain n where "SeqNum u name = last + of_nat n" "n \<le> churn name"
    "n = 0 \<longrightarrow> (\<forall>ofs. CGet (oCacheOps O') (offeringsCache os) now (offerKey O' home name) = Some ofs \<longrightarrow> offerings_fresh O' avail u now name ofs)"
    unfolding cached_fresh_def by blast
  with assms(3) [of name] show "\<exists>n. SeqNum u name = last + of_nat n \<and> n \<le> churn name \<and>
      (n = 0 \<longrightarrow> (\<forall>ofs. CGet (oCacheOps O') (offeringsCache os') now' (offerKey O' home name) = Some ofs \<longrightarrow> offerings_fresh O' avail' u now' name ofs))"
    by (intro exI [of _ n]) blast
qed

lemma cached_fresh_tick:
  assumes "cache_ok (oMarkOps O') ttl" "cache_ok (oCacheOps O') ttl'" "now \<le> t" "cached_fresh O' home avail u now churn os"
  shows "cached_fresh O' home avail u t churn os"
proof (rule cached_fresh_weaken [OF assms(4) refl])
  fix name ofs assume get: "CGet (oCacheOps O') (offeringsCache os) t (offerKey O' home name) = Some ofs"
  have "\<not> IsUnavailable (oMarkOps O') u now name r \<Longrightarrow> \<not> IsUnavailable (oMarkOps O') u t name r" for r
    using CGet_antimono [OF assms(1,3)] unfolding IsUnavailable_def by fastforce
  with offerings_fresh_kept CGet_antimono [OF assms(2,3) get]
  show "CGet (oCacheOps O') (offeringsCache os) now (offerKey O' home name) = Some ofs \<and>
      (offerings_fresh O' avail u now name ofs \<longrightarrow> offerings_fresh O' avail u t name ofs)" by blast
qed

lemma cached_fresh_flush:
  assumes "cache_ok (oCacheOps O') ttl" "cached_fresh O' home avail u now churn os"
  shows "cached_fresh O' home avail' u now churn (InvalidateCache O' os)"
  by (rule cached_fresh_weaken [OF assms(2)]) (simp_all add: InvalidateCache_def CGet_CFlush [OF assms(1)])

lemma offerings_fresh_same: "hasRegion avail' = hasRegion avail \<Longrightarrow> offerings_fresh O' avail' = offerings_fresh O' avail"
  unfolding offerings_fresh_def [abs_def] by simp

lemma cached_fresh_same:
  assumes "hasRegion avail' = hasRegion avail"
  shows "cached_fresh O' home avail' = cached_fresh O' home avail"
  by (intro ext) (simp only: cached_fresh_def offerings_fresh_same [OF assms])

section \<open>Listing\<close>

text \<open>The regions the provider knows are those of its availability data.\<close>

definition regions_known :: "(string, goset) gomap \<Rightarrow> goset \<Rightarrow> bool" where
  "regions_known avail all \<longleftrightarrow> distinct all \<and> set all = {r. \<exists>n. hasRegion avail n r}"

definition at_home :: "string \<Rightarrow> instance_type \<Rightarrow> bool" where
  "at_home home it \<longleftrightarrow> requirementValues (ItRequirements it) LabelTopologyRegion = [home]"

lemma createOfferings_fresh:
  assumes "cache_ok (oCacheOps O') ttl" "\<And>xs. mset (oRange O' xs) = mset xs" "regions_known avail all"
    and "cached_fresh O' home avail u now churn os" "at_home home it"
    and run: "createOfferings O' it info all avail u now os = (ofs, os')"
  shows "cached_fresh O' home avail u now churn os'"
    and "plain_name (ItName it) \<Longrightarrow> churn (ItName it) < 2 ^ 64 \<Longrightarrow> offerings_fresh O' avail u now (ItName it) ofs"
proof -
  let ?key = "offerKey O' home (ItName it)" and ?new = "map (newOffering O' (ItName it) info avail u now) (oRange O' all)"
  have key: "cacheKeyFromInstanceType O' it = ?key"
    using assms(5) by (simp add: cacheKeyFromInstanceType_def at_home_def offerKey_def)
  have new: "offerings_fresh O' avail u now (ItName it) ?new"
    using assms(3) unfolding regions_known_def by (elim conjE) (rule new_offerings_fresh [OF assms(2)])
  have both: "cached_fresh O' home avail u now churn os' \<and>
    (plain_name (ItName it) \<longrightarrow> churn (ItName it) < 2 ^ 64 \<longrightarrow> offerings_fresh O' avail u now (ItName it) ofs)"
  proof (cases "if map_of (lastUnavailableOfferingsSeqNum os) (ItName it) = Some (SeqNum u (ItName it))
      then CGet (oCacheOps O') (offeringsCache os) now ?key else None")
    case (Some old)
    with run have "ofs = old" "os' = os" by (simp_all add: createOfferings_def key Let_def)
    moreover from Some have "map_of (lastUnavailableOfferingsSeqNum os) (ItName it) = Some (SeqNum u (ItName it))"
      "CGet (oCacheOps O') (offeringsCache os) now ?key = Some old" by (simp_all split: if_splits)
    ultimately show ?thesis using assms(4) cached_freshD [OF assms(4)] by blast
  next
    case None
    with run have r: "ofs = ?new" "os' = os\<lparr>offeringsCache := CSet (oCacheOps O') (offeringsCache os) now ?key ?new,
        lastUnavailableOfferingsSeqNum := AList.update (ItName it) (SeqNum u (ItName it)) (lastUnavailableOfferingsSeqNum os)\<rparr>"
      by (auto simp: createOfferings_def key Let_def)
    have "cached_fresh O' home avail u now churn os'"
      unfolding cached_fresh_def
    proof (intro allI impI)
      fix name last
      assume name: "plain_name name" and last: "map_of (lastUnavailableOfferingsSeqNum os') name = Some last"
      show "\<exists>n. SeqNum u name = last + of_nat n \<and> n \<le> churn name \<and>
        (n = 0 \<longrightarrow> (\<forall>ofs. CGet (oCacheOps O') (offeringsCache os') now (offerKey O' home name) = Some ofs \<longrightarrow> offerings_fresh O' avail u now name ofs))"
      proof (cases "name = ItName it")
        case True
        with last new show ?thesis
          by (intro exI [of _ 0]) (auto simp: r update_conv' CGet_CSet [OF assms(1)] split: if_splits)
      next
        case False
        with last have "map_of (lastUnavailableOfferingsSeqNum os) name = Some last" by (simp add: r update_conv')
        moreover from False have "offerKey O' home name \<noteq> ?key" by (simp add: offerKey_def)
        ultimately show ?thesis using assms(4) name unfolding cached_fresh_def by (simp add: r CGet_CSet [OF assms(1)])
      qed
    qed
    with new r(1) show ?thesis by blast
  qed
  then show "cached_fresh O' home avail u now churn os'" by blast
  show "plain_name (ItName it) \<Longrightarrow> churn (ItName it) < 2 ^ 64 \<Longrightarrow> offerings_fresh O' avail u now (ItName it) ofs"
    using both by blast
qed

lemma InjectOfferings_fresh:
  assumes "cache_ok (oCacheOps O') ttl" "\<And>xs. mset (oRange O' xs) = mset xs" "regions_known avail all"
    and "cached_fresh O' home avail u now churn os" "\<forall>it \<in> set its. at_home home it"
    and "InjectOfferings O' its info all avail u now os = (its', os')"
  shows "cached_fresh O' home avail u now churn os' \<and>
    (\<forall>it \<in> set its'. plain_name (ItName it) \<longrightarrow> churn (ItName it) < 2 ^ 64 \<longrightarrow> offerings_fresh O' avail u now (ItName it) (ItOfferings it))"
  using assms(4-6)
proof (induction its arbitrary: os its')
  case (Cons it its)
  obtain ofs os1 where one: "createOfferings O' it info all avail u now os = (ofs, os1)" by fastforce
  obtain rest os2 where rest: "InjectOfferings O' its info all avail u now os1 = (rest, os2)" by fastforce
  from Cons.prems(2) have "at_home home it" by simp
  note c = createOfferings_fresh [OF assms(1-3) Cons.prems(1) this one]
  from Cons.prems(3) one rest have "its' = it\<lparr>ItOfferings := ofs\<rparr> # rest" "os' = os2" by simp_all
  from Cons.prems(2) have "\<forall>it \<in> set its. at_home home it" by simp
  from Cons.IH [OF c(1) this] rest \<open>os' = os2\<close> \<open>its' = _\<close> c(2) show ?case by auto
qed simp

text \<open>Cached instance types are resolved ones, which are all at home.\<close>

definition types_at_home :: "('ic, 'dc, 'oc, 'u, 'm) type_provider \<Rightarrow> ('ic, 'dc, 'oc, 'm) type_state \<Rightarrow> bool" where
  "types_at_home T s \<longleftrightarrow> (\<forall>t key its. CGet (tTypesOps T) (instanceTypesCache s) t key = Some its \<longrightarrow>
     (\<forall>it \<in> set its. at_home (rRegion (tResolver T)) it))"

lemma Resolve_at_home: "Resolve R info nodeClass = Some it \<Longrightarrow> at_home (rRegion R) it"
proof -
  have keys: "LabelInstanceTypeStable \<noteq> LabelTopologyRegion" by (simp add: type_label_defs)
  assume "Resolve R info nodeClass = Some it"
  then have "ItRequirements it = computeRequirements info (rRegion R)"
    by (auto simp: Resolve_def NewInstanceType_def Let_def bind_eq_Some_conv split: option.splits)
  with keys show ?thesis
    by (simp add: at_home_def requirementValues_def computeRequirements_plan planLabels_def NewRequirement_def)
qed

lemma getType_at_home: "getType T nodeClass name now s = Some (Inr it) \<Longrightarrow> at_home (rRegion (tResolver T)) it"
  by (auto simp: getType_def at_home_def dest: Resolve_at_home [unfolded at_home_def] split: option.splits)

lemma resolveAll_at_home: "resolveAll T nodeClass now s names = Some its \<Longrightarrow> \<forall>it \<in> set its. at_home (rRegion (tResolver T)) it"
proof (induction names arbitrary: its)
  case (Cons name names)
  then show ?case by (auto split: option.splits sum.splits dest: getType_at_home)
qed simp

lemma typesOf_at_home:
  assumes "cache_ok (tTypesOps T) ttl" "types_at_home T s" "typesOf T nodeClass now s = Some (its, s')"
  shows "types_at_home T s' \<and> (\<forall>it \<in> set its. at_home (rRegion (tResolver T)) it) \<and>
    (\<exists>c. s' = s\<lparr>instanceTypesCache := c\<rparr>)"
proof (cases "CGet (tTypesOps T) (instanceTypesCache s) now (typesKey T nodeClass)")
  case (Some item)
  with assms have "its = item" "s' = s" by (simp_all add: typesOf_def Let_def)
  with assms(2) Some show ?thesis
    unfolding types_at_home_def by (intro conjI exI [of _ "instanceTypesCache s"]) (blast | simp)+
next
  case None
  with assms(3) have "resolveAll T nodeClass now s (map fst (tInfoRange T (instanceTypesInfo s))) = Some its"
    "s' = s\<lparr>instanceTypesCache := CSet (tTypesOps T) (instanceTypesCache s) now (typesKey T nodeClass) its\<rparr>"
    by (simp_all add: typesOf_def Let_def split: option.splits)
  with assms(2) resolveAll_at_home [of T nodeClass now s _ its] show ?thesis
    by (auto simp: types_at_home_def CGet_CSet [OF assms(1)] split: if_splits)
qed

section \<open>The provider at work\<close>

text \<open>
  A configuration adds the marks, the clock and the service to the provider's state; \<open>churned\<close> is a ghost that counts
  the marks set, removed or evicted for a type.
\<close>

record ('ic, 'dc, 'oc, 'u, 'm, 'w) market =
  mWorld :: 'w
  mMarks :: "'u UnavailableOfferings"
  mState :: "('ic, 'dc, 'oc, 'm) type_state"
  mClock :: int
  mChurn :: "string \<Rightarrow> nat"

inductive market_step :: "('ic, 'dc, 'oc, 'u, 'm) type_provider \<Rightarrow> 'w linode_api \<Rightarrow> string \<Rightarrow>
    ('ic, 'dc, 'oc, 'u, 'm, 'w) market \<Rightarrow> ('ic, 'dc, 'oc, 'u, 'm, 'w) market \<Rightarrow> bool"
  for T api clusterRegion where
  mark: "uo_plain ev \<Longrightarrow> uo_before (mClock c) ev \<Longrightarrow> uo_step (oMarkOps (tOfferings T)) ev (mMarks c) = Some u \<Longrightarrow>
    market_step T api clusterRegion c (c\<lparr>mMarks := u, mChurn := (\<lambda>i. mChurn c i + uo_changes (oMarkOps (tOfferings T)) i ev (mMarks c))\<rparr>)"
| tick: "mClock c \<le> t \<Longrightarrow> market_step T api clusterRegion c (c\<lparr>mClock := t\<rparr>)"
| service: "market_step T api clusterRegion c (c\<lparr>mWorld := w\<rparr>)"
| types: "UpdateInstanceTypes T api (mWorld c, mState c) = (e, w, s) \<Longrightarrow>
    market_step T api clusterRegion c (c\<lparr>mWorld := w, mState := s\<rparr>)"
| availability: "UpdateInstanceTypeOfferings T api clusterRegion (mWorld c, mState c) = (e, w, s) \<Longrightarrow>
    market_step T api clusterRegion c (c\<lparr>mWorld := w, mState := s\<rparr>)"
| listed: "typeList T nodeClass (mMarks c) (mClock c) (mState c) = Some (r, s) \<Longrightarrow>
    market_step T api clusterRegion c (c\<lparr>mState := s\<rparr>)"
| observed: "market_step T api clusterRegion c
    (c\<lparr>mState := UpdateInstanceTypeCapacityFromNode T node nodeClass (mClock c) (mState c)\<rparr>)"

inductive_cases market_stepE: "market_step T api clusterRegion c c'"

text \<open>
  What Karpenter's change monitor promises, \<open>seen\<close> being the availability it was last shown: it may report a change
  where there is none, never the reverse.
\<close>

definition honest_monitor :: "'m change_monitor \<Rightarrow> ('m \<Rightarrow> (string, goset) gomap option) \<Rightarrow> bool" where
  "honest_monitor M seen \<longleftrightarrow>
     (\<forall>d m. fst (OfferingsChanged M d m) \<or> (\<exists>d'. seen m = Some d' \<and> hasRegion d' = hasRegion d)) \<and>
     (\<forall>d m. seen (snd (OfferingsChanged M d m)) = Some d) \<and>
     (\<forall>ts m. seen (snd (TypesChanged M ts m)) = seen m) \<and> (\<forall>rs m. seen (snd (RegionsChanged M rs m)) = seen m)"

text \<open>What the code relies on.\<close>

definition market_laws :: "('ic, 'dc, 'oc, 'u, 'm) type_provider \<Rightarrow> ('m \<Rightarrow> (string, goset) gomap option) \<Rightarrow> bool" where
  "market_laws T seen \<longleftrightarrow> (\<exists>ttl. cache_ok (oCacheOps (tOfferings T)) ttl) \<and> (\<exists>ttl. cache_ok (tTypesOps T) ttl) \<and>
     cache_ok (oMarkOps (tOfferings T)) UnavailableOfferingsTTL \<and> honest_monitor (tMonitor T) seen \<and>
     (\<forall>xs. mset (oRange (tOfferings T) xs) = mset xs) \<and> (\<forall>m. mset (tSetRange T m) = mset m)"

text \<open>A provider as it is built, with nothing marked.\<close>

definition market_start :: "('ic, 'dc, 'oc, 'u, 'm) type_provider \<Rightarrow> ('m \<Rightarrow> (string, goset) gomap option) \<Rightarrow>
    ('ic, 'dc, 'oc, 'u, 'm, 'w) market \<Rightarrow> bool" where
  "market_start T seen c \<longleftrightarrow> (\<exists>ec. mMarks c = NewUnavailableOfferings ec \<and> empty_cache (oMarkOps (tOfferings T)) ec) \<and>
     instanceTypesOfferings (mState c) = [] \<and> allRegions (mState c) = [] \<and> seen (changeMonitor (mState c)) = None \<and>
     empty_cache (tTypesOps T) (instanceTypesCache (mState c)) \<and> lastUnavailableOfferingsSeqNum (offeringState (mState c)) = []"

definition market_ok :: "('ic, 'dc, 'oc, 'u, 'm) type_provider \<Rightarrow> ('m \<Rightarrow> (string, goset) gomap option) \<Rightarrow>
    ('ic, 'dc, 'oc, 'u, 'm, 'w) market \<Rightarrow> bool" where
  "market_ok T seen c \<longleftrightarrow> keys_ok (oMarkOps (tOfferings T)) (mMarks c) \<and> types_at_home T (mState c) \<and>
     regions_known (instanceTypesOfferings (mState c)) (allRegions (mState c)) \<and>
     (\<forall>d. seen (changeMonitor (mState c)) = Some d \<longrightarrow> hasRegion (instanceTypesOfferings (mState c)) = hasRegion d) \<and>
     cached_fresh (tOfferings T) (rRegion (tResolver T)) (instanceTypesOfferings (mState c)) (mMarks c) (mClock c) (mChurn c)
       (offeringState (mState c))"

lemma hasRegion_Nil: "\<not> hasRegion [] n r"
  by (simp add: hasRegion_def)

lemma market_start_ok: "market_laws T seen \<Longrightarrow> market_start T seen c \<Longrightarrow> market_ok T seen c"
  by (auto simp: market_laws_def market_start_def market_ok_def keys_ok_def NewUnavailableOfferings_def empty_cache_def
      types_at_home_def regions_known_def hasRegion_Nil cached_fresh_def dest: CHas_CGet)

section \<open>Availability data\<close>

lemma insertRegion_set [simp]: "set (insertRegion r s) = insert r (set s)" "distinct (insertRegion r s) \<longleftrightarrow> distinct s"
  by (auto simp: insertRegion_def)

lemma wf_addAvailability: "wf_map m \<Longrightarrow> wf_map (addAvailability off m)"
  by (simp add: addAvailability_def Let_def distinct_update)

lemma wf_availability: "wf_map m \<Longrightarrow> wf_map (fold addAvailability offs m)"
  by (induction offs arbitrary: m) (simp_all add: wf_addAvailability)

lemma fold_insertRegion: "set (fold insertRegion rs all) = set rs \<union> set all" "distinct (fold insertRegion rs all) \<longleftrightarrow> distinct all"
  by (induction rs arbitrary: all) auto

lemma regionsOf_fold:
  "set (fold (\<lambda>(plan, rs) all. fold insertRegion rs all) m all) = (\<Union>(plan, rs) \<in> set m. set rs) \<union> set all"
  "distinct (fold (\<lambda>(plan, rs) all. fold insertRegion rs all) m all) \<longleftrightarrow> distinct all"
  by (induction m arbitrary: all) (auto simp: fold_insertRegion)

lemma regions_known_regionsOf:
  assumes "wf_map avail" "mset m = mset avail"
  shows "regions_known avail (regionsOf m)"
proof -
  have "set m = set avail" using assms(2) by (rule mset_eq_setD)
  moreover have "hasRegion avail n r \<longleftrightarrow> (\<exists>rs. (n, rs) \<in> set avail \<and> r \<in> set rs)" for n r
    unfolding wf_map_in_iff [OF assms(1)] by (simp add: hasRegion_def split: option.split)
  ultimately show ?thesis by (auto simp: regions_known_def regionsOf_def regionsOf_fold)
qed


text \<open>What a step may do to the provider's state.\<close>

lemma honest_monitorD:
  assumes "honest_monitor M seen"
  shows "TypesChanged M ts m = (b, m') \<Longrightarrow> seen m' = seen m"
    and "RegionsChanged M rs m = (b, m') \<Longrightarrow> seen m' = seen m"
    and "OfferingsChanged M d m = (b, m') \<Longrightarrow> seen m' = Some d \<and> (b \<or> (\<exists>d'. seen m = Some d' \<and> hasRegion d' = hasRegion d))"
  using assms unfolding honest_monitor_def by (metis fst_conv snd_conv)+

lemma UpdateInstanceTypes_parts:
  assumes "UpdateInstanceTypes T api (w, s) = (e, w', s')" "honest_monitor (tMonitor T) seen"
  shows "instanceTypesOfferings s' = instanceTypesOfferings s" "allRegions s' = allRegions s" "offeringState s' = offeringState s"
    and "instanceTypesCache s' = instanceTypesCache s \<or> instanceTypesCache s' = CFlush (tTypesOps T) (instanceTypesCache s)"
    and "seen (changeMonitor s') = seen (changeMonitor s)"
  using assms(1) unfolding UpdateInstanceTypes_def Let_def prod.case
  by (auto split: prod.splits sum.splits if_splits dest: honest_monitorD(1) [OF assms(2)])

lemma observe_parts:
  assumes "s' = UpdateInstanceTypeCapacityFromNode T node nodeClass now s"
  shows "instanceTypesOfferings s' = instanceTypesOfferings s" "allRegions s' = allRegions s" "offeringState s' = offeringState s"
    and "changeMonitor s' = changeMonitor s"
    and "instanceTypesCache s' = instanceTypesCache s \<or> instanceTypesCache s' = CDelete (tTypesOps T) (instanceTypesCache s) (typesKey T nodeClass)"
  unfolding assms UpdateInstanceTypeCapacityFromNode_def Let_def
  by (simp_all split: prod.split)

lemma types_at_home_mono:
  assumes "types_at_home T s" "\<And>t key its. CGet (tTypesOps T) (instanceTypesCache s') t key = Some its \<Longrightarrow>
    CGet (tTypesOps T) (instanceTypesCache s) t key = Some its"
  shows "types_at_home T s'"
  using assms unfolding types_at_home_def by blast

lemma availability_parts:
  assumes "UpdateInstanceTypeOfferings T api clusterRegion (w, s) = (e, w', s')" "market_laws T seen"
    and "regions_known (instanceTypesOfferings s) (allRegions s)"
    and "\<And>d. seen (changeMonitor s) = Some d \<Longrightarrow> hasRegion (instanceTypesOfferings s) = hasRegion d"
  shows "regions_known (instanceTypesOfferings s') (allRegions s')"
    and "\<And>d. seen (changeMonitor s') = Some d \<Longrightarrow> hasRegion (instanceTypesOfferings s') = hasRegion d"
    and "instanceTypesCache s' = instanceTypesCache s \<or> instanceTypesCache s' = CFlush (tTypesOps T) (instanceTypesCache s)"
    and "offeringState s' = InvalidateCache (tOfferings T) (offeringState s) \<or>
      offeringState s' = offeringState s \<and> hasRegion (instanceTypesOfferings s') = hasRegion (instanceTypesOfferings s)"
proof -
  have honest: "honest_monitor (tMonitor T) seen" and perm: "mset (tSetRange T m) = mset m" for m
    using assms(2) by (simp_all add: market_laws_def)
  have "regions_known (instanceTypesOfferings s') (allRegions s') \<and>
    (\<forall>d. seen (changeMonitor s') = Some d \<longrightarrow> hasRegion (instanceTypesOfferings s') = hasRegion d) \<and>
    (instanceTypesCache s' = instanceTypesCache s \<or> instanceTypesCache s' = CFlush (tTypesOps T) (instanceTypesCache s)) \<and>
    (offeringState s' = InvalidateCache (tOfferings T) (offeringState s) \<or>
      offeringState s' = offeringState s \<and> hasRegion (instanceTypesOfferings s') = hasRegion (instanceTypesOfferings s))"
  proof (cases "GetRegionAvailability api clusterRegion w")
    case (Pair r w1)
    show ?thesis
    proof (cases r)
      case (Inl e')
      with Pair assms(1) have "s' = s" by (simp add: UpdateInstanceTypeOfferings_def)
      with assms(3,4) show ?thesis by simp
    next
      case (Inr avail)
      let ?avail = "fold addAvailability avail []"
      obtain b m where b: "OfferingsChanged (tMonitor T) ?avail (changeMonitor s) = (b, m)" by fastforce
      obtain b' m' where b': "RegionsChanged (tMonitor T) (regionsOf (tSetRange T ?avail)) m = (b', m')" by fastforce
      from Pair Inr b b' assms(1) have s': "s' = (if b
          then s\<lparr>instanceTypesCache := CFlush (tTypesOps T) (instanceTypesCache s),
                 offeringState := InvalidateCache (tOfferings T) (offeringState s)\<rparr>
          else s)\<lparr>instanceTypesOfferings := ?avail, changeMonitor := m', allRegions := regionsOf (tSetRange T ?avail)\<rparr>"
        by (cases b) (simp_all add: UpdateInstanceTypeOfferings_def Let_def)
      have "regions_known ?avail (regionsOf (tSetRange T ?avail))"
        by (rule regions_known_regionsOf [OF wf_availability perm]) simp
      moreover have "seen m' = Some ?avail" "b \<or> hasRegion (instanceTypesOfferings s) = hasRegion ?avail"
        using honest_monitorD(2) [OF honest b'] honest_monitorD(3) [OF honest b] assms(4) by auto
      ultimately show ?thesis unfolding s' by (cases b) simp_all
    qed
  qed
  then show "regions_known (instanceTypesOfferings s') (allRegions s')"
    "\<And>d. seen (changeMonitor s') = Some d \<Longrightarrow> hasRegion (instanceTypesOfferings s') = hasRegion d"
    "instanceTypesCache s' = instanceTypesCache s \<or> instanceTypesCache s' = CFlush (tTypesOps T) (instanceTypesCache s)"
    "offeringState s' = InvalidateCache (tOfferings T) (offeringState s) \<or>
      offeringState s' = offeringState s \<and> hasRegion (instanceTypesOfferings s') = hasRegion (instanceTypesOfferings s)"
    by blast+
qed

lemma typeList_ok:
  assumes "market_laws T seen" "market_ok T seen c" "typeList T nodeClass (mMarks c) (mClock c) (mState c) = Some (r, s)"
  shows "market_ok T seen (c\<lparr>mState := s\<rparr>)"
    and "\<And>its it. r = Inr its \<Longrightarrow> it \<in> set its \<Longrightarrow> plain_name (ItName it) \<Longrightarrow> mChurn c (ItName it) < 2 ^ 64 \<Longrightarrow>
      offerings_fresh (tOfferings T) (instanceTypesOfferings (mState c)) (mMarks c) (mClock c) (ItName it) (ItOfferings it)"
proof -
  let ?s = "mState c"
  have "market_ok T seen (c\<lparr>mState := s\<rparr>) \<and> (\<forall>its. r = Inr its \<longrightarrow> (\<forall>it \<in> set its. plain_name (ItName it) \<longrightarrow> mChurn c (ItName it) < 2 ^ 64 \<longrightarrow>
      offerings_fresh (tOfferings T) (instanceTypesOfferings (mState c)) (mMarks c) (mClock c) (ItName it) (ItOfferings it)))"
  proof (cases "notHydrated ?s")
    case (Some e)
    with assms(3) have "s = ?s" "r = Inl e" by (simp_all add: typeList_def)
    with assms(2) show ?thesis by simp
  next
    case None
    with assms(3) obtain raw s1 where raw: "typesOf T nodeClass (mClock c) ?s = Some (raw, s1)"
      by (auto simp: typeList_def split: option.splits)
    obtain ttl where ttl: "cache_ok (tTypesOps T) ttl" using assms(1) unfolding market_laws_def by blast
    obtain ttl' where ttl': "cache_ok (oCacheOps (tOfferings T)) ttl'" using assms(1) unfolding market_laws_def by blast
    have home: "types_at_home T ?s" using assms(2) by (simp add: market_ok_def)
    note at = typesOf_at_home [OF ttl home raw]
    then obtain k where s1: "s1 = ?s\<lparr>instanceTypesCache := k\<rparr>" by blast
    obtain its os where its: "InjectOfferings (tOfferings T) raw (instanceTypesInfo ?s) (allRegions ?s) (instanceTypesOfferings ?s)
      (mMarks c) (mClock c) (offeringState ?s) = (its, os)" by fastforce
    with None raw assms(3) s1 have r: "r = Inr its" "s = s1\<lparr>offeringState := os\<rparr>" by (simp_all add: typeList_def)
    have "mset (oRange (tOfferings T) xs) = mset xs" for xs using assms(1) by (simp add: market_laws_def)
    note inject = InjectOfferings_fresh [OF ttl' this, of "instanceTypesOfferings ?s" "allRegions ?s", OF _ _ _ its,
        of "rRegion (tResolver T)" "mChurn c"]
    from inject assms(2) at have fresh: "cached_fresh (tOfferings T) (rRegion (tResolver T)) (instanceTypesOfferings ?s) (mMarks c) (mClock c) (mChurn c) os"
      "\<forall>it \<in> set its. plain_name (ItName it) \<longrightarrow> mChurn c (ItName it) < 2 ^ 64 \<longrightarrow>
         offerings_fresh (tOfferings T) (instanceTypesOfferings ?s) (mMarks c) (mClock c) (ItName it) (ItOfferings it)"
      by (simp_all add: market_ok_def)
    moreover have "types_at_home T s" using at by (simp add: types_at_home_def r)
    ultimately show ?thesis using assms(2) by (simp add: market_ok_def r s1)
  qed
  then show "market_ok T seen (c\<lparr>mState := s\<rparr>)"
    "\<And>its it. r = Inr its \<Longrightarrow> it \<in> set its \<Longrightarrow> plain_name (ItName it) \<Longrightarrow> mChurn c (ItName it) < 2 ^ 64 \<Longrightarrow>
      offerings_fresh (tOfferings T) (instanceTypesOfferings (mState c)) (mMarks c) (mClock c) (ItName it) (ItOfferings it)"
    by blast+
qed

section \<open>The invariant\<close>

lemma market_step_ok:
  assumes "market_laws T seen" "market_ok T seen c" "market_step T api clusterRegion c c'"
  shows "market_ok T seen c'"
proof -
  let ?O = "tOfferings T" and ?home = "rRegion (tResolver T)"
  have marks: "cache_ok (oMarkOps ?O) UnavailableOfferingsTTL" and honest: "honest_monitor (tMonitor T) seen"
    using assms(1) by (simp_all add: market_laws_def)
  obtain ttl where ttl: "cache_ok (tTypesOps T) ttl" using assms(1) unfolding market_laws_def by blast
  obtain ttl' where ttl': "cache_ok (oCacheOps ?O) ttl'" using assms(1) unfolding market_laws_def by blast
  from assms(2) have ok: "keys_ok (oMarkOps ?O) (mMarks c)" "types_at_home T (mState c)"
    "regions_known (instanceTypesOfferings (mState c)) (allRegions (mState c))"
    "\<And>d. seen (changeMonitor (mState c)) = Some d \<Longrightarrow> hasRegion (instanceTypesOfferings (mState c)) = hasRegion d"
    "cached_fresh ?O ?home (instanceTypesOfferings (mState c)) (mMarks c) (mClock c) (mChurn c) (offeringState (mState c))"
    by (simp_all add: market_ok_def)
  from assms(3) show ?thesis
  proof cases
    case (mark ev u)
    have p: "plain_name []" by (simp add: plain_name_def)
    from uo_step_ok [OF marks ok(1) mark(2) p] mark(4) have "keys_ok (oMarkOps ?O) u" by auto
    with cached_fresh_mark [OF marks ok(1) mark(2-4) ok(5)] ok(2-4) show ?thesis by (simp add: mark(1) market_ok_def)
  next
    case (tick t)
    with ok cached_fresh_tick [OF marks ttl' tick(2) ok(5)] show ?thesis by (simp add: market_ok_def)
  next
    case (service w)
    with ok show ?thesis by (simp add: market_ok_def)
  next
    case (types e w s)
    note parts = UpdateInstanceTypes_parts [OF types(2) honest]
    have "types_at_home T s"
      by (rule types_at_home_mono [OF ok(2)]) (use parts(4) in \<open>auto simp: CGet_CFlush [OF ttl]\<close>)
    with ok parts show ?thesis by (simp add: types(1) market_ok_def)
  next
    case (availability e w s)
    note parts = availability_parts [OF availability(2) assms(1) ok(3,4)]
    have "types_at_home T s"
      by (rule types_at_home_mono [OF ok(2)]) (use parts(3) in \<open>auto simp: CGet_CFlush [OF ttl]\<close>)
    moreover have "cached_fresh ?O ?home (instanceTypesOfferings s) (mMarks c) (mClock c) (mChurn c) (offeringState s)"
      using parts(4)
    proof
      assume "offeringState s = InvalidateCache ?O (offeringState (mState c))"
      with cached_fresh_flush [OF ttl' ok(5)] show ?thesis by simp
    next
      assume "offeringState s = offeringState (mState c) \<and> hasRegion (instanceTypesOfferings s) = hasRegion (instanceTypesOfferings (mState c))"
      with cached_fresh_same ok(5) show ?thesis by metis
    qed
    ultimately show ?thesis using ok(1) parts(1,2) by (simp add: availability(1) market_ok_def)
  next
    case (listed nodeClass r s)
    with typeList_ok(1) [OF assms(1,2) listed(2)] show ?thesis by simp
  next
    case (observed node nodeClass)
    let ?s = "UpdateInstanceTypeCapacityFromNode T node nodeClass (mClock c) (mState c)"
    note parts = observe_parts [OF refl, of T node nodeClass "mClock c" "mState c"]
    have "types_at_home T ?s"
      by (rule types_at_home_mono [OF ok(2)]) (use parts(5) in \<open>auto simp: CGet_CDelete [OF ttl] split: if_splits\<close>)
    with ok parts(1-4) show ?thesis by (simp add: observed market_ok_def)
  qed
qed

lemma market_reachable_ok:
  assumes "market_laws T seen" "market_start T seen c0" "(market_step T api clusterRegion)\<^sup>*\<^sup>* c0 c"
  shows "market_ok T seen c"
  using assms(3)
proof (induction rule: rtranclp_induct)
  case base
  show ?case by (rule market_start_ok [OF assms(1,2)])
next
  case (step c c')
  show ?case by (rule market_step_ok [OF assms(1) step.IH step.hyps(2)])
qed

text \<open>
  C31: The scheduler is never offered what is known to be gone. Whatever has happened since the provider was built -
  marks set, removed and evicted, hydrations that failed or brought new data, listings that filled the caches,
  time - a listing shows for every instance type each region of the availability data once and no other, and shows
  a region as available only if the data report the plan there and neither the pair nor the region is
  marked at that moment, although most listings come from a cache that only sequence numbers and
  a flush keep up to date (as long as a type has met fewer than 2^64 marks).
\<close>

theorem listed_offerings_never_stale:
  assumes "market_laws T seen" "market_start T seen c0" "(market_step T api clusterRegion)\<^sup>*\<^sup>* c0 c"
    and "typeList T nodeClass (mMarks c) (mClock c) (mState c) = Some (Inr its, s)"
    and "it \<in> set its" "plain_name (ItName it)" "mChurn c (ItName it) < 2 ^ 64"
  shows "(\<exists>rs. map offeringRegion (ItOfferings it) = map (\<lambda>r. [r]) rs \<and> distinct rs \<and>
      set rs = {r. \<exists>n. hasRegion (instanceTypesOfferings (mState c)) n r}) \<and>
    (\<forall>of' \<in> set (ItOfferings it). \<forall>r. Available of' \<longrightarrow> offeringRegion of' = [r] \<longrightarrow>
      hasRegion (instanceTypesOfferings (mState c)) (ItName it) r \<and>
      \<not> IsUnavailable (oMarkOps (tOfferings T)) (mMarks c) (mClock c) (ItName it) r)"
  using typeList_ok(2) [OF assms(1) market_reachable_ok [OF assms(1-3)] assms(4) refl assms(5-7)]
  unfolding offerings_fresh_def .

end
