(* ===== verification/LabelRegistry.thy ===== *)
theory LabelRegistry
  imports InstanceTypeProps
begin

text \<open>
  The label sets that the provider registers with Karpenter when it starts (the \<open>init\<close> of
  pkg/apis/v1alpha1/labels.go): Karpenter's two global sets are a record, and what they hold before is a parameter.
  The labels of a NodeClaim are among them.
\<close>

record label_registry =
  RestrictedDomains :: "string set"
  WellKnown :: "string set"

definition RestrictedLabelDomains :: "string list" where
  "RestrictedLabelDomains = [Group]"

definition LinodeWellKnownLabels :: "string set" where
  "LinodeWellKnownLabels = set [LabelInstanceCPU, LabelInstanceMemory, LabelInstanceTransfer, LabelInstanceNetworkOut,
     LabelInstanceGPUCount, LabelInstanceGPUName, LabelInstanceAcceleratedDevicesCount, LabelInstanceClass,
     LabelInstanceGeneration, LabelInstanceDisk]"

definition LabelWindowsBuild :: string where "LabelWindowsBuild = ''node.kubernetes.io/windows-build''"

definition registerLabels :: "label_registry \<Rightarrow> label_registry" where
  "registerLabels r =
     (let r = r\<lparr>RestrictedDomains := RestrictedDomains r \<union> set RestrictedLabelDomains\<rparr>;
          r = r\<lparr>WellKnown := WellKnown r \<union> LinodeWellKnownLabels\<rparr>;
          r = r\<lparr>WellKnown := WellKnown r - set [LabelWindowsBuild]\<rparr>
      in r\<lparr>WellKnown := WellKnown r \<union> {LabelBlockStorageCSIRegion}\<rparr>)"

text \<open>What Karpenter documents as well known of the labels a plan has.\<close>

definition coreWellKnown :: "string set" where
  "coreWellKnown = {LabelInstanceTypeStable, LabelTopologyRegion, LabelTopologyZone, CapacityTypeLabelKey, LabelArchStable, LabelOSStable}"

lemma planLabelKeys_well_known:
  assumes "coreWellKnown \<subseteq> WellKnown r"
  shows "set planLabelKeys \<subseteq> WellKnown (registerLabels r)"
proof -
  have "LabelWindowsBuild \<notin> set planLabelKeys" by code_simp
  with assms show ?thesis by (auto simp: registerLabels_def Let_def planLabelKeys_def coreWellKnown_def LinodeWellKnownLabels_def)
qed

lemma planLabels_keys: "set (map fst (planLabels info home)) \<subseteq> set planLabelKeys"
  by (auto simp: planLabels_def planLabelKeys_def split: list.splits if_splits)

text \<open>
  C38: The NodeClaim the cloud provider builds from an instance and the type of its plan carries the labels of
  the plan, its name, region, size, class, generation and GPU name among them, under distinct keys, with the zone
  replaced by the region the instance runs in; and each of these labels is one that Karpenter knows once the provider has
  registered its own, so a NodePool may select on it although the provider's domain is restricted.
\<close>

lemma claim_labels_describe_plan:
  assumes "ItRequirements it = computeRequirements info home" "reservationLabel c \<notin> set planLabelKeys"
    and "coreWellKnown \<subseteq> WellKnown r"
  shows "map_of (NodeClaimLabels (instanceToNodeClaim c inst (Some it) s)) =
      (map_of (planLabels info home))(LabelTopologyZone \<mapsto> InstRegion inst) \<and>
    wf_map (planLabels info home) \<and> set (map fst (planLabels info home)) \<subseteq> WellKnown (registerLabels r) \<and>
    Group \<in> RestrictedDomains (registerLabels r)"
proof -
  have "map_of (typeLabels c (ItRequirements it)) = map_of (planLabels info home)"
    unfolding assms(1) computeRequirements_plan using assms(2) planLabels_keys by (intro typeLabels_plan wf_planLabels) blast
  moreover have "map_of (planLabels info home) CapacityTypeLabelKey = Some ''on-demand''" "CapacityTypeLabelKey \<noteq> LabelTopologyZone"
    by (simp_all add: planLabels_def type_label_defs)
  ultimately have "map_of (NodeClaimLabels (instanceToNodeClaim c inst (Some it) s)) =
      (map_of (planLabels info home))(LabelTopologyZone \<mapsto> InstRegion inst)"
    by (auto simp: instanceToNodeClaim_def Let_def update_conv' fun_eq_iff)
  moreover have "Group \<in> RestrictedDomains (registerLabels r)" by (simp add: registerLabels_def Let_def RestrictedLabelDomains_def)
  ultimately show ?thesis using wf_planLabels planLabels_keys planLabelKeys_well_known [OF assms(3)] by blast
qed

end
