(* ===== verification/TypeSample.thy ===== *)
theory TypeSample
  imports LabelRegistry MemKube
begin

text \<open>Plans, instance types and their provider on concrete inputs: the witnesses of their theorems.\<close>

section \<open>A plan\<close>

definition samplePlan :: LinodeType where
  "samplePlan = \<lparr>LtID = ''g2-gpu-rtx4000a1-s'', LtClass = ''gpu'', LtMemory = 16384, LtVCPUs = 5, LtGPUs = 1,
     LtAcceleratedDevices = 0, LtDisk = 524288, LtTransfer = 0, LtNetworkOut = 5000, LtHourly = Some (52 / 100)\<rparr>"

text \<open>Parsers that know a few strings.\<close>

definition sampleParsers :: parsers where
  "sampleParsers = \<lparr>ParseQuantity = (\<lambda>v. if v = ''1Gi'' then Some (1024 * MiB) else None),
     ParseFloat = (\<lambda>v. if v = ''10'' then Some 10 else if v = ''15'' then Some 15 else None)\<rparr>"

definition sampleResolver :: resolver where
  "sampleResolver = \<lparr>rParsers = sampleParsers, rPercent = fl (3 / 40), rRegion = DefaultRegion, rGPUOrder = rev,
     kubeletHash = (\<lambda>kc. []), imagesHash = (\<lambda>is. [])\<rparr>"

lemma capacity_bounds_witness:
  "\<exists>m. map_of (computeCapacity (fl (3 / 40)) samplePlan None None) ResourceMemory = Some (of_int m * MiB) \<and> 15154 \<le> m \<and> m \<le> 15157"
proof -
  have p: "0 \<le> fl (3 / 40)" "fl (3 / 40) \<le> 1" "\<bar>fl (3 / 40) - 3 / 40\<bar> \<le> 1 / 2 ^ 53" by code_simp+
  have plan: "LtMemory samplePlan = 16384" by (simp add: samplePlan_def)
  have M: "0 \<le> LtMemory samplePlan" "LtMemory samplePlan < 2 ^ 33" by (simp_all add: plan)
  from capacity_bounds [OF M p(1,2), of None None] obtain m where
    m: "map_of (computeCapacity (fl (3 / 40)) samplePlan None None) ResourceMemory = Some (of_int m * MiB)"
      "\<bar>of_int m - (1 - fl (3 / 40)) * of_int (LtMemory samplePlan)\<bar> \<le> 1 + 1 / 2 ^ 20"
    by (elim exE conjE) (rule that)
  have "(15154 :: rat) \<le> of_int m" "of_int m \<le> (15157 :: rat)"
    using abs_le_D1 [OF m(2)] abs_le_D2 [OF m(2)] abs_le_D1 [OF p(3)] abs_le_D2 [OF p(3)]
    unfolding plan left_diff_distrib by simp_all
  with m(1) show ?thesis by (intro exI [of _ m]) simp
qed

lemma kube_reserved_exact_witness:
  "\<exists>rs. kubeReservedResources sampleParsers (of_int 5) (of_int 110) [] = Some rs \<and> map_of rs ResourceCPU = Some (82 / 1000)"
proof -
  have "reservedMillicores 5 = 82" by code_simp
  moreover have "(1 :: int) \<le> 5" "(5 :: int) \<le> 2147483" by simp_all
  from kube_reserved_exact [OF this, of sampleParsers 110] obtain rs where
    "kubeReservedResources sampleParsers (of_int 5) (of_int 110) [] = Some rs"
    "map_of rs ResourceCPU = Some (of_int (reservedMillicores 5) / 1000)"
    by (elim exE conjE) (rule that)
  ultimately show ?thesis by (intro exI [of _ rs]) simp
qed

lemma gpu_resources_determined_witness:
  "\<exists>devices. nvidiaGPUResources rev samplePlan =
     [\<lparr>SliceDriver = ''gpu.nvidia.com'', SlicePool = ''gpus-g2-gpu-rtx4000a1-s'', SliceDevices = devices\<rparr>] \<and> length devices = 1"
proof -
  have perm: "mset (rev l) = mset l" for l :: "'a list" by simp
  have plan: "LtGPUs samplePlan = 1" "LtID samplePlan = ''g2-gpu-rtx4000a1-s''" by (simp_all add: samplePlan_def)
  have "\<not> LtGPUs samplePlan \<le> 0" by (simp add: plan)
  from conjunct2 [OF gpu_resources_determined [OF perm refl, of samplePlan], unfolded if_not_P [OF this]] obtain devices where
    "nvidiaGPUResources rev samplePlan = [\<lparr>SliceDriver = ''gpu.nvidia.com'', SlicePool = ''gpus-'' @ LtID samplePlan, SliceDevices = devices\<rparr>]"
    "int (length devices) = LtGPUs samplePlan"
    by (elim exE conjE) (rule that)
  then show ?thesis by (intro exI [of _ devices]) (simp add: plan)
qed

lemma claim_labels_describe_plan_witness:
  "\<forall>s. map_of (NodeClaimLabels (instanceToNodeClaim lkeCloud (NewInstance blankInstance)
     (Some ((sampleType ''x'' 2)\<lparr>ItRequirements := computeRequirements samplePlan DefaultRegion\<rparr>)) s)) LabelInstanceGPUName = Some ''rtx4000a1''"
proof
  fix s
  have "reservationLabel lkeCloud = []" by (simp add: lkeCloud_def sampleCloud_def)
  moreover have "[] \<notin> set planLabelKeys" by code_simp
  moreover have "map_of (planLabels samplePlan DefaultRegion) LabelInstanceGPUName = Some ''rtx4000a1''"
    by (simp add: planLabels_def samplePlan_def type_label_defs)
  moreover have "LabelInstanceGPUName \<noteq> LabelTopologyZone" by code_simp
  ultimately show
    "map_of (NodeClaimLabels (instanceToNodeClaim lkeCloud (NewInstance blankInstance)
     (Some ((sampleType ''x'' 2)\<lparr>ItRequirements := computeRequirements samplePlan DefaultRegion\<rparr>)) s)) LabelInstanceGPUName = Some ''rtx4000a1''"
    using
    claim_labels_describe_plan [of "(sampleType ''x'' 2)\<lparr>ItRequirements := computeRequirements samplePlan DefaultRegion\<rparr>"
      samplePlan DefaultRegion lkeCloud "\<lparr>RestrictedDomains = {}, WellKnown = coreWellKnown\<rparr>" "NewInstance blankInstance" s]
    by simp
qed

text \<open>A NodeClass whose kubelet settings are not quantities: listing the instance types panics.\<close>

definition badKubelet :: LinodeNodeClass where
  "badKubelet = readyClass\<lparr>Spec := (Spec readyClass)\<lparr>Kubelet := Some (blankKubelet\<lparr>SystemReserved := [(''memory'', ''1 GB'')]\<rparr>)\<rparr>\<rparr>"

lemma Resolve_panics_iff_witness:
  "Resolve sampleResolver samplePlan badKubelet = None \<and> Resolve sampleResolver samplePlan readyClass \<noteq> None"
proof -
  have p: "ParseFloat (rParsers sampleResolver) ''10'' = Some 10" "ParseFloat (rParsers sampleResolver) ''15'' = Some 15"
    "\<bar>LtDisk samplePlan\<bar> < 2 ^ 63"
    by (simp_all add: sampleResolver_def sampleParsers_def samplePlan_def)
  have "kubeletOf badKubelet = blankKubelet\<lparr>SystemReserved := [(''memory'', ''1 GB'')]\<rparr>" "kubeletOf readyClass = blankKubelet"
    "ParseQuantity (rParsers sampleResolver) ''1 GB'' = None"
    by (simp_all add: kubeletOf_def badKubelet_def readyClass_def sampleNodeClass_def sampleSpec_def sampleResolver_def sampleParsers_def)
  then show ?thesis
    using Resolve_panics_iff [OF p, of badKubelet] Resolve_panics_iff [OF p, of readyClass]
    by (simp add: blankKubelet_def listOf_def)
qed

end
