(* ===== verification/ProviderSample.thy ===== *)
theory ProviderSample
  imports CapacityProps OfferingsFresh TypeSample
begin

text \<open>The provider of instance types on concrete inputs: the witnesses of its theorems.\<close>

definition sampleMonitor :: "(string, goset) gomap option change_monitor" where
  "sampleMonitor = \<lparr>TypesChanged = (\<lambda>ts m. (True, m)), OfferingsChanged = (\<lambda>os m. (m \<noteq> Some os, Some os)),
     RegionsChanged = (\<lambda>rs m. (True, m))\<rparr>"

definition sampleOfferings :: "(offering list timed, unit timed) offering_provider" where
  "sampleOfferings = \<lparr>oCacheOps = timed_ops (5 * 60 * 10 ^ 9), oMarkOps = timed_ops UnavailableOfferingsTTL,
     regionsHash = (\<lambda>rs. concat rs), oRange = rev\<rparr>"

definition sampleProvider :: "(instance_type list timed, resource_list timed, offering list timed, unit timed, (string, goset) gomap option) type_provider" where
  "sampleProvider = \<lparr>tResolver = sampleResolver, tTypesOps = timed_ops (5 * 60 * 10 ^ 9), tCapacityOps = timed_ops (60 * 24 * 60 * 60 * 10 ^ 9),
     tOfferings = sampleOfferings, tMonitor = sampleMonitor, tInfoRange = rev, tSetRange = rev\<rparr>"

definition sampleTypes :: "(instance_type list timed, resource_list timed, offering list timed, (string, goset) gomap option) type_state" where
  "sampleTypes = \<lparr>instanceTypesInfo = [(''g2-gpu-rtx4000a1-s'', samplePlan)], instanceTypesOfferings = [], allRegions = [],
     instanceTypesCache = [], discoveredCapacityCache = [], changeMonitor = None,
     offeringState = \<lparr>offeringsCache = [], lastUnavailableOfferingsSeqNum = []\<rparr>\<rparr>"

section \<open>Discovered capacity\<close>

text \<open>A node registers, somebody lists, which caches the types, and a smaller node registers: the cached list is dropped.\<close>

definition registered :: "quantity \<Rightarrow> capacity_node" where
  "registered q = \<lparr>CapNodeLabels = [(LabelInstanceTypeStable, ''g2-gpu-rtx4000a1-s'')], CapNodeCapacity = [(ResourceCPU, 5), (ResourceMemory, q)]\<rparr>"

abbreviation "sampleAvailability \<equiv> [(''g2-gpu-rtx4000a1-s'', [''us-east''])]"

definition hydratedTypes :: "(instance_type list timed, resource_list timed, offering list timed, (string, goset) gomap option) type_state" where
  "hydratedTypes = sampleTypes\<lparr>instanceTypesOfferings := sampleAvailability, allRegions := [''us-east''], changeMonitor := Some sampleAvailability\<rparr>"

definition sampleEvents :: "unit timed type_event list" where
  "sampleEvents = [Registered 5 (registered 15000) readyClass, Listed 6 readyClass (NewUnavailableOfferings []), Registered 7 (registered 14000) readyClass]"

lemma sample_least: "leastSeen readyClass ''g2-gpu-rtx4000a1-s'' sampleEvents ResourceMemory = Some 14000"
  by (simp add: leastSeen_def sampleEvents_def counts_def registered_def observedCapacity_def ResourceMemory_def ResourceCPU_def
      ResourceEphemeralStorage_def labelOf_def)

lemma sample_resolves: "\<exists>it. Resolve sampleResolver samplePlan readyClass = Some it"
proof -
  have "kubeletOf readyClass = blankKubelet" "ParseFloat (rParsers sampleResolver) ''10'' = Some 10" "ParseFloat (rParsers sampleResolver) ''15'' = Some 15"
    "\<bar>LtDisk samplePlan\<bar> < 2 ^ 63"
    by (simp_all add: samplePlan_def kubeletOf_def readyClass_def sampleNodeClass_def sampleSpec_def sampleResolver_def sampleParsers_def)
  then have "Resolve sampleResolver samplePlan readyClass \<noteq> None"
    unfolding Resolve_None Let_def kubeReservedResources_None systemReservedResources_def
    by (simp add: evictionThreshold_None blankKubelet_def listOf_def)
  then show ?thesis by simp
qed

lemma discovered_capacity_is_least_witness:
  "\<exists>s1 it. typeEvents sampleProvider sampleEvents hydratedTypes = Some s1 \<and>
     typeGet sampleProvider readyClass ''g2-gpu-rtx4000a1-s'' 9 s1 = Some (Inr it) \<and> map_of (ItCapacity it) ResourceMemory = Some 14000"
proof -
  let ?T = sampleProvider and ?name = "''g2-gpu-rtx4000a1-s''" and ?ttl = "60 * 24 * 60 * 60 * 10 ^ 9 :: int"
  let ?s5 = "UpdateInstanceTypeCapacityFromNode ?T (registered 15000) readyClass 5 hydratedTypes"
  obtain it where it: "Resolve (tResolver ?T) samplePlan readyClass = Some it"
    using sample_resolves by (auto simp: sampleProvider_def)
  have info: "map_of (instanceTypesInfo hydratedTypes) ?name = Some samplePlan" "LtID samplePlan = ?name"
    and keys: "\<forall>n x. map_of (instanceTypesInfo hydratedTypes) n = Some x \<longrightarrow> LtID x = n"
    and offers: "instanceTypesOfferings hydratedTypes \<noteq> []"
    by (simp_all add: hydratedTypes_def sampleTypes_def samplePlan_def)
  have resolves: "Resolve (tResolver ?T) x readyClass \<noteq> None" if "map_of (instanceTypesInfo ?s5) n = Some x" for n x
    using that it observe_keeps(1) [of ?s5, OF refl] by (simp add: hydratedTypes_def sampleTypes_def split: if_splits)
  obtain r s6 where "typeList ?T readyClass (NewUnavailableOfferings []) 6 ?s5 = Some (r, s6)"
    by (rule typeList_returns [where T = ?T and nc = readyClass and u = "NewUnavailableOfferings []" and now = 6 and s = ?s5]) (use resolves in blast)+
  then obtain s1 where run: "typeEvents ?T sampleEvents hydratedTypes = Some s1" by (simp add: sampleEvents_def)
  have fits: "list_all (event_fits ?T ?ttl readyClass ?name samplePlan 9) sampleEvents"
    by (simp add: sampleEvents_def counts_def registered_def labelOf_def)
  have caches: "cache_ok (tCapacityOps ?T) ?ttl" "cache_ok (tTypesOps ?T) (5 * 60 * 10 ^ 9)" "\<forall>m. set (tInfoRange ?T m) = set m"
    "empty_cache (tCapacityOps ?T) (discoveredCapacityCache hydratedTypes)" "empty_cache (tTypesOps ?T) (instanceTypesCache hydratedTypes)"
    by (simp_all add: sampleProvider_def hydratedTypes_def sampleTypes_def timed_ops_ok timed_ops_empty)
  from discovered_capacity_is_least [OF caches info(1) keys offers it fits run] obtain i where
    "typeGet ?T readyClass ?name 9 s1 = Some (Inr i)" "learned it (leastSeen readyClass ?name sampleEvents) i" by blast
  with run show ?thesis by (auto simp: learned_def sample_least)
qed

section \<open>Offerings\<close>

text \<open>The plan is available in one region, which is then marked: the next listing does not offer it.\<close>

definition sampleWorld :: fake_world where
  "sampleWorld = NewFakeWorld\<lparr>GetRegionAvailabilityOutput :=
     Some [\<lparr>AvRegion = ''us-east'', AvPlan = ''g2-gpu-rtx4000a1-s'', AvAvailable = True\<rparr>]\<rparr>"

definition sampleMarket :: "(instance_type list timed, resource_list timed, offering list timed, unit timed,
    (string, goset) gomap option, fake_world) market" where
  "sampleMarket = \<lparr>mWorld = sampleWorld, mMarks = NewUnavailableOfferings [], mState = sampleTypes, mClock = 0, mChurn = (\<lambda>i. 0)\<rparr>"

lemma sample_laws: "market_laws sampleProvider id"
  unfolding market_laws_def honest_monitor_def
  by (auto simp: sampleProvider_def sampleOfferings_def sampleMonitor_def timed_ops_ok intro: timed_ops_ok)

lemma sample_availability: "fst (GetRegionAvailability fakeClient ''us-east'' sampleWorld) =
    Inr [\<lparr>AvRegion = ''us-east'', AvPlan = ''g2-gpu-rtx4000a1-s'', AvAvailable = True\<rparr>]"
  by code_simp

lemma sample_hydrated:
  "\<exists>w. UpdateInstanceTypeOfferings sampleProvider fakeClient ''us-east'' (sampleWorld, sampleTypes) = (None, w, hydratedTypes)"
proof -
  have plan: "fold addAvailability [\<lparr>AvRegion = ''us-east'', AvPlan = ''g2-gpu-rtx4000a1-s'', AvAvailable = True\<rparr>] [] = sampleAvailability"
    "regionsOf (tSetRange sampleProvider sampleAvailability) = [''us-east'']"
    by code_simp+
  obtain w where "GetRegionAvailability fakeClient ''us-east'' sampleWorld =
      (Inr [\<lparr>AvRegion = ''us-east'', AvPlan = ''g2-gpu-rtx4000a1-s'', AvAvailable = True\<rparr>], w)"
    using sample_availability by (metis prod.collapse)
  moreover have "changeMonitor sampleTypes = None" "instanceTypesCache sampleTypes = []" "offeringState sampleTypes =
      \<lparr>offeringsCache = [], lastUnavailableOfferingsSeqNum = []\<rparr>" by (simp_all add: sampleTypes_def)
  moreover have "tMonitor sampleProvider = sampleMonitor" "CFlush (tTypesOps sampleProvider) [] = []"
    "InvalidateCache (tOfferings sampleProvider) \<lparr>offeringsCache = [], lastUnavailableOfferingsSeqNum = []\<rparr> =
      \<lparr>offeringsCache = [], lastUnavailableOfferingsSeqNum = []\<rparr>"
    by (simp_all add: sampleProvider_def sampleOfferings_def InvalidateCache_def timed_ops_def)
  ultimately show ?thesis
    using plan by (intro exI [of _ w]) (simp add: UpdateInstanceTypeOfferings_def Let_def sampleMonitor_def hydratedTypes_def sampleTypes_def)
qed

definition markedMarks :: "unit timed UnavailableOfferings" where
  "markedMarks = MarkRegionUnavailable (timed_ops UnavailableOfferingsTTL) (NewUnavailableOfferings []) 0 ''us-east''"

lemma sample_listed:
  "\<exists>it ofs s. typeList sampleProvider readyClass markedMarks 0 hydratedTypes = Some (Inr [it\<lparr>ItOfferings := ofs\<rparr>], s) \<and>
     ItName it = ''g2-gpu-rtx4000a1-s''"
proof -
  obtain it where it: "Resolve (tResolver sampleProvider) samplePlan readyClass = Some it"
    using sample_resolves by (auto simp: sampleProvider_def)
  have name: "ItName it = ''g2-gpu-rtx4000a1-s''" using Resolve_name [OF it] by (simp add: samplePlan_def)
  have "getType sampleProvider readyClass ''g2-gpu-rtx4000a1-s'' 0 hydratedTypes = Some (Inr it)"
    by (simp add: getType_def it hydratedTypes_def sampleTypes_def) (simp add: sampleProvider_def timed_ops_def timed_get_def)
  then have "\<exists>s. typesOf sampleProvider readyClass 0 hydratedTypes = Some ([it], s)"
    by (simp add: typesOf_def Let_def)
       (simp add: hydratedTypes_def sampleTypes_def sampleProvider_def timed_ops_def timed_get_def)
  then obtain s where s: "typesOf sampleProvider readyClass 0 hydratedTypes = Some ([it], s)" by blast
  have "notHydrated hydratedTypes = None" by (simp add: notHydrated_def hydratedTypes_def sampleTypes_def)
  moreover obtain ofs os where "createOfferings (tOfferings sampleProvider) it (instanceTypesInfo s) (allRegions s)
      (instanceTypesOfferings s) markedMarks 0 (offeringState s) = (ofs, os)" by fastforce
  ultimately show ?thesis using s name by (intro exI [of _ it] exI [of _ ofs]) (simp add: typeList_def)
qed

lemma listed_offerings_never_stale_witness:
  "\<exists>its s it. typeList sampleProvider readyClass markedMarks 0 hydratedTypes = Some (Inr its, s) \<and> it \<in> set its \<and>
     map offeringRegion (ItOfferings it) = [[''us-east'']] \<and> map Available (ItOfferings it) = [False]"
proof -
  let ?c = "sampleMarket"
  obtain w where w: "UpdateInstanceTypeOfferings sampleProvider fakeClient ''us-east'' (sampleWorld, sampleTypes) = (None, w, hydratedTypes)"
    using sample_hydrated by blast
  let ?c1 = "?c\<lparr>mWorld := w, mState := hydratedTypes\<rparr>"
  let ?c2 = "?c1\<lparr>mMarks := markedMarks, mChurn := (\<lambda>i. 1)\<rparr>"
  have ops: "oMarkOps (tOfferings sampleProvider) = timed_ops UnavailableOfferingsTTL"
    by (simp add: sampleProvider_def sampleOfferings_def)
  have "market_step sampleProvider fakeClient ''us-east'' ?c ?c1"
    by (rule market_step.availability [of _ _ _ _ None]) (simp add: sampleMarket_def w)
  moreover have "market_step sampleProvider fakeClient ''us-east'' ?c1 ?c2"
    using market_step.mark [of "MarkRegion ''us-east'' 0" ?c1 sampleProvider markedMarks fakeClient "''us-east''"]
    by (simp add: sampleMarket_def ops markedMarks_def)
  ultimately have reach: "(market_step sampleProvider fakeClient ''us-east'')\<^sup>*\<^sup>* ?c ?c2" by (meson r_into_rtranclp rtranclp.rtrancl_into_rtrancl)
  have start: "market_start sampleProvider id ?c"
    unfolding market_start_def ops
    by (intro conjI exI [of _ "[]"]) (simp_all add: sampleMarket_def sampleTypes_def sampleProvider_def timed_ops_empty)
  obtain it ofs s where l: "typeList sampleProvider readyClass markedMarks 0 hydratedTypes = Some (Inr [it\<lparr>ItOfferings := ofs\<rparr>], s)"
    "ItName it = ''g2-gpu-rtx4000a1-s''" using sample_listed by blast
  have h: "typeList sampleProvider readyClass (mMarks ?c2) (mClock ?c2) (mState ?c2) = Some (Inr [it\<lparr>ItOfferings := ofs\<rparr>], s)"
    "it\<lparr>ItOfferings := ofs\<rparr> \<in> set [it\<lparr>ItOfferings := ofs\<rparr>]" "plain_name (ItName (it\<lparr>ItOfferings := ofs\<rparr>))"
    "mChurn ?c2 (ItName (it\<lparr>ItOfferings := ofs\<rparr>)) < 2 ^ 64"
    using l by (simp_all add: sampleMarket_def plain_name_def)
  note fresh = listed_offerings_never_stale [OF sample_laws start reach h]
  have "{r. \<exists>n. hasRegion sampleAvailability n r} = {''us-east''}" by (auto simp: hasRegion_def split: if_splits)
  with fresh obtain rs where rs: "map offeringRegion ofs = map (\<lambda>r. [r]) rs" "distinct rs" "set rs = {''us-east''}"
    by (auto simp: hydratedTypes_def)
  then have "rs = [''us-east'']" by (cases rs; cases "tl rs") auto
  with rs(1) obtain o1 where o1: "ofs = [o1]" "offeringRegion o1 = [''us-east'']" by (cases ofs) auto
  have "IsUnavailable (timed_ops UnavailableOfferingsTTL) markedMarks 0 n ''us-east''" for n
    by (simp add: markedMarks_def IsUnavailable_def MarkRegionUnavailable_def NewUnavailableOfferings_def timed_ops_def timed_get_def UnavailableOfferingsTTL_def)
  with fresh o1 have "\<not> Available o1" by (auto simp: ops sampleMarket_def)
  with l o1 show ?thesis by (intro exI [of _ "[it\<lparr>ItOfferings := ofs\<rparr>]"] exI [of _ s] exI [of _ "it\<lparr>ItOfferings := ofs\<rparr>"]) simp
qed

end
