(* ===== verification/EphemeralTaints.thy ===== *)
theory EphemeralTaints
  imports LkePools
begin

text \<open>
  The startup taints that pkg/providers/lke/lke.go adds to Karpenter's list of taints it expects to go away by themselves
  (\<open>scheduling.KnownEphemeralTaints\<close>, a global variable that the model threads as a list).
\<close>

definition lkeLabelsTaintsWaitingTaintKey :: string where
  "lkeLabelsTaintsWaitingTaintKey = ''lke.linode.com/labels-taints''"

definition TaintNodeNetworkUnavailable :: string where "TaintNodeNetworkUnavailable = ''node.kubernetes.io/network-unavailable''"
definition TaintEffectNoSchedule :: string where "TaintEffectNoSchedule = ''NoSchedule''"

definition commonKnownEphemeralTaints :: "taint list" where
  "commonKnownEphemeralTaints =
     [\<lparr>TaintKey = lkeLabelsTaintsWaitingTaintKey, TaintValue = ''waiting'', TaintEffect = TaintEffectNoSchedule\<rparr>,
      \<lparr>TaintKey = TaintNodeNetworkUnavailable, TaintValue = [], TaintEffect = TaintEffectNoSchedule\<rparr>]"

definition enterpriseKnownEphemeralTaints :: "taint list" where
  "enterpriseKnownEphemeralTaints =
     [\<lparr>TaintKey = ''node.cilium.io/agent-not-ready'', TaintValue = [], TaintEffect = TaintEffectNoSchedule\<rparr>,
      \<lparr>TaintKey = ''node.cluster.x-k8s.io/uninitialized'', TaintValue = [], TaintEffect = TaintEffectNoSchedule\<rparr>]"

fun registerKnownEphemeralTaints :: "taint list \<Rightarrow> taint list \<Rightarrow> taint list" where
  "registerKnownEphemeralTaints [] known = known"
| "registerKnownEphemeralTaints (t # taints) known =
     registerKnownEphemeralTaints taints
       (if list_ex (\<lambda>knownTaint. TaintKey knownTaint = TaintKey t \<and> TaintValue knownTaint = TaintValue t \<and>
             TaintEffect knownTaint = TaintEffect t) known
        then known else known @ [t])"

text \<open>\<open>RegisterKnownEphemeralTaints\<close>.\<close>

definition RegisterTierTaints :: "string \<Rightarrow> taint list \<Rightarrow> taint list" where
  "RegisterTierTaints tier known =
     (let known = registerKnownEphemeralTaints commonKnownEphemeralTaints known
      in if tier = enterprise then registerKnownEphemeralTaints enterpriseKnownEphemeralTaints known else known)"

lemma same_taint: "(TaintKey x = TaintKey t \<and> TaintValue x = TaintValue t \<and> TaintEffect x = TaintEffect t) = (x = (t :: taint))"
  by (cases x; cases t) auto

lemma set_register: "set (registerKnownEphemeralTaints ts known) = set known \<union> set ts"
  by (induction ts arbitrary: known) (auto simp: same_taint list_ex_iff)

lemma distinct_register: "distinct known \<Longrightarrow> distinct (registerKnownEphemeralTaints ts known)"
  by (induction ts arbitrary: known) (auto simp: same_taint list_ex_iff)

lemma register_known: "set ts \<subseteq> set known \<Longrightarrow> registerKnownEphemeralTaints ts known = known"
  by (induction ts) (auto simp: same_taint list_ex_iff)

text \<open>Registering keeps what was known, adds the taints of the tier once each, and a second time changes nothing.\<close>

lemma RegisterTierTaints_exact:
  "set (RegisterTierTaints tier known) = set known \<union> set commonKnownEphemeralTaints \<union>
     (if tier = enterprise then set enterpriseKnownEphemeralTaints else {})"
  "distinct known \<Longrightarrow> distinct (RegisterTierTaints tier known)"
  "RegisterTierTaints tier (RegisterTierTaints tier known) = RegisterTierTaints tier known"
proof -
  let ?K = "RegisterTierTaints tier known"
  have "registerKnownEphemeralTaints commonKnownEphemeralTaints ?K = ?K"
    by (rule register_known) (auto simp: RegisterTierTaints_def Let_def set_register)
  moreover have "tier = enterprise \<Longrightarrow> registerKnownEphemeralTaints enterpriseKnownEphemeralTaints ?K = ?K"
    by (rule register_known) (auto simp: RegisterTierTaints_def Let_def set_register)
  ultimately show "RegisterTierTaints tier ?K = ?K"
    unfolding RegisterTierTaints_def [of tier ?K] Let_def by metis
qed (auto simp: RegisterTierTaints_def Let_def set_register distinct_register)

end
