(* ===== verification/Operator.thy ===== *)
theory Operator
  imports OfferingsFresh NodeProvider EphemeralTaints
begin

text \<open>
  pkg/operator: the options (options.go, options_validation.go), the configuration of the client and the
  construction of the operator (operator.go), which discovers the cluster, builds the node provider of the
  configured mode and the provider of instance types, and hydrates the latter. \<open>lo.Must0\<close> panics, which
  is \<open>None\<close>. The DNS address is only logged. The memory overhead is a finite number: the flag also accepts NaN and
  infinities, of which all but the negative infinity pass the validation too.
\<close>

section \<open>Options\<close>

record Options =
  OptClusterName :: string
  OptClusterRegion :: string
  OptClusterEndpoint :: string
  VMMemoryOverheadPercent :: rat
  DisableDryRun :: bool
  OptMode :: string
  LKECreateDeadline :: int
  LKETagVerificationTimeout :: int
  LKERetryDelay :: int

text \<open>\<open>url.Parse\<close> is a parameter: whether the URL is absolute, and its host name.\<close>

type_synonym url_parser = "string \<Rightarrow> (bool \<times> string) option"

definition validateEndpoint :: "url_parser \<Rightarrow> Options \<Rightarrow> nilerr" where
  "validateEndpoint parse opts =
     (if OptClusterEndpoint opts = [] then None
      else case parse (OptClusterEndpoint opts) of
             None \<Rightarrow> Some (Errorf ''cluster endpoint URL is not valid'' [OptClusterEndpoint opts] [])
           | Some (isAbs, hostname) \<Rightarrow>
               if \<not> isAbs \<or> hostname = [] then Some (Errorf ''cluster endpoint URL is not valid'' [OptClusterEndpoint opts] []) else None)"

definition validateVMMemoryOverheadPercent :: "Options \<Rightarrow> nilerr" where
  "validateVMMemoryOverheadPercent opts =
     (if VMMemoryOverheadPercent opts < 0 then Some (Errorf ''vm-memory-overhead-percent cannot be negative'' [] []) else None)"

definition validateRequiredFields :: "Options \<Rightarrow> nilerr" where
  "validateRequiredFields opts =
     (if OptClusterName opts = [] then Some (Errorf ''missing field, cluster-name'' [] [])
      else if OptMode opts = ''instance'' \<and> OptClusterRegion opts = [] then Some (Errorf ''missing field, cluster-region'' [] [])
      else None)"

definition validateMode :: "Options \<Rightarrow> nilerr" where
  "validateMode opts =
     (if OptMode opts \<noteq> ''lke'' \<and> OptMode opts \<noteq> ''instance''
      then Some (Errorf (''invalid mode %q, must be either 'lke' or 'instance'' @ [CHR 0x27]) [OptMode opts] []) else None)"

definition Validate :: "url_parser \<Rightarrow> Options \<Rightarrow> nilerr" where
  "Validate parse opts = combineErrs
     [validateEndpoint parse opts, validateVMMemoryOverheadPercent opts, validateRequiredFields opts, validateMode opts]"

section \<open>The client\<close>

record ClientConfig =
  Token :: string
  Timeout :: int

text \<open>\<open>lookup\<close> is \<open>os.LookupEnv\<close>; a variable that is not set reads as the empty string.\<close>

definition CreateLinodeClientConfig :: "(string \<Rightarrow> string option) \<Rightarrow> ClientConfig res" where
  "CreateLinodeClientConfig lookup =
     (let linodeToken = (case lookup ''LINODE_TOKEN'' of Some t \<Rightarrow> t | None \<Rightarrow> [])
      in if linodeToken = [] then Inl (Errorf ''LINODE_TOKEN environment variable is not set'' [] [])
         else let linodeConfig = \<lparr>Token = linodeToken, Timeout = 0\<rparr>
              in case lookup ''LINODE_CLIENT_TIMEOUT'' of
                   None \<Rightarrow> Inr linodeConfig
                 | Some raw \<Rightarrow>
                     (case Atoi raw of
                        Some timeout \<Rightarrow>
                          if timeout > 0 then Inr (linodeConfig\<lparr>Timeout := wrap64 (timeout * 10 ^ 9)\<rparr>) else Inr linodeConfig
                      | None \<Rightarrow> Inr linodeConfig))"

text \<open>The token and timeout of the HTTP client that \<open>CreateLinodeClient\<close> builds.\<close>

definition clientSettings :: "ClientConfig \<Rightarrow> ClientConfig res" where
  "clientSettings c =
     (if Token c = [] then Inl (Errorf ''token cannot be empty'' [] [])
      else Inr (c\<lparr>Timeout := (if Timeout c \<noteq> 0 then Timeout c else 10 * 10 ^ 9)\<rparr>))"

section \<open>The operator\<close>

text \<open>
  What the libraries supply, as templates: the clock, error functions, caches and orders of both node providers and the
  operations of the provider of instance types. \<open>emptyNodes\<close>, \<open>emptyTrackers\<close>, \<open>emptyMarks\<close> and
  \<open>emptyTypes\<close> are caches as \<open>cache.New\<close> returns them, in a provider of instance types that has seen nothing.
\<close>

record ('w, 'c, 'b, 'u, 'ic, 'dc, 'oc, 'm) libraries =
  aLke :: "('w, 'c, 'b, 'u) lke"
  aInstance :: "('w, 'c, 'u) instance_provider"
  aTypes :: "('ic, 'dc, 'oc, 'u, 'm) type_provider"
  emptyNodes :: 'c
  emptyTrackers :: 'b
  emptyMarks :: 'u
  emptyTypes :: "('ic, 'dc, 'oc, 'm) type_state"

datatype ('w, 'c, 'b, 'u) node_mode =
    LkeMode "('w, 'c, 'b, 'u) lke" "('w, 'c, 'b, 'u) lke_state"
  | InstanceMode "('w, 'c, 'u) instance_provider" "('w, 'c, 'u) ip_state"

record ('w, 'c, 'b, 'u, 'ic, 'dc, 'oc, 'm) operator =
  UnavailableOfferingsCache :: "'u UnavailableOfferings"
  InstanceTypesProvider :: "('ic, 'dc, 'oc, 'u, 'm) type_provider"
  InstanceTypesState :: "('ic, 'dc, 'oc, 'm) type_state"
  NodeProviderOf :: "('w, 'c, 'b, 'u) node_mode option"
  OpClusterID :: int

definition lkeConfig :: "Options \<Rightarrow> ProviderConfig" where
  "lkeConfig opts = \<lparr>CreateDeadline = LKECreateDeadline opts, TagVerificationTimeout = LKETagVerificationTimeout opts,
     RetryDelay = LKERetryDelay opts, BackoffBase = 0, BackoffMax = 0\<rparr>"

text \<open>
  The \<open>switch\<close> over the modes: the node provider, the cluster id and the options, and the startup taints Karpenter
  knows; another mode builds no provider.
\<close>

definition buildNodeProvider :: "('w, 'c, 'b, 'u, 'ic, 'dc, 'oc, 'm) libraries \<Rightarrow> 'w linode_api \<Rightarrow> 'u UnavailableOfferings \<Rightarrow> Options \<Rightarrow>
    taint list \<times> 'w \<Rightarrow> (('w, 'c, 'b, 'u) node_mode option \<times> int \<times> Options) res \<times> taint list \<times> 'w" where
  "buildNodeProvider A linodeClient u opts kw = (case kw of (known, w) \<Rightarrow>
     (if OptMode opts = ''lke''
      then case ListLKEClusters linodeClient [(FilterEq, ''label'', [OptClusterName opts])] w of
             (Inl e, w) \<Rightarrow> (Inl e, known, w)
           | (Inr clusterList, w) \<Rightarrow>
               if length clusterList \<noteq> 1
               then (Inl (Errorf ''could not determine LKE cluster with name: %s'' [OptClusterName opts] []), known, w)
               else let cluster = hd clusterList;
                        known = RegisterTierTaints (ClusterTierName cluster) known;
                        opts = (if OptClusterRegion opts = [] then opts\<lparr>OptClusterRegion := ClusterRegion cluster\<rparr> else opts);
                        p = (aLke A)\<lparr>clusterID := ClusterID cluster, clusterTier := ClusterTierName cluster,
                              clusterName := OptClusterName opts, region := OptClusterRegion opts,
                              config := withDefaults (lkeConfig opts), client := linodeClient\<rparr>
                    in (Inr (Some (LkeMode p (NewLkeState (lkeConfig opts) w (emptyNodes A) (emptyTrackers A) u)), ClusterID cluster, opts), known, w)
      else if OptMode opts = ''instance''
      then (Inr (Some (InstanceMode ((aInstance A)\<lparr>ipRegion := OptClusterRegion opts, ipClient := linodeClient\<rparr>)
             \<lparr>ipWorld = w, instanceCache = emptyNodes A, unavailableOfferings = u\<rparr>), 0, opts), known, w)
      else (Inr (None, 0, opts), known, w)))"

text \<open>
  The overhead of virtual machines reaches the resolver through the options in the context. The world of the
  node provider is the one it is built in; later requests go to the world the operator returns. In another mode
  than the two the operator has no node provider.
\<close>

definition NewOperator :: "('w, 'c, 'b, 'u, 'ic, 'dc, 'oc, 'm) libraries \<Rightarrow> 'w linode_api \<Rightarrow> Options \<Rightarrow> taint list \<times> 'w \<Rightarrow>
    (('w, 'c, 'b, 'u, 'ic, 'dc, 'oc, 'm) operator res \<times> Options \<times> taint list \<times> 'w) option" where
  "NewOperator A linodeClient opts kw =
     (let u = NewUnavailableOfferings (emptyMarks A)
      in case buildNodeProvider A linodeClient u opts kw of
           (Inl e, known, w) \<Rightarrow> Some (Inl e, opts, known, w)
         | (Inr (np, cluster, opts), known, w) \<Rightarrow>
             let T = (aTypes A)\<lparr>tResolver := (tResolver (aTypes A))\<lparr>rRegion := OptClusterRegion opts,
                        rPercent := VMMemoryOverheadPercent opts\<rparr>\<rparr>
             in case UpdateInstanceTypes T linodeClient (w, emptyTypes A) of
                  (Some e, w, s) \<Rightarrow> None
                | (None, w, s) \<Rightarrow>
                    (case UpdateInstanceTypeOfferings T linodeClient (OptClusterRegion opts) (w, s) of
                       (Some e, w, s) \<Rightarrow> None
                     | (None, w, s) \<Rightarrow>
                         Some (Inr \<lparr>UnavailableOfferingsCache = u, InstanceTypesProvider = T, InstanceTypesState = s,
                           NodeProviderOf = np, OpClusterID = cluster\<rparr>, opts, known, w)))"

section \<open>What a started operator guarantees\<close>

text \<open>The caches and the provider of instance types as they are built.\<close>

definition blank_libraries :: "('w, 'c, 'b, 'u, 'ic, 'dc, 'oc, 'm) libraries \<Rightarrow> ('m \<Rightarrow> (string, goset) gomap option) \<Rightarrow> bool" where
  "blank_libraries A seen \<longleftrightarrow> empty_cache (oMarkOps (tOfferings (aTypes A))) (emptyMarks A) \<and>
     instanceTypesOfferings (emptyTypes A) = [] \<and> allRegions (emptyTypes A) = [] \<and> seen (changeMonitor (emptyTypes A)) = None \<and>
     empty_cache (tTypesOps (aTypes A)) (instanceTypesCache (emptyTypes A)) \<and> lastUnavailableOfferingsSeqNum (offeringState (emptyTypes A)) = []"

text \<open>The operator's part of the market, at the moment it starts.\<close>

definition startedMarket :: "('w, 'c, 'b, 'u, 'ic, 'dc, 'oc, 'm) operator \<Rightarrow> 'w \<Rightarrow> int \<Rightarrow> ('ic, 'dc, 'oc, 'u, 'm, 'w) market" where
  "startedMarket op w now = \<lparr>mWorld = w, mMarks = UnavailableOfferingsCache op, mState = InstanceTypesState op, mClock = now, mChurn = (\<lambda>i. 0)\<rparr>"

text \<open>The cluster that the API lists under the configured name, when it lists exactly one.\<close>

definition clusterNamed :: "'w linode_api \<Rightarrow> Options \<Rightarrow> 'w \<Rightarrow> LKECluster \<Rightarrow> bool" where
  "clusterNamed linodeClient opts w cl \<longleftrightarrow>
     fst (ListLKEClusters linodeClient [(FilterEq, ''label'', [OptClusterName opts])] w) = Inr [cl]"

text \<open>The mode and region of the operator: in LKE mode they follow from the one cluster of the name.\<close>

definition discovered :: "'w linode_api \<Rightarrow> Options \<Rightarrow> 'w \<Rightarrow> ('w, 'c, 'b, 'u) node_mode \<Rightarrow> int \<Rightarrow> Options \<Rightarrow> bool" where
  "discovered linodeClient opts w np cluster opts' \<longleftrightarrow>
     (case np of
        LkeMode p s \<Rightarrow> \<exists>cl. clusterNamed linodeClient opts w cl \<and> cluster = ClusterID cl \<and> clusterTier p = ClusterTierName cl \<and>
          opts' = opts\<lparr>OptClusterRegion := (if OptClusterRegion opts = [] then ClusterRegion cl else OptClusterRegion opts)\<rparr>
      | InstanceMode p s \<Rightarrow> cluster = 0 \<and> opts' = opts)"

definition node_mode_ok :: "Options \<Rightarrow> int \<Rightarrow> taint list \<Rightarrow> taint list \<Rightarrow> ('w, 'c, 'b, 'u) node_mode \<Rightarrow> bool" where
  "node_mode_ok opts cluster known known' np \<longleftrightarrow>
     (case np of
        LkeMode p s \<Rightarrow> OptMode opts = ''lke'' \<and> region p = OptClusterRegion opts \<and> clusterID p = cluster \<and>
          clusterName p = OptClusterName opts \<and> OptClusterName opts \<noteq> [] \<and> config p = withDefaults (lkeConfig opts) \<and>
          set known' = set known \<union> set commonKnownEphemeralTaints \<union> (if clusterTier p = enterprise then set enterpriseKnownEphemeralTaints else {})
      | InstanceMode p s \<Rightarrow> OptMode opts = ''instance'' \<and> ipRegion p = OptClusterRegion opts \<and> OptClusterRegion opts \<noteq> [] \<and> known' = known)"

lemma Validate_ok:
  "Validate parse opts = None \<Longrightarrow> OptClusterName opts \<noteq> [] \<and> 0 \<le> VMMemoryOverheadPercent opts \<and>
     (OptMode opts = ''lke'' \<or> OptMode opts = ''instance'' \<and> OptClusterRegion opts \<noteq> [])"
  by (auto simp: Validate_def combineErrs_None validateRequiredFields_def validateMode_def validateVMMemoryOverheadPercent_def split: if_splits)

lemma buildNodeProvider_ok:
  assumes "Validate parse opts = None" "buildNodeProvider A linodeClient u opts (known, w) = (Inr (np, cluster, opts'), known', w')"
  shows "\<exists>m. np = Some m \<and> node_mode_ok opts' cluster known known' m \<and> discovered linodeClient opts w m cluster opts'"
proof (cases "OptMode opts = ''lke''")
  case lke: True
  obtain r w1 where l: "ListLKEClusters linodeClient [(FilterEq, ''label'', [OptClusterName opts])] w = (r, w1)" by fastforce
  with assms(2) lke obtain cl where cl: "r = Inr [cl]"
    by (auto simp: buildNodeProvider_def length_Suc_conv split: sum.splits if_splits)
  have named: "clusterNamed linodeClient opts w cl" by (simp add: clusterNamed_def l cl)
  let ?opts = "if OptClusterRegion opts = [] then opts\<lparr>OptClusterRegion := ClusterRegion cl\<rparr> else opts"
  from assms(2) lke l cl obtain p s where built: "opts' = ?opts" "cluster = ClusterID cl" "np = Some (LkeMode p s)"
      "region p = OptClusterRegion opts'" "clusterID p = ClusterID cl" "clusterTier p = ClusterTierName cl" "clusterName p = OptClusterName opts'"
      "config p = withDefaults (lkeConfig opts')" "known' = RegisterTierTaints (clusterTier p) known"
    by (auto simp: buildNodeProvider_def Let_def)
  have "?opts = opts\<lparr>OptClusterRegion := (if OptClusterRegion opts = [] then ClusterRegion cl else OptClusterRegion opts)\<rparr>" by simp
  with built named lke Validate_ok [OF assms(1)] show ?thesis
    by (auto simp: node_mode_ok_def discovered_def RegisterTierTaints_exact)
next
  case False
  with Validate_ok [OF assms(1)] have mode: "OptMode opts = ''instance''" "OptClusterRegion opts \<noteq> []" by auto
  with assms(2) obtain p s where "opts' = opts" "known' = known" "cluster = 0" "np = Some (InstanceMode p s)" "ipRegion p = OptClusterRegion opts"
    by (auto simp: buildNodeProvider_def)
  with mode show ?thesis by (simp add: node_mode_ok_def discovered_def)
qed

text \<open>What the operator built, from its two hydrations.\<close>

lemma NewOperator_cases:
  assumes "NewOperator A linodeClient opts (known, w) = Some (Inr op, opts', known', w')"
  obtains w1 w2 s1 where "buildNodeProvider A linodeClient (NewUnavailableOfferings (emptyMarks A)) opts (known, w) = (Inr (NodeProviderOf op, OpClusterID op, opts'), known', w1)"
    and "InstanceTypesProvider op = (aTypes A)\<lparr>tResolver := (tResolver (aTypes A))\<lparr>rRegion := OptClusterRegion opts',
      rPercent := VMMemoryOverheadPercent opts'\<rparr>\<rparr>"
    and "UpdateInstanceTypes (InstanceTypesProvider op) linodeClient (w1, emptyTypes A) = (None, w2, s1)"
    and "UpdateInstanceTypeOfferings (InstanceTypesProvider op) linodeClient (OptClusterRegion opts') (w2, s1) = (None, w', InstanceTypesState op)"
    and "UnavailableOfferingsCache op = NewUnavailableOfferings (emptyMarks A)"
  using assms by (auto simp: NewOperator_def Let_def split: prod.splits sum.splits option.splits)

lemma InjectOfferings_home:
  "InjectOfferings O' its info all avail u now os = (its', os') \<Longrightarrow> \<forall>it \<in> set its. at_home h it \<Longrightarrow> \<forall>it \<in> set its'. at_home h it"
proof (induction its arbitrary: os its' os')
  case (Cons it its)
  then show ?case by (fastforce simp: at_home_def split: prod.splits)
qed simp

lemma typeList_home:
  assumes "cache_ok (tTypesOps T) ttl" "types_at_home T s" "typeList T nodeClass u now s = Some (Inr its, s')"
  shows "\<forall>it \<in> set its. at_home (rRegion (tResolver T)) it"
proof -
  obtain raw s1 os where raw: "typesOf T nodeClass now s = Some (raw, s1)"
    "InjectOfferings (tOfferings T) raw (instanceTypesInfo s1) (allRegions s1) (instanceTypesOfferings s1) u now (offeringState s1) = (its, os)"
    using assms(3) by (auto simp: typeList_def split: option.splits prod.splits)
  with typesOf_at_home [OF assms(1,2) raw(1)] InjectOfferings_home [OF raw(2)] show ?thesis by blast
qed

text \<open>The two hydrations are steps of the market, so all that holds of reachable markets holds of a started operator.\<close>

lemma started_ok:
  assumes "NewOperator A linodeClient opts (known, w) = Some (Inr op, opts', known', w')" "market_laws (aTypes A) seen" "blank_libraries A seen"
  shows "market_laws (InstanceTypesProvider op) seen \<and> market_ok (InstanceTypesProvider op) seen (startedMarket op w' now)"
proof -
  let ?T = "InstanceTypesProvider op"
  from NewOperator_cases [OF assms(1)] obtain w1 w2 s1 where
    T: "?T = (aTypes A)\<lparr>tResolver := (tResolver (aTypes A))\<lparr>rRegion := OptClusterRegion opts', rPercent := VMMemoryOverheadPercent opts'\<rparr>\<rparr>"
    and types: "UpdateInstanceTypes ?T linodeClient (w1, emptyTypes A) = (None, w2, s1)"
    and avail: "UpdateInstanceTypeOfferings ?T linodeClient (OptClusterRegion opts') (w2, s1) = (None, w', InstanceTypesState op)"
    and marks: "UnavailableOfferingsCache op = NewUnavailableOfferings (emptyMarks A)" by metis
  let ?c = "\<lparr>mWorld = w1, mMarks = UnavailableOfferingsCache op, mState = emptyTypes A, mClock = now, mChurn = (\<lambda>i. 0)\<rparr>"
  let ?c1 = "?c\<lparr>mWorld := w2, mState := s1\<rparr>"
  have laws: "market_laws ?T seen" using assms(2) by (simp add: market_laws_def T)
  have "market_ok ?T seen ?c"
    by (rule market_start_ok [OF laws]) (use assms(3) in \<open>auto simp: market_start_def blank_libraries_def T marks\<close>)
  moreover have "market_step ?T linodeClient (OptClusterRegion opts') ?c ?c1"
    by (rule market_step.types [of _ _ _ None]) (simp add: types)
  moreover have "market_step ?T linodeClient (OptClusterRegion opts') ?c1 (startedMarket op w' now)"
    using market_step.availability [of ?T linodeClient "OptClusterRegion opts'" ?c1 None w' "InstanceTypesState op"]
    by (simp add: avail startedMarket_def)
  ultimately show ?thesis using laws market_step_ok [OF laws] by blast
qed

text \<open>
  C33: An operator that starts is put together consistently. With valid options its node provider is the one of the
  configured mode; in LKE mode the API listed exactly one cluster under the configured name, and the operator and the provider
  are for that cluster and its tier; the region is the configured one where there is one and else that of this cluster, and no
  other option changes; the provider that launches nodes, the one that describes instance types and the availability the
  operator started with and asks for later share this region; Karpenter is told the startup taints of the cluster and no
  others; and whatever happens after the start, every instance type a listing shows is of that region, and its offerings are
  those of the current availability data, none of them available that is marked.
\<close>

theorem started_operator_consistent:
  assumes "Validate parse opts = None" "NewOperator A linodeClient opts (known, w) = Some (Inr op, opts', known', w')"
    and "market_laws (aTypes A) seen" "blank_libraries A seen"
  shows "(\<exists>np. NodeProviderOf op = Some np \<and> node_mode_ok opts' (OpClusterID op) known known' np \<and>
      discovered linodeClient opts w np (OpClusterID op) opts') \<and>
    rRegion (tResolver (InstanceTypesProvider op)) = OptClusterRegion opts' \<and>
    (\<exists>w2 s2. UpdateInstanceTypeOfferings (InstanceTypesProvider op) linodeClient (OptClusterRegion opts') (w2, s2) =
      (None, w', InstanceTypesState op)) \<and>
    (\<forall>now c nodeClass its s. (market_step (InstanceTypesProvider op) linodeClient (OptClusterRegion opts'))\<^sup>*\<^sup>* (startedMarket op w' now) c \<and>
       typeList (InstanceTypesProvider op) nodeClass (mMarks c) (mClock c) (mState c) = Some (Inr its, s) \<longrightarrow>
       (\<forall>it \<in> set its. at_home (OptClusterRegion opts') it \<and>
          (plain_name (ItName it) \<and> mChurn c (ItName it) < 2 ^ 64 \<longrightarrow>
             offerings_fresh (tOfferings (aTypes A)) (instanceTypesOfferings (mState c)) (mMarks c) (mClock c) (ItName it) (ItOfferings it))))"
proof -
  let ?T = "InstanceTypesProvider op" and ?r = "OptClusterRegion opts'"
  obtain w1 w2 s2 where built: "buildNodeProvider A linodeClient (NewUnavailableOfferings (emptyMarks A)) opts (known, w) = (Inr (NodeProviderOf op, OpClusterID op, opts'), known', w1)"
    and T: "?T = (aTypes A)\<lparr>tResolver := (tResolver (aTypes A))\<lparr>rRegion := ?r, rPercent := VMMemoryOverheadPercent opts'\<rparr>\<rparr>"
    and asked: "UpdateInstanceTypeOfferings ?T linodeClient ?r (w2, s2) = (None, w', InstanceTypesState op)"
    by (rule NewOperator_cases [OF assms(2)]) metis
  note mode = buildNodeProvider_ok [OF assms(1) built]
  have T_region: "rRegion (tResolver ?T) = ?r" "tOfferings ?T = tOfferings (aTypes A)" by (simp_all add: T)
  have listed: "at_home ?r it \<and> (plain_name (ItName it) \<and> mChurn c (ItName it) < 2 ^ 64 \<longrightarrow>
      offerings_fresh (tOfferings (aTypes A)) (instanceTypesOfferings (mState c)) (mMarks c) (mClock c) (ItName it) (ItOfferings it))"
    if reach: "(market_step ?T linodeClient ?r)\<^sup>*\<^sup>* (startedMarket op w' now) c"
      and l: "typeList ?T nodeClass (mMarks c) (mClock c) (mState c) = Some (Inr its, s)" and it: "it \<in> set its" for now c nodeClass its s it
  proof -
    note started = started_ok [OF assms(2-4)]
    have laws: "market_laws ?T seen" using started by blast
    from reach have ok: "market_ok ?T seen c"
      by (induction rule: rtranclp_induct) (use started in blast, use market_step_ok [OF laws] in blast)
    obtain ttl where "cache_ok (tTypesOps ?T) ttl" using laws unfolding market_laws_def by blast
    moreover have "types_at_home ?T (mState c)" using ok by (simp add: market_ok_def)
    ultimately have "at_home ?r it" using typeList_home [OF _ _ l] it T_region by metis
    with typeList_ok(2) [OF laws ok l refl it] show ?thesis by (simp add: T_region)
  qed
  from mode T_region(1) asked listed show ?thesis by (intro conjI allI impI ballI) auto
qed

end
