(* ===== verification/OperatorSample.thy ===== *)
theory OperatorSample
  imports Operator ProviderSample
begin

text \<open>An operator started in LKE mode on the in-memory service, without a configured region: the witness.\<close>

definition sampleLibraries :: "(fake_world, Instance timed, backoffEntry timed, unit timed, instance_type list timed,
    resource_list timed, offering list timed, (string, goset) gomap option) libraries" where
  "sampleLibraries = \<lparr>aLke = sampleLke fakeClient fakeRuntime, 
     aInstance = \<lparr>ipRegion = [], ipClient = fakeClient, ipRuntime = fakeRuntime, ipErrlib = documented_lib, ipSched = label_sched,
       ipCacheOps = timed_ops (seconds 300), ipMarkOps = timed_ops UnavailableOfferingsTTL, ipRangeOrder = (\<lambda>m. m)\<rparr>,
     aTypes = sampleProvider,
     emptyNodes = [], emptyTrackers = [], emptyMarks = [], emptyTypes = sampleTypes\<lparr>instanceTypesInfo := []\<rparr>\<rparr>"

definition sampleOptions :: Options where
  "sampleOptions = \<lparr>OptClusterName = DefaultClusterName, OptClusterRegion = [], OptClusterEndpoint = [],
     VMMemoryOverheadPercent = 3 / 40, DisableDryRun = False, OptMode = ''lke'', LKECreateDeadline = seconds 10,
     LKETagVerificationTimeout = seconds 4, LKERetryDelay = seconds 2\<rparr>"

lemma sample_start: "case NewOperator sampleLibraries fakeClient sampleOptions ([], sampleWorld) of
    Some (Inr op, opts, known, w) \<Rightarrow> OptClusterRegion opts = DefaultRegion \<and> map TaintValue known = [''waiting'', []] | _ \<Rightarrow> False"
  by code_simp

lemma started_operator_consistent_witness:
  "\<exists>op opts' known' w'. NewOperator sampleLibraries fakeClient sampleOptions ([], sampleWorld) = Some (Inr op, opts', known', w') \<and>
     rRegion (tResolver (InstanceTypesProvider op)) = DefaultRegion \<and> map TaintValue known' = [''waiting'', []]"
proof -
  obtain r opts' known' w' where start: "NewOperator sampleLibraries fakeClient sampleOptions ([], sampleWorld) = Some (r, opts', known', w')"
    "case r of Inr op \<Rightarrow> OptClusterRegion opts' = DefaultRegion \<and> map TaintValue known' = [''waiting'', []] | Inl e \<Rightarrow> False"
    using sample_start by (cases "NewOperator sampleLibraries fakeClient sampleOptions ([], sampleWorld)") auto
  then obtain op where "r = Inr op" by (cases r) simp_all
  with start have run: "NewOperator sampleLibraries fakeClient sampleOptions ([], sampleWorld) = Some (Inr op, opts', known', w')"
    "OptClusterRegion opts' = DefaultRegion" "map TaintValue known' = [''waiting'', []]" by simp_all
  have valid: "Validate (\<lambda>u. None) sampleOptions = None" by code_simp
  have laws: "market_laws (aTypes sampleLibraries) id" by (simp add: sampleLibraries_def sample_laws)
  have blank: "blank_libraries sampleLibraries id"
    by (simp add: blank_libraries_def sampleLibraries_def sampleTypes_def sampleProvider_def sampleOfferings_def timed_ops_empty)
  from started_operator_consistent [OF valid run(1) laws blank] run show ?thesis by auto
qed

end
