(* ===== verification/PoolLock.thy ===== *)
theory PoolLock
  imports LkeCreateProps
begin

text \<open>
  Concurrent Creates (\<open>withPoolLock\<close> in pkg/providers/lke/lke.go): the lock of a pool key makes the attempts of all
  NodeClaims on it a sequence, and what everybody else does meanwhile is in the answers of the client, about which
  nothing is assumed but that reads do not go back on a claim they have shown.
\<close>

section \<open>What the client shows of claims\<close>

definition showsClaimed :: "event \<Rightarrow> int list" where
  "showsClaimed ev = (case ev of
     GotInstance n i \<Rightarrow> if unclaimed i then [] else [LiID i]
   | ListedInstances f is \<Rightarrow> map LiID (filter (\<lambda>i. \<not> unclaimed i) is)
   | _ \<Rightarrow> [])"

definition showsFree :: "event \<Rightarrow> int list" where
  "showsFree ev = (case ev of
     GotInstance n i \<Rightarrow> if unclaimed i then [LiID i] else []
   | ListedInstances f is \<Rightarrow> map LiID (filter unclaimed is)
   | _ \<Rightarrow> [])"

definition rightID :: "event \<Rightarrow> bool" where
  "rightID ev = (case ev of GotInstance n i \<Rightarrow> LiID i = n | _ \<Rightarrow> True)"

text \<open>
  An instance is returned under its id, and one that was shown with the tag of a NodeClaim is never shown
  without one again.
\<close>

fun claims_stay :: "int set \<Rightarrow> log \<Rightarrow> bool" where
  "claims_stay K [] = True"
| "claims_stay K (ev # l) = (rightID ev \<and> list_all (\<lambda>n. n \<notin> K) (showsFree ev) \<and> claims_stay (set (showsClaimed ev) \<union> K) l)"

definition claimsSeen :: "log \<Rightarrow> int set" where
  "claimsSeen l = set (concat (map showsClaimed l))"

lemma claimsSeen_simps [simp]:
  "claimsSeen [] = {}" "claimsSeen (ev # l) = set (showsClaimed ev) \<union> claimsSeen l"
  "claimsSeen (l @ l') = claimsSeen l \<union> claimsSeen l'"
  by (simp_all add: claimsSeen_def)

lemma claims_stay_append: "claims_stay K (l @ l') \<longleftrightarrow> claims_stay K l \<and> claims_stay (claimsSeen l \<union> K) l'"
  by (induction l arbitrary: K) (auto simp: Un_assoc Un_left_commute)

lemma claims_stay_rightID: "claims_stay K l \<Longrightarrow> GotInstance n i \<in> set l \<Longrightarrow> LiID i = n"
  by (induction l arbitrary: K) (auto simp: rightID_def)

lemma claimsSeen_got: "GotInstance n i \<in> set l \<Longrightarrow> \<not> unclaimed i \<Longrightarrow> LiID i \<in> claimsSeen l"
  by (induction l) (auto simp: showsClaimed_def)

lemma tagged_not_unclaimed: "name \<noteq> [] \<Longrightarrow> NodeClaimTag name \<in> set (LiTags i) \<Longrightarrow> \<not> unclaimed i"
proof -
  assume name: "name \<noteq> []" and tag: "NodeClaimTag name \<in> set (LiTags i)"
  have "valid_kv (NodeClaimTagKey, NormalizeNodeClaimTagValue name)"
    using name by (simp add: valid_kv_def label_defs(10) coreGroup_def)
  with tag have "NodeClaimTagKey \<in> dom (map_of (TagListToMap (LiTags i)))" unfolding dom_TagListToMap NodeClaimTag_def by blast
  then show ?thesis by (auto simp: unclaimed_def)
qed

section \<open>One attempt under the lock\<close>

definition updatesInstance :: "event \<Rightarrow> bool" where
  "updatesInstance ev = (case ev of Sent (UpdateInstanceReq n ts) ok \<Rightarrow> True | _ \<Rightarrow> False)"

lemma verifyLoop_shows:
  assumes "verifyLoop p i tag d s = Some y" "recording p"
  shows "\<exists>l. logOf (snd y) = logOf s @ l \<and> reads l \<and>
    (\<forall>inst. fst y = Inr inst \<longrightarrow> tag \<in> set (LiTags inst) \<and> GotInstance i inst \<in> set l)"
  using assms
proof (induction rule: verifyLoop.raw_induct [rotated, consumes 1, case_names step])
  case (step loop p i tag d s y)
  obtain r1 s1 where r1: "req (GetInstance (client p) i) s = (r1, s1)" by fastforce
  note log1 = req_log(2) [OF step.prems r1]
  let ?res = "\<lambda>l. logOf (snd y) = logOf s @ l \<and> reads l \<and>
    (\<forall>inst. fst y = Inr inst \<longrightarrow> tag \<in> set (LiTags inst) \<and> GotInstance i inst \<in> set l)"
  consider "?res []" | "?res [reply (GotInstance i) r1]"
    | "loop p i tag d (sleepFor p (RetryDelay (config p)) s1) = Some y"
    using step.hyps by (cases r1) (auto simp: r1 log1 reply_def split: if_splits option.splits)
  then show "\<exists>l. ?res l"
  proof cases
    case 3
    from step.IH [OF this step.prems] step.prems obtain l where "logOf (snd y) = logOf s1 @ l" "reads l"
      "\<forall>inst. fst y = Inr inst \<longrightarrow> tag \<in> set (LiTags inst) \<and> GotInstance i inst \<in> set l"
      by auto
    with log1 show ?thesis by (intro exI [of _ "reply (GotInstance i) r1 # l"]) auto
  qed blast+
qed

text \<open>A claim that succeeds was free when it was read last, and is then seen with the tag of its NodeClaim.\<close>

definition claims_in :: "string \<Rightarrow> int \<Rightarrow> log \<Rightarrow> bool" where
  "claims_in name n l \<longleftrightarrow> (\<exists>l1 ev ts l2 i. l = l1 @ ev # Sent (UpdateInstanceReq n ts) True # l2 \<and> n \<in> set (showsFree ev) \<and>
     GotInstance n i \<in> set l2 \<and> NodeClaimTag name \<in> set (LiTags i))"

lemma claims_inI:
  "n \<in> set (showsFree ev) \<Longrightarrow> GotInstance n i \<in> set l2 \<Longrightarrow> NodeClaimTag name \<in> set (LiTags i) \<Longrightarrow>
     claims_in name n (l1 @ ev # Sent (UpdateInstanceReq n ts) True # l2)"
  unfolding claims_in_def by blast

lemma claimInstance_claims:
  assumes rec: "recording p" and find: "findClaimableInstance p pool s = (Inr i, s1)"
    and claim: "claimInstance p i nodeClaim nodeClass pool s1 = Some (Inr inst, s')"
  shows "\<exists>l. logOf s' = logOf s @ l \<and> claims_in (NodeClaimName nodeClaim) (LiID i) l \<and> GotInstance (LiID i) inst \<in> set l"
proof -
  let ?tags = "claimTags (rangeOrder p) (LiTags i) (PoolTags pool) (SpecTags (Spec nodeClass)) (NodeClaimName nodeClaim)"
  obtain l1 where l1: "logOf s1 = logOf s @ l1" "unclaimed i" "l1 \<noteq> []"
      "(\<exists>n. last l1 = GotInstance n i) \<or> (\<exists>f is. last l1 = ListedInstances f is \<and> i \<in> set is)"
    using findClaimableInstance_log [OF rec find] by blast
  then have free: "LiID i \<in> set (showsFree (last l1))" by (auto simp: showsFree_def)
  obtain r2 s2 where r2: "req (UpdateInstance (client p) (LiID i) ?tags) s1 = (r2, s2)" by fastforce
  with claim obtain x where x: "r2 = Inr x" by (cases r2) (auto simp: claimInstance_def)
  with req_log(4) [OF rec r2] have log2: "logOf s2 = logOf s1 @ [Sent (UpdateInstanceReq (LiID i) ?tags) True]" by (simp add: sent_def)
  from claim r2 x have "verifyLoop p (LiID i) (NodeClaimTag (NodeClaimName nodeClaim))
      (nowOf p s2 + TagVerificationTimeout (config p)) s2 = Some (Inr inst, s')"
    by (simp add: claimInstance_def verifyTagsApplied_def)
  from verifyLoop_shows [OF this rec] obtain l2 where l2: "logOf s' = logOf s2 @ l2"
    "NodeClaimTag (NodeClaimName nodeClaim) \<in> set (LiTags inst)" "GotInstance (LiID i) inst \<in> set l2" by auto
  have "butlast l1 @ [last l1] = l1" using l1(3) by simp
  then have "logOf s' = logOf s @ butlast l1 @ last l1 # Sent (UpdateInstanceReq (LiID i) ?tags) True # l2"
    using l1(1) log2 l2(1) by (metis append.assoc append_Cons append_Nil)
  with claims_inI [OF free l2(3,2)] l2(3) show ?thesis
    by (intro exI [of _ "butlast l1 @ last l1 # Sent (UpdateInstanceReq (LiID i) ?tags) True # l2"]) simp
qed

text \<open>An attempt that returns an instance has found it by its tag, or has claimed it.\<close>

lemma attemptCreate_claims:
  assumes rec: "recording p" and run: "attemptCreate p nodeClass nc tags it c sc s = Some (Inr inst, c', sc', s')"
  shows "\<exists>l. logOf s' = logOf s @ l \<and>
    (list_ex updatesInstance l \<longrightarrow> (\<exists>n li. claims_in (NodeClaimName nc) n l \<and> GotInstance n li \<in> set l \<and> InstID inst = LiID li))"
proof -
  obtain r1 s1 where r1: "lookupExistingInstance p nc s = (r1, s1)" by fastforce
  from lookupExistingInstance_log [OF rec r1] obtain ev where ev: "logOf s1 = logOf s @ [ev]" "is_read ev" by blast
  show ?thesis
  proof (cases r1)
    case (Inr existing)
    with run r1 have "s' = s1" by (simp add: attemptCreate_def)
    with ev show ?thesis by (cases ev) (auto simp: updatesInstance_def)
  next
    case (Inl e)
    with run r1 have go: "errors_Is e ErrInstanceNotFound" by (auto simp: attemptCreate_def split: if_splits)
    obtain r2 c2 s2 where r2: "findOrCreatePool p nodeClass nc tags it c s1 = (r2, c2, s2)" by (metis prod_cases3)
    from findOrCreatePool_log [OF rec r2] obtain l2 where l2: "logOf s2 = logOf s1 @ l2" by blast
    from run r1 Inl go r2 obtain pool where pool: "r2 = Inr pool" by (cases r2) (auto simp: attemptCreate_def split: if_splits)
    obtain r3 s3 where r3: "findClaimableInstance p pool s2 = (r3, s3)" by fastforce
    note step = attemptCreate_def r1 Inl go r2 pool r3
    show ?thesis
    proof (cases r3)
      case (Inl e3)
      with run have "isRetryableCreateError e3" "scalePool p it pool c2 sc s3 = Some (Inr inst, c', sc', s')"
        by (cases "isRetryableCreateError e3"; simp add: step)+
      with scalePool_log [OF rec this(2)] show ?thesis by auto
    next
      case i: (Inr i)
      with run obtain claimed s4 where r4: "claimInstance p i nc nodeClass pool s3 = Some (Inr claimed, s4)"
        and inst: "InstID inst = LiID claimed" "logOf s' = logOf s4"
        by (auto simp: step Let_def NewLKEInstance_def split: option.splits sum.splits)
      from claimInstance_claims [OF rec r3 [unfolded i] r4] obtain l3 where
        l3: "logOf s4 = logOf s2 @ l3" "claims_in (NodeClaimName nc) (LiID i) l3" "GotInstance (LiID i) claimed \<in> set l3" by blast
      from l3(2) have "claims_in (NodeClaimName nc) (LiID i) (ev # l2 @ l3)"
        unfolding claims_in_def by (metis append_Cons append_assoc)
      with l3 ev l2 inst show ?thesis
        by (intro exI [of _ "ev # l2 @ l3"] conjI impI exI [of _ "LiID i"] exI [of _ claimed]) auto
    qed
  qed
qed

section \<open>Everything that happens on a pool\<close>

text \<open>
  The attempts on one pool key in the order in which they hold the lock, from a provider that has sent nothing: of any
  NodeClaim, at any point of its Create. Between two of them the world and the caches may change
  in any way. The second argument lists which NodeClaim claimed which instance.
\<close>

definition claimOf :: "NodeClaim \<Rightarrow> Instance res \<Rightarrow> log \<Rightarrow> (string \<times> int) list" where
  "claimOf nc r l = (case r of Inr inst \<Rightarrow> if list_ex updatesInstance l then [(NodeClaimName nc, InstID inst)] else [] | Inl e \<Rightarrow> [])"

inductive pool_history :: "('w \<times> log, 'c, 'b, 'u) lke \<Rightarrow> (string \<times> int) list \<Rightarrow> ('w \<times> log, 'c, 'b, 'u) lke_state \<Rightarrow> bool"
  for p where
  start: "logOf s = [] \<Longrightarrow> pool_history p [] s"
| attempt: "pool_history p cs s \<Longrightarrow> NodeClaimName nc \<noteq> [] \<Longrightarrow>
    attemptCreate p nodeClass nc tags it createdPool scaledOnce s = Some (r, createdPool', scaledOnce', s') \<Longrightarrow>
    pool_history p (cs @ claimOf nc r (drop (length (logOf s)) (logOf s'))) s'"
| meanwhile: "pool_history p cs s \<Longrightarrow> logOf s' = logOf s \<Longrightarrow> pool_history p cs s'"

text \<open>A claim in a log that goes on from another: the instance had not been seen claimed before.\<close>

lemma claims_in_new:
  assumes "claims_in name n l" "name \<noteq> []" "claims_stay {} (l0 @ l)"
  shows "n \<notin> claimsSeen l0" "n \<in> claimsSeen l" "\<exists>i. GotInstance n i \<in> set l \<and> NodeClaimTag name \<in> set (LiTags i)"
proof -
  from assms(1) obtain l1 ev ts l2 i where l: "l = l1 @ ev # Sent (UpdateInstanceReq n ts) True # l2"
    "n \<in> set (showsFree ev)" "GotInstance n i \<in> set l2" "NodeClaimTag name \<in> set (LiTags i)" unfolding claims_in_def by blast
  from assms(3) l(2) show "n \<notin> claimsSeen l0" by (auto simp: l(1) claims_stay_append list_all_iff)
  have got: "GotInstance n i \<in> set l" using l(1,3) by simp
  then have "LiID i = n" using claims_stay_rightID [OF assms(3)] by simp
  with claimsSeen_got [OF got] tagged_not_unclaimed [OF assms(2) l(4)] show "n \<in> claimsSeen l" by simp
  from got l(4) show "\<exists>i. GotInstance n i \<in> set l \<and> NodeClaimTag name \<in> set (LiTags i)" by blast
qed

lemma pool_history_claims:
  assumes "pool_history p cs s" "recording p" "range_ok (rangeOrder p)" "claims_stay {} (logOf s)"
  shows "distinct (map snd cs) \<and> set (map snd cs) \<subseteq> claimsSeen (logOf s) \<and>
    (\<forall>(name, n) \<in> set cs. \<exists>i. GotInstance n i \<in> set (logOf s) \<and> NodeClaimTag name \<in> set (LiTags i))"
  using assms(1,4)
proof induction
  case (attempt cs s nc nodeClass tags it createdPool scaledOnce r createdPool' scaledOnce' s')
  from attemptCreate_audited [OF assms(2,3) attempt.hyps(3)] obtain l where l: "logOf s' = logOf s @ l" unfolding audited_def by blast
  with attempt.prems have stay: "claims_stay {} (logOf s @ l)" by simp
  then have IH: "distinct (map snd cs)" "set (map snd cs) \<subseteq> claimsSeen (logOf s)"
    "\<forall>(name, n) \<in> set cs. \<exists>i. GotInstance n i \<in> set (logOf s) \<and> NodeClaimTag name \<in> set (LiTags i)"
    using attempt.IH by (simp_all add: claims_stay_append)
  show ?case
  proof (cases "claimOf nc r l = []")
    case True
    with IH l show ?thesis by (simp add: subset_iff) blast
  next
    case False
    then obtain inst where r: "r = Inr inst" "list_ex updatesInstance l" "claimOf nc r l = [(NodeClaimName nc, InstID inst)]"
      by (auto simp: claimOf_def split: sum.splits if_splits)
    from attemptCreate_claims [OF assms(2) attempt.hyps(3) [unfolded r(1)]] l r(2) obtain n li where
      c: "claims_in (NodeClaimName nc) n l" "GotInstance n li \<in> set l" "InstID inst = LiID li" by auto
    then have n: "InstID inst = n" using claims_stay_rightID [OF stay] by simp
    from claims_in_new [OF c(1) attempt.hyps(2) stay] IH n l r(3) show ?thesis by auto
  qed
qed auto

text \<open>
  C3: No instance is given to two NodeClaims. Whatever happens around it - other actors changing the world and the caches
  between any two attempts, requests failing, claims that time out and are tried again - the attempts that hold
  the lock of a pool one after another claim pairwise different instances, and each was seen with
  the tag of its NodeClaim; the API need only show a claim it has shown once for good.
\<close>

theorem claims_are_exclusive:
  assumes "pool_history p cs s" "recording p" "range_ok (rangeOrder p)" "claims_stay {} (logOf s)"
  shows "distinct (map snd cs) \<and>
    (\<forall>(name, n) \<in> set cs. \<exists>i. GotInstance n i \<in> set (logOf s) \<and> LiID i = n \<and> NodeClaimTag name \<in> set (LiTags i))"
  using pool_history_claims [OF assms] claims_stay_rightID [OF assms(4)] by (fastforce split: prod.splits)

end
