(* ===== verification/PoolLockSample.thy ===== *)
theory PoolLockSample
  imports PoolLock LkeSample
begin

text \<open>Two NodeClaims on one pool of the in-memory service: the witness of the theorem on the lock.\<close>

fun attemptsOf :: "(NodeClaim \<times> bool \<times> bool) list \<Rightarrow> (string \<times> int) list \<Rightarrow> (fake_world \<times> log) sample_state \<Rightarrow>
    ((string \<times> int) list \<times> (fake_world \<times> log) sample_state) option" where
  "attemptsOf [] cs s = Some (cs, s)"
| "attemptsOf ((nc, createdPool, scaledOnce) # as) cs s =
     (case attemptCreate recordedLke sampleNodeClass nc (sampleTags nc) ''g6'' createdPool scaledOnce s of
        None \<Rightarrow> None
      | Some (r, c', sc', s') \<Rightarrow> attemptsOf as (cs @ claimOf nc r (drop (length (logOf s)) (logOf s'))) s')"

lemma attemptsOf_history:
  "attemptsOf as cs s = Some (cs', s') \<Longrightarrow> pool_history recordedLke cs s \<Longrightarrow> \<forall>(nc, c, sc) \<in> set as. NodeClaimName nc \<noteq> [] \<Longrightarrow>
     pool_history recordedLke cs' s'"
proof (induction as cs s rule: attemptsOf.induct)
  case (2 nc c sc as cs s)
  then obtain r c' sc' s1 where a: "attemptCreate recordedLke sampleNodeClass nc (sampleTags nc) ''g6'' c sc s = Some (r, c', sc', s1)"
    by (cases "attemptCreate recordedLke sampleNodeClass nc (sampleTags nc) ''g6'' c sc s") auto
  with "2.prems" have "pool_history recordedLke (cs @ claimOf nc r (drop (length (logOf s)) (logOf s1))) s1"
    by (auto intro: pool_history.attempt)
  with "2.IH" [OF a refl refl refl] a "2.prems" show ?case by simp
qed simp

definition lockWorld :: fake_world where
  "lockWorld = NewFakeWorld\<lparr>GetRegionAvailabilityOutput := Some [\<lparr>AvRegion = DefaultRegion, AvPlan = ''g6'', AvAvailable = True\<rparr>]\<rparr>"

definition lockRun :: "((string \<times> int) list \<times> (fake_world \<times> log) sample_state) option" where
  "lockRun = attemptsOf [(sampleClaim ''a'', False, False), (sampleClaim ''b'', False, False), (sampleClaim ''b'', False, True)]
     [] (freshState lockWorld)"

lemma lockRun_evaluates:
  "map_option (\<lambda>(cs, s). (map fst cs, claims_stay {} (logOf s))) lockRun = Some ([''a'', ''b''], True)"
  by code_simp

lemma claims_are_exclusive_witness:
  "\<exists>n m s. pool_history recordedLke [(''a'', n), (''b'', m)] s \<and> n \<noteq> m"
proof -
  obtain cs s where run: "lockRun = Some (cs, s)" "map fst cs = [''a'', ''b'']" "claims_stay {} (logOf s)"
    using lockRun_evaluates by auto
  then obtain n m where cs: "cs = [(''a'', n), (''b'', m)]" by (auto simp: map_eq_Cons_conv)
  have "logOf (freshState lockWorld) = []" by (simp add: logOf_def)
  then have "pool_history recordedLke [] (freshState lockWorld)" by (rule pool_history.start)
  from attemptsOf_history [OF run(1) [unfolded lockRun_def] this] have h: "pool_history recordedLke cs s"
    by (simp add: sampleClaim_def)
  have "recording recordedLke" by (auto simp: recording_def)
  moreover have "range_ok (rangeOrder recordedLke)" by (simp add: range_ok_id)
  ultimately have "distinct (map snd cs)" using claims_are_exclusive [OF h _ _ run(3)] by blast
  with h cs show ?thesis by auto
qed

end
