(* ===== verification/MetricsController.thy ===== *)
theory MetricsController
  imports CloudProvider Offerings
begin

text \<open>
  pkg/controllers/metrics/controller.go: the gauges of availability and price of the offerings that the NodePools see.
  \<open>listPools\<close> lists the NodePools, \<open>any\<close> is Karpenter's \<open>Requirement.Any\<close>, \<open>reserved\<close> the feature gate of reserved
  capacity; a gauge maps label values to the last value set.
\<close>

record metricDimensions =
  dimType :: string
  dimCapacity :: string
  dimRegion :: string

type_synonym 'a dims = "(metricDimensions, 'a) gomap"

record gauges =
  InstanceTypeOfferingAvailable :: "rat dims"
  InstanceTypeOfferingPriceEstimate :: "rat dims"

definition CapacityTypeReserved :: string where "CapacityTypeReserved = ''reserved''"

definition dimensionsOf :: "(string list \<Rightarrow> string) \<Rightarrow> instance_type \<Rightarrow> offering \<Rightarrow> metricDimensions" where
  "dimensionsOf any it off = \<lparr>dimType = ItName it, dimCapacity = any (requirementValues (OffRequirements off) CapacityTypeLabelKey),
     dimRegion = any (requirementValues (OffRequirements off) LabelTopologyRegion)\<rparr>"

definition addOffering :: "metricDimensions \<Rightarrow> offering \<Rightarrow> bool dims \<times> rat dims \<Rightarrow> bool dims \<times> rat dims" where
  "addOffering d off acc = (case acc of (availability, price) \<Rightarrow>
     (AList.update d (map_of availability d = Some True \<or> Available off) availability, AList.update d (Price off) price))"

definition addReserved :: "metricDimensions \<Rightarrow> bool dims \<times> rat dims \<Rightarrow> bool dims \<times> rat dims" where
  "addReserved d acc = (case acc of (availability, price) \<Rightarrow>
     if map_of availability d = None then (AList.update d False availability, AList.update d 0 price) else acc)"

text \<open>The dimensions of reserved capacity in the regions of a type; in which order Go ranges over them makes no difference.\<close>

definition reservedDims :: "(string list \<Rightarrow> string) \<Rightarrow> instance_type \<Rightarrow> metricDimensions list" where
  "reservedDims any it = map (\<lambda>r. \<lparr>dimType = ItName it, dimCapacity = CapacityTypeReserved, dimRegion = r\<rparr>)
     (remdups (map (\<lambda>off. dimRegion (dimensionsOf any it off)) (ItOfferings it)))"

definition addType :: "bool \<Rightarrow> (string list \<Rightarrow> string) \<Rightarrow> instance_type \<Rightarrow> bool dims \<times> rat dims \<Rightarrow> bool dims \<times> rat dims" where
  "addType reserved any it acc =
     (let acc = fold (\<lambda>off. addOffering (dimensionsOf any it off) off) (ItOfferings it) acc
      in if reserved then fold addReserved (reservedDims any it) acc else acc)"

text \<open>The loop over the NodePools; \<open>None\<close> is a panic.\<close>

fun addPools :: "('s, 't, 'k) cloud \<Rightarrow> bool \<Rightarrow> (string list \<Rightarrow> string) \<Rightarrow> NodePool list \<Rightarrow> bool dims \<times> rat dims \<Rightarrow>
    ('s, 't, 'k) cluster \<Rightarrow> ((bool dims \<times> rat dims) res \<times> ('s, 't, 'k) cluster) option" where
  "addPools c reserved any [] acc st = Some (Inr acc, st)"
| "addPools c reserved any (nodePool # nodePools) acc st =
     (case GetInstanceTypes c nodePool st of
        None \<Rightarrow> None
      | Some (Inl e, st) \<Rightarrow> Some (Inl e, st)
      | Some (Inr instanceTypes, st) \<Rightarrow> addPools c reserved any nodePools (fold (addType reserved any) instanceTypes acc) st)"

definition setGauge :: "('a \<Rightarrow> rat) \<Rightarrow> 'a dims \<Rightarrow> rat dims \<Rightarrow> rat dims" where
  "setGauge f m g = fold (\<lambda>(d, v). AList.update d (f v)) m g"

definition metricsReconcile :: "('s, 't, 'k) cloud \<Rightarrow> ('k \<Rightarrow> NodePool list res \<times> 'k) \<Rightarrow> bool \<Rightarrow> (string list \<Rightarrow> string) \<Rightarrow>
    gauges \<times> ('s, 't, 'k) cluster \<Rightarrow> (int res \<times> gauges \<times> ('s, 't, 'k) cluster) option" where
  "metricsReconcile c listPools reserved any gst = (case gst of (g, st) \<Rightarrow>
     (case onKube listPools st of
        (Inl e, st) \<Rightarrow> Some (Inl e, g, st)
      | (Inr nodePools, st) \<Rightarrow>
        (case addPools c reserved any nodePools ([], []) st of
           None \<Rightarrow> None
         | Some (Inl e, st) \<Rightarrow> Some (Inl e, g, st)
         | Some (Inr (availability, price), st) \<Rightarrow>
             Some (Inr (60 * 10 ^ 9),
               \<lparr>InstanceTypeOfferingAvailable = setGauge (\<lambda>available. if available then 1 else 0) availability (InstanceTypeOfferingAvailable g),
                InstanceTypeOfferingPriceEstimate = setGauge id price (InstanceTypeOfferingPriceEstimate g)\<rparr>, st))))"

section \<open>What the gauges say\<close>

text \<open>The offerings of one combination of labels, in the order in which a run meets them.\<close>

definition offeringsAt :: "(string list \<Rightarrow> string) \<Rightarrow> metricDimensions \<Rightarrow> instance_type list \<Rightarrow> offering list" where
  "offeringsAt any d its = concat (map (\<lambda>it. filter (\<lambda>off. dimensionsOf any it off = d) (ItOfferings it)) its)"

fun poolTypes :: "('s, 't, 'k) cloud \<Rightarrow> NodePool list \<Rightarrow> ('s, 't, 'k) cluster \<Rightarrow> instance_type list" where
  "poolTypes c [] st = []"
| "poolTypes c (nodePool # nodePools) st =
     (case GetInstanceTypes c nodePool st of Some (Inr its, st) \<Rightarrow> its @ poolTypes c nodePools st | _ \<Rightarrow> [])"

definition tallied :: "metricDimensions \<Rightarrow> offering list \<Rightarrow> bool \<Rightarrow> bool dims \<times> rat dims \<Rightarrow> bool" where
  "tallied d ofs r acc \<longleftrightarrow> wf_map (fst acc) \<and> wf_map (snd acc) \<and>
     map_of (fst acc) d = (if ofs \<noteq> [] then Some (list_ex Available ofs) else if r then Some False else None) \<and>
     map_of (snd acc) d = (if ofs \<noteq> [] then Some (Price (last ofs)) else if r then Some 0 else None)"

lemma tallied_offering: "tallied d ofs r acc \<Longrightarrow> tallied d (if d' = d then ofs @ [off] else ofs) r (addOffering d' off acc)"
  by (cases acc; cases "ofs = []"; cases r) (auto simp: tallied_def addOffering_def update_conv' distinct_update simp del: map_of_eq_Some_iff)

lemma tallied_offerings:
  "tallied d ofs r acc \<Longrightarrow> tallied d (ofs @ filter (\<lambda>off. f off = d) os) r (fold (\<lambda>off. addOffering (f off) off) os acc)"
proof (induction os arbitrary: ofs acc)
  case (Cons off os)
  from Cons.IH [OF tallied_offering [OF Cons.prems, of "f off" off]] show ?case by (cases "f off = d") simp_all
qed simp

lemma tallied_reserved: "tallied d ofs r acc \<Longrightarrow> tallied d ofs (r \<or> d \<in> set ds) (fold addReserved ds acc)"
proof (induction ds arbitrary: r acc)
  case (Cons d' ds)
  have "tallied d ofs (r \<or> d' = d) (addReserved d' acc)"
    using Cons.prems by (cases acc; cases "ofs = []"; cases r) (auto simp: tallied_def addReserved_def update_conv' distinct_update simp del: map_of_eq_Some_iff)
  from Cons.IH [OF this] show ?case by (simp add: disj_ac eq_commute)
qed simp

lemma tallied_types:
  "tallied d ofs r acc \<Longrightarrow> tallied d (ofs @ offeringsAt any d its)
     (r \<or> reserved \<and> (\<exists>it \<in> set its. d \<in> set (reservedDims any it))) (fold (addType reserved any) its acc)"
proof (induction its arbitrary: ofs r acc)
  case (Cons it its)
  let ?ofs = "filter (\<lambda>off. dimensionsOf any it off = d) (ItOfferings it)"
  have "tallied d (ofs @ ?ofs) (r \<or> reserved \<and> d \<in> set (reservedDims any it)) (addType reserved any it acc)"
    using tallied_offerings [OF Cons.prems, of "dimensionsOf any it" "ItOfferings it"]
      tallied_reserved [of d "ofs @ ?ofs" r _ "reservedDims any it"] by (cases reserved) (simp_all add: addType_def)
  from Cons.IH [OF this] show ?case by (simp add: offeringsAt_def conj_disj_distribL disj_assoc)
qed (simp add: offeringsAt_def)

lemma tallied_pools:
  "addPools c reserved any nps acc st = Some (Inr acc', st') \<Longrightarrow> tallied d ofs r acc \<Longrightarrow>
     tallied d (ofs @ offeringsAt any d (poolTypes c nps st)) (r \<or> reserved \<and> (\<exists>it \<in> set (poolTypes c nps st). d \<in> set (reservedDims any it))) acc'"
proof (induction nps arbitrary: ofs r acc st)
  case (Cons np nps)
  then obtain its st1 where its: "GetInstanceTypes c np st = Some (Inr its, st1)"
    by (auto split: option.splits sum.splits prod.splits)
  with Cons.prems(1) have "addPools c reserved any nps (fold (addType reserved any) its acc) st1 = Some (Inr acc', st')" by simp
  from Cons.IH [OF this tallied_types [OF Cons.prems(2)]] its show ?case
    by (simp add: offeringsAt_def conj_disj_distribL disj_assoc bex_Un)
qed (simp add: offeringsAt_def)

lemma map_of_setGauge:
  "wf_map m \<Longrightarrow> map_of (setGauge f m g) d = (case map_of m d of Some v \<Rightarrow> Some (f v) | None \<Rightarrow> map_of g d)"
proof -
  assume wf: "wf_map m"
  have "setGauge f m g = assign2 g (map (\<lambda>(d, v). (d, f v)) m)"
    by (simp add: setGauge_def assign2_def fold_map comp_def case_prod_unfold)
  moreover have "map_of (map (\<lambda>(d, v). (d, f v)) m) d = map_option f (map_of m d)" by (simp add: map_of_map)
  ultimately show ?thesis using wf by (simp add: map_of_assign2 comp_def case_prod_unfold map_add_def split: option.split)
qed

text \<open>
  After a run that succeeds, the availability gauge of a combination of labels that some NodePool is offered says whether
  any of its offerings is available, and the price is that of the last one; a combination nobody is offered any
  more keeps the value it had, unless it is one of reserved capacity under its feature gate.
\<close>

lemma metrics_report_offerings:
  assumes "onKube listPools st = (Inr nodePools, st1)"
    and "metricsReconcile c listPools reserved any (g, st) = Some (Inr again, g', st')"
  shows "let its = poolTypes c nodePools st1; ofs = offeringsAt any d its;
      res = reserved \<and> (\<exists>it \<in> set its. d \<in> set (reservedDims any it))
    in map_of (InstanceTypeOfferingAvailable g') d =
        (if ofs \<noteq> [] then Some (if list_ex Available ofs then 1 else 0) else if res then Some 0 else map_of (InstanceTypeOfferingAvailable g) d) \<and>
      map_of (InstanceTypeOfferingPriceEstimate g') d =
        (if ofs \<noteq> [] then Some (Price (last ofs)) else if res then Some 0 else map_of (InstanceTypeOfferingPriceEstimate g) d)"
proof -
  obtain av pr st2 where run: "addPools c reserved any nodePools ([], []) st1 = Some (Inr (av, pr), st2)"
    "g' = \<lparr>InstanceTypeOfferingAvailable = setGauge (\<lambda>available. if available then 1 else 0) av (InstanceTypeOfferingAvailable g),
       InstanceTypeOfferingPriceEstimate = setGauge id pr (InstanceTypeOfferingPriceEstimate g)\<rparr>"
    using assms by (auto simp: metricsReconcile_def split: option.splits sum.splits prod.splits)
  have "tallied d [] False ([], [])" by (simp add: tallied_def)
  from tallied_pools [OF run(1) this] show ?thesis
    by (auto simp: run(2) tallied_def map_of_setGauge Let_def)
qed

end
