(* ===== verification/FakeStore.thy ===== *)
theory FakeStore
  imports FakeApi NodeProvider
begin

text \<open>
  What the in-memory Linode service of pkg/fake keeps true of its store, whatever a node provider of either mode
  does with it: the rest of the mocks' interface (atomic.go, types.go, utils.go), the invariant of
  the store, and a locale that carries any invariant the client keeps through every operation of both providers.
\<close>

section \<open>The rest of the mocks' interface\<close>

text \<open>\<open>AtomicPtrSlice\<close>; a copy through JSON is the value, and reading past the end panics.\<close>

definition sliceAdd :: "'a \<Rightarrow> 'a list \<Rightarrow> 'a list" where
  "sliceAdd input xs = xs @ [input]"

definition sliceLen :: "'a list \<Rightarrow> int" where
  "sliceLen xs = int (length xs)"

definition slicePop :: "'a list \<Rightarrow> ('a \<times> 'a list) option" where
  "slicePop xs = (if xs = [] then None else Some (last xs, butlast xs))"

definition sliceAt :: "'a list \<Rightarrow> int \<Rightarrow> 'a option" where
  "sliceAt xs index = (if 0 \<le> index \<and> index < sliceLen xs then Some (xs ! nat index) else None)"

definition AtomicErrorReset :: "AtomicError \<Rightarrow> AtomicError" where
  "AtomicErrorReset e = e\<lparr>aeErr := None, aeCalls := 0, aeMaxCalls := 0\<rparr>"

definition AtomicErrorIsNil :: "AtomicError \<Rightarrow> bool" where
  "AtomicErrorIsNil e \<longleftrightarrow> aeErr e = None"

definition MockReset :: "('i, 'o) MockedFunction \<Rightarrow> ('i, 'o) MockedFunction" where
  "MockReset m = m\<lparr>mockOutput := None, mockMultiOut := [], mockCalledWithInput := [],
     mockError := AtomicErrorReset (mockError m), mockSuccessfulCalls := 0, mockFailedCalls := 0\<rparr>"

definition Calls :: "('i, 'o) MockedFunction \<Rightarrow> int" where
  "Calls m = mockSuccessfulCalls m + mockFailedCalls m"

text \<open>\<open>Reset\<close> of the client; the clock is no part of it.\<close>

definition fakeReset :: "fake_world \<Rightarrow> fake_world" where
  "fakeReset w = w\<lparr>ListTypesOutput := None, GetRegionAvailabilityOutput := None,
     GetTypeBehavior := MockReset (GetTypeBehavior w),
     GetRegionAvailabilityBehavior := MockReset (GetRegionAvailabilityBehavior w),
     CreateInstanceBehavior := MockReset (CreateInstanceBehavior w),
     GetInstanceBehavior := MockReset (GetInstanceBehavior w),
     DeleteInstanceBehavior := MockReset (DeleteInstanceBehavior w),
     ListInstancesBehavior := MockReset (ListInstancesBehavior w),
     CreateTagsBehavior := MockReset (CreateTagsBehavior w),
     Instances := fold (\<lambda>(k, v). AList.delete k) (Instances w) (Instances w),
     InsufficientCapacityPools := [],
     NodePools := fold (\<lambda>(k, v). AList.delete k) (NodePools w) (NodePools w),
     CreateLKENodePoolBehavior := MockReset (CreateLKENodePoolBehavior w),
     GetLKEClusterBehavior := MockReset (GetLKEClusterBehavior w),
     ListLKENodePoolsBehavior := MockReset (ListLKENodePoolsBehavior w),
     GetLKENodePoolBehavior := MockReset (GetLKENodePoolBehavior w),
     UpdateLKENodePoolBehavior := MockReset (UpdateLKENodePoolBehavior w),
     DeleteLKENodePoolBehavior := MockReset (DeleteLKENodePoolBehavior w),
     DeleteLKENodePoolNodeBehavior := MockReset (DeleteLKENodePoolNodeBehavior w),
     UpdateInstanceBehavior := MockReset (UpdateInstanceBehavior w),
     FakeClusterTier := DefaultClusterTier, FakeClusterVersion := DefaultClusterVersion\<rparr>"

definition fakeProviderID :: "int \<Rightarrow> string" where
  "fakeProviderID i = ''linode://'' @ Itoa i"

definition MakeInstanceOfferings :: "LinodeType list \<Rightarrow> RegionAvailability list" where
  "MakeInstanceOfferings ts = map (\<lambda>t. \<lparr>AvRegion = DefaultRegion, AvPlan = LtID t, AvAvailable = True\<rparr>) ts"

lemma AtomicErrorReset_eq [simp]: "AtomicErrorReset e = noError"
  by (simp add: AtomicErrorReset_def noError_def)

lemma MockReset_eq [simp]: "MockReset m = newMock"
  by (simp add: MockReset_def newMock_def)

lemma delete_all_keys: "fst ` set xs \<subseteq> fst ` set ys \<Longrightarrow> fold (\<lambda>(k, v). AList.delete k) ys xs = []"
proof (induction ys arbitrary: xs)
  case (Cons y ys)
  obtain k v where y: "y = (k, v)" by (cases y)
  have "fst ` set (AList.delete k xs) \<subseteq> fst ` set ys"
    using Cons.prems by (fastforce simp: y AList.delete_eq)
  with Cons.IH y show ?case by simp
qed simp

text \<open>A client that was reset is a new one, at the time it has come to.\<close>

lemma fakeReset_new: "fakeReset w = NewFakeWorld\<lparr>FakeTime := FakeTime w\<rparr>"
  by (simp add: fakeReset_def NewFakeWorld_def delete_all_keys)

text \<open>Every call of a mock is counted once, as failed exactly when it returns an error, and its input is kept unless it was an injected error.\<close>

lemma Invoke_counts:
  assumes "Invoke m i f w = ((r, e), m', w')"
  shows "Calls m' = Calls m + 1" "mockFailedCalls m' = mockFailedCalls m + (if e = None then 0 else 1)"
    "mockCalledWithInput m' = mockCalledWithInput m @ (if fst (AtomicErrorGet (mockError m)) = None then [i] else [])"
  using assms by (auto simp: Invoke_def Calls_def Let_def split: prod.splits option.splits if_splits)

text \<open>A mock without error and canned output answers as its default does.\<close>

lemma Invoke_default:
  "fst (AtomicErrorGet (mockError m)) = None \<Longrightarrow> mockOutput m = None \<Longrightarrow> mockMultiOut m = [] \<Longrightarrow>
     fst (Invoke m i f w) = fst (f w) \<and> snd (snd (Invoke m i f w)) = snd (f w)"
  by (auto simp: Invoke_def Let_def split: prod.splits option.splits)

section \<open>The invariant of the store\<close>

definition pool_ok :: "int \<Rightarrow> LKENodePool \<Rightarrow> bool" where
  "pool_ok k p \<longleftrightarrow> PoolID p = k \<and> PoolCount p = int (length (PoolLinodes p)) \<and>
     (\<forall>node \<in> set (PoolLinodes p). \<exists>i. node = nodeOf k i)"

definition well_stored :: "fake_world \<Rightarrow> bool" where
  "well_stored w \<longleftrightarrow> wf_map (Instances w) \<and> wf_map (NodePools w) \<and>
     (\<forall>(k, i) \<in> set (Instances w). LiID i = k) \<and> (\<forall>((c, k), p) \<in> set (NodePools w). pool_ok k p)"

text \<open>It is about the store only, so no bookkeeping of a mock can break it.\<close>

lemma well_storedI:
  "wf_map (Instances w) \<Longrightarrow> wf_map (NodePools w) \<Longrightarrow> (\<And>k i. (k, i) \<in> set (Instances w) \<Longrightarrow> LiID i = k) \<Longrightarrow>
     (\<And>c k p. ((c, k), p) \<in> set (NodePools w) \<Longrightarrow> pool_ok k p) \<Longrightarrow> well_stored w"
  by (auto simp: well_stored_def)

lemma well_stored_cong: "Instances w' = Instances w \<Longrightarrow> NodePools w' = NodePools w \<Longrightarrow> well_stored w' = well_stored w"
  by (simp add: well_stored_def)

lemma well_stored_new: "well_stored NewFakeWorld"
  by (simp add: well_stored_def NewFakeWorld_def)

lemma set_update_cases: "p \<in> set (AList.update k v m) \<Longrightarrow> p = (k, v) \<or> p \<in> set m"
  by (induction m) (auto split: if_splits)

lemma set_delete_sub: "p \<in> set (AList.delete k m) \<Longrightarrow> p \<in> set m"
  by (auto simp: AList.delete_eq)

lemma put_instance:
  "well_stored w \<Longrightarrow> LiID i = k \<Longrightarrow> well_stored (w\<lparr>Instances := AList.update k i (Instances w)\<rparr>)"
  by (rule well_storedI) (auto simp: well_stored_def distinct_update dest!: set_update_cases)

lemma storeInstance_ok: "well_stored w \<Longrightarrow> well_stored (storeInstance i w)"
  by (simp add: storeInstance_def put_instance)

lemma dropInstance_ok: "well_stored w \<Longrightarrow> well_stored (dropInstance k w)"
  by (rule well_storedI) (auto simp: dropInstance_def well_stored_def distinct_delete dest!: set_delete_sub)

lemma fold_ok: "(\<And>x w. I w \<Longrightarrow> I (f x w)) \<Longrightarrow> I w \<Longrightarrow> I (fold f xs w)"
  by (induction xs arbitrary: w) auto

lemma addNodes_ok: "well_stored w \<Longrightarrow> well_stored (addNodes typ ts c k is w)"
  unfolding addNodes_def by (rule fold_ok) (simp_all add: storeInstance_ok)

lemma dropNodes_ok: "well_stored w \<Longrightarrow> well_stored (fold (\<lambda>node. dropInstance (NodeInstanceID node)) ns w)"
  by (rule fold_ok) (simp_all add: dropInstance_ok)

lemma put_pool: "well_stored w \<Longrightarrow> pool_ok k p \<Longrightarrow> well_stored (w\<lparr>NodePools := AList.update (c, k) p (NodePools w)\<rparr>)"
  by (rule well_storedI) (auto simp: well_stored_def distinct_update dest!: set_update_cases)

lemma drop_pool: "well_stored w \<Longrightarrow> well_stored (w\<lparr>NodePools := AList.delete key (NodePools w)\<rparr>)"
  by (rule well_storedI) (auto simp: well_stored_def distinct_delete dest!: set_delete_sub)

lemma stored_pool: "well_stored w \<Longrightarrow> map_of (NodePools w) (c, k) = Some p \<Longrightarrow> pool_ok k p"
  by (auto simp: well_stored_def dest!: map_of_SomeD)

lemma stored_instance: "well_stored w \<Longrightarrow> map_of (Instances w) k = Some i \<Longrightarrow> LiID i = k"
  by (auto simp: well_stored_def dest!: map_of_SomeD)

lemma newPool_ok: "well_stored w \<Longrightarrow> 0 \<le> CreateCount opts \<Longrightarrow> well_stored (snd (newPool c opts w))"
  by (auto simp: newPool_def Let_def pool_ok_def intro!: put_pool addNodes_ok)

lemma resizePool_ok:
  assumes "well_stored w" "pool_ok k p" "resizePool c p n w = (r, w')"
  shows "well_stored w' \<and> (\<forall>p'. r = Inl p' \<longrightarrow> pool_ok k p')"
  using assms by (auto simp: resizePool_def Let_def pool_ok_def addNodes_ok dropNodes_ok split: if_splits dest!: in_set_takeD)

lemma updatePool_ok: "well_stored w \<Longrightarrow> well_stored (snd (updatePool c k opts w))"
proof -
  assume w: "well_stored w"
  have fields: "pool_ok k p \<Longrightarrow> pool_ok k (p\<lparr>PoolK8sVersion := v\<rparr>)" "pool_ok k p \<Longrightarrow> pool_ok k (p\<lparr>PoolUpdateStrategy := v\<rparr>)"
    for p :: LKENodePool and v by (simp_all add: pool_ok_def)
  show ?thesis
    using w resizePool_ok [OF w] by (auto simp: updatePool_def Let_def dest!: stored_pool [OF w]
        split: option.splits prod.splits sum.splits intro!: put_pool fields)
qed

lemma removePool_ok: "well_stored w \<Longrightarrow> well_stored (snd (removePool c k w))"
  by (auto simp: removePool_def Let_def intro!: drop_pool dropNodes_ok split: option.splits)

lemma locateNode_SomeD:
  assumes "locateNode c n w = Some (key, p, node)"
  shows "(key, p) \<in> set (NodePools w)" "node \<in> set (PoolLinodes p)" "NodeID node = n" "fst key = c"
proof -
  from assms have f: "find (\<lambda>((c', i), pool). c' = c \<and> list_ex (\<lambda>n'. NodeID n' = n) (PoolLinodes pool)) (NodePools w) = Some (key, p)"
    "find (\<lambda>n'. NodeID n' = n) (PoolLinodes p) = Some node"
    by (auto simp: locateNode_def split: option.splits)
  from find_SomeD [OF f(1)] find_SomeD [OF f(2)] show "(key, p) \<in> set (NodePools w)" "node \<in> set (PoolLinodes p)"
    "NodeID node = n" "fst key = c" by (simp_all split: prod.splits)
qed

lemma removeNode_ok: "well_stored w \<Longrightarrow> well_stored (snd (removeNode c n w))"
proof (cases "locateNode c n w")
  case (Some x)
  obtain cc k p node where x: "x = ((cc, k), p, node)" by (metis prod_cases3 surj_pair)
  assume w: "well_stored w"
  with locateNode_SomeD(1) [OF Some [unfolded x]] have p: "pool_ok k p" by (auto simp: well_stored_def)
  let ?p = "p\<lparr>PoolLinodes := remove1 node (PoolLinodes p), PoolCount := int (length (remove1 node (PoolLinodes p)))\<rparr>"
  have "pool_ok k ?p" using p by (auto simp: pool_ok_def dest: notin_set_remove1)
  then show ?thesis
    using dropInstance_ok [OF w] Some x by (auto simp: removeNode_def Let_def intro!: put_pool drop_pool)
qed (simp add: removeNode_def)

lemma appendTag_ok: "well_stored w \<Longrightarrow> well_stored (snd (appendTag is l w))"
proof (induction "is" l w rule: appendTag.induct)
  case (2 i "is" l w)
  show ?case
  proof (cases "map_of (Instances w) i")
    case (Some li)
    have "well_stored (w\<lparr>Instances := AList.update i (li\<lparr>LiTags := LiTags li @ [l]\<rparr>) (Instances w)\<rparr>)"
      using stored_instance [OF "2.prems" Some] "2.prems" by (simp add: put_instance)
    from "2.IH" [OF Some this] Some show ?thesis by simp
  qed (use "2.prems" in simp)
qed simp

lemma setTags_ok: "well_stored w \<Longrightarrow> well_stored (snd (setTags i ts w))"
  by (auto simp: setTags_def Let_def dest: stored_instance intro!: put_instance split: option.splits)

lemma newInstance_ok: "well_stored w \<Longrightarrow> well_stored (snd (newInstance opts w))"
  by (simp add: newInstance_def Let_def storeInstance_ok)

section \<open>What a client keeps, its callers keep\<close>

definition keepsI :: "('w \<Rightarrow> bool) \<Rightarrow> ('w \<Rightarrow> 'a \<times> 'w) \<Rightarrow> bool" where
  "keepsI I f \<longleftrightarrow> (\<forall>w. I w \<longrightarrow> I (snd (f w)))"

text \<open>Every request but one for a negative number of nodes.\<close>

definition api_keeps :: "('w \<Rightarrow> bool) \<Rightarrow> 'w linode_api \<Rightarrow> bool" where
  "api_keeps I a \<longleftrightarrow> keepsI I (ListTypes a) \<and> (\<forall>i. keepsI I (GetType a i)) \<and> (\<forall>r. keepsI I (GetRegionAvailability a r)) \<and>
     (\<forall>n. keepsI I (GetInstance a n)) \<and> (\<forall>n. keepsI I (DeleteInstance a n)) \<and> (\<forall>f. keepsI I (ListInstances a f)) \<and>
     (\<forall>is l. keepsI I (CreateTag a is l)) \<and> (\<forall>opts. keepsI I (CreateInstance a opts)) \<and> (\<forall>n ts. keepsI I (UpdateInstance a n ts)) \<and>
     (\<forall>c. keepsI I (GetLKECluster a c)) \<and> (\<forall>f. keepsI I (ListLKEClusters a f)) \<and>
     (\<forall>c opts. 0 \<le> CreateCount opts \<longrightarrow> keepsI I (CreateLKENodePool a c opts)) \<and> (\<forall>c. keepsI I (ListLKENodePools a c)) \<and>
     (\<forall>c k. keepsI I (GetLKENodePool a c k)) \<and> (\<forall>c k opts. keepsI I (UpdateLKENodePool a c k opts)) \<and>
     (\<forall>c k. keepsI I (DeleteLKENodePool a c k)) \<and> (\<forall>c n. keepsI I (DeleteLKENodePoolNode a c n))"

definition runtime_keeps :: "('w \<Rightarrow> bool) \<Rightarrow> 'w runtime \<Rightarrow> bool" where
  "runtime_keeps I t \<longleftrightarrow> (\<forall>d w. I w \<longrightarrow> I (Sleep t d w)) \<and> keepsI I (NewUUID t)"

lemma keepsI_D: "keepsI I f \<Longrightarrow> f w = (r, w') \<Longrightarrow> I w \<Longrightarrow> I w'"
  by (metis keepsI_def snd_conv)

lemma world_simps:
  "world (cacheNode p n s) = world s" "world (MarkTypeUnavailable p it s) = world s" "world (uncacheNode p i s) = world s"
  by (simp_all add: cacheNode_def MarkTypeUnavailable_def uncacheNode_def)

lemma observePoolAttempt_world: "observePoolAttempt p key e s = (r, s') \<Longrightarrow> world s' = world s"
  by (auto simp: observePoolAttempt_def split: option.splits if_splits)

lemma recordPoolFailure_world: "world (recordPoolFailure p key e s) = world s"
  by (simp add: recordPoolFailure_def split: option.splits)

lemma collectInstances_world: "collectInstances p is s = (r, s') \<Longrightarrow> world s' = world s"
  by (induction p "is" s arbitrary: r s' rule: collectInstances.induct) (auto simp: Let_def world_simps split: if_splits prod.splits)

lemma afterDelete_world: "world (snd (afterDelete p i (e, s))) = world s"
  by (simp add: afterDelete_def world_simps split: option.splits)

locale kept_world =
  fixes I :: "'w \<Rightarrow> bool"
    and a :: "'w linode_api"
    and t :: "'w runtime"
  assumes api: "api_keeps I a" and runtime: "runtime_keeps I t"
begin

lemma keeps_requests:
  "keepsI I (GetRegionAvailability a r)" "keepsI I (GetInstance a n)" "keepsI I (DeleteInstance a n)"
  "keepsI I (ListInstances a f)" "keepsI I (CreateTag a is l)" "keepsI I (CreateInstance a io)" "keepsI I (UpdateInstance a n ts)"
  "0 \<le> CreateCount opts \<Longrightarrow> keepsI I (CreateLKENodePool a c opts)" "keepsI I (ListLKENodePools a c)"
  "keepsI I (GetLKENodePool a c k)" "keepsI I (UpdateLKENodePool a c k uo)" "keepsI I (DeleteLKENodePool a c k)"
  "keepsI I (DeleteLKENodePoolNode a c nid)" "keepsI I (NewUUID t)" "keepsI I (LookupInstanceByTag a tag)"
proof -
  show "keepsI I (LookupInstanceByTag a tag)" using api
    by (auto simp: LookupInstanceByTag_def keepsI_def api_keeps_def split: prod.splits sum.splits list.splits) (metis snd_conv)+
qed (use api runtime in \<open>auto simp: api_keeps_def runtime_keeps_def\<close>)

lemma sleep_keeps: "I w \<Longrightarrow> I (Sleep t d w)"
  using runtime by (simp add: runtime_keeps_def)

text \<open>The LKE provider on this client and clock, function by function.\<close>

definition lkeOn :: "('w, 'c, 'b, 'u) lke \<Rightarrow> bool" where
  "lkeOn p \<longleftrightarrow> client p = a \<and> rt p = t"

lemma req_keeps: "req f s = (r, s') \<Longrightarrow> keepsI I f \<Longrightarrow> I (world s) \<Longrightarrow> I (world s')"
  by (auto simp: req_def split: prod.splits dest: keepsI_D)

lemma sleepFor_keeps: "lkeOn p \<Longrightarrow> I (world s) \<Longrightarrow> I (world (sleepFor p d s))"
  by (simp add: sleepFor_def lkeOn_def sleep_keeps)

lemma lke_req:
  assumes "lkeOn p"
  shows "req (GetRegionAvailability (client p) r) s = (x1, s') \<Longrightarrow> I (world s) \<Longrightarrow> I (world s')"
    "req (GetInstance (client p) n) s = (x2, s') \<Longrightarrow> I (world s) \<Longrightarrow> I (world s')"
    "req (ListInstances (client p) f) s = (x3, s') \<Longrightarrow> I (world s) \<Longrightarrow> I (world s')"
    "req (UpdateInstance (client p) n ts) s = (x2, s') \<Longrightarrow> I (world s) \<Longrightarrow> I (world s')"
    "req (CreateLKENodePool (client p) c (poolCreateOptions p nodeClass nc tags it)) s = (x4, s') \<Longrightarrow> I (world s) \<Longrightarrow> I (world s')"
    "req (ListLKENodePools (client p) c) s = (x5, s') \<Longrightarrow> I (world s) \<Longrightarrow> I (world s')"
    "req (GetLKENodePool (client p) c k) s = (x4, s') \<Longrightarrow> I (world s) \<Longrightarrow> I (world s')"
    "req (UpdateLKENodePool (client p) c k uo) s = (x4, s') \<Longrightarrow> I (world s) \<Longrightarrow> I (world s')"
    "req (LookupInstanceByTag (client p) tag) s = (x2, s') \<Longrightarrow> I (world s) \<Longrightarrow> I (world s')"
    "req (DeleteLKENodePool (client p) c k) s = (x6, s') \<Longrightarrow> I (world s) \<Longrightarrow> I (world s')"
    "req (DeleteLKENodePoolNode (client p) c nid) s = (x6, s') \<Longrightarrow> I (world s) \<Longrightarrow> I (world s')"
proof -
  have c: "client p = a" using assms by (simp add: lkeOn_def)
  have one: "0 \<le> CreateCount (poolCreateOptions p nodeClass nc tags it)" by (simp add: poolCreateOptions_def)
  note k = req_keeps [OF _ keeps_requests(1)] req_keeps [OF _ keeps_requests(2)] req_keeps [OF _ keeps_requests(4)]
    req_keeps [OF _ keeps_requests(7)] req_keeps [OF _ keeps_requests(8)] req_keeps [OF _ keeps_requests(9)]
    req_keeps [OF _ keeps_requests(10)] req_keeps [OF _ keeps_requests(11)] req_keeps [OF _ keeps_requests(15)]
    req_keeps [OF _ keeps_requests(12)] req_keeps [OF _ keeps_requests(13)]
  show "req (GetRegionAvailability (client p) r) s = (x1, s') \<Longrightarrow> I (world s) \<Longrightarrow> I (world s')" unfolding c by (rule k(1))
  show "req (GetInstance (client p) n) s = (x2, s') \<Longrightarrow> I (world s) \<Longrightarrow> I (world s')" unfolding c by (rule k(2))
  show "req (ListInstances (client p) f) s = (x3, s') \<Longrightarrow> I (world s) \<Longrightarrow> I (world s')" unfolding c by (rule k(3))
  show "req (UpdateInstance (client p) n ts) s = (x2, s') \<Longrightarrow> I (world s) \<Longrightarrow> I (world s')" unfolding c by (rule k(4))
  show "req (CreateLKENodePool (client p) c (poolCreateOptions p nodeClass nc tags it)) s = (x4, s') \<Longrightarrow> I (world s) \<Longrightarrow> I (world s')"
    unfolding c by (rule k(5) [OF _ one])
  show "req (ListLKENodePools (client p) c) s = (x5, s') \<Longrightarrow> I (world s) \<Longrightarrow> I (world s')" unfolding c by (rule k(6))
  show "req (GetLKENodePool (client p) c k) s = (x4, s') \<Longrightarrow> I (world s) \<Longrightarrow> I (world s')" unfolding c by (rule k(7))
  show "req (UpdateLKENodePool (client p) c k uo) s = (x4, s') \<Longrightarrow> I (world s) \<Longrightarrow> I (world s')" unfolding c by (rule k(8))
  show "req (LookupInstanceByTag (client p) tag) s = (x2, s') \<Longrightarrow> I (world s) \<Longrightarrow> I (world s')" unfolding c by (rule k(9))
  show "req (DeleteLKENodePool (client p) c k) s = (x6, s') \<Longrightarrow> I (world s) \<Longrightarrow> I (world s')" unfolding c by (rule k(10))
  show "req (DeleteLKENodePoolNode (client p) c nid) s = (x6, s') \<Longrightarrow> I (world s) \<Longrightarrow> I (world s')" unfolding c by (rule k(11))
qed

lemma lookupExistingInstance_keeps:
  assumes "lkeOn p"
  shows "lookupExistingInstance p nc s = (r, s') \<Longrightarrow> I (world s) \<Longrightarrow> I (world s')"
  by (auto simp: lookupExistingInstance_def hydrateInstanceFromLinode_def world_simps
      dest: lke_req [OF assms] split: prod.splits sum.splits option.splits)

lemma reconcilePoolVersion_keeps:
  assumes "lkeOn p"
  shows "reconcilePoolVersion p nodeClass pool s = (r, s') \<Longrightarrow> I (world s) \<Longrightarrow> I (world s')"
  by (auto simp: reconcilePoolVersion_def dest: lke_req [OF assms] split: prod.splits sum.splits option.splits if_splits)

lemma findOrCreatePool_keeps:
  assumes "lkeOn p"
  shows "findOrCreatePool p nodeClass nc tags it c s = (r, c', s') \<Longrightarrow> I (world s) \<Longrightarrow> I (world s')"
  by (auto simp: findOrCreatePool_def Let_def world_simps dest: lke_req [OF assms] reconcilePoolVersion_keeps [OF assms]
      split: prod.splits sum.splits option.splits if_splits)

lemma scanNodes_keeps:
  assumes "lkeOn p"
  shows "scanNodes p b ns s = (r, s') \<Longrightarrow> I (world s) \<Longrightarrow> I (world s')"
  by (induction ns arbitrary: b s) (auto dest: lke_req [OF assms] split: prod.splits sum.splits if_splits)

lemma findClaimableInstance_keeps:
  assumes "lkeOn p"
  shows "findClaimableInstance p pool s = (r, s') \<Longrightarrow> I (world s) \<Longrightarrow> I (world s')"
  by (auto simp: findClaimableInstance_def findClaimableInstanceStandard_def findClaimableInstanceEnterprise_def
      dest: lke_req [OF assms] scanNodes_keeps [OF assms] split: prod.splits sum.splits option.splits if_splits)

lemma verifyLoop_keeps:
  assumes "verifyLoop p i tag d s = Some y" "lkeOn p" "I (world s)"
  shows "I (world (snd y))"
  using assms
proof (induction rule: verifyLoop.raw_induct [rotated, consumes 1, case_names step])
  case (step loop p i tag d s y)
  obtain r1 s1 where r1: "req (GetInstance (client p) i) s = (r1, s1)" by fastforce
  note s1 = lke_req(2) [OF step.prems(1) r1 step.prems(2)]
  note s2 = sleepFor_keeps [OF step.prems(1) s1, of "RetryDelay (config p)"]
  show ?case using step.hyps step.prems(2) s1 step.IH [OF _ step.prems(1) s2]
    by (auto simp: r1 split: if_splits option.splits sum.splits)
qed

lemma claimInstance_keeps:
  assumes "lkeOn p"
  shows "claimInstance p li nc nodeClass pool s = Some (r, s') \<Longrightarrow> I (world s) \<Longrightarrow> I (world s')"
  by (auto simp: claimInstance_def verifyTagsApplied_def
      dest: lke_req [OF assms] verifyLoop_keeps [OF _ assms] split: prod.splits sum.splits)

lemma scalePool_keeps:
  assumes "lkeOn p"
  shows "scalePool p it pool c sc s = Some (r, c', sc', s') \<Longrightarrow> I (world s) \<Longrightarrow> I (world s')"
  by (auto simp: scalePool_def checkPlanAvailability_def world_simps
      dest: lke_req [OF assms] split: prod.splits sum.splits option.splits if_splits)

lemma attemptCreate_keeps:
  assumes "lkeOn p" "attemptCreate p nodeClass nc tags it c sc s = Some (r, c', sc', s')" "I (world s)"
  shows "I (world s')"
proof -
  note keeps = lookupExistingInstance_keeps [OF assms(1)] findOrCreatePool_keeps [OF assms(1)] findClaimableInstance_keeps [OF assms(1)]
  obtain r1 s1 where r1: "lookupExistingInstance p nc s = (r1, s1)" by fastforce
  obtain r2 c2 s2 where r2: "findOrCreatePool p nodeClass nc tags it c s1 = (r2, c2, s2)" by (metis prod_cases3)
  note s1 = keeps(1) [OF r1 assms(3)]
  note s2 = keeps(2) [OF r2 s1]
  consider "s' = s1" | "s' = s2"
    | pool r3 s3 where "findClaimableInstance p pool s2 = (r3, s3)" "s' = s3"
    | pool r3 s3 where "findClaimableInstance p pool s2 = (r3, s3)" "scalePool p it pool c2 sc s3 = Some (r, c', sc', s')"
    | pool i r3 s3 r4 s4 where "findClaimableInstance p pool s2 = (r3, s3)"
        "claimInstance p i nc nodeClass pool s3 = Some (r4, s4)" "world s' = world s4"
    using assms(2) by (auto simp: attemptCreate_def r1 r2 Let_def world_simps split: prod.splits sum.splits option.splits if_splits)
  then show ?thesis
    using s1 s2 keeps(3) [OF _ s2] claimInstance_keeps [OF assms(1)] scalePool_keeps [OF assms(1)] by cases (metis | simp)+
qed

lemma createLoop_keeps:
  assumes "createLoop p nodeClass nc tags it key d c sc e0 pe s = Some y" "lkeOn p" "I (world s)"
  shows "I (world (snd (snd y)))"
  using assms
proof (induction rule: createLoop.raw_induct [rotated, consumes 1, case_names step])
  case (step loop p nodeClass nc tags it key d c sc e0 pe s y)
  show ?case
  proof (cases "\<not> nowOf p s < d \<or> CtxErr (rt p) (world s) \<noteq> None")
    case False
    with step.hyps obtain r c1 sc1 s1 where a: "attemptCreate p nodeClass nc tags it c sc s = Some (r, c1, sc1, s1)"
      by (cases "attemptCreate p nodeClass nc tags it c sc s") auto
    have s1: "I (world s1)" by (rule attemptCreate_keeps [OF step.prems(1) a step.prems(2)])
    obtain pe' s2 where o: "observePoolAttempt p key (case r of Inl e \<Rightarrow> Some e | Inr i \<Rightarrow> None) s1 = (pe', s2)" by fastforce
    with s1 have s2: "I (world s2)" by (simp add: observePoolAttempt_world)
    have s3: "I (world (sleepFor p (RetryDelay (config p)) s2))" using step.prems(1) s2 by (simp add: sleepFor_keeps)
    show ?thesis using False step.hyps a o s2 step.IH [OF _ step.prems(1) s3] by (cases r) (auto split: if_splits)
  qed (use step.hyps step.prems in \<open>auto split: option.splits if_splits\<close>)
qed

lemma Create_keeps:
  assumes on: "lkeOn p" and run: "Create p nodeClass nc tags its s = Some (r, s')" and s: "I (world s)"
  shows "I (world s')"
proof -
  obtain r1 s1 where r1: "lookupExistingInstance p nc s = (r1, s1)" by fastforce
  note s1 = lookupExistingInstance_keeps [OF on r1 s]
  show ?thesis
    using run s s1 by (auto simp: Create_def r1 Let_def recordPoolFailure_world dest: createLoop_keeps [OF _ on]
        split: option.splits sum.splits if_splits)
qed

lemma lkeGet_keeps: "lkeOn p \<Longrightarrow> lkeGet p i sk s = (r, s') \<Longrightarrow> I (world s) \<Longrightarrow> I (world s')"
  by (auto simp: lkeGet_def notFoundErr_def Let_def world_simps dest: lke_req split: option.splits prod.splits sum.splits if_splits)

lemma lkeList_keeps: "lkeOn p \<Longrightarrow> lkeList p s = (r, s') \<Longrightarrow> I (world s) \<Longrightarrow> I (world s')"
  by (auto simp: lkeList_def dest: lke_req dest!: collectInstances_world split: prod.splits sum.splits)

lemma lkeCreateTags_keeps: "lkeOn p \<Longrightarrow> lkeCreateTags p i tags s = (r, s') \<Longrightarrow> I (world s) \<Longrightarrow> I (world s')"
  by (auto simp: lkeCreateTags_def Let_def dest: lke_req split: option.splits prod.splits sum.splits if_splits)

lemma lkeUpdateTags_keeps: "lkeOn p \<Longrightarrow> lkeUpdateTags p i tags s = (r, s') \<Longrightarrow> I (world s) \<Longrightarrow> I (world s')"
  by (auto simp: lkeUpdateTags_def Let_def dest: lke_req split: option.splits prod.splits sum.splits if_splits)

lemma lookupPool_keeps: "lkeOn p \<Longrightarrow> lookupPool p i n s = (r, s') \<Longrightarrow> I (world s) \<Longrightarrow> I (world s')"
  by (auto simp: lookupPool_def findLKENodePoolFromLinodeInstanceID_def notFoundErr_def world_simps
      dest: lke_req split: option.splits prod.splits sum.splits if_splits)

lemma deleteInstance_keeps:
  assumes on: "lkeOn p" and run: "deleteInstance p i s = (r, s')" and s: "I (world s)"
  shows "I (world s')"
proof (cases "Atoi i")
  case (Some n)
  obtain r1 s1 where r1: "lookupPool p i n s = (r1, s1)" by fastforce
  obtain r2 s2 where r2: "lookupPool p i n s1 = (r2, s2)" by fastforce
  note s1 = lookupPool_keeps [OF on r1 s]
  note s2 = lookupPool_keeps [OF on r2 s1]
  have gone: "I (world (snd (afterDelete p i (req (DeleteLKENodePool (client p) c k) s2))))"
    "I (world (snd (afterDelete p i (req (DeleteLKENodePoolNode (client p) c nid) s2))))" for c k nid
    using lke_req(10,11) [OF on] s2 by (metis afterDelete_world prod.collapse)+
  from run Some r1 r2 have "s' \<in> {s1, s2, uncacheNode p i s2} \<or>
      (\<exists>c k. s' = snd (afterDelete p i (req (DeleteLKENodePool (client p) c k) s2))) \<or>
      (\<exists>c nid. s' = snd (afterDelete p i (req (DeleteLKENodePoolNode (client p) c nid) s2)))"
    by (auto simp: deleteInstance_def split: sum.splits if_splits) (metis snd_conv)+
  with s1 s2 gone show ?thesis by (auto simp: world_simps)
qed (use run s in \<open>simp add: deleteInstance_def\<close>)

lemma lkeDelete_keeps: "lkeOn p \<Longrightarrow> lkeDelete p i s = (r, s') \<Longrightarrow> I (world s) \<Longrightarrow> I (world s')"
  by (auto simp: lkeDelete_def recordDeleteResult_def dest: deleteInstance_keeps split: option.splits prod.splits if_splits)

text \<open>The instance provider.\<close>

definition ipOn :: "('w, 'c, 'u) instance_provider \<Rightarrow> bool" where
  "ipOn p \<longleftrightarrow> ipClient p = a \<and> ipRuntime p = t"

lemma ip_request_keeps: "ipReq f s = (r, s') \<Longrightarrow> keepsI I f \<Longrightarrow> I (ipWorld s) \<Longrightarrow> I (ipWorld s')"
  by (auto simp: ipReq_def split: prod.splits dest: keepsI_D)

lemma ip_req:
  assumes "ipOn p"
  shows "ipReq (GetInstance (ipClient p) n) s = (x1, s') \<Longrightarrow> I (ipWorld s) \<Longrightarrow> I (ipWorld s')"
    "ipReq (DeleteInstance (ipClient p) n) s = (x2, s') \<Longrightarrow> I (ipWorld s) \<Longrightarrow> I (ipWorld s')"
    "ipReq (ListInstances (ipClient p) f) s = (x3, s') \<Longrightarrow> I (ipWorld s) \<Longrightarrow> I (ipWorld s')"
    "ipReq (CreateTag (ipClient p) is l) s = (x2, s') \<Longrightarrow> I (ipWorld s) \<Longrightarrow> I (ipWorld s')"
    "ipReq (CreateInstance (ipClient p) io) s = (x1, s') \<Longrightarrow> I (ipWorld s) \<Longrightarrow> I (ipWorld s')"
    "ipReq (UpdateInstance (ipClient p) n ts) s = (x1, s') \<Longrightarrow> I (ipWorld s) \<Longrightarrow> I (ipWorld s')"
    "ipReq (NewUUID (ipRuntime p)) s = (x4, s') \<Longrightarrow> I (ipWorld s) \<Longrightarrow> I (ipWorld s')"
proof -
  have c: "ipClient p = a" "ipRuntime p = t" using assms by (simp_all add: ipOn_def)
  show "ipReq (GetInstance (ipClient p) n) s = (x1, s') \<Longrightarrow> I (ipWorld s) \<Longrightarrow> I (ipWorld s')"
    unfolding c by (rule ip_request_keeps [OF _ keeps_requests(2)])
  show "ipReq (DeleteInstance (ipClient p) n) s = (x2, s') \<Longrightarrow> I (ipWorld s) \<Longrightarrow> I (ipWorld s')"
    unfolding c by (rule ip_request_keeps [OF _ keeps_requests(3)])
  show "ipReq (ListInstances (ipClient p) f) s = (x3, s') \<Longrightarrow> I (ipWorld s) \<Longrightarrow> I (ipWorld s')"
    unfolding c by (rule ip_request_keeps [OF _ keeps_requests(4)])
  show "ipReq (CreateTag (ipClient p) is l) s = (x2, s') \<Longrightarrow> I (ipWorld s) \<Longrightarrow> I (ipWorld s')"
    unfolding c by (rule ip_request_keeps [OF _ keeps_requests(5)])
  show "ipReq (CreateInstance (ipClient p) io) s = (x1, s') \<Longrightarrow> I (ipWorld s) \<Longrightarrow> I (ipWorld s')"
    unfolding c by (rule ip_request_keeps [OF _ keeps_requests(6)])
  show "ipReq (UpdateInstance (ipClient p) n ts) s = (x1, s') \<Longrightarrow> I (ipWorld s) \<Longrightarrow> I (ipWorld s')"
    unfolding c by (rule ip_request_keeps [OF _ keeps_requests(7)])
  show "ipReq (NewUUID (ipRuntime p)) s = (x4, s') \<Longrightarrow> I (ipWorld s) \<Longrightarrow> I (ipWorld s')"
    unfolding c by (rule ip_request_keeps [OF _ keeps_requests(14)])
qed

lemma ipWorld_simps: "ipWorld (ipRemember p i inst s) = ipWorld s" "ipWorld (ipForget p i s) = ipWorld s" "ipWorld (rememberAll p is s) = ipWorld s"
proof -
  show "ipWorld (rememberAll p is s) = ipWorld s"
    unfolding rememberAll_def by (induction "is" arbitrary: s) (simp_all add: ipRemember_def)
qed (simp_all add: ipRemember_def ipForget_def)

lemma ipCreate_keeps:
  "ipOn p \<Longrightarrow> ipCreate p nodeClass nc tags its s = Some (r, nodeClass', s') \<Longrightarrow> I (ipWorld s) \<Longrightarrow> I (ipWorld s')"
  by (auto simp: ipCreate_def Let_def split: option.splits prod.splits sum.splits) (metis ip_req(5,7))+

lemma ipGet_keeps: "ipOn p \<Longrightarrow> ipGet p i sk s = (r, s') \<Longrightarrow> I (ipWorld s) \<Longrightarrow> I (ipWorld s')"
  by (auto simp: ipGet_def ipWorld_simps dest: ip_req split: option.splits prod.splits sum.splits list.splits if_splits)

lemma ipList_keeps: "ipOn p \<Longrightarrow> ipList p s = (r, s') \<Longrightarrow> I (ipWorld s) \<Longrightarrow> I (ipWorld s')"
  by (auto simp: ipList_def ipWorld_simps dest: ip_req split: prod.splits sum.splits if_splits)

lemma ipDelete_keeps: "ipOn p \<Longrightarrow> ipDelete p i s = (r, s') \<Longrightarrow> I (ipWorld s) \<Longrightarrow> I (ipWorld s')"
  by (auto simp: ipDelete_def dest: ip_req ipGet_keeps split: option.splits prod.splits sum.splits if_splits)

lemma createTagsLoop_keeps: "ipOn p \<Longrightarrow> createTagsLoop p n tags s = (r, s') \<Longrightarrow> I (ipWorld s) \<Longrightarrow> I (ipWorld s')"
proof (induction p n tags s rule: createTagsLoop.induct)
  case (2 p n k v tags s)
  let ?s = "s\<lparr>ipWorld := Sleep (ipRuntime p) (10 ^ 9) (ipWorld s)\<rparr>"
  obtain r1 s1 where r1: "ipReq (CreateTag (ipClient p) [n] (kvTag k v)) ?s = (r1, s1)" by fastforce
  have "I (ipWorld ?s)" using "2.prems" by (simp add: ipOn_def sleep_keeps)
  from ip_req(4) [OF "2.prems"(1) r1 this] have "I (ipWorld s1)" .
  with "2.IH" [OF refl, of None s1] "2.prems"(1,2) r1 show ?case by (auto split: option.splits)
qed simp

lemma ipTags_keeps:
  "ipOn p \<Longrightarrow> ipCreateTags p i tags s = (r, s') \<Longrightarrow> I (ipWorld s) \<Longrightarrow> I (ipWorld s')"
  "ipOn p \<Longrightarrow> ipUpdateTags p i ts s = (r, s') \<Longrightarrow> I (ipWorld s) \<Longrightarrow> I (ipWorld s')"
  by (auto simp: ipCreateTags_def ipUpdateTags_def ipWorld_simps dest: ip_req createTagsLoop_keeps
      split: option.splits prod.splits sum.splits)

end

section \<open>Every run of a provider on the in-memory service\<close>

text \<open>One call of the interface of node providers, with any arguments and any result.\<close>

inductive provider_step :: "'s provider \<Rightarrow> 's \<Rightarrow> 's \<Rightarrow> bool" for P where
  create: "PCreate P nodeClass nc tags its s = Some (r, nodeClass', s') \<Longrightarrow> provider_step P s s'"
| get: "PGet P i sk s = (r, s') \<Longrightarrow> provider_step P s s'"
| list: "PList P s = (rs, s') \<Longrightarrow> provider_step P s s'"
| delete: "PDelete P i s = (e, s') \<Longrightarrow> provider_step P s s'"
| create_tags: "PCreateTags P i tags s = (e, s') \<Longrightarrow> provider_step P s s'"
| update_tags: "PUpdateTags P i ts s = (e, s') \<Longrightarrow> provider_step P s s'"

inductive_cases provider_stepE: "provider_step P s s'"

context kept_world
begin

lemma lke_step_keeps: "lkeOn p \<Longrightarrow> provider_step (lkeProvider p) s s' \<Longrightarrow> I (world s) \<Longrightarrow> I (world s')"
  by (erule provider_stepE) (auto simp: lkeProvider_def dest: Create_keeps lkeGet_keeps lkeList_keeps lkeDelete_keeps
      lkeCreateTags_keeps lkeUpdateTags_keeps)

lemma instance_step_keeps: "ipOn p \<Longrightarrow> provider_step (instanceProvider p) s s' \<Longrightarrow> I (ipWorld s) \<Longrightarrow> I (ipWorld s')"
  by (erule provider_stepE) (auto simp: instanceProvider_def dest: ipCreate_keeps ipGet_keeps ipList_keeps ipDelete_keeps ipTags_keeps)

lemma lke_runs_keep: "(provider_step (lkeProvider p))\<^sup>*\<^sup>* s s' \<Longrightarrow> lkeOn p \<Longrightarrow> I (world s) \<Longrightarrow> I (world s')"
  by (induction rule: rtranclp_induct) (auto dest: lke_step_keeps)

lemma instance_runs_keep: "(provider_step (instanceProvider p))\<^sup>*\<^sup>* s s' \<Longrightarrow> ipOn p \<Longrightarrow> I (ipWorld s) \<Longrightarrow> I (ipWorld s')"
  by (induction rule: rtranclp_induct) (auto dest: instance_step_keeps)

end

text \<open>A call through a mock keeps what the default behind it keeps, whatever the mock is set to answer.\<close>

lemma Invoke_keeps: "keepsI I g \<Longrightarrow> I w \<Longrightarrow> Invoke m i g w = (r, m', w') \<Longrightarrow> I w'"
  by (auto simp: Invoke_def Let_def keepsI_def split: prod.splits option.splits if_splits)

lemma fake_call: "keepsI well_stored g \<Longrightarrow> well_stored w \<Longrightarrow> well_stored (snd (snd (Invoke m i g w)))"
  using Invoke_keeps [of well_stored g w m i] by (metis prod.collapse)

lemma well_stored_mocks:
  "well_stored (w\<lparr>GetTypeBehavior := m1\<rparr>) = well_stored w" "well_stored (w\<lparr>GetRegionAvailabilityBehavior := m2\<rparr>) = well_stored w"
  "well_stored (w\<lparr>CreateInstanceBehavior := m3\<rparr>) = well_stored w" "well_stored (w\<lparr>GetInstanceBehavior := m4\<rparr>) = well_stored w"
  "well_stored (w\<lparr>DeleteInstanceBehavior := m5\<rparr>) = well_stored w" "well_stored (w\<lparr>ListInstancesBehavior := m6\<rparr>) = well_stored w"
  "well_stored (w\<lparr>CreateTagsBehavior := m7\<rparr>) = well_stored w" "well_stored (w\<lparr>CreateLKENodePoolBehavior := m8\<rparr>) = well_stored w"
  "well_stored (w\<lparr>GetLKEClusterBehavior := m9\<rparr>) = well_stored w" "well_stored (w\<lparr>ListLKENodePoolsBehavior := m10\<rparr>) = well_stored w"
  "well_stored (w\<lparr>GetLKENodePoolBehavior := m11\<rparr>) = well_stored w" "well_stored (w\<lparr>UpdateLKENodePoolBehavior := m12\<rparr>) = well_stored w"
  "well_stored (w\<lparr>DeleteLKENodePoolBehavior := m13\<rparr>) = well_stored w" "well_stored (w\<lparr>DeleteLKENodePoolNodeBehavior := m14\<rparr>) = well_stored w"
  "well_stored (w\<lparr>UpdateInstanceBehavior := m15\<rparr>) = well_stored w" "well_stored (w\<lparr>FakeTime := d\<rparr>) = well_stored w"
  by (rule well_stored_cong; simp)+

lemma defaults_keep:
  "keepsI well_stored (findLinodeType ty)" "keepsI well_stored (loadInstance n)" "keepsI well_stored (newInstance io)"
  "keepsI well_stored (appendTag is l)" "keepsI well_stored (setTags n ts)" "0 \<le> CreateCount po \<Longrightarrow> keepsI well_stored (newPool c po)"
  "keepsI well_stored (loadPool c k)" "keepsI well_stored (updatePool c k uo)" "keepsI well_stored (removePool c k)"
  "keepsI well_stored (removeNode c nid)" "keepsI well_stored (\<lambda>w. (x w, w))" "keepsI well_stored (\<lambda>w. (y, dropInstance n w))"
  by (auto simp: keepsI_def findLinodeType_def loadInstance_def loadPool_def newInstance_ok appendTag_ok setTags_ok newPool_ok
      updatePool_ok removePool_ok removeNode_ok dropInstance_ok split: option.splits)

lemma fake_ops_keep:
  "keepsI well_stored fakeListTypes" "keepsI well_stored (fakeGetType i)" "keepsI well_stored (fakeGetRegionAvailability r)"
  "keepsI well_stored (fakeGetInstance n)" "keepsI well_stored (fakeDeleteInstance n)" "keepsI well_stored (fakeListInstances f)"
  "keepsI well_stored (fakeCreateTag is l)" "keepsI well_stored (fakeCreateInstance io)" "keepsI well_stored (fakeUpdateInstance n ts)"
  "keepsI well_stored (fakeGetLKECluster c)" "keepsI well_stored (fakeListLKEClusters f)"
  "0 \<le> CreateCount po \<Longrightarrow> keepsI well_stored (fakeCreateLKENodePool c po)" "keepsI well_stored (fakeListLKENodePools c)"
  "keepsI well_stored (fakeGetLKENodePool c k)" "keepsI well_stored (fakeUpdateLKENodePool c k uo)"
  "keepsI well_stored (fakeDeleteLKENodePool c k)" "keepsI well_stored (fakeDeleteLKENodePoolNode c nid)"
  unfolding keepsI_def fakeListTypes_def fakeListLKEClusters_def fakeGetType_def fakeGetRegionAvailability_def fakeGetInstance_def fakeDeleteInstance_def fakeListInstances_def fakeCreateTag_def fakeCreateInstance_def fakeUpdateInstance_def fakeGetLKECluster_def fakeCreateLKENodePool_def fakeListLKENodePools_def fakeGetLKENodePool_def fakeUpdateLKENodePool_def fakeDeleteLKENodePool_def fakeDeleteLKENodePoolNode_def
  by (auto simp: case_prod_beta well_stored_mocks intro!: fake_call defaults_keep)

lemma fake_keeps: "api_keeps well_stored fakeClient"
  by (simp add: api_keeps_def fakeClient_def fake_ops_keep)

lemma fake_clock_keeps: "runtime_keeps well_stored fakeRuntime"
  by (simp add: runtime_keeps_def fakeRuntime_def keepsI_def well_stored_mocks)

interpretation mem: kept_world well_stored fakeClient fakeRuntime
  by unfold_locales (rule fake_keeps, rule fake_clock_keeps)

text \<open>
  C36: The store of the in-memory service stays well typed under everything a node provider of either mode does with it,
  in any order, whatever its mocks are set to return: instances and pools are stored once and
  under their own ids, and each pool counts its nodes and holds only nodes whose two ids are the ones
  made for it.
\<close>

theorem in_memory_store_well_typed:
  assumes "well_stored w"
  shows "(client p = fakeClient \<and> rt p = fakeRuntime \<and> world s = w \<and> (provider_step (lkeProvider p))\<^sup>*\<^sup>* s s' \<longrightarrow> well_stored (world s')) \<and>
    (ipClient q = fakeClient \<and> ipRuntime q = fakeRuntime \<and> ipWorld i = w \<and> (provider_step (instanceProvider q))\<^sup>*\<^sup>* i i' \<longrightarrow>
       well_stored (ipWorld i'))"
  using assms mem.lke_runs_keep [of p s s'] mem.instance_runs_keep [of q i i'] by (auto simp: mem.lkeOn_def mem.ipOn_def)

end
