(* ===== verification/FakeSample.thy ===== *)
theory FakeSample
  imports FakeStore LkeSample
begin

text \<open>
  Runs on the in-memory service: a Create that fills the store, the witness of its theorem, and two ways in which the
  ids that the service makes up collide.
\<close>

definition plainLke :: "fake_world sample_lke" where
  "plainLke = sampleLke fakeClient fakeRuntime"

lemma plain_create_evaluates:
  "map_option (\<lambda>(r, s). length (NodePools (world s))) (Create plainLke sampleNodeClass (sampleClaim ''web'')
     (sampleTags (sampleClaim ''web'')) [sampleType ''g6'' 2] (sampleState NewFakeWorld)) = Some 1"
  by code_simp

lemma in_memory_store_well_typed_witness:
  "\<exists>s'. (provider_step (lkeProvider plainLke))\<^sup>*\<^sup>* (sampleState NewFakeWorld) s' \<and>
     length (NodePools (world s')) = 1 \<and> well_stored (world s')"
proof -
  obtain r s' where run: "Create plainLke sampleNodeClass (sampleClaim ''web'')
      (sampleTags (sampleClaim ''web'')) [sampleType ''g6'' 2] (sampleState NewFakeWorld) = Some (r, s')"
    "length (NodePools (world s')) = 1" using plain_create_evaluates by auto
  have "provider_step (lkeProvider plainLke) (sampleState NewFakeWorld) s'"
    using provider_step.create [of "lkeProvider plainLke"] run by (auto simp: lkeProvider_def)
  then have steps: "(provider_step (lkeProvider plainLke))\<^sup>*\<^sup>* (sampleState NewFakeWorld) s'" by blast
  moreover have "client plainLke = fakeClient" "rt plainLke = fakeRuntime" by (simp_all add: plainLke_def sampleLke_def)
  ultimately show ?thesis
    using in_memory_store_well_typed [OF well_stored_new, of plainLke "sampleState NewFakeWorld" s'] run by auto
qed

text \<open>
  The service numbers new nodes from the length of the pool, so after a node other than the last was removed, scaling up
  makes one with the ids of a node that is still there, and stores its instance anew, without its tags.
\<close>

definition collidedNodes :: fake_world where
  "collidedNodes = (let w = sampleStored 3;
     w = snd (fakeUpdateInstance 2002 [''karpenter.sh/nodeclaim=web''] w);
     w = snd (fakeDeleteLKENodePoolNode DefaultClusterID ''instance-100-0'' w)
    in snd (fakeUpdateLKENodePool DefaultClusterID 100 \<lparr>UpdateCount = 3, UpdateK8sVersion = None, UpdateStrategy = None\<rparr> w))"

lemma scale_up_reuses_ids:
  "map (map NodeID \<circ> PoolLinodes) (poolsOf DefaultClusterID collidedNodes) = [[''instance-100-1'', ''instance-100-2'', ''instance-100-2'']]"
  "map_option unclaimed (map_of (Instances collidedNodes) 2002) = Some True"
  by code_simp+

end
