(* ===== verification/Watches.thy ===== *)
theory Watches
  imports ClaimControllers TypeProvider
begin

text \<open>
  What wakes the controllers: the event filters and mappers their \<open>Register\<close> methods hand to controller-runtime, as
  functions of the event. \<open>managed\<close> is Karpenter's \<open>IsManagedPredicateFuncs\<close>, which looks at the object of an event (the
  new one of an update), as \<open>predicate.NewPredicateFuncs\<close> does.
\<close>

datatype 'o watch_event = CreateEvent 'o | UpdateEvent 'o 'o | DeleteEvent 'o | GenericEvent 'o

definition eventObject :: "'o watch_event \<Rightarrow> 'o" where
  "eventObject e = (case e of CreateEvent x \<Rightarrow> x | UpdateEvent old new \<Rightarrow> new | DeleteEvent x \<Rightarrow> x | GenericEvent x \<Rightarrow> x)"

text \<open>Capacity (pkg/controllers/providers/instancetype/capacity/controller.go).\<close>

definition NodeRegisteredLabelKey :: string where "NodeRegisteredLabelKey = coreGroup @ ''/registered''"

definition capacityEvent :: "capacity_node watch_event \<Rightarrow> bool" where
  "capacityEvent e = (case e of
     UpdateEvent old new \<Rightarrow>
       if labelOf (CapNodeLabels old) NodeRegisteredLabelKey \<noteq> [] then False
       else labelOf (CapNodeLabels new) NodeRegisteredLabelKey = ''true''
   | CreateEvent node \<Rightarrow> labelOf (CapNodeLabels node) NodeRegisteredLabelKey = ''true''
   | DeleteEvent node \<Rightarrow> False
   | GenericEvent node \<Rightarrow> False)"

definition capacityWatch :: "(capacity_node \<Rightarrow> bool) \<Rightarrow> capacity_node watch_event \<Rightarrow> bool" where
  "capacityWatch managed e \<longleftrightarrow> capacityEvent e \<and> managed (eventObject e)"

text \<open>NodeClass (pkg/controllers/nodeclass/controller.go): the deletion of a NodeClaim queues its NodeClass.\<close>

definition nodeClassRequests :: "NodeClaim watch_event \<Rightarrow> string list" where
  "nodeClassRequests e = (case e of
     CreateEvent nc \<Rightarrow> [] | UpdateEvent old new \<Rightarrow> []
   | DeleteEvent nc \<Rightarrow> (case NodeClassRef nc of None \<Rightarrow> [] | Some name \<Rightarrow> [name])
   | GenericEvent nc \<Rightarrow> (case NodeClassRef nc of None \<Rightarrow> [] | Some name \<Rightarrow> [name]))"

text \<open>In-place update (pkg/controllers/nodeclass/inplaceupdate/controller.go): NodeClaims, and NodeClasses whose tags change.\<close>

definition inplaceClaimWatch :: "(NodeClaim \<Rightarrow> bool) \<Rightarrow> NodeClaim watch_event \<Rightarrow> bool" where
  "inplaceClaimWatch managed e \<longleftrightarrow> managed (eventObject e) \<and> isUpdatable (eventObject e)"

definition inplaceClassWatch :: "range_order \<Rightarrow> LinodeNodeClass watch_event \<Rightarrow> bool" where
  "inplaceClassWatch rng e = (case e of
     CreateEvent x \<Rightarrow> False | DeleteEvent x \<Rightarrow> False | GenericEvent x \<Rightarrow> False
   | UpdateEvent old new \<Rightarrow> nodeClassTagsChanged rng (SpecTags (Spec old)) (SpecTags (Spec new)))"

text \<open>Tagging (pkg/controllers/nodeclaim/tagging/controller.go).\<close>

definition taggingWatch :: "(NodeClaim \<Rightarrow> bool) \<Rightarrow> NodeClaim watch_event \<Rightarrow> bool" where
  "taggingWatch managed e \<longleftrightarrow> managed (eventObject e) \<and> isTaggable (eventObject e)"

section \<open>What the filters let through\<close>

text \<open>A change of a NodeClass wakes the in-place update exactly when its tags come to mean something else.\<close>

lemma inplaceClassWatch_iff:
  assumes "range_ok rng"
  shows "inplaceClassWatch rng (UpdateEvent old new) \<longleftrightarrow> tagView (SpecTags (Spec old)) \<noteq> tagView (SpecTags (Spec new))"
proof -
  have "normalizeTagList rng xs = normalizeTagList rng ys \<longleftrightarrow> tagView xs = tagView ys" for xs ys
    using normalizeTagList_cong [OF assms assms, of xs ys] arg_cong [where f = tagView, of "normalizeTagList rng xs" "normalizeTagList rng ys"]
    unfolding tagView_normalizeTagList [OF assms] by blast
  then show ?thesis by (simp add: inplaceClassWatch_def nodeClassTagsChanged_def)
qed

text \<open>The filters agree with the guards of the reconcilers: an event that is filtered out would have changed nothing.\<close>

lemma taggingWatch_guard: "\<not> isTaggable (eventObject e) \<Longrightarrow> \<not> taggingWatch managed e"
  by (simp add: taggingWatch_def)

text \<open>The events of one node: it appears, and is then updated step by step.\<close>

fun updatesOf :: "'o \<Rightarrow> 'o list \<Rightarrow> 'o watch_event list" where
  "updatesOf x [] = []"
| "updatesOf x (y # ys) = UpdateEvent x y # updatesOf y ys"

definition eventsOf :: "'o list \<Rightarrow> 'o watch_event list" where
  "eventsOf xs = (case xs of [] \<Rightarrow> [] | x # xs \<Rightarrow> CreateEvent x # updatesOf x xs)"

definition isRegistered :: "capacity_node \<Rightarrow> bool" where
  "isRegistered node \<longleftrightarrow> labelOf (CapNodeLabels node) NodeRegisteredLabelKey = ''true''"

text \<open>The label is set once, to true, and not taken away again.\<close>

definition registers_once :: "capacity_node list \<Rightarrow> bool" where
  "registers_once nodes \<longleftrightarrow>
     (\<forall>node \<in> set nodes. isRegistered node \<or> labelOf (CapNodeLabels node) NodeRegisteredLabelKey = []) \<and>
     sorted_wrt (\<lambda>a b. isRegistered a \<longrightarrow> isRegistered b) nodes"

lemma registers_once_Cons:
  "registers_once (x # xs) \<longleftrightarrow> (isRegistered x \<or> labelOf (CapNodeLabels x) NodeRegisteredLabelKey = []) \<and>
     (isRegistered x \<longrightarrow> list_all isRegistered xs) \<and> registers_once xs"
  by (simp add: registers_once_def list_all_iff) blast

lemma updatesOf_capacity:
  assumes "registers_once (x # xs)"
  shows "length (filter capacityEvent (updatesOf x xs)) = (if \<not> isRegistered x \<and> list_ex isRegistered xs then 1 else 0)"
  using assms
proof (induction xs arbitrary: x)
  case (Cons y ys)
  have x: "isRegistered x \<or> labelOf (CapNodeLabels x) NodeRegisteredLabelKey = []" "isRegistered x \<Longrightarrow> isRegistered y"
    "registers_once (y # ys)" using Cons.prems by (simp_all add: registers_once_Cons)
  have "capacityEvent (UpdateEvent x y) \<longleftrightarrow> \<not> isRegistered x \<and> isRegistered y"
    using x(1) by (auto simp: capacityEvent_def isRegistered_def)
  with Cons.IH [OF x(3)] x(2) show ?case by (cases "isRegistered x"; cases "isRegistered y") auto
qed simp

text \<open>A node is learned from exactly once, when it has registered.\<close>

lemma capacity_learns_once:
  "registers_once nodes \<Longrightarrow> length (filter capacityEvent (eventsOf nodes)) = (if list_ex isRegistered nodes then 1 else 0)"
  by (cases nodes) (auto simp: eventsOf_def updatesOf_capacity capacityEvent_def isRegistered_def [symmetric])

end
