(* ===== verification/Flags.thy ===== *)
theory Flags
  imports Operator
begin

text \<open>
  pkg/operator/options/options.go: the flags with their defaults from the environment, and parsing. The \<open>env\<close> functions and
  the flag set of Karpenter are parameters (\<open>environment\<close>, \<open>flag_set\<close>): defining a flag sets its
  variable to the default, and parsing overrides variables or fails.
\<close>

record environment =
  LookupEnv :: "string \<Rightarrow> string option"
  WithDefaultString :: "string \<Rightarrow> string \<Rightarrow> string"
  WithDefaultDuration :: "string \<Rightarrow> int \<Rightarrow> int"
  WithDefaultBool :: "string \<Rightarrow> bool \<Rightarrow> bool"
  ParseFloat64 :: "string \<Rightarrow> rat option"

text \<open>\<open>utils.WithDefaultFloat64\<close>.\<close>

definition WithDefaultFloat64 :: "environment \<Rightarrow> string \<Rightarrow> rat \<Rightarrow> rat" where
  "WithDefaultFloat64 E key def =
     (case LookupEnv E key of
        None \<Rightarrow> def
      | Some val \<Rightarrow> (case ParseFloat64 E val of None \<Rightarrow> def | Some f \<Rightarrow> f))"

definition AddFlags :: "environment \<Rightarrow> Options" where
  "AddFlags E = \<lparr>OptClusterName = WithDefaultString E ''CLUSTER_NAME'' [],
     OptClusterRegion = WithDefaultString E ''CLUSTER_REGION'' [],
     OptClusterEndpoint = WithDefaultString E ''CLUSTER_ENDPOINT'' [],
     VMMemoryOverheadPercent = WithDefaultFloat64 E ''VM_MEMORY_OVERHEAD_PERCENT'' (75 / 1000),
     DisableDryRun = WithDefaultBool E ''DISABLE_DRY_RUN'' False,
     OptMode = WithDefaultString E ''KARPENTER_MODE'' ''lke'',
     LKECreateDeadline = WithDefaultDuration E ''LKE_CREATE_DEADLINE'' (seconds 10),
     LKETagVerificationTimeout = WithDefaultDuration E ''LKE_TAG_VERIFICATION_TIMEOUT'' (seconds 4),
     LKERetryDelay = WithDefaultDuration E ''LKE_RETRY_DELAY'' (seconds 2)\<rparr>"

text \<open>What parsing the arguments does to the variables: the error, and whether it is the request for help.\<close>

type_synonym flag_set = "string list \<Rightarrow> Options \<Rightarrow> (err \<times> bool) + Options"

datatype parsed = Exits | ParseFails err | Parses Options

definition parseOptions :: "url_parser \<Rightarrow> flag_set \<Rightarrow> string list \<Rightarrow> Options \<Rightarrow> parsed" where
  "parseOptions urlParse fs args o0 =
     (case fs args o0 of
        Inl (e, isHelp) \<Rightarrow> if isHelp then Exits else ParseFails (Errorf ''parsing flags, %w'' [] [e])
      | Inr opts \<Rightarrow>
          (case Validate urlParse opts of
             Some e \<Rightarrow> ParseFails (Errorf ''validating options, %w'' [] [e])
           | None \<Rightarrow> Parses opts))"

text \<open>Options that parse are valid, so an operator started on them has its node provider.\<close>

lemma parseOptions_valid: "parseOptions urlParse fs args o0 = Parses opts \<Longrightarrow> Validate urlParse opts = None"
  by (auto simp: parseOptions_def split: sum.splits option.splits if_splits prod.splits)

text \<open>
  The documented environment: a variable that is not set gives the default. With only the name of the cluster
  set and no flag given, the options are those of LKE mode, valid, with the defaults that the LKE
  provider has of its own.
\<close>

definition env_ok :: "environment \<Rightarrow> bool" where
  "env_ok E \<longleftrightarrow> (\<forall>key. LookupEnv E key = None \<longrightarrow>
     (\<forall>d. WithDefaultString E key d = d) \<and> (\<forall>d. WithDefaultDuration E key d = d) \<and> (\<forall>d. WithDefaultBool E key d = d)) \<and>
     (\<forall>key v d. LookupEnv E key = Some v \<longrightarrow> WithDefaultString E key d = v)"

lemma default_options_start:
  assumes "env_ok E" "\<forall>key. LookupEnv E key = (if key = ''CLUSTER_NAME'' then Some name else None)" "name \<noteq> []"
    and "\<forall>o0. fs [] o0 = Inr o0"
  shows "parseOptions urlParse fs [] (AddFlags E) = Parses (AddFlags E)"
    "OptMode (AddFlags E) = ''lke''" "OptClusterName (AddFlags E) = name"
    "withDefaults (lkeConfig (AddFlags E)) =
       withDefaults \<lparr>CreateDeadline = 0, TagVerificationTimeout = 0, RetryDelay = 0, BackoffBase = 0, BackoffMax = 0\<rparr>"
proof -
  have opts: "AddFlags E = \<lparr>OptClusterName = name, OptClusterRegion = [], OptClusterEndpoint = [],
      VMMemoryOverheadPercent = 75 / 1000, DisableDryRun = False, OptMode = ''lke'',
      LKECreateDeadline = seconds 10, LKETagVerificationTimeout = seconds 4, LKERetryDelay = seconds 2\<rparr>"
    using assms(1,2) by (simp add: AddFlags_def env_ok_def WithDefaultFloat64_def)
  show "OptMode (AddFlags E) = ''lke''" "OptClusterName (AddFlags E) = name" by (simp_all add: opts)
  show "withDefaults (lkeConfig (AddFlags E)) =
      withDefaults \<lparr>CreateDeadline = 0, TagVerificationTimeout = 0, RetryDelay = 0, BackoffBase = 0, BackoffMax = 0\<rparr>"
    by (simp add: opts lkeConfig_def withDefaults_def seconds_def)
  have "Validate urlParse (AddFlags E) = None"
    using assms(3) by (simp add: Validate_def combineErrs_None validateEndpoint_def validateRequiredFields_def
      validateMode_def validateVMMemoryOverheadPercent_def opts)
  with assms(4) show "parseOptions urlParse fs [] (AddFlags E) = Parses (AddFlags E)" by (simp add: parseOptions_def)
qed

end
