(* ===== verification/Idempotence.thy ===== *)
theory Idempotence
  imports PoolListing
begin

text \<open>
  Create called again for a NodeClaim whose first Create succeeded, as Karpenter does when it did not record the
  result: the tag of the NodeClaim leads it back to the instance. The locale \<open>tag_index\<close> is the contract
  it needs of the Linode API, that instance reads show what is stored; the in-memory service interprets it.
\<close>

section \<open>The contract\<close>

definition carries :: "string \<Rightarrow> LinodeInstance \<Rightarrow> bool" where
  "carries tag i \<longleftrightarrow> list_ex (\<lambda>t. strings_Contains t tag) (LiTags i)"

lemma carries_mem: "tag \<in> set (LiTags i) \<Longrightarrow> carries tag i"
  unfolding carries_def list_ex_iff by (rule bexI [of _ tag]) (simp_all add: strings_Contains_self)

locale tag_index =
  fixes a :: "'w linode_api"
    and holds :: "'w \<Rightarrow> LinodeInstance list"
  assumes get_holds: "GetInstance a n w = (Inr i, w') \<Longrightarrow> i \<in> set (holds w') \<and> holds w' = holds w"
    and list_holds: "ListInstances a [(FilterContains, ''tags'', [tag])] w = (Inr is, w') \<Longrightarrow>
      is = filter (carries tag) (holds w) \<and> holds w' = holds w"
    and list_fails: "ListInstances a f w = (Inl e, w') \<Longrightarrow> \<not> errors_Is e ErrInstanceNotFound"

text \<open>Every cached node is kept under its own id.\<close>

definition node_cache_keyed :: "('w, 'c, 'b, 'u) lke \<Rightarrow> ('w, 'c, 'b, 'u) lke_state \<Rightarrow> bool" where
  "node_cache_keyed p s \<longleftrightarrow> (\<forall>now k c. CGet (nodeOps p) (nodeCache s) now k = Some c \<longrightarrow> k = Itoa (InstID c))"

lemma keyed_cong: "nodeCache s' = nodeCache s \<Longrightarrow> node_cache_keyed p s' = node_cache_keyed p s"
  by (simp add: node_cache_keyed_def)

lemma nodeCache_simps [simp]:
  "nodeCache (sleepFor p d s) = nodeCache s" "nodeCache (MarkTypeUnavailable p it s) = nodeCache s"
  "nodeCache (s\<lparr>world := w\<rparr>) = nodeCache s"
  by (simp_all add: sleepFor_def MarkTypeUnavailable_def)

lemma req_nodeCache: "req f s = (r, s') \<Longrightarrow> nodeCache s' = nodeCache s"
  by (auto simp: req_def split: prod.splits)

lemma keyed_cacheNode: "cache_ok (nodeOps p) ttl \<Longrightarrow> node_cache_keyed p s \<Longrightarrow> node_cache_keyed p (cacheNode p n s)"
  by (auto simp: node_cache_keyed_def cacheNode_def CGet_CSet split: if_splits)

text \<open>The steps of an attempt that does not succeed leave the cache keyed.\<close>

lemma findOrCreatePool_nodeCache:
  "findOrCreatePool p nodeClass nc tags it c s = (r, c', s') \<Longrightarrow>
     nodeCache s' = nodeCache s \<or> (\<exists>k. nodeCache s' = CDelete (nodeOps p) (nodeCache s) k)"
  by (auto simp: findOrCreatePool_def reconcilePoolVersion_def Let_def dest!: req_nodeCache
      split: prod.splits sum.splits option.splits if_splits)

lemma findOrCreatePool_keyed:
  assumes "cache_ok (nodeOps p) ttl" "findOrCreatePool p nodeClass nc tags it c s = (r, c', s')" "node_cache_keyed p s"
  shows "node_cache_keyed p s'"
  using findOrCreatePool_nodeCache [OF assms(2)] assms(3)
  by (auto simp: node_cache_keyed_def CGet_CDelete [OF assms(1)] split: if_splits)

lemma scanNodes_nodeCache: "scanNodes p b ns s = (r, s') \<Longrightarrow> nodeCache s' = nodeCache s"
  by (induction p b ns s rule: scanNodes.induct) (auto dest!: req_nodeCache split: prod.splits sum.splits if_splits)

lemma findClaimableInstance_nodeCache: "findClaimableInstance p pool s = (r, s') \<Longrightarrow> nodeCache s' = nodeCache s"
  by (auto simp: findClaimableInstance_def findClaimableInstanceStandard_def findClaimableInstanceEnterprise_def
      dest!: req_nodeCache scanNodes_nodeCache split: prod.splits sum.splits option.splits if_splits)

lemma verifyLoop_nodeCache: "verifyLoop p i tag d s = Some y \<Longrightarrow> nodeCache (snd y) = nodeCache s"
proof (induction rule: verifyLoop.raw_induct [rotated, consumes 1, case_names step])
  case (step loop p i tag d s y)
  obtain r1 s1 where r1: "req (GetInstance (client p) i) s = (r1, s1)" by fastforce
  show ?case using step.hyps step.IH [of p i tag d "sleepFor p (RetryDelay (config p)) s1"] req_nodeCache [OF r1]
    by (auto simp: r1 split: if_splits option.splits sum.splits)
qed

lemma claimInstance_nodeCache: "claimInstance p i nc nodeClass pool s = Some (r, s') \<Longrightarrow> nodeCache s' = nodeCache s"
  by (auto simp: claimInstance_def verifyTagsApplied_def dest!: req_nodeCache verifyLoop_nodeCache split: prod.splits sum.splits)

lemma scalePool_nodeCache: "scalePool p it pool c sc s = Some (r, c', sc', s') \<Longrightarrow> nodeCache s' = nodeCache s"
  by (auto simp: scalePool_def checkPlanAvailability_def dest!: req_nodeCache split: prod.splits sum.splits option.splits if_splits)

lemma scalePool_isl: "scalePool p it pool c sc s = Some (r, c', sc', s') \<Longrightarrow> isl r"
  by (auto simp: scalePool_def split: prod.splits sum.splits option.splits if_splits)

section \<open>What a successful Create leaves behind\<close>

context tag_index
begin

text \<open>The returned instance is one that is stored and carries the tag.\<close>

definition holder :: "string \<Rightarrow> Instance \<Rightarrow> ('w \<times> log, 'c, 'b, 'u) lke_state \<Rightarrow> bool" where
  "holder tag inst s \<longleftrightarrow> (\<exists>i \<in> set (holds (fst (world s))). carries tag i \<and> InstID inst = LiID i)"

lemma holder_cong: "world s' = world s \<Longrightarrow> holder tag inst s' = holder tag inst s"
  by (simp add: holder_def)

text \<open>The returned instance is the first stored one that carries the tag.\<close>

definition first_holder :: "string \<Rightarrow> Instance \<Rightarrow> ('w \<times> log, 'c, 'b, 'u) lke_state \<Rightarrow> bool" where
  "first_holder tag inst s \<longleftrightarrow> (\<exists>i is. filter (carries tag) (holds (fst (world s))) = i # is \<and> InstID inst = LiID i)"

lemma first_holder_holder: "first_holder tag inst s \<Longrightarrow> holder tag inst s"
proof -
  assume "first_holder tag inst s"
  then obtain i "is" where i: "filter (carries tag) (holds (fst (world s))) = i # is" "InstID inst = LiID i"
    unfolding first_holder_def by blast
  have "i \<in> set (filter (carries tag) (holds (fst (world s))))" unfolding i(1) by simp
  with i(2) show "holder tag inst s" by (auto simp: holder_def)
qed

lemma lookup_first:
  assumes "client p = logged a" "cache_ok (nodeOps p) ttl" "node_cache_keyed p s" "lookupExistingInstance p nc s = (r, s')"
  shows "(\<forall>inst. r = Inr inst \<longrightarrow> first_holder (NodeClaimTag (NodeClaimName nc)) inst s') \<and> node_cache_keyed p s'"
proof -
  let ?tag = "NodeClaimTag (NodeClaimName nc)"
  obtain r1 s1 where r1: "req (LookupInstanceByTag (client p) ?tag) s = (r1, s1)" by fastforce
  have k1: "node_cache_keyed p s1" using assms(3) keyed_cong [OF req_nodeCache [OF r1]] by blast
  show ?thesis
  proof (cases r1)
    case (Inl e)
    with assms(4) r1 k1 show ?thesis by (auto simp: lookupExistingInstance_def)
  next
    case (Inr i)
    obtain "is" where i: "filter (carries ?tag) (holds (fst (world s1))) = i # is"
    proof -
      from r1 Inr obtain "is" w where l: "ListInstances a [(FilterContains, ''tags'', [?tag])] (fst (world s)) = (Inr (i # is), w)"
        "fst (world s1) = w"
        by (auto simp: req_def LookupInstanceByTag_def assms(1) logged_sel recorded_def split: prod.splits sum.splits list.splits)
      from list_holds [OF l(1)] l(2) show thesis by (intro that [of "is"]) simp
    qed
    obtain inst where h: "hydrateInstanceFromLinode p i s1 = (inst, s')" "r = Inr inst"
      using assms(4) r1 Inr by (auto simp: lookupExistingInstance_def split: prod.splits)
    have "InstID inst = LiID i \<and> world s' = world s1 \<and> node_cache_keyed p s'"
    proof (cases "CGet (nodeOps p) (nodeCache s1) (nowOf p s1) (Itoa (LiID i))")
      case None
      with h(1) have "inst = lkeInstanceOf p i" "s' = cacheNode p inst s1" by (auto simp: hydrateInstanceFromLinode_def)
      with keyed_cacheNode [OF assms(2) k1] show ?thesis by (simp add: lkeInstanceOf_def NewLKEInstance_def) (simp add: cacheNode_def)
    next
      case (Some c)
      with h(1) have "inst = c" "s' = s1" by (auto simp: hydrateInstanceFromLinode_def)
      moreover have "Itoa (LiID i) = Itoa (InstID c)" using k1 Some unfolding node_cache_keyed_def by blast
      ultimately show ?thesis using k1 by (simp add: Itoa_inj)
    qed
    with i h(2) show ?thesis by (auto simp: first_holder_def)
  qed
qed

lemma lookup_holder:
  assumes "client p = logged a" "cache_ok (nodeOps p) ttl" "node_cache_keyed p s" "lookupExistingInstance p nc s = (r, s')"
  shows "(\<forall>inst. r = Inr inst \<longrightarrow> holder (NodeClaimTag (NodeClaimName nc)) inst s') \<and> node_cache_keyed p s'"
  using lookup_first [OF assms] by (blast intro: first_holder_holder)

lemma verifyLoop_holds:
  assumes "verifyLoop p i tag d s = Some y" "client p = logged a" "fst y = Inr inst"
  shows "inst \<in> set (holds (fst (world (snd y)))) \<and> carries tag inst"
  using assms
proof (induction rule: verifyLoop.raw_induct [rotated, consumes 1, case_names step])
  case (step loop p i tag d s y)
  obtain r1 s1 where r1: "req (GetInstance (client p) i) s = (r1, s1)" by fastforce
  have got: "inst \<in> set (holds (fst (world s1)))" if "r1 = Inr inst"
    using r1 that by (auto simp: req_def step.prems(1) logged_sel recorded_def split: prod.splits dest: get_holds)
  show ?case using step.hyps step.prems(2) got
      step.IH [of p i tag d "sleepFor p (RetryDelay (config p)) s1", OF _ step.prems]
    by (auto simp: r1 intro: carries_mem split: if_splits option.splits sum.splits)
qed

lemma attemptCreate_holder:
  assumes c: "client p = logged a" and ok: "cache_ok (nodeOps p) ttl" and k: "node_cache_keyed p s"
    and run: "attemptCreate p nodeClass nc tags it cr sc s = Some (r, cr', sc', s')"
  shows "case r of Inr inst \<Rightarrow> holder (NodeClaimTag (NodeClaimName nc)) inst s' | Inl e \<Rightarrow> node_cache_keyed p s'"
proof -
  obtain r1 s1 where r1: "lookupExistingInstance p nc s = (r1, s1)" by fastforce
  note l = lookup_holder [OF c ok k r1]
  show ?thesis
  proof (cases "\<exists>e. r1 = Inl e \<and> errors_Is e ErrInstanceNotFound")
    case False
    with run r1 l show ?thesis by (cases r1) (auto simp: attemptCreate_def split: if_splits)
  next
    case True
    obtain r2 c2 s2 where r2: "findOrCreatePool p nodeClass nc tags it cr s1 = (r2, c2, s2)" by (metis prod_cases3)
    have k2: "node_cache_keyed p s2" using findOrCreatePool_keyed [OF ok r2] l by blast
    show ?thesis
    proof (cases r2)
      case (Inl e)
      with run r1 True r2 k2 show ?thesis by (auto simp: attemptCreate_def split: if_splits)
    next
      case (Inr pool)
      obtain r3 s3 where r3: "findClaimableInstance p pool s2 = (r3, s3)" by fastforce
      have k3: "node_cache_keyed p s3" using k2 keyed_cong [OF findClaimableInstance_nodeCache [OF r3]] by blast
      show ?thesis
      proof (cases r3)
        case e: (Inl e)
        have scaled: "isl r \<and> node_cache_keyed p s'" if "scalePool p it pool c2 sc s3 = Some (r, cr', sc', s')"
          using scalePool_isl [OF that] keyed_cong [OF scalePool_nodeCache [OF that], THEN iffD2, OF k3] by (rule conjI)
        from run r1 True r2 Inr r3 e consider "r = Inl e" "s' = s3" | "scalePool p it pool c2 sc s3 = Some (r, cr', sc', s')"
          by (cases "isRetryableCreateError e") (auto simp: attemptCreate_def)
        then show ?thesis using k3 scaled by cases (auto simp: isl_def)
      next
        case i: (Inr i)
        with run r1 True r2 Inr r3 obtain r4 s4 where r4: "claimInstance p i nc nodeClass pool s3 = Some (r4, s4)"
          and res: "case r4 of Inl e \<Rightarrow> isl r \<and> s' = s4
            | Inr li \<Rightarrow> (\<exists>inst. r = Inr inst \<and> InstID inst = LiID li \<and> world s' = world s4)"
          by (cases "claimInstance p i nc nodeClass pool s3")
            (auto simp: attemptCreate_def Let_def NewLKEInstance_def cacheNode_def split: sum.splits)
        have k4: "node_cache_keyed p s4" using k3 keyed_cong [OF claimInstance_nodeCache [OF r4]] by blast
        have held: "li \<in> set (holds (fst (world s4))) \<and> carries (NodeClaimTag (NodeClaimName nc)) li" if "r4 = Inr li" for li
          using r4 that verifyLoop_holds [OF _ c] by (auto simp: claimInstance_def verifyTagsApplied_def split: prod.splits sum.splits)
        from res k4 held show ?thesis by (cases r4) (auto simp: isl_def holder_def)
      qed
    qed
  qed
qed

lemma createLoop_holder:
  assumes "createLoop p nodeClass nc tags it poolKey dl c sc le pe s = Some y" "client p = logged a"
    "cache_ok (nodeOps p) ttl" "node_cache_keyed p s" "fst y = Inr inst"
  shows "holder (NodeClaimTag (NodeClaimName nc)) inst (snd (snd y))"
  using assms
proof (induction rule: createLoop.raw_induct [rotated, consumes 1, case_names step])
  case (step loop p nodeClass nc tags it poolKey dl c sc le pe s y)
  have go: "nowOf p s < dl" "CtxErr (rt p) (world s) = None"
    using step.hyps step.prems(4) by (auto split: if_splits option.splits)
  then obtain r1 c1 sc1 s1 where r1: "attemptCreate p nodeClass nc tags it c sc s = Some (r1, c1, sc1, s1)"
    using step.hyps by (cases "attemptCreate p nodeClass nc tags it c sc s") auto
  note h = attemptCreate_holder [OF step.prems(1,2,3) r1]
  obtain pe2 s2 where r2: "observePoolAttempt p poolKey (case r1 of Inl e \<Rightarrow> Some e | Inr i \<Rightarrow> None) s1 = (pe2, s2)"
    by fastforce
  then have s2: "world s2 = world s1" "nodeCache s2 = nodeCache s1"
    by (auto simp: observePoolAttempt_def split: option.splits if_splits sum.splits)
  show ?case
  proof (cases r1)
    case (Inr i)
    with step.hyps go r1 r2 step.prems(4) have "y = (Inr inst, pe2, s2)" "i = inst" by auto
    with h Inr s2 show ?thesis by (simp add: holder_def)
  next
    case (Inl e)
    with h s2 have k: "node_cache_keyed p s2" by (simp add: node_cache_keyed_def)
    from step.hyps go r1 r2 Inl step.prems(4) obtain le' where
      l: "loop p nodeClass nc tags it poolKey dl c1 sc1 le' pe2 (sleepFor p (RetryDelay (config p)) s2) = Some y"
      by (auto split: if_splits)
    have "node_cache_keyed p (sleepFor p (RetryDelay (config p)) s2)" using k by (simp add: node_cache_keyed_def)
    from step.IH [OF l step.prems(1,2) this step.prems(4)] show ?thesis .
  qed
qed

text \<open>The first Create: what it returns is stored and carries the tag.\<close>

lemma Create_holder:
  assumes c: "client p = logged a" and ok: "cache_ok (nodeOps p) ttl" and k: "node_cache_keyed p s"
    and run: "Create p nodeClass nc tags its s = Some (Inr inst, s')"
  shows "holder (NodeClaimTag (NodeClaimName nc)) inst s'"
proof -
  obtain r1 s1 where r1: "lookupExistingInstance p nc s = (r1, s1)" by fastforce
  note l = lookup_holder [OF c ok k r1]
  consider "r1 = Inr inst" "s' = s1"
    | it pe s2 where "createLoop p nodeClass nc tags it (poolKeyOf nc it) (nowOf p s1 + CreateDeadline (config p)) False False
          (Sentinel ErrNoClaimableInstance) None s1 = Some (Inr inst, pe, s2)" "s' = recordPoolFailure p (poolKeyOf nc it) pe s2"
    using run r1 unfolding Create_def r1 poolKeyOf_def
    by (auto simp: Let_def split: option.splits sum.splits if_splits)
  then show ?thesis
  proof cases
    case 1
    with l show ?thesis by simp
  next
    case 2
    then have "world s' = world s2" by (auto simp: recordPoolFailure_def split: option.splits)
    with createLoop_holder [OF 2(1) c ok] l show ?thesis by (simp add: holder_def)
  qed
qed

text \<open>A lookup of a tag that some stored instance carries finds one, or the listing failed.\<close>

lemma lookup_held:
  assumes c: "client p = logged a" and "holder (NodeClaimTag (NodeClaimName nc)) inst s"
    and "lookupExistingInstance p nc s = (r, s')"
  shows "(\<forall>e. r = Inl e \<longrightarrow> \<not> errors_Is e ErrInstanceNotFound \<and>
      isl (fst (ListInstances a [(FilterContains, ''tags'', [NodeClaimTag (NodeClaimName nc)])] (fst (world s))))) \<and>
    (\<exists>e. snd (world s') = snd (world s) @ [e] \<and> is_read e) \<and> (isl r \<or> holds (fst (world s')) = holds (fst (world s)))"
proof -
  let ?f = "[(FilterContains, ''tags'', [NodeClaimTag (NodeClaimName nc)])]"
  obtain x w where x: "ListInstances a ?f (fst (world s)) = (x, w)" by fastforce
  have ask: "\<exists>e. snd (world s1) = snd (world s) @ [e] \<and> is_read e"
    if "req (LookupInstanceByTag (client p) (NodeClaimTag (NodeClaimName nc))) s = (r1, s1)" for r1 s1
    using that by (auto simp: req_def LookupInstanceByTag_def c logged_sel recorded_def split: prod.splits sum.splits list.splits)
  have hyd: "world (snd (hydrateInstanceFromLinode p i s1)) = world s1" for i s1
    by (simp add: hydrateInstanceFromLinode_def cacheNode_def split: option.splits)
  show ?thesis
  proof (cases x)
    case (Inl e)
    with x assms(3) list_fails [of ?f "fst (world s)" e w] show ?thesis
      by (auto simp: lookupExistingInstance_def req_def LookupInstanceByTag_def c logged_sel recorded_def)
  next
    case (Inr "is")
    note l = list_holds [OF x [unfolded Inr]]
    have "is \<noteq> []" using l assms(2) by (auto simp: holder_def filter_empty_conv)
    then obtain i js where "is = i # js" by (auto simp: neq_Nil_conv)
    note i = this conjunct2 [OF l]
    obtain s1 where s1: "req (LookupInstanceByTag (client p) (NodeClaimTag (NodeClaimName nc))) s = (Inr i, s1)"
      "fst (world s1) = w"
      using x Inr i by (auto simp: req_def LookupInstanceByTag_def c logged_sel recorded_def)
    from assms(3) s1 have "\<exists>inst. r = Inr inst" "world s' = world s1"
      using hyd [of i s1] by (auto simp: lookupExistingInstance_def split: prod.splits)
    with ask [OF s1(1)] s1(2) i(2) show ?thesis by auto
  qed
qed

end

text \<open>
  The in-memory service, with nothing scripted in front of its instance reads, keeps the contract.
\<close>

definition quiet :: "fake_world \<Rightarrow> fake_world" where
  "quiet w = w\<lparr>GetInstanceBehavior := newMock, ListInstancesBehavior := newMock\<rparr>"

definition indexingClient :: "fake_world linode_api" where
  "indexingClient = fakeClient\<lparr>GetInstance := \<lambda>i w. fakeGetInstance i (quiet w),
     ListInstances := \<lambda>f w. fakeListInstances f (quiet w)\<rparr>"

definition storedInstances :: "fake_world \<Rightarrow> LinodeInstance list" where
  "storedInstances w = map snd (Instances w)"

lemma quiet_get: "fakeGetInstance n (quiet w) = (r, w') \<Longrightarrow>
    storedInstances w' = storedInstances w \<and> (\<forall>i. r = Inr i \<longrightarrow> i \<in> set (storedInstances w))"
  by (auto simp: fakeGetInstance_def Invoke_def quiet_def newMock_def AtomicErrorGet_def noError_def loadInstance_def
      storedInstances_def outRes_def Let_def split: option.splits dest!: map_of_SomeD intro: rev_image_eqI)

lemma quiet_list: "fakeListInstances f (quiet w) =
    (Inr (filter (\<lambda>i. instanceMatchesTags i (extractTagsFromFilter f)) (storedInstances w)), w') \<Longrightarrow> storedInstances w' = storedInstances w"
  by (auto simp: fakeListInstances_def Invoke_def quiet_def newMock_def AtomicErrorGet_def noError_def
      storedInstances_def outList_def Let_def)

lemma quiet_lists: "fst (fakeListInstances f (quiet w)) =
    Inr (filter (\<lambda>i. instanceMatchesTags i (extractTagsFromFilter f)) (storedInstances w))"
  by (auto simp: fakeListInstances_def Invoke_def quiet_def newMock_def AtomicErrorGet_def noError_def
      storedInstances_def outList_def Let_def)

lemma matches_carries: "instanceMatchesTags i (extractTagsFromFilter [(FilterContains, ''tags'', [tag])]) = carries tag i"
  by (simp add: instanceMatchesTags_def extractTagsFromFilter_def carries_def)

interpretation mem_index: tag_index indexingClient storedInstances
proof (unfold_locales, goal_cases)
  case (1 n w i w')
  then show ?case using quiet_get [of n w] by (auto simp: indexingClient_def)
next
  case (2 tag w "is" w')
  then have l: "fakeListInstances [(FilterContains, ''tags'', [tag])] (quiet w) = (Inr is, w')" by (simp add: indexingClient_def)
  with quiet_lists [of "[(FilterContains, ''tags'', [tag])]" w] have "is = filter (carries tag) (storedInstances w)"
    by (simp add: matches_carries)
  with quiet_list [of "[(FilterContains, ''tags'', [tag])]" w w'] l show ?case by (simp add: matches_carries)
next
  case (3 f w e w')
  then show ?case using quiet_lists [of f w] by (simp add: indexingClient_def)
qed

section \<open>Create again\<close>

text \<open>C0: A Create that is repeated, with the same arguments, after one that succeeded changes nothing: as long as the
  instances are those that the first one left (the provider may have restarted since, with an empty cache), it sends one
  listing and no request that changes anything, and, unless that listing fails, returns the first stored instance that
  carries the tag of the NodeClaim. The instance of the first Create is stored and carries the tag; so if the instances that
  do have one id, that is the one returned. Carrying is what the filter \<open>+contains\<close> of the API means, a tag that
  contains that of the NodeClaim as a substring: an instance of another NodeClaim, whose name begins with this one's, can
  come first, and is then returned.\<close>

lemma Create_is_idempotent:
  fixes p :: "('w \<times> log, 'c, 'b, 'u) lke"
  assumes "tag_index a holds" "client p = logged a" "cache_ok (nodeOps p) ttl" "node_cache_keyed p s"
    and "Create p nodeClass nc tags its s = Some (Inr inst, s1)"
    and "node_cache_keyed p s2" "holds (fst (world s2)) = holds (fst (world s1))"
    and "tag = NodeClaimTag (NodeClaimName nc)" "carrying = filter (carries tag) (holds (fst (world s1)))"
  shows "InstID inst \<in> LiID ` set carrying \<and>
    (\<exists>r s3 e. Create p nodeClass nc tags its s2 = Some (r, s3) \<and> snd (world s3) = snd (world s2) @ [e] \<and> is_read e \<and>
      (case r of
         Inr again \<Rightarrow> holds (fst (world s3)) = holds (fst (world s1)) \<and> InstID again = LiID (hd carrying) \<and>
           ((\<forall>i \<in> set carrying. LiID i = LiID (hd carrying)) \<longrightarrow> InstID again = InstID inst)
       | Inl err \<Rightarrow> isl (fst (ListInstances a [(FilterContains, ''tags'', [tag])] (fst (world s2))))))"
proof -
  note holder = tag_index.holder_def [OF assms(1)] and first = tag_index.first_holder_def [OF assms(1)]
  have h1: "tag_index.holder holds (NodeClaimTag (NodeClaimName nc)) inst s1"
    by (rule tag_index.Create_holder [OF assms(1-5)])
  then have mem: "InstID inst \<in> LiID ` set carrying" by (auto simp: holder assms(8,9))
  from h1 have h2: "tag_index.holder holds (NodeClaimTag (NodeClaimName nc)) inst s2" by (simp add: holder assms(7))
  obtain r s3 where r: "lookupExistingInstance p nc s2 = (r, s3)" by fastforce
  note l = tag_index.lookup_held [OF assms(1,2) h2 r] tag_index.lookup_first [OF assms(1-3,6) r]
  have run: "Create p nodeClass nc tags its s2 = Some (r, s3)"
    using assms(5) l(1) r unfolding Create_def by (cases r) (auto split: option.splits sum.splits)
  show ?thesis
  proof (cases r)
    case (Inl e)
    with run l(1) mem show ?thesis by (auto simp: assms(8))
  next
    case (Inr again)
    with l have h3: "tag_index.first_holder holds tag again s3" and w: "holds (fst (world s3)) = holds (fst (world s1))"
      by (simp_all add: assms(7,8))
    from h3 have "InstID again = LiID (hd carrying)" by (auto simp: first w assms(9))
    moreover from this mem have "(\<forall>i \<in> set carrying. LiID i = LiID (hd carrying)) \<longrightarrow> InstID again = InstID inst" by auto
    ultimately show ?thesis using Inr run l(1) w mem by auto
  qed
qed

text \<open>A restart between the two calls: the second one starts with an empty cache.\<close>

definition indexedLke :: "(fake_world \<times> log) sample_lke" where
  "indexedLke = sampleLke (logged indexingClient) (logged_rt fakeRuntime)"

lemma indexed_create_evaluates:
  "map_option (\<lambda>(r, s). (map_sum (\<lambda>e. ()) InstID r, map LiID (storedInstances (fst (world s)))))
     (Create indexedLke sampleNodeClass (sampleClaim ''web'') (sampleTags (sampleClaim ''web'')) [sampleType ''g6'' 2]
       (freshState NewFakeWorld)) = Some (Inr 2000, [2000])"
  by code_simp

lemma sampleState_keyed: "node_cache_keyed indexedLke (sampleState w)"
  by (simp add: node_cache_keyed_def sampleState_def NewLkeState_def indexedLke_def sampleLke_def timed_ops_def timed_get_def Let_def)

lemma Create_is_idempotent_witness:
  "\<exists>w again s3. map LiID (storedInstances (fst w)) = [2000] \<and>
     Create indexedLke sampleNodeClass (sampleClaim ''web'') (sampleTags (sampleClaim ''web'')) [sampleType ''g6'' 2] (sampleState w) =
       Some (Inr again, s3) \<and> InstID again = 2000 \<and> length (snd (world s3)) = length (snd w) + 1"
proof -
  let ?create = "Create indexedLke sampleNodeClass (sampleClaim ''web'') (sampleTags (sampleClaim ''web'')) [sampleType ''g6'' 2]"
  obtain x s1 where x: "?create (freshState NewFakeWorld) = Some (x, s1)" "map_sum (\<lambda>e. ()) InstID x = Inr 2000"
    "map LiID (storedInstances (fst (world s1))) = [2000]" using indexed_create_evaluates by auto
  then obtain inst where inst: "x = Inr inst" "InstID inst = 2000" by (cases x) auto
  have carrying: "LiID ` set (filter (carries (NodeClaimTag (NodeClaimName (sampleClaim ''web'')))) (storedInstances (fst (world s1)))) \<subseteq> {2000}"
    using x(3) by auto
  have "client indexedLke = logged indexingClient" "cache_ok (nodeOps indexedLke) (seconds 300)"
    by (simp_all add: indexedLke_def sampleLke_def timed_ops_ok)
  note again = Create_is_idempotent [OF mem_index.tag_index_axioms this sampleState_keyed [of "(NewFakeWorld, [])", folded freshState_def]
      x(1) [unfolded inst(1)] sampleState_keyed [of "world s1"], unfolded world_sampleState, OF refl refl refl]
  then obtain r s3 e where r: "?create (sampleState (world s1)) = Some (r, s3)" "snd (world s3) = snd (world s1) @ [e]"
    and res: "case r of Inr again \<Rightarrow> storedInstances (fst (world s3)) = storedInstances (fst (world s1)) \<and>
        InstID again = LiID (hd (filter (carries (NodeClaimTag (NodeClaimName (sampleClaim ''web'')))) (storedInstances (fst (world s1))))) \<and>
        ((\<forall>i \<in> set (filter (carries (NodeClaimTag (NodeClaimName (sampleClaim ''web'')))) (storedInstances (fst (world s1)))).
           LiID i = LiID (hd (filter (carries (NodeClaimTag (NodeClaimName (sampleClaim ''web'')))) (storedInstances (fst (world s1)))))) \<longrightarrow>
         InstID again = InstID inst)
     | Inl err \<Rightarrow> isl (fst (ListInstances indexingClient [(FilterContains, ''tags'', [NodeClaimTag (NodeClaimName (sampleClaim ''web''))])]
         (fst (world s1))))" by (elim exE conjE) (rule that)
  have "filter (carries (NodeClaimTag (NodeClaimName (sampleClaim ''web'')))) (storedInstances (fst (world s1))) \<noteq> []"
    using conjunct1 [OF again] by (auto simp: filter_empty_conv)
  from hd_in_set [OF this] carrying have "LiID (hd (filter (carries (NodeClaimTag (NodeClaimName (sampleClaim ''web''))))
      (storedInstances (fst (world s1))))) = 2000" by blast
  moreover have "\<not> isl (fst (ListInstances indexingClient f w))" for f w by (simp add: indexingClient_def quiet_lists)
  ultimately obtain again where "r = Inr again" "InstID again = 2000" using res by (cases r) auto
  with r x(3) show ?thesis by (intro exI [of _ "world s1"] exI [of _ again] exI [of _ s3]) simp
qed

end
