(* ===== verification/ControlPlane.thy ===== *)
theory ControlPlane
  imports NodeClassController GarbageCollection
begin

text \<open>
  The controllers together, as pkg/controllers/controllers.go builds them on one Kubernetes client, one cloud provider
  and one node provider, and what any interleaving of them does: each step is one reconcile or one call of Karpenter,
  with whatever object the informer last read, or a change by somebody else; the reconcile of a deleted NodeClass, which
  decides on a listing of NodeClaims what to patch, is two steps with anything between them. The locale
  \<open>kube_view\<close> carries a view of the API server through everything that does not patch NodeClasses.
\<close>

section \<open>The controllers\<close>

text \<open>The Linode API that validation asks is the one behind the node provider: \<open>worldOf\<close> and \<open>withWorld\<close> reach it.\<close>

record ('w, 's, 't, 'c, 'k) control_plane =
  planeCloud :: "('s, 't, 'k) cloud"
  planeValidator :: "('w, 'c, 'k) validator"
  planeJson :: json
  planeRange :: range_order
  planeOrder :: "NodeClaim list \<Rightarrow> NodeClaim list"
  worldOf :: "'s \<Rightarrow> 'w"
  withWorld :: "'w \<Rightarrow> 's \<Rightarrow> 's"

record ('s, 't, 'c, 'k) plane_state =
  planeCluster :: "('s, 't, 'k) cluster"
  validationCache :: 'c
  finalizing :: "LinodeNodeClass list"
  collections :: "64 word"

abbreviation planeKube :: "('w, 's, 't, 'c, 'k) control_plane \<Rightarrow> 'k kube_api" where
  "planeKube P \<equiv> kubeClient (planeCloud P)"

abbreviation planeLib :: "('w, 's, 't, 'c, 'k) control_plane \<Rightarrow> lib" where
  "planeLib P \<equiv> cErrlib (planeCloud P)"

abbreviation kubeOf :: "('s, 't, 'c, 'k) plane_state \<Rightarrow> 'k" where
  "kubeOf s \<equiv> kubeState (planeCluster s)"

definition nodeClassController :: "('w, 's, 't, 'c, 'k) control_plane \<Rightarrow> ('w, 'c, 'k) validator" where
  "nodeClassController P = (planeValidator P)\<lparr>vKube := planeKube P, vErrlib := planeLib P\<rparr>"

definition nodeClaimControllers :: "('w, 's, 't, 'c, 'k) control_plane \<Rightarrow> ('s, 'k) claim_controller" where
  "nodeClaimControllers P = \<lparr>ccKube = planeKube P, ccNodes = nodeProvider (planeCloud P), ccErrlib = planeLib P,
     ccJson = planeJson P, ccRange = planeRange P, ccCluster = optCluster (planeCloud P)\<rparr>"

definition collectionController :: "('w, 's, 't, 'c, 'k) control_plane \<Rightarrow> ('s, 't, 'k) gc_controller" where
  "collectionController P = \<lparr>gcCloud = planeCloud P, gcOrder = planeOrder P\<rparr>"

section \<open>Steps\<close>

text \<open>
  \<open>finalizing\<close> holds the reconciles of deleted NodeClasses under way, each with the object it was given: a listing that
  shows no NodeClaim (\<open>finalize_list\<close>) starts one, and \<open>finalize_release\<close> ends it, at any later time. The two can be as far apart
  as one likes, so a listing from an informer's cache is one too: it is the step at the time the cache shows.
  \<open>env\<close> says what everybody else may do to the API server and to Linode; the instance types and the cache of
  validations may change with it at any time, which covers the controllers that only read the API server: instance
  types, their capacity and the gauges. \<open>meets\<close> says with which NodeClaims and NodeClasses an in-place update may
  run: with any, if it is true of all.
\<close>

inductive plane_step :: "('w, 's, 't, 'c, 'k) control_plane \<Rightarrow> ('k \<times> 's \<Rightarrow> 'k \<times> 's \<Rightarrow> bool) \<Rightarrow>
    (NodeClaim \<Rightarrow> LinodeNodeClass \<Rightarrow> bool) \<Rightarrow>
    ('s, 't, 'c, 'k) plane_state \<Rightarrow> ('s, 't, 'c, 'k) plane_state \<Rightarrow> bool" for P env meets where
  hash: "hashReconcile (planeKube P) (planeLib P) (hashOf (planeCloud P)) nodeClass (kubeOf s) = (e, k') \<Longrightarrow>
    plane_step P env meets s (s\<lparr>planeCluster := (planeCluster s)\<lparr>kubeState := k'\<rparr>\<rparr>)"
| node_class: "NodeClassDeletion nodeClass = None \<Longrightarrow> nodeClassReconcile (nodeClassController P) nodeClass
      \<lparr>vWorld = worldOf P (nodeState (planeCluster s)), vCache = validationCache s, vKubeState = kubeOf s\<rparr> = (r, v) \<Longrightarrow>
    plane_step P env meets s (s\<lparr>planeCluster := (planeCluster s)\<lparr>nodeState := withWorld P (vWorld v) (nodeState (planeCluster s)),
      kubeState := vKubeState v\<rparr>, validationCache := vCache v\<rparr>)"
| finalize_list: "NodeClassDeletion nodeClass \<noteq> None \<Longrightarrow> listUsers (nodeClassController P) nodeClass
      \<lparr>vWorld = worldOf P (nodeState (planeCluster s)), vCache = validationCache s, vKubeState = kubeOf s\<rparr> = (ended, v) \<Longrightarrow>
    plane_step P env meets s (s\<lparr>planeCluster := (planeCluster s)\<lparr>kubeState := vKubeState v\<rparr>,
      finalizing := (if ended = None then nodeClass # finalizing s else finalizing s)\<rparr>)"
| finalize_release: "nodeClass \<in> set (finalizing s) \<Longrightarrow> releaseClass (nodeClassController P) nodeClass
      \<lparr>vWorld = worldOf P (nodeState (planeCluster s)), vCache = validationCache s, vKubeState = kubeOf s\<rparr> = (r, v) \<Longrightarrow>
    plane_step P env meets s (s\<lparr>planeCluster := (planeCluster s)\<lparr>kubeState := vKubeState v\<rparr>,
      validationCache := vCache v, finalizing := remove1 nodeClass (finalizing s)\<rparr>)"
| in_place: "inplaceReconcile (nodeClaimControllers P) nodeClaim (planeCluster s) = Some (e, st) \<Longrightarrow>
    (\<And>name nodeClass k'. NodeClassRef nodeClaim = Some name \<Longrightarrow>
      KGetNodeClass (planeKube P) name (kubeOf s) = (Inr nodeClass, k') \<Longrightarrow> meets nodeClaim nodeClass) \<Longrightarrow>
    plane_step P env meets s (s\<lparr>planeCluster := st\<rparr>)"
| tagging: "taggingReconcile (nodeClaimControllers P) nodeClaim (planeCluster s) = (e, st) \<Longrightarrow>
    plane_step P env meets s (s\<lparr>planeCluster := st\<rparr>)"
| collect: "gcReconcile (collectionController P) \<lparr>gcCluster = planeCluster s, successfulCount = collections s\<rparr> = Some (d, g) \<Longrightarrow>
    plane_step P env meets s (s\<lparr>planeCluster := gcCluster g, collections := successfulCount g\<rparr>)"
| create: "cloudCreate (planeCloud P) nodeClaim (planeCluster s) = Some (rc, st) \<Longrightarrow>
    plane_step P env meets s (s\<lparr>planeCluster := st\<rparr>)"
| delete: "cloudDelete (planeCloud P) nodeClaim (planeCluster s) = (e, st) \<Longrightarrow> plane_step P env meets s (s\<lparr>planeCluster := st\<rparr>)"
| get: "cloudGet (planeCloud P) i (planeCluster s) = Some (rc, st) \<Longrightarrow> plane_step P env meets s (s\<lparr>planeCluster := st\<rparr>)"
| listing: "cloudList (planeCloud P) (planeCluster s) = Some (rl, st) \<Longrightarrow> plane_step P env meets s (s\<lparr>planeCluster := st\<rparr>)"
| types: "GetInstanceTypes (planeCloud P) nodePool (planeCluster s) = Some (its, st) \<Longrightarrow> plane_step P env meets s (s\<lparr>planeCluster := st\<rparr>)"
| drift: "IsDrifted (planeCloud P) nodeClaim (planeCluster s) = (rd, st) \<Longrightarrow> plane_step P env meets s (s\<lparr>planeCluster := st\<rparr>)"
| outside: "env (kubeOf s, nodeState (planeCluster s)) (k', ns) \<Longrightarrow>
    plane_step P env meets s (s\<lparr>planeCluster := \<lparr>nodeState = ns, typeState = ts, kubeState = k'\<rparr>, validationCache := vc\<rparr>)"

text \<open>The two steps of a deleted NodeClass, one after the other, are its reconcile.\<close>

lemma finalize_steps:
  assumes deleted: "NodeClassDeletion nodeClass \<noteq> None"
    and run: "nodeClassReconcile (nodeClassController P) nodeClass
      \<lparr>vWorld = worldOf P (nodeState (planeCluster s)), vCache = validationCache s, vKubeState = kubeOf s\<rparr> = (r, v)"
  shows "(plane_step P env meets)\<^sup>*\<^sup>* s (s\<lparr>planeCluster := (planeCluster s)\<lparr>kubeState := vKubeState v\<rparr>, validationCache := vCache v\<rparr>)"
proof -
  let ?v = "\<lparr>vWorld = worldOf P (nodeState (planeCluster s)), vCache = validationCache s, vKubeState = kubeOf s\<rparr>"
  obtain ended v1 where listed: "listUsers (nodeClassController P) nodeClass ?v = (ended, v1)" by fastforce
  have kept: "v1 = ?v\<lparr>vKubeState := vKubeState v1\<rparr>"
    using listed by (auto simp: listUsers_def onClass_def split: prod.splits sum.splits if_splits)
  note first = plane_step.finalize_list [OF deleted listed, of env meets]
  show ?thesis
  proof (cases ended)
    case None
    let ?s = "s\<lparr>planeCluster := (planeCluster s)\<lparr>kubeState := vKubeState v1\<rparr>, finalizing := nodeClass # finalizing s\<rparr>"
    have "releaseClass (nodeClassController P) nodeClass
        \<lparr>vWorld = worldOf P (nodeState (planeCluster ?s)), vCache = validationCache ?s, vKubeState = kubeOf ?s\<rparr> = (r, v)"
      using run deleted listed None kept by (simp add: nodeClassReconcile_def finalize_def)
    from plane_step.finalize_release [OF _ this, of env meets] first None show ?thesis by simp
  next
    case (Some res)
    with run deleted listed have "v1 = v" by (simp add: nodeClassReconcile_def finalize_def)
    with kept have "vCache v = validationCache s" by (metis v_state.select_convs(2) v_state.surjective v_state.update_convs(3))
    with first Some \<open>v1 = v\<close> show ?thesis by simp
  qed
qed

section \<open>What leaves NodeClasses alone\<close>

locale kube_view =
  fixes K :: "'k kube_api"
    and view :: "'k \<Rightarrow> 'v"
  assumes get_class [simp]: "view (snd (KGetNodeClass K name k)) = view k"
    and get_pool [simp]: "view (snd (KGetNodePool K name k)) = view k"
    and list_for_class [simp]: "view (snd (KListForNodeClass K name k)) = view k"
    and list_managed [simp]: "view (snd (KListManaged K k)) = view k"
    and list_nodes [simp]: "view (snd (KListNodes K k)) = view k"
    and patch_claim: "NodeClassRef new = NodeClassRef old \<Longrightarrow> NodeClaimName new = NodeClaimName old \<Longrightarrow>
      view (snd (KPatchNodeClaim K old new k)) = view k"
    and delete_node [simp]: "view (snd (KDeleteNode K name k)) = view k"
    and publish [simp]: "view (Publish K ev k) = view k"
begin

definition same :: "('s, 't, 'k) cluster \<Rightarrow> ('s, 't, 'k) cluster \<Rightarrow> bool" where
  "same st st' \<longleftrightarrow> view (kubeState st') = view (kubeState st)"

lemma same_refl [simp]: "same st st"
  by (simp add: same_def)

lemma same_nodes [simp]: "same st (st'\<lparr>nodeState := s\<rparr>) = same st st'"
  by (simp add: same_def)

lemma same_trans [trans]: "same st st1 \<Longrightarrow> same st1 st2 \<Longrightarrow> same st st2"
  by (simp add: same_def)

lemma onKube_same: "onKube f st = (r, st') \<Longrightarrow> (\<And>k. view (snd (f k)) = view k) \<Longrightarrow> same st st'"
  by (metis onKube_kube same_def snd_conv)

lemma onNodes_same: "onNodes f st = (r, st') \<Longrightarrow> same st st'"
  by (simp add: onNodes_kube same_def)

lemma onTypes_same: "onTypes f st = (r, st') \<Longrightarrow> same st st'"
  using onTypes_nodes [of f st r st'] by (simp add: same_def)

lemma publish_same [simp]: "same st (st'\<lparr>kubeState := Publish K ev (kubeState st')\<rparr>) = same st st'"
  by (simp add: same_def)

lemma kube_same:
  "onKube (KGetNodeClass K name) st = (r1, st') \<Longrightarrow> same st st'" "onKube (KGetNodePool K name) st = (r2, st') \<Longrightarrow> same st st'"
  "onKube (KListManaged K) st = (r3, st') \<Longrightarrow> same st st'" "onKube (KListNodes K) st = (r4, st') \<Longrightarrow> same st st'"
  "onKube (KPatchNodeClaim K old new) st = (e, st') \<Longrightarrow> NodeClassRef new = NodeClassRef old \<Longrightarrow>
    NodeClaimName new = NodeClaimName old \<Longrightarrow> same st st'" "onKube (KDeleteNode K name) st = (e, st') \<Longrightarrow> same st st'"
  by (auto intro: onKube_same patch_claim)

text \<open>The cloud provider.\<close>

lemma resolve_same:
  assumes on: "kubeClient c = K"
  shows "getNodeClassNamed c name st = (r, st') \<Longrightarrow> same st st'"
    and "resolveNodeClassFromNodeClaim c nc st = (r, st') \<Longrightarrow> same st st'"
    and "resolveNodeClassFromNodePool c np st = Some (r, st') \<Longrightarrow> same st st'"
    and "resolveNodeClassFromInstance c inst st = (r, st') \<Longrightarrow> same st st'"
    and "resolveNodePoolFromInstance c inst st = (rp, st') \<Longrightarrow> same st st'"
proof -
  have named: "getNodeClassNamed c name st = (r, st') \<Longrightarrow> same st st'" for name st r st'
    by (auto simp: getNodeClassNamed_def on dest: kube_same split: prod.splits sum.splits if_splits)
  then show "getNodeClassNamed c name st = (r, st') \<Longrightarrow> same st st'"
    "resolveNodeClassFromNodeClaim c nc st = (r, st') \<Longrightarrow> same st st'"
    "resolveNodeClassFromNodePool c np st = Some (r, st') \<Longrightarrow> same st st'"
    by (auto simp: resolveNodeClassFromNodeClaim_def resolveNodeClassFromNodePool_def split: option.splits)
  show "resolveNodeClassFromInstance c inst st = (r, st') \<Longrightarrow> same st st'"
    "resolveNodePoolFromInstance c inst st = (rp, st') \<Longrightarrow> same st st'"
    by (auto simp: resolveNodeClassFromInstance_def resolveNodePoolFromInstance_def on dest: kube_same
        split: option.splits prod.splits sum.splits if_splits)
qed

lemma GetInstanceTypes_same:
  assumes on: "kubeClient c = K"
  shows "GetInstanceTypes c np st = Some (r, st') \<Longrightarrow> same st st'"
  by (auto simp: GetInstanceTypes_def on Let_def dest!: resolve_same(3) [OF on] onTypes_same simp: same_def
      split: option.splits sum.splits if_splits)

lemma claimOfInstance_same:
  assumes on: "kubeClient c = K" and run: "claimOfInstance c inst st = Some (r, st')"
  shows "same st st'"
proof -
  have typed: "resolveInstanceTypeFromInstance c inst st = Some (rt, st1) \<Longrightarrow> same st st1" for rt st1
    by (auto simp: resolveInstanceTypeFromInstance_def Let_def dest!: resolve_same(5) [OF on] GetInstanceTypes_same [OF on]
        simp: same_def split: option.splits sum.splits prod.splits)
  show ?thesis using run
    by (auto simp: claimOfInstance_def dest!: typed resolve_same(4) [OF on] simp: same_def
        split: option.splits sum.splits prod.splits)
qed

lemma claimsOfInstances_same:
  assumes on: "kubeClient c = K"
  shows "claimsOfInstances c insts st = Some (r, st') \<Longrightarrow> same st st'"
proof (induction insts arbitrary: st r)
  case (Cons inst insts)
  from Cons.prems show ?case
    by (auto dest!: claimOfInstance_same [OF on] Cons.IH simp: same_def split: option.splits sum.splits)
qed simp

lemma cloud_same:
  assumes on: "kubeClient c = K"
  shows "cloudCreate c nc st = Some (r, st') \<Longrightarrow> same st st'"
    and "cloudList c st = Some (rl, st') \<Longrightarrow> same st st'"
    and "cloudGet c i st = Some (r, st') \<Longrightarrow> same st st'"
    and "cloudDelete c nc st = (e, st') \<Longrightarrow> same st st'"
    and "IsDrifted c nc st = (rd, st') \<Longrightarrow> same st st'"
proof -
  show "cloudCreate c nc st = Some (r, st') \<Longrightarrow> same st st'"
    by (auto simp: cloudCreate_def Let_def on dest!: resolve_same(2) [OF on] onTypes_same simp: same_def
        split: option.splits sum.splits prod.splits if_splits)
  show "cloudList c st = Some (rl, st') \<Longrightarrow> same st st'"
    by (auto simp: cloudList_def dest!: onNodes_same claimsOfInstances_same [OF on] simp: same_def split: prod.splits sum.splits)
  show "cloudGet c i st = Some (r, st') \<Longrightarrow> same st st'"
    by (auto simp: cloudGet_def dest!: onNodes_same claimOfInstance_same [OF on] simp: same_def split: prod.splits sum.splits)
  show "cloudDelete c nc st = (e, st') \<Longrightarrow> same st st'"
    by (auto simp: cloudDelete_def dest!: onNodes_same split: sum.splits)
  show "IsDrifted c nc st = (rd, st') \<Longrightarrow> same st st'"
    by (auto simp: IsDrifted_def on dest!: kube_same resolve_same(3) [OF on] simp: same_def
        split: option.splits sum.splits prod.splits if_splits)
qed

text \<open>The NodeClaim controllers and the collector.\<close>

lemma claims_same:
  assumes on: "ccKube C = K"
  shows "inplaceReconcile C nc st = Some (e, st') \<Longrightarrow> same st st'"
    and "taggingReconcile C nc st = (e, st') \<Longrightarrow> same st st'"
proof -
  have patch: "patchClaim C old (old\<lparr>NodeClaimAnnotations := m\<rparr>) st = (e, st') \<Longrightarrow> same st st'" for old m st e st'
    using kube_same(5) [of old "old\<lparr>NodeClaimAnnotations := m\<rparr>"] by (auto simp: patchClaim_def on split: prod.splits)
  have rec: "recordApplied C nc nodeClass st = (e, st') \<Longrightarrow> same st st'" for nc nodeClass st e st'
    by (auto simp: recordApplied_def Let_def dest!: patch split: option.splits if_splits)
  have update: "updateNodeClaimTags C nc nodeClass st = (e, st') \<Longrightarrow> same st st'" for nc nodeClass st e st'
    by (auto simp: updateNodeClaimTags_def Let_def dest!: onNodes_same rec simp: same_def
        split: sum.splits prod.splits if_splits option.splits)
  show "inplaceReconcile C nc st = Some (e, st') \<Longrightarrow> same st st'"
    by (auto simp: inplaceReconcile_def on dest!: kube_same update simp: same_def split: option.splits sum.splits prod.splits)
  have tag: "tagInstance C nc i st = (e, st') \<Longrightarrow> same st st'" for nc i st e st'
    by (auto simp: tagInstance_def Let_def dest!: onNodes_same simp: same_def split: sum.splits prod.splits if_splits option.splits)
  show "taggingReconcile C nc st = (e, st') \<Longrightarrow> same st st'"
    by (auto simp: taggingReconcile_def Let_def dest!: tag patch simp: same_def split: sum.splits prod.splits if_splits option.splits)
qed

lemma collectAll_same:
  assumes on: "kubeClient c = K"
  shows "collectAll c ids nodes ncs st = (es, st') \<Longrightarrow> same st st'"
proof (induction ncs arbitrary: st es)
  case (Cons nc ncs)
  have one: "garbageCollect c nc nodes st = (e, st1) \<Longrightarrow> same st st1" for e st1
    by (auto simp: garbageCollect_def on dest!: cloud_same(4) [OF on] kube_same simp: same_def
        split: option.splits prod.splits)
  from Cons.prems show ?case
    by (auto dest!: one Cons.IH simp: same_def split: prod.splits if_splits)
qed simp

lemma gcReconcile_same:
  assumes on: "kubeClient (gcCloud C) = K"
  shows "gcReconcile C g = Some (r, g') \<Longrightarrow> same (gcCluster g) (gcCluster g')"
  by (auto simp: gcReconcile_def gcResult_def Let_def on dest!: cloud_same(2) [OF on] kube_same collectAll_same [OF on]
      simp: same_def split: option.splits sum.splits prod.splits)

text \<open>The hash controller, up to its patch of the NodeClass.\<close>

lemma updateNodeClaimHash_view:
  assumes "updateNodeClaimHash K L h nodeClass k = (e, k')"
  shows "view k' = view k"
proof -
  have all: "restampAll K L h nodeClass ncs k = (es, k') \<Longrightarrow> view k' = view k" for ncs es k k'
  proof (induction ncs arbitrary: es k)
    case (Cons nc ncs)
    obtain e1 k1 where p: "KPatchNodeClaim K nc (restampClaim h nodeClass nc) k = (e1, k1)" by fastforce
    with patch_claim [of "restampClaim h nodeClass nc" nc k] have "view k1 = view k" by simp
    with Cons.prems Cons.IH show ?case by (auto simp: Let_def p split: prod.splits if_splits)
  qed simp
  obtain r k1 where l: "KListForNodeClass K (NodeClassName nodeClass) k = (r, k1)" by fastforce
  with list_for_class [of "NodeClassName nodeClass" k] have "view k1 = view k" by simp
  with assms all l show ?thesis by (auto simp: updateNodeClaimHash_def split: sum.splits prod.splits)
qed

end

section \<open>The finalizers of NodeClasses\<close>

text \<open>An unlocked patch is a merge patch: it changes what differs between the two objects it is made from.\<close>

locale class_view = kube_view K "finalizersIn classes"
  for K :: "'k kube_api" and classes :: "'k \<Rightarrow> string \<Rightarrow> LinodeNodeClass option" +
  assumes merge_patch: "Finalizers new = Finalizers old \<Longrightarrow> NodeClassName new = NodeClassName old \<Longrightarrow>
    finalizersIn classes (snd (KPatchNodeClass K False old new k)) = finalizersIn classes k"
begin

lemma hashReconcile_view:
  assumes "hashReconcile K L h nodeClass k = (e, k')"
  shows "finalizersIn classes k' = finalizersIn classes k"
proof -
  obtain e1 k1 where u: "(if staleVersion (NodeClassAnnotations nodeClass) then updateNodeClaimHash K L h nodeClass k else (None, k)) = (e1, k1)"
    by fastforce
  then have "finalizersIn classes k1 = finalizersIn classes k"
    using updateNodeClaimHash_view [of L h nodeClass k e1 k1] by (auto split: if_splits)
  moreover obtain r k2 where p: "KPatchNodeClass K False nodeClass (hashedNodeClass h nodeClass) k1 = (r, k2)" by fastforce
  then have "finalizersIn classes k2 = finalizersIn classes k1"
    using merge_patch [of "hashedNodeClass h nodeClass" nodeClass k1] by (simp add: hashedNodeClass_def)
  ultimately show ?thesis using assms u p
    by (auto simp: hashReconcile_def Let_def split: option.splits if_splits sum.splits)
qed

end

section \<open>The references of NodeClaims\<close>

text \<open>Which NodeClass each stored NodeClaim refers to: no controller changes that, and no patch of a NodeClass does.\<close>

definition refsIn :: "('k \<Rightarrow> string \<Rightarrow> NodeClaim option) \<Rightarrow> 'k \<Rightarrow> string \<Rightarrow> string option option" where
  "refsIn claims k m = map_option NodeClassRef (claims k m)"

locale claim_view = kube_view K "refsIn claims"
  for K :: "'k kube_api" and claims :: "'k \<Rightarrow> string \<Rightarrow> NodeClaim option" +
  assumes patch_class [simp]: "refsIn claims (snd (KPatchNodeClass K lock old new k)) = refsIn claims k"
    and patch_status [simp]: "refsIn claims (snd (KPatchNodeClassStatus K lock old new k)) = refsIn claims k"
begin

lemma onClass_refs:
  "onClass (KPatchNodeClass K lock old new) s = (r, s') \<Longrightarrow> refsIn claims (vKubeState s') = refsIn claims (vKubeState s)"
  "onClass (KPatchNodeClassStatus K lock old new) s = (r, s') \<Longrightarrow> refsIn claims (vKubeState s') = refsIn claims (vKubeState s)"
  "onClass (KListForNodeClass K name) s = (rl, s') \<Longrightarrow> refsIn claims (vKubeState s') = refsIn claims (vKubeState s)"
  using patch_class [of lock old new "vKubeState s"] patch_status [of lock old new "vKubeState s"] list_for_class [of name "vKubeState s"]
  by (metis onClass_runs snd_conv)+

lemma finalize_refs:
  assumes "vKube V = K"
  shows "listUsers V nodeClass s = (ended, s') \<Longrightarrow> refsIn claims (vKubeState s') = refsIn claims (vKubeState s)"
    and "releaseClass V nodeClass s = (r, s') \<Longrightarrow> refsIn claims (vKubeState s') = refsIn claims (vKubeState s)"
  by (auto simp: listUsers_def releaseClass_def assms Let_def clearCacheEntries_def dest!: onClass_refs
      split: prod.splits sum.splits if_splits)

lemma vReconcile_refs:
  assumes "vKube V = K" "vReconcile V nodeClass s = (r, nodeClass', s')"
  shows "refsIn claims (vKubeState s') = refsIn claims (vKubeState s)"
proof -
  have published: "refsIn claims (Publish (vKube V) ev k) = refsIn claims k" for ev k by (simp add: assms(1))
  show ?thesis using assms(2) published
    by (auto simp: vReconcile_def validateTags_def validateLKEUnsupportedFields_def validateInstanceUnsupportedFields_def
        validateLKEClusterTier_def failLKEClusterTierValidation_def Let_def split: option.splits if_splits sum.splits prod.splits)
qed

lemma reconcileStatus_refs:
  assumes on: "vKube V = K" and run: "reconcileStatus V nodeClass s = (r, s')"
  shows "refsIn claims (vKubeState s') = refsIn claims (vKubeState s)"
proof -
  obtain res nc1 s1 where v: "vReconcile V nodeClass s = (res, nc1, s1)" by (metis prod_cases3)
  from run vReconcile_refs [OF on v] show ?thesis
    by (auto simp: reconcileStatus_def v on Let_def dest!: onClass_refs split: if_splits prod.splits sum.splits)
qed

lemma nodeClassReconcile_refs:
  assumes on: "vKube V = K" and run: "nodeClassReconcile V nodeClass s = (r, s')" "NodeClassDeletion nodeClass = None"
  shows "refsIn claims (vKubeState s') = refsIn claims (vKubeState s)"
  using run by (auto simp: nodeClassReconcile_def on Let_def dest!: onClass_refs reconcileStatus_refs [OF on]
      split: if_splits prod.splits sum.splits option.splits)

lemma hashReconcile_refs:
  assumes "hashReconcile K L h nodeClass k = (e, k')"
  shows "refsIn claims k' = refsIn claims k"
proof -
  obtain e1 k1 where u: "(if staleVersion (NodeClassAnnotations nodeClass) then updateNodeClaimHash K L h nodeClass k else (None, k)) = (e1, k1)"
    by fastforce
  then have "refsIn claims k1 = refsIn claims k"
    using updateNodeClaimHash_view [of L h nodeClass k e1 k1] by (auto split: if_splits)
  moreover obtain r k2 where p: "KPatchNodeClass K False nodeClass (hashedNodeClass h nodeClass) k1 = (r, k2)" by fastforce
  then have "refsIn claims k2 = refsIn claims k1"
    using patch_class [of False nodeClass "hashedNodeClass h nodeClass" k1] by simp
  ultimately show ?thesis using assms u p
    by (auto simp: hashReconcile_def Let_def split: option.splits if_splits sum.splits)
qed

end

section \<open>What only the release changes\<close>

text \<open>What a step of the controllers and of Karpenter keeps of the API server: a view that the hash controller keeps too.\<close>

definition hash_keeps :: "('w, 's, 't, 'c, 'k) control_plane \<Rightarrow> ('k \<Rightarrow> 'v) \<Rightarrow> bool" where
  "hash_keeps P view \<longleftrightarrow>
     (\<forall>nodeClass k. view (snd (hashReconcile (planeKube P) (planeLib P) (hashOf (planeCloud P)) nodeClass k)) = view k)"

lemma view_hash_keeps:
  shows "class_view (planeKube P) classes \<Longrightarrow> hash_keeps P (finalizersIn classes)"
    and "claim_view (planeKube P) claims \<Longrightarrow> hash_keeps P (refsIn claims)"
  unfolding hash_keeps_def
  by (metis class_view.hashReconcile_view surjective_pairing) (metis claim_view.hashReconcile_refs surjective_pairing)

lemma plane_step_view:
  assumes view: "kube_view (planeKube P) view" and hash: "hash_keeps P view"
    and step: "plane_step P env meets s s'"
  obtains (kept) "view (kubeOf s') = view (kubeOf s)" "finalizing s' = finalizing s"
  | (others) "env (kubeOf s, nodeState (planeCluster s)) (kubeOf s', nodeState (planeCluster s'))" "finalizing s' = finalizing s"
  | (class_kept) nodeClass r v where "NodeClassDeletion nodeClass = None" "nodeClassReconcile (nodeClassController P) nodeClass
      \<lparr>vWorld = worldOf P (nodeState (planeCluster s)), vCache = validationCache s, vKubeState = kubeOf s\<rparr> = (r, v)"
      "kubeOf s' = vKubeState v" "finalizing s' = finalizing s"
  | (class_listed) nodeClass ended v where "NodeClassDeletion nodeClass \<noteq> None" "listUsers (nodeClassController P) nodeClass
      \<lparr>vWorld = worldOf P (nodeState (planeCluster s)), vCache = validationCache s, vKubeState = kubeOf s\<rparr> = (ended, v)"
      "kubeOf s' = vKubeState v" "finalizing s' = (if ended = None then nodeClass # finalizing s else finalizing s)"
  | (class_released) nodeClass r v where "nodeClass \<in> set (finalizing s)" "releaseClass (nodeClassController P) nodeClass
      \<lparr>vWorld = worldOf P (nodeState (planeCluster s)), vCache = validationCache s, vKubeState = kubeOf s\<rparr> = (r, v)"
      "kubeOf s' = vKubeState v" "finalizing s' = remove1 nodeClass (finalizing s)"
proof -
  have same: thesis if "kube_view.same view (planeCluster s) (planeCluster s')" "finalizing s' = finalizing s"
    using that kept by (simp add: kube_view.same_def [OF view])
  note cc = kube_view.cloud_same [OF view refl] and nc = kube_view.claims_same [OF view]
  from step show thesis
  proof cases
    case (hash nodeClass e k')
    with assms(2) have "view k' = view (kubeOf s)" unfolding hash_keeps_def by (metis snd_conv)
    with hash show thesis by (intro kept) simp_all
  next
    case (node_class nodeClass r v)
    then show thesis by (intro class_kept [of nodeClass r v]) simp_all
  next
    case (finalize_list nodeClass ended v)
    then show thesis by (intro class_listed [of nodeClass ended v]) simp_all
  next
    case (finalize_release nodeClass r v)
    then show thesis by (intro class_released [of nodeClass r v]) simp_all
  next
    case (in_place nodeClaim e st)
    with nc(1) [of "nodeClaimControllers P"] show thesis by (intro same) (simp_all add: nodeClaimControllers_def)
  next
    case (tagging nodeClaim e st)
    with nc(2) [of "nodeClaimControllers P"] show thesis by (intro same) (simp_all add: nodeClaimControllers_def)
  next
    case (collect d g)
    with kube_view.gcReconcile_same [OF view, of "collectionController P"] show thesis
      by (intro same) (force simp: collectionController_def)+
  next
    case (types nodePool its st)
    with kube_view.GetInstanceTypes_same [OF view refl] show thesis by (intro same) simp_all
  next
    case (outside k' ns ts vc)
    then show thesis by (intro others) simp_all
  next
    case (create nodeClaim rc st)
    with cc(1) show thesis by (intro same) simp_all
  next
    case (delete nodeClaim e st)
    with cc(4) show thesis by (intro same) simp_all
  next
    case (get i rc st)
    with cc(3) show thesis by (intro same) simp_all
  next
    case (listing rl st)
    with cc(2) show thesis by (intro same) simp_all
  next
    case (drift nodeClaim rd st)
    with cc(5) show thesis by (intro same) simp_all
  qed
qed

text \<open>The finalizer of the stored NodeClass, and whether a stored NodeClaim refers to it.\<close>

definition finalized :: "('k \<Rightarrow> string \<Rightarrow> LinodeNodeClass option) \<Rightarrow> 'k \<Rightarrow> string \<Rightarrow> bool" where
  "finalized classes k n \<longleftrightarrow> (case finalizersIn classes k n of Some fs \<Rightarrow> TerminationFinalizer \<in> set fs | None \<Rightarrow> False)"

definition unusedClass :: "('k \<Rightarrow> string \<Rightarrow> NodeClaim option) \<Rightarrow> 'k \<Rightarrow> string \<Rightarrow> bool" where
  "unusedClass claims k n \<longleftrightarrow> (\<forall>m claim. claims k m = Some claim \<longrightarrow> NodeClassRef claim \<noteq> Some n)"

lemma finalized_cong: "finalizersIn classes k' = finalizersIn classes k \<Longrightarrow> finalized classes k' n = finalized classes k n"
  by (simp add: finalized_def)

lemma unusedClass_cong: "refsIn claims k' = refsIn claims k \<Longrightarrow> unusedClass claims k' n = unusedClass claims k n"
proof -
  have "unusedClass claims k n \<longleftrightarrow> (\<forall>m. refsIn claims k m \<noteq> Some (Some n))" for k
    by (auto simp: unusedClass_def refsIn_def)
  then show "refsIn claims k' = refsIn claims k \<Longrightarrow> unusedClass claims k' n = unusedClass claims k n" by simp
qed

definition env_finalizes :: "('k \<times> 's \<Rightarrow> 'k \<times> 's \<Rightarrow> bool) \<Rightarrow> ('k \<Rightarrow> string \<Rightarrow> LinodeNodeClass option) \<Rightarrow> bool" where
  "env_finalizes env classes \<longleftrightarrow> (\<forall>x y n. env x y \<longrightarrow> finalized classes (fst x) n \<longrightarrow> finalized classes (fst y) n)"

lemma nodeClassController_simps [simp]:
  "vKube (nodeClassController P) = planeKube P" "vErrlib (nodeClassController P) = planeLib P"
  by (simp_all add: nodeClassController_def)

text \<open>Only the release of the stored NodeClass takes its finalizer.\<close>

definition releasing :: "('k \<Rightarrow> string \<Rightarrow> LinodeNodeClass option) \<Rightarrow> ('s, 't, 'c, 'k) plane_state \<Rightarrow> string \<Rightarrow> bool" where
  "releasing classes s n \<longleftrightarrow> finalized classes (kubeOf s) n \<and>
     (\<exists>stored. classes (kubeOf s) n = Some stored \<and> NodeClassName stored = n \<and> stored \<in> set (finalizing s))"

lemma plane_step_releases:
  assumes ok: "class_view (planeKube P) classes" "classes_ok (planeKube P) (planeLib P) classes"
      "lib_ok (planeLib P)" "status_ok (nodeClassController P)"
    and env: "env_finalizes env classes"
    and step: "plane_step P env meets s s'" "finalized classes (kubeOf s) n" "\<not> finalized classes (kubeOf s') n"
  shows "releasing classes s n"
proof -
  have changed: "finalizersIn classes (kubeOf s') n \<noteq> finalizersIn classes (kubeOf s) n"
    using step(2,3) by (auto simp: finalized_def)
  obtain stored where st: "classes (kubeOf s) n = Some stored" "TerminationFinalizer \<in> set (Finalizers stored)"
    using step(2) by (auto simp: finalized_def finalizersIn_def split: option.splits)
  from class_view.axioms(1) [OF ok(1)] view_hash_keeps(1) [OF ok(1)] step(1) show ?thesis
  proof (cases rule: plane_step_view)
    case kept
    with changed show ?thesis by simp
  next
    case others
    with env step(2,3) show ?thesis by (fastforce simp: env_finalizes_def)
  next
    case (class_kept nodeClass r v)
    with alive_keeps_finalizers [where V = "nodeClassController P", unfolded nodeClassController_simps, OF ok(2,4) class_kept(2,1), of n stored] st
      changed show ?thesis by simp
  next
    case (class_listed nodeClass ended v)
    then have "classes (vKubeState v) = classes (kubeOf s)"
      using classes_okD(4) [OF ok(2)] classes_okD(5) [OF ok(2)]
      by (auto simp: listUsers_def onClass_def split: prod.splits sum.splits if_splits)
    with class_listed(3) changed show ?thesis by (simp add: finalizersIn_def)
  next
    case (class_released nodeClass r v)
    from ok(2,3) have ok': "classes_ok (vKube (nodeClassController P)) (vErrlib (nodeClassController P)) classes"
      "lib_ok (vErrlib (nodeClassController P))" by simp_all
    from ok' class_released(2) show ?thesis
    proof (cases rule: release_cases)
      case (released nc s2)
      show ?thesis
      proof (cases "n = NodeClassName nodeClass")
        case True
        with released(1) class_released(1) step(2) show ?thesis by (auto simp: releasing_def)
      next
        case False
        with released(2) class_released(3) changed show ?thesis by (simp add: finalizersIn_def)
      qed
    qed (use class_released(3) changed in \<open>simp_all add: finalizersIn_def\<close>)
  qed
qed

text \<open>Only others give a NodeClass users.\<close>

lemma plane_step_refs:
  assumes "claim_view (planeKube P) claims" "plane_step P env meets s s'"
    and "unusedClass claims (kubeOf s) n" "\<not> unusedClass claims (kubeOf s') n"
  shows "env (kubeOf s, nodeState (planeCluster s)) (kubeOf s', nodeState (planeCluster s'))"
proof -
  have changed: "refsIn claims (kubeOf s') \<noteq> refsIn claims (kubeOf s)"
    using unusedClass_cong [of claims "kubeOf s'" "kubeOf s" n] assms(3,4) by blast
  note refs = claim_view.finalize_refs [OF assms(1), of "nodeClassController P"]
    claim_view.nodeClassReconcile_refs [OF assms(1), of "nodeClassController P"]
  from claim_view.axioms(1) [OF assms(1)] view_hash_keeps(2) [OF assms(1)] assms(2) show ?thesis
  proof (cases rule: plane_step_view)
    case (class_kept nodeClass r v)
    with refs(3) [OF _ class_kept(2,1)] changed show ?thesis by simp
  next
    case (class_listed nodeClass ended v)
    with refs(1) [OF _ class_listed(2)] changed show ?thesis by simp
  next
    case (class_released nodeClass r v)
    with refs(2) [OF _ class_released(2)] changed show ?thesis by simp
  qed (use changed in simp_all)
qed

lemma plane_run_refs:
  assumes "claim_view (planeKube P) claims" "(plane_step P env meets)\<^sup>*\<^sup>* s s'"
    and "unusedClass claims (kubeOf s) n" "\<not> unusedClass claims (kubeOf s') n"
  obtains x y where "(plane_step P env meets)\<^sup>*\<^sup>* s x" "plane_step P env meets x y" "(plane_step P env meets)\<^sup>*\<^sup>* y s'"
    "env (kubeOf x, nodeState (planeCluster x)) (kubeOf y, nodeState (planeCluster y))"
    "unusedClass claims (kubeOf x) n" "\<not> unusedClass claims (kubeOf y) n"
proof -
  let ?R = "plane_step P env meets"
  have "\<exists>x y. ?R\<^sup>*\<^sup>* s x \<and> ?R x y \<and> ?R\<^sup>*\<^sup>* y s' \<and> unusedClass claims (kubeOf x) n \<and> \<not> unusedClass claims (kubeOf y) n"
    using assms(2-4)
  proof (induction rule: converse_rtranclp_induct)
    case (step s s1)
    show ?case
    proof (cases "unusedClass claims (kubeOf s1) n")
      case True
      with step obtain x y where "?R\<^sup>*\<^sup>* s1 x" "?R x y" "?R\<^sup>*\<^sup>* y s'" "unusedClass claims (kubeOf x) n" "\<not> unusedClass claims (kubeOf y) n" by blast
      with step.hyps(1) show ?thesis by (meson converse_rtranclp_into_rtranclp)
    qed (use step in blast)
  qed simp
  with plane_step_refs [OF assms(1)] that show thesis by blast
qed

text \<open>What is under way was listed unused, by a step of the run.\<close>

definition listedUnused :: "('s, 't, 'c, 'k) plane_state \<Rightarrow> _ \<Rightarrow> (_ \<Rightarrow> string \<Rightarrow> NodeClaim option) \<Rightarrow> _ \<Rightarrow> LinodeNodeClass \<Rightarrow> bool" where
  "listedUnused s0 R claims s nodeClass \<longleftrightarrow> NodeClassDeletion nodeClass \<noteq> None \<and>
     (\<exists>seen. R\<^sup>*\<^sup>* s0 seen \<and> R\<^sup>*\<^sup>* seen s \<and> unusedClass claims (kubeOf seen) (NodeClassName nodeClass))"

lemma listUsers_unused:
  assumes "claims_ok (vKube V) L claims" "listUsers V nodeClass s = (None, v)"
  shows "unusedClass claims (vKubeState s) (NodeClassName nodeClass)"
proof -
  obtain k' where "KListForNodeClass (vKube V) (NodeClassName nodeClass) (vKubeState s) = (Inr [], k')"
    using assms(2) by (auto simp: listUsers_def onClass_def split: prod.splits sum.splits if_splits)
  from claims_okD(1) [OF assms(1) this] claims_okD(4) [OF assms(1)] show ?thesis by (fastforce simp: unusedClass_def)
qed

lemma plane_step_lists:
  assumes view: "kube_view (planeKube P) view" "hash_keeps P view"
    and ok: "claims_ok (planeKube P) (planeLib P) claims" and step: "plane_step P env meets s s'"
    and new: "nodeClass \<in> set (finalizing s')" "nodeClass \<notin> set (finalizing s)"
  shows "NodeClassDeletion nodeClass \<noteq> None \<and> unusedClass claims (kubeOf s) (NodeClassName nodeClass)"
  using view step
proof (cases rule: plane_step_view)
  case (class_listed nc ended v)
  with new have "ended = None" "nodeClass = nc" by (auto split: if_splits)
  with class_listed listUsers_unused [where V = "nodeClassController P", unfolded nodeClassController_simps, OF ok, of nc _ v]
  show ?thesis by fastforce
qed (use new in \<open>auto dest: notin_set_remove1\<close>)

lemma plane_run_lists:
  assumes "claim_view (planeKube P) claims" "claims_ok (planeKube P) (planeLib P) claims"
    and "(plane_step P env meets)\<^sup>*\<^sup>* s s'" "finalizing s = []" "nodeClass \<in> set (finalizing s')"
  shows "listedUnused s (plane_step P env meets) claims s' nodeClass"
  using assms(3,5)
proof (induction rule: rtranclp_induct)
  case (step s1 s2)
  show ?case
  proof (cases "nodeClass \<in> set (finalizing s1)")
    case True
    with step show ?thesis unfolding listedUnused_def by (meson rtranclp.rtrancl_into_rtrancl)
  next
    case False
    with plane_step_lists [OF claim_view.axioms(1) [OF assms(1)] view_hash_keeps(2) [OF assms(1)] assms(2) step.hyps(2) step.prems]
      step.hyps show ?thesis unfolding listedUnused_def by blast
  qed
qed (simp add: assms(4))


end
