(* ===== verification/Ownership.thy ===== *)
theory Ownership
  imports ControlPlane
begin

text \<open>
  Whose instance it is: the tag with the key \<open>karpenter.sh/nodeclaim\<close> names the NodeClaim an LKE instance belongs to. No
  step of any controller replaces it on an instance it has just read, provided no NodeClass sets a tag
  of that key; an in-place update of one that does takes instances away.
\<close>

section \<open>Owners\<close>

definition owners :: "string list \<Rightarrow> string list" where
  "owners tags = remdups (map snd (filter (\<lambda>kv. fst kv = NodeClaimTagKey) (List.map_filter splitTag tags)))"

lemma set_owners: "set (owners tags) = {v. kvTag NodeClaimTagKey v \<in> set tags \<and> v \<noteq> []}"
proof -
  have "valid_kv (NodeClaimTagKey, v) \<longleftrightarrow> v \<noteq> []" for v by (simp add: valid_kv_def label_defs(10) coreGroup_def)
  then show ?thesis by (force simp: owners_def map_filter_def splitTag_eq_Some image_iff)
qed

lemma owners_single: "owners tags = [v] \<longleftrightarrow> set (owners tags) = {v}"
proof
  assume v: "set (owners tags) = {v}"
  have "distinct (owners tags)" by (simp add: owners_def)
  from distinct_card [OF this] v have "length (owners tags) = 1" by simp
  then obtain x where "owners tags = [x]" by (auto simp: length_Suc_conv)
  with v show "owners tags = [v]" by simp
qed simp

lemma owners_view: "map_of (TagListToMap tags) NodeClaimTagKey = None \<longleftrightarrow> owners tags = []"
proof -
  have "NodeClaimTagKey \<in> dom (map_of (TagListToMap tags)) \<longleftrightarrow> set (owners tags) \<noteq> {}"
    unfolding dom_TagListToMap set_owners by (auto simp: valid_kv_def label_defs(10) coreGroup_def)
  then show ?thesis unfolding domIff set_empty by blast
qed

lemma owners_view_single: "owners tags = [v] \<Longrightarrow> map_of (TagListToMap tags) NodeClaimTagKey = Some v"
  using owners_view [of tags] map_of_TagListToMap_SomeD [of tags NodeClaimTagKey] set_owners [of tags]
  by (cases "map_of (TagListToMap tags) NodeClaimTagKey") (auto simp: valid_kv_def)

section \<open>Logs that leave owners alone\<close>

text \<open>The instances that a reply showed under an id, and whether new tags keep the one owner they show.\<close>

fun shownAs :: "event \<Rightarrow> int \<Rightarrow> LinodeInstance list" where
  "shownAs (GotInstance n' li) n = (if n' = n \<or> LiID li = n then [li] else [])"
| "shownAs (ListedInstances f is) n = filter (\<lambda>li. LiID li = n) is"
| "shownAs _ n = []"

fun owner_kept :: "event option \<Rightarrow> event \<Rightarrow> bool" where
  "owner_kept prev (Sent (UpdateInstanceReq n ts) ok) =
     (case prev of
        Some ev \<Rightarrow> list_ex (\<lambda>li. length (owners (LiTags li)) = 1 \<longrightarrow> owners ts = owners (LiTags li)) (shownAs ev n)
      | None \<Rightarrow> False)"
| "owner_kept prev _ = True"

fun leaves_owners :: "event option \<Rightarrow> log \<Rightarrow> bool" where
  "leaves_owners prev [] = True"
| "leaves_owners prev (ev # l) = (owner_kept prev ev \<and> leaves_owners (Some ev) l)"

lemma leaves_owners_append:
  "leaves_owners prev (l @ l') \<longleftrightarrow> leaves_owners prev l \<and> leaves_owners (if l = [] then prev else Some (last l)) l'"
  by (induction l arbitrary: prev) auto

lemma owner_kept_mono: "owner_kept None ev \<Longrightarrow> owner_kept prev ev"
  by (cases "(prev, ev)" rule: owner_kept.cases) auto

lemma leaves_owners_mono: "leaves_owners None l \<Longrightarrow> leaves_owners prev l"
  by (cases l) (auto intro: owner_kept_mono)

lemma leaves_owners_join: "leaves_owners prev l \<Longrightarrow> leaves_owners None l' \<Longrightarrow> leaves_owners prev (l @ l')"
  by (simp add: leaves_owners_append leaves_owners_mono)

text \<open>Events that are not tag updates: reads and removals.\<close>

definition no_update :: "log \<Rightarrow> bool" where
  "no_update l \<longleftrightarrow> (\<forall>n ts ok. Sent (UpdateInstanceReq n ts) ok \<notin> set l)"

lemma no_update_simps [simp]:
  "no_update []" "no_update (l @ l') = (no_update l \<and> no_update l')"
  by (auto simp: no_update_def)

lemma no_update_leaves: "no_update l \<Longrightarrow> leaves_owners prev l"
proof (induction l arbitrary: prev)
  case (Cons ev l)
  have "owner_kept prev ev" using Cons.prems by (cases "(prev, ev)" rule: owner_kept.cases) (auto simp: no_update_def)
  with Cons show ?case by (auto simp: no_update_def)
qed simp

lemma reads_no_update: "reads l \<Longrightarrow> no_update l"
  by (auto simp: no_update_def reads_def list_all_iff)

lemma removals_no_update: "\<forall>ev \<in> set l. is_sent ev \<longrightarrow> removal ev \<Longrightarrow> no_update l"
  by (fastforce simp: no_update_def)

text \<open>A Create writes tags only to instances shown unclaimed.\<close>

lemma unclaimed_owners: "unclaimed i \<longleftrightarrow> owners (LiTags i) = []"
  by (simp add: unclaimed_def owners_view)

lemma create_leaves_owners: "create_audit c it np name prev pools grown l \<Longrightarrow> leaves_owners prev l"
proof (induction l arbitrary: prev pools grown)
  case (Cons ev l)
  then have j: "justified c it np name prev pools grown ev" by simp
  have "owner_kept prev ev"
  proof (cases "\<exists>n ts ok. ev = Sent (UpdateInstanceReq n ts) ok")
    case True
    with j show ?thesis
      by (auto simp: list_ex_iff unclaimed_owners split: option.splits event.splits) force?
  next
    case False
    then show ?thesis by (cases "(prev, ev)" rule: owner_kept.cases) auto
  qed
  with Cons show ?case by auto
qed simp

section \<open>What the node provider's operations do to the log\<close>

definition tame :: "range_order \<Rightarrow> ('w \<times> log, 'c, 'b, 'u) lke_state \<Rightarrow> ('w \<times> log, 'c, 'b, 'u) lke_state \<Rightarrow> bool" where
  "tame rng s s' \<longleftrightarrow> (range_ok rng \<longrightarrow> (\<exists>l. logOf s' = logOf s @ l \<and> leaves_owners None l))"

lemma tameI: "logOf s' = logOf s @ l \<Longrightarrow> leaves_owners None l \<Longrightarrow> tame rng s s'"
  by (auto simp: tame_def)

lemma tame_same: "logOf s' = logOf s \<Longrightarrow> tame rng s s'"
  by (rule tameI [of _ _ "[]"]) simp_all

lemma tame_no_update: "\<exists>l. logOf s' = logOf s @ l \<and> no_update l \<Longrightarrow> tame rng s s'"
  by (auto simp: tame_def no_update_leaves)

lemma tame_trans: "tame rng s s1 \<Longrightarrow> tame rng s1 s2 \<Longrightarrow> tame rng s s2"
  by (fastforce simp: tame_def intro: leaves_owners_join)

text \<open>A relation on node provider states that reading, deleting and creating keep, in any order.\<close>

locale node_order =
  fixes P :: "'s provider"
    and le :: "'s \<Rightarrow> 's \<Rightarrow> bool"
  assumes le_refl [simp]: "le s s"
    and le_trans: "le s s1 \<Longrightarrow> le s1 s2 \<Longrightarrow> le s s2"
    and get_le: "PGet P i sk s = (r, s') \<Longrightarrow> le s s'"
    and list_le: "PList P s = (rs, s') \<Longrightarrow> le s s'"
    and delete_le: "PDelete P i s = (e, s') \<Longrightarrow> le s s'"
    and create_le: "PCreate P nodeClass nc tags its s = Some (rc, nodeClass', s') \<Longrightarrow> le s s'"
begin

lemma cloud_le:
  assumes on: "nodeProvider c = P"
  shows "cloudCreate c nc st = Some (rc, st') \<Longrightarrow> le (nodeState st) (nodeState st')"
    and "cloudList c st = Some (rl, st') \<Longrightarrow> le (nodeState st) (nodeState st')"
    and "cloudGet c pid st = Some (rc, st') \<Longrightarrow> le (nodeState st) (nodeState st')"
    and "cloudDelete c nc st = (e, st') \<Longrightarrow> le (nodeState st) (nodeState st')"
    and "IsDrifted c nc st = (rd, st') \<Longrightarrow> le (nodeState st) (nodeState st')"
proof -
  show "le (nodeState st) (nodeState st')" if "cloudCreate c nc st = Some (rc, st')"
    using that by (cases rule: cloudCreate_cases) (auto simp: on dest: create_le)
  show "cloudList c st = Some (rl, st') \<Longrightarrow> le (nodeState st) (nodeState st')"
    using list_le [of "nodeState st"] by (auto simp: on dest!: cloudList_nodes) (metis prod.collapse)
  show "cloudGet c pid st = Some (rc, st') \<Longrightarrow> le (nodeState st) (nodeState st')"
    using get_le [of _ False "nodeState st"] by (auto simp: on dest!: cloudGet_nodes) (metis prod.collapse)
  show "cloudDelete c nc st = (e, st') \<Longrightarrow> le (nodeState st) (nodeState st')"
    by (auto simp: cloudDelete_def on dest!: onNodes_nodes delete_le split: sum.splits)
  show "IsDrifted c nc st = (rd, st') \<Longrightarrow> le (nodeState st) (nodeState st')"
    by (auto simp: IsDrifted_def resolveNodeClassFromNodePool_def dest!: onKube_nodes getNodeClassNamed_nodes
        split: option.splits sum.splits prod.splits if_splits)
qed

lemma collectAll_le:
  assumes on: "nodeProvider c = P"
  shows "collectAll c ids nodes ncs st = (es, st') \<Longrightarrow> le (nodeState st) (nodeState st')"
proof (induction ncs arbitrary: st es)
  case (Cons nc ncs)
  have one: "le (nodeState st) (nodeState st1)" if "garbageCollect c nc nodes st = (e, st1)" for e st1
  proof -
    obtain e2 st2 where d: "cloudDelete c nc st = (e2, st2)" by fastforce
    with that have "nodeState st1 = nodeState st2"
      by (auto simp: garbageCollect_def dest: onKube_nodes split: option.splits prod.splits)
    with cloud_le(4) [OF on d] show ?thesis by simp
  qed
  from Cons.prems show ?case
    by (auto dest!: one Cons.IH intro: le_trans split: prod.splits if_splits)
qed simp

lemma gcReconcile_le:
  assumes on: "nodeProvider (gcCloud C) = P" and run: "gcReconcile C g = Some (r, g')"
  shows "le (nodeState (gcCluster g)) (nodeState (gcCluster g'))"
proof -
  obtain listed s0 where l: "PList P (nodeState (gcCluster g)) = (listed, s0)" by fastforce
  note first = list_le [OF l]
  from run l [folded on] show ?thesis
    by (cases rule: gcReconcile_cases) (use first collectAll_le [OF on] in \<open>force intro: le_trans\<close>)+
qed

end

interpretation lke_tame: node_order "lkeProvider (onLog p a t)" "tame (rangeOrder p)"
  for p :: "('w \<times> log, 'c, 'b, 'u) lke" and a t
proof unfold_locales
  fix s s' s1 s2 :: "('w \<times> log, 'c, 'b, 'u) lke_state" and i sk r rs e nodeClass nc tags its rc nodeClass'
  show "tame (rangeOrder p) s s" by (rule tame_same) simp
  show "tame (rangeOrder p) s s1 \<Longrightarrow> tame (rangeOrder p) s1 s2 \<Longrightarrow> tame (rangeOrder p) s s2" by (rule tame_trans)
  show "PGet (lkeProvider (onLog p a t)) i sk s = (r, s') \<Longrightarrow> tame (rangeOrder p) s s'"
    by (rule tame_no_update) (auto dest!: lke_nodes.get_reads intro: reads_no_update)
  show "PList (lkeProvider (onLog p a t)) s = (rs, s') \<Longrightarrow> tame (rangeOrder p) s s'"
    by (rule tame_no_update) (auto dest!: lke_nodes.list_reads intro: reads_no_update)
  show "PDelete (lkeProvider (onLog p a t)) i s = (e, s') \<Longrightarrow> tame (rangeOrder p) s s'"
    by (rule tame_no_update) (auto dest!: lke_nodes.delete_removes intro: removals_no_update)
  show "tame (rangeOrder p) s s'" if "PCreate (lkeProvider (onLog p a t)) nodeClass nc tags its s = Some (rc, nodeClass', s')"
  proof (cases "range_ok (rangeOrder p)")
    case True
    from that have "Create (onLog p a t) nodeClass nc tags its s = Some (rc, s')" by (auto simp: lkeProvider_def)
    from Create_audited [OF recording_onLog _ this] True show ?thesis
      by (auto simp: onLog_def audited_def intro: tame_same tameI create_leaves_owners)
  qed (simp add: tame_def)
qed

section \<open>Tagging and in-place updates\<close>

lemma kvTag_NodeClaim: "NodeClaimTagKey \<noteq> k \<Longrightarrow> CHR ''='' \<notin> set k \<Longrightarrow> kvTag NodeClaimTagKey v \<noteq> kvTag k x"
proof
  assume ne: "NodeClaimTagKey \<noteq> k" "CHR ''='' \<notin> set k" and eq: "kvTag NodeClaimTagKey v = kvTag k x"
  have "takeWhile (\<lambda>c. c \<noteq> CHR ''='') (kvTag k x) = k" if "CHR ''='' \<notin> set k" for k x
    using that by (auto simp: kvTag_def takeWhile_append)
  with ne eq show False by (metis eq_notin_NodeClaimTagKey)
qed

text \<open>Tags of other keys leave the owners.\<close>

lemma owners_added:
  assumes "range_ok rng" "\<forall>kv \<in> set tags. fst kv \<in> {NameTagKey, LKEClusterNameTagKey}"
    and "length (owners existing) = 1"
  shows "owners (DedupeTags (existing @ MapToTagList rng tags)) = owners existing"
proof -
  obtain v where v: "owners existing = [v]" using assms(3) by (auto simp: length_Suc_conv)
  have "NodeClaimTagKey \<noteq> k \<and> CHR ''='' \<notin> set k" if "k \<in> {NameTagKey, LKEClusterNameTagKey}" for k
    using that by (auto simp: label_defs)
  then have "kvTag NodeClaimTagKey x \<notin> set (MapToTagList rng tags)" for x
    using assms(2) kvTag_NodeClaim by (fastforce simp: set_MapToTagList [OF assms(1)])
  then have "set (owners (DedupeTags (existing @ MapToTagList rng tags))) = set (owners existing)"
    by (auto simp: set_owners)
  with v have "owners (DedupeTags (existing @ MapToTagList rng tags)) = [v]" by (simp only: owners_single)
  with v show ?thesis by simp
qed

lemma set_delete_keys: "set (delete_keys ks m) \<subseteq> set m"
  unfolding delete_keys_def by (induction ks arbitrary: m) (fastforce simp: AList.delete_eq)+

lemma lkeCreateTags_tame:
  assumes "range_ok (rangeOrder p)" "\<forall>kv \<in> set tags. fst kv \<in> {NameTagKey, LKEClusterNameTagKey}"
    and run: "PCreateTags (lkeProvider (onLog p a t)) i tags s = (e, s')"
  shows "tame (rangeOrder p) s s'"
proof (cases "logOf s' = logOf s")
  case True
  then show ?thesis by (rule tame_same)
next
  case False
  note run' = run [unfolded lkeProvider_def, simplified]
  then obtain n where n: "Atoi i = Some n" using False by (auto simp: lkeCreateTags_def split: option.splits)
  obtain r1 s1 where r1: "req (GetInstance (client (onLog p a t)) n) s = (r1, s1)" by fastforce
  note log1 = req_log(2) [OF recording_onLog r1]
  show ?thesis
  proof (cases r1)
    case (Inl e1)
    with run' n r1 log1 have "logOf s' = logOf s @ [Asked]" by (auto simp: lkeCreateTags_def Let_def reply_def split: if_splits)
    then show ?thesis by (rule tameI) simp
  next
    case (Inr li)
    let ?ts = "DedupeTags (LiTags li @ MapToTagList (rangeOrder p) tags)"
    obtain r2 s2 where r2: "req (UpdateInstance (client (onLog p a t)) n ?ts) s1 = (r2, s2)" by fastforce
    have same: "rangeOrder (onLog p a t) = rangeOrder p" by (simp add: onLog_def)
    have "logOf s' = logOf s @ [GotInstance n li, sent (UpdateInstanceReq n ?ts) r2]"
      using run' n r1 Inr log1 r2 req_log(4) [OF recording_onLog r2]
      by (auto simp: lkeCreateTags_def same Let_def reply_def split: sum.splits if_splits)
    then show ?thesis by (rule tameI) (simp add: sent_def owners_added [OF assms(1,2)])
  qed
qed

lemma taggingReconcile_tame:
  assumes on: "ccNodes C = lkeProvider (onLog p a t)" and rng: "range_ok (rangeOrder p)"
    and run: "taggingReconcile C nc st = (e, st')"
  shows "tame (rangeOrder p) (nodeState st) (nodeState st')"
proof -
  have tag: "tame (rangeOrder p) (nodeState st) (nodeState st1)" if "tagInstance C nc i st = (e1, st1)" for i e1 st1
  proof -
    obtain r2 st2 where r2: "onNodes (PGet (ccNodes C) i True) st = (r2, st2)" by fastforce
    note first = lke_tame.get_le [OF onNodes_nodes [OF r2 [unfolded on]]]
    show ?thesis
    proof (cases "nodeState st1 = nodeState st2")
      case False
      with that r2 obtain ex e3 where "onNodes (PCreateTags (ccNodes C) i
          (delete_keys ex [(NameTagKey, StatusNodeName nc), (LKEClusterNameTagKey, ccCluster C)])) st2 = (e3, st1)"
        by (auto simp: tagInstance_def Let_def split: sum.splits if_splits prod.splits option.splits)
      then have "tame (rangeOrder p) (nodeState st2) (nodeState st1)"
        unfolding on by (intro lkeCreateTags_tame [OF rng]) (auto dest: onNodes_nodes subsetD [OF set_delete_keys])
      with first show ?thesis by (rule tame_trans)
    qed (use first in simp)
  qed
  from run show ?thesis
    by (auto simp: taggingReconcile_def Let_def dest!: tag patchClaim_nodes intro: tame_same
        split: sum.splits prod.splits option.splits if_splits)
qed

text \<open>Neither the NodeClass nor what was applied of it before has a tag with the ownership key.\<close>

definition unowned :: "json \<Rightarrow> NodeClaim \<Rightarrow> LinodeNodeClass \<Rightarrow> bool" where
  "unowned J nodeClaim nodeClass \<longleftrightarrow> owners (SpecTags (Spec nodeClass)) = [] \<and>
     owners (previousUserTags J (labelOf (NodeClaimAnnotations nodeClaim) AnnotationLastAppliedUserTags)) = []"

lemma NodeClaimTagKey_nonempty: "NodeClaimTagKey \<noteq> []"
  by (simp add: label_defs)

lemma owners_normal:
  assumes "range_ok rng"
  shows "set (owners (normalizeTagList rng ts)) = {v. fst (tagView ts) NodeClaimTagKey = Some v}"
proof -
  have "kvTag NodeClaimTagKey v \<in> snd (tagView ts) \<Longrightarrow> v = []" for v
    using splitTag_kvTag [OF NodeClaimTagKey_nonempty _ eq_notin_NodeClaimTagKey] by (fastforce simp: tagView_def)
  moreover have "fst (tagView ts) k = Some x \<Longrightarrow> valid_kv (k, x)" for k x
    unfolding tagView_def fst_conv using map_of_TagListToMap_SomeD by blast
  moreover have "valid_kv (NodeClaimTagKey, v) \<longleftrightarrow> v \<noteq> []" for v
    using NodeClaimTagKey_nonempty eq_notin_NodeClaimTagKey by (simp add: valid_kv_def)
  ultimately have "(\<exists>k x. kvTag NodeClaimTagKey v = kvTag k x \<and> fst (tagView ts) k = Some x) \<or> kvTag NodeClaimTagKey v \<in> snd (tagView ts)
      \<longleftrightarrow> fst (tagView ts) NodeClaimTagKey = Some v" if "v \<noteq> []" for v
    using that kvTag_inj by metis
  moreover have "fst (tagView ts) NodeClaimTagKey = Some v \<Longrightarrow> v \<noteq> []" for v
    using \<open>\<And>v. valid_kv (NodeClaimTagKey, v) \<longleftrightarrow> v \<noteq> []\<close> \<open>\<And>x k. fst (tagView ts) k = Some x \<Longrightarrow> valid_kv (k, x)\<close> by blast
  ultimately show ?thesis unfolding set_owners set_normalizeTagList [OF assms] by blast
qed

lemma inplace_owners:
  assumes rng: "range_ok (ccRange C)" and free: "unowned (ccJson C) nc nodeClass" and l: "inplace_log C nc nodeClass i l"
  shows "leaves_owners None l"
  using l unfolding inplace_log_def
proof (elim disjE exE conjE)
  assume "reads l"
  then show ?thesis by (intro no_update_leaves reads_no_update)
next
  fix n li ts ok
  assume "l = [GotInstance n li, Sent (UpdateInstanceReq n ts) ok]"
    and ts: "ts = normalizeTagList (ccRange C) ts" "tagView ts = inplaceTags C nc nodeClass (LiTags li)"
  moreover have "owners ts = owners (LiTags li)" if one: "length (owners (LiTags li)) = 1"
  proof -
    obtain v where v: "owners (LiTags li) = [v]" using one by (auto simp: length_Suc_conv)
    have key: "fst (tagView tags) NodeClaimTagKey = None \<longleftrightarrow> owners tags = []" for tags
      by (simp only: tagView_def fst_conv owners_view)
    have "fst (tagView (SpecTags (Spec nodeClass))) NodeClaimTagKey = None"
      "fst (tagView (previousUserTags (ccJson C) (labelOf (NodeClaimAnnotations nc) AnnotationLastAppliedUserTags))) NodeClaimTagKey = None"
      using free unfolding unowned_def key by blast+
    then have "fst (inplaceTags C nc nodeClass (LiTags li)) NodeClaimTagKey = fst (tagView (LiTags li)) NodeClaimTagKey"
      by (simp add: inplaceTags_def viewUpdate_def map_add_def restrict_map_def dom_def)
    then have "fst (tagView ts) NodeClaimTagKey = Some v" using owners_view_single [OF v] unfolding ts(2)
      by (simp only: tagView_def fst_conv)
    then have "set (owners ts) = {v}" using owners_normal [OF rng, of ts] ts(1) by simp
    then have "owners ts = [v]" by (simp only: owners_single)
    with v show ?thesis by simp
  qed
  ultimately show ?thesis by simp
qed

text \<open>
  The update itself checks nothing of the kind: a NodeClass that has a tag with the ownership key writes its value as the
  owner of every instance of its NodeClaims. Validation would reject the NodeClass, but an update does not ask whether it is
  ready.
\<close>

lemma in_place_takes_instances:
  assumes rng: "range_ok (ccRange C)" and greedy: "owners (SpecTags (Spec nodeClass)) = [v]"
    and l: "inplace_log C nc nodeClass i [GotInstance n li, Sent (UpdateInstanceReq n ts) ok]"
  shows "owners ts = [v]"
proof -
  from l have ts: "ts = normalizeTagList (ccRange C) ts" "tagView ts = inplaceTags C nc nodeClass (LiTags li)"
    by (auto simp: inplace_log_def reads_def)
  have "fst (tagView (SpecTags (Spec nodeClass))) NodeClaimTagKey = Some v"
    using owners_view_single [OF greedy] by (simp only: tagView_def fst_conv)
  then have "fst (tagView ts) NodeClaimTagKey = Some v"
    unfolding ts(2) by (simp add: inplaceTags_def viewUpdate_def map_add_def)
  then have "set (owners ts) = {v}" using owners_normal [OF rng, of ts] ts(1) by simp
  then show ?thesis by (simp only: owners_single)
qed

section \<open>The controllers together\<close>

text \<open>Others do not use the client that records the log, and neither does validation.\<close>

definition unlogged :: "(_, ('w \<times> log, 'c, 'b, 'u) lke_state, _, _, _) control_plane \<Rightarrow>
    (_ \<times> ('w \<times> log, 'c, 'b, 'u) lke_state \<Rightarrow> _ \<times> ('w \<times> log, 'c, 'b, 'u) lke_state \<Rightarrow> bool) \<Rightarrow> bool" where
  "unlogged P env \<longleftrightarrow> (\<forall>w s. logOf (withWorld P w s) = logOf s) \<and> (\<forall>x y. env x y \<longrightarrow> logOf (snd y) = logOf (snd x))"

lemma plane_step_tame:
  assumes on: "nodeProvider (planeCloud P) = lkeProvider (onLog p a t)"
    and rng: "range_ok (rangeOrder p)" "range_ok (planeRange P)" and quiet: "unlogged P env"
    and step: "plane_step P env (unowned (planeJson P)) s s'"
  shows "tame (rangeOrder p) (nodeState (planeCluster s)) (nodeState (planeCluster s'))"
proof -
  note cl = lke_tame.cloud_le [OF on]
  have claims: "ccNodes (nodeClaimControllers P) = lkeProvider (onLog p a t)" "ccRange (nodeClaimControllers P) = planeRange P"
    "ccJson (nodeClaimControllers P) = planeJson P" "ccKube (nodeClaimControllers P) = planeKube P"
    by (simp_all add: nodeClaimControllers_def on)
  from step show ?thesis
  proof cases
    case (in_place nc e st)
    obtain name where name: "NodeClassRef nc = Some name"
      using in_place(2) by (auto simp: inplaceReconcile_def split: option.splits)
    obtain r1 st1 where r1: "onKube (KGetNodeClass (planeKube P) name) (planeCluster s) = (r1, st1)" by fastforce
    note n1 = onKube_nodes [OF r1]
    show ?thesis
    proof (cases r1)
      case (Inl e1)
      with in_place name r1 n1 show ?thesis by (auto simp: inplaceReconcile_def claims intro: tame_same)
    next
      case (Inr nodeClass)
      with in_place(2) name r1 obtain e2 where r2: "updateNodeClaimTags (nodeClaimControllers P) nc nodeClass st1 = (e2, st)"
        by (auto simp: inplaceReconcile_def claims split: prod.splits)
      have free: "unowned (ccJson (nodeClaimControllers P)) nc nodeClass"
        using in_place(3) [OF name, of nodeClass] onKube_kube [OF r1] Inr by (simp add: claims)
      obtain l where l: "logOf (nodeState st) = logOf (nodeState st1) @ l"
        "case ParseInstanceID (ProviderID nc) of Inl _ \<Rightarrow> l = [] | Inr i \<Rightarrow> inplace_log (nodeClaimControllers P) nc nodeClass i l"
        using lke_nodes.updateNodeClaimTags_log [OF claims(1) _ r2] rng(2) by (auto simp: claims)
      have "leaves_owners None l"
        using l(2) inplace_owners [OF _ free] rng(2) by (auto simp: claims split: sum.splits)
      with l(1) n1 in_place(1) show ?thesis by (auto intro: tameI)
    qed
  next
    case (tagging nc e st)
    with taggingReconcile_tame [OF claims(1) rng(1)] show ?thesis by simp
  next
    case (collect d g)
    with lke_tame.gcReconcile_le [of "collectionController P" p a t] on show ?thesis
      by (force simp: collectionController_def)
  next
    case (node_class nodeClass r v)
    with quiet show ?thesis by (auto simp: unlogged_def intro: tame_same)
  next
    case (finalize_list nodeClass ended v)
    then show ?thesis by (auto intro: tame_same)
  next
    case (finalize_release nodeClass r v)
    then show ?thesis by (auto intro: tame_same)
  next
    case (outside k' ns ts vc)
    with quiet show ?thesis by (fastforce simp: unlogged_def intro: tame_same)
  qed (use cl in \<open>auto intro: tame_same dest: GetInstanceTypes_nodes\<close>)
qed

text \<open>C6: In LKE mode, whatever the controllers, Karpenter and others do in whatever order, no instance is taken from
  the NodeClaim that owns it, as long as no NodeClass an in-place update works with has a tag with the ownership
  key, or had one: every update of an instance's tags that is ever sent comes right after a reply that
  shows the instance, and if that showed exactly one owner, the new tags have that owner and no other.\<close>

lemma ownership_respected:
  assumes "nodeProvider (planeCloud P) = lkeProvider (onLog p a t)"
    and "range_ok (rangeOrder p)" "range_ok (planeRange P)" "unlogged P env"
    and "(plane_step P env (unowned (planeJson P)))\<^sup>*\<^sup>* s s'"
  shows "\<exists>l. logOf (nodeState (planeCluster s')) = logOf (nodeState (planeCluster s)) @ l \<and> leaves_owners None l"
proof -
  from assms(5) have "tame (rangeOrder p) (nodeState (planeCluster s)) (nodeState (planeCluster s'))"
    by induction (auto intro: tame_same tame_trans plane_step_tame [OF assms(1-4)])
  with assms(2) show ?thesis by (simp add: tame_def)
qed

end
