(* ===== verification/ControlPlaneSample.thy ===== *)
theory ControlPlaneSample
  imports ControlPlane ClassSample ControllerSample
begin

text \<open>The controllers on the in-memory API server: the witness of the theorem on finalizers, and the NodeClaim that comes too late for it.\<close>

interpretation mem_classes: class_view memKube classNamed
proof
  fix old new :: LinodeNodeClass and k
  assume same: "Finalizers new = Finalizers old" "NodeClassName new = NodeClassName old"
  show "finalizersIn classNamed (snd (KPatchNodeClass memKube False old new k)) = finalizersIn classNamed k"
  proof (cases "classNamed k (NodeClassName old)")
    case None
    then show ?thesis by (simp add: memKube_def patchClass_def)
  next
    case (Some stored)
    then have "NodeClassName stored = NodeClassName old" by (auto simp: classNamed_def dest: find_SomeD)
    with same have "NodeClassName (mergeClass old new stored) = NodeClassName old" "Finalizers (mergeClass old new stored) = Finalizers stored"
      by (simp_all add: mergeClass_def changed_def)
    with Some show ?thesis
      by (auto simp: memKube_def patchClass_def finalizersIn_def fun_eq_iff Let_def classNamed_patch)
  qed
qed (simp_all add: memKube_def finalizersIn_def [abs_def] classNamed_def [abs_def] split: option.split)

lemma mem_refs_patch:
  assumes "NodeClassRef new = NodeClassRef old" "NodeClaimName new = NodeClaimName old"
  shows "refsIn claimNamed (snd (KPatchNodeClaim memKube old new k)) = refsIn claimNamed k"
proof (cases "claimNamed k (NodeClaimName old)")
  case None
  then show ?thesis by (simp add: memKube_def)
next
  case (Some stored)
  then have "NodeClaimName stored = NodeClaimName old" by (auto dest: claimNamed_SomeD)
  with assms have "NodeClaimName (mergeClaim old new stored) = NodeClaimName old" "NodeClassRef (mergeClaim old new stored) = NodeClassRef stored"
    by (simp_all add: mergeClaim_def changed_def)
  with Some show ?thesis
    by (simp add: memKube_def refsIn_def fun_eq_iff claimNamed_patch)
qed

interpretation mem_refs: claim_view memKube claimNamed
proof
  fix old new :: NodeClaim and k
  assume "NodeClassRef new = NodeClassRef old" "NodeClaimName new = NodeClaimName old"
  then show "refsIn claimNamed (snd (KPatchNodeClaim memKube old new k)) = refsIn claimNamed k" by (rule mem_refs_patch)
next
  fix lock and old new :: LinodeNodeClass and k
  show "refsIn claimNamed (snd (KPatchNodeClass memKube lock old new k)) = refsIn claimNamed k"
    "refsIn claimNamed (snd (KPatchNodeClassStatus memKube lock old new k)) = refsIn claimNamed k"
    using claimNamed_patchClass [of lock old new k] by (simp_all add: memKube_def refsIn_def [abs_def])
qed (simp_all add: memKube_def refsIn_def [abs_def] claimNamed_def [abs_def])

definition samplePlane :: "(fake_world, (fake_world \<times> log) sample_state, unit, string timed, mem_kube) control_plane" where
  "samplePlane = \<lparr>planeCloud = lkeCloud, planeValidator = sampleValidator ''lke'', planeJson = lineJson,
     planeRange = (\<lambda>m. m), planeOrder = (\<lambda>ncs. ncs), worldOf = fst \<circ> world,
     withWorld = (\<lambda>w s. s\<lparr>world := (w, snd (world s))\<rparr>)\<rparr>"

definition planeWith :: "mem_kube \<Rightarrow> ((fake_world \<times> log) sample_state, unit, string timed, mem_kube) plane_state" where
  "planeWith k = \<lparr>planeCluster = \<lparr>nodeState = freshState NewFakeWorld, typeState = (), kubeState = k\<rparr>,
     validationCache = [], finalizing = [], collections = 0\<rparr>"

definition othersKeep :: "mem_kube \<times> 's \<Rightarrow> mem_kube \<times> 's \<Rightarrow> bool" where
  "othersKeep x y \<longleftrightarrow> mkClasses (fst y) = mkClasses (fst x)"

definition anything :: "NodeClaim \<Rightarrow> LinodeNodeClass \<Rightarrow> bool" where
  "anything nodeClaim nodeClass = True"

lemma released_evaluates: "\<not> finalized classNamed (vKubeState (snd releasedRun)) ''default''"
  by code_simp

lemma samplePlane_wired:
  "planeKube samplePlane = memKube" "planeLib samplePlane = documented_lib" "nodeClassController samplePlane = sampleValidator ''lke''"
  by (simp_all add: samplePlane_def nodeClassController_def lkeCloud_def sampleCloud_def sampleValidator_def)

lemma kept_by_others: "env_finalizes othersKeep classNamed"
  by (simp add: env_finalizes_def othersKeep_def finalized_def finalizersIn_def classNamed_def)


text \<open>
  The patch that takes the finalizer is locked on the NodeClass only: a NodeClaim created after the listing does not stop it, and
  is left with a NodeClass that is gone.
\<close>

definition lateRun :: "int res \<times> (fake_world, string timed, mem_kube) v_state" where
  "lateRun = releaseClass (sampleValidator ''lke'') heldClass (freshV (heldKube [refClaim ''web'']))"

lemma late_evaluates: "\<not> finalized classNamed (vKubeState (snd lateRun)) ''default''"
  by code_simp

lemma listed_none: "listUsers (sampleValidator ''lke'') heldClass (freshV (heldKube [])) = (None, freshV (heldKube []))"
  by (simp add: listUsers_def onClass_def sampleValidator_def memKube_def freshV_def heldKube_def)

lemma late_claim_loses_class:
  "\<exists>before after. (plane_step samplePlane othersKeep anything)\<^sup>*\<^sup>* (planeWith (heldKube [])) before \<and>
     plane_step samplePlane othersKeep anything before after \<and> finalized classNamed (kubeOf before) ''default'' \<and>
     \<not> unusedClass claimNamed (kubeOf before) ''default'' \<and> \<not> finalized classNamed (kubeOf after) ''default''"
proof -
  let ?R = "plane_step samplePlane othersKeep anything"
  let ?s0 = "planeWith (heldKube [])" and ?late = "heldKube [refClaim ''web'']"
  let ?s1 = "?s0\<lparr>finalizing := [heldClass]\<rparr>" and ?s2 = "(planeWith ?late)\<lparr>finalizing := [heldClass]\<rparr>"
  have worlds: "\<lparr>vWorld = worldOf samplePlane (nodeState (planeCluster (planeWith k\<lparr>finalizing := f\<rparr>))),
      vCache = validationCache (planeWith k\<lparr>finalizing := f\<rparr>), vKubeState = kubeOf (planeWith k\<lparr>finalizing := f\<rparr>)\<rparr> = freshV k"
    "\<lparr>vWorld = worldOf samplePlane (nodeState (planeCluster (planeWith k))), vCache = validationCache (planeWith k),
      vKubeState = kubeOf (planeWith k)\<rparr> = freshV k" for k f
    by (simp_all add: freshV_def planeWith_def samplePlane_def)
  have deleted: "NodeClassDeletion heldClass \<noteq> None" by (simp add: heldClass_def)
  have step1: "?R ?s0 ?s1"
    using plane_step.finalize_list [OF deleted, of samplePlane ?s0 None "freshV (heldKube [])" othersKeep anything] listed_none
    by (simp add: worlds samplePlane_wired) (simp add: planeWith_def freshV_def)
  have "?R ?s1 (?s1\<lparr>planeCluster := \<lparr>nodeState = freshState NewFakeWorld, typeState = (), kubeState = ?late\<rparr>, validationCache := []\<rparr>)"
    by (rule plane_step.outside) (simp add: othersKeep_def planeWith_def heldKube_def)
  then have step2: "?R ?s1 ?s2" by (simp add: planeWith_def)
  obtain r v where run: "lateRun = (r, v)" by fastforce
  then obtain s3 where step3: "?R ?s2 s3" "kubeOf s3 = vKubeState v"
    using plane_step.finalize_release [of heldClass ?s2 samplePlane r v othersKeep anything]
    by (fastforce simp: worlds samplePlane_wired lateRun_def)
  have "claimNamed ?late ''web'' = Some (refClaim ''web'')" "NodeClassRef (refClaim ''web'') = Some ''default''"
    by (simp_all add: claimNamed_def heldKube_def refClaim_def sampleClaim_def)
  then have "\<not> unusedClass claimNamed (kubeOf ?s2) ''default''" by (auto simp: unusedClass_def planeWith_def)
  moreover have "finalized classNamed (kubeOf ?s2) ''default''" "\<not> finalized classNamed (kubeOf s3) ''default''"
    using heldKube_stores(1) [of "[refClaim ''web'']"] late_evaluates [unfolded run snd_conv]
    by (simp_all add: planeWith_def step3(2) finalized_def finalizersIn_def heldClass_def)
  moreover from step1 step2 have "?R\<^sup>*\<^sup>* ?s0 ?s2" by auto
  ultimately show ?thesis using step3(1) by blast
qed

end
