(* ===== verification/OwnershipSample.thy ===== *)
theory OwnershipSample
  imports Ownership ControlPlaneSample
begin

text \<open>
  Ownership on the in-memory service: an in-place update that keeps the owner of an instance, and one whose NodeClass takes
  the instance for another NodeClaim.
\<close>

definition ownedWorld :: fake_world where
  "ownedWorld = storeInstance (blankInstance\<lparr>LiID := 7, LiStatus := ''running'', LiTags := [''old=1'', NodeClaimTag ''web'']\<rparr>) NewFakeWorld"

definition ownedStart :: "mem_kube \<Rightarrow> ((fake_world \<times> log) sample_state, unit, string timed, mem_kube) plane_state" where
  "ownedStart k = (planeWith k)\<lparr>planeCluster := \<lparr>nodeState = freshState ownedWorld, typeState = (), kubeState = k\<rparr>\<rparr>"

definition ownedRun :: "mem_kube \<Rightarrow> (nilerr \<times> ((fake_world \<times> log) sample_state, unit, mem_kube) cluster) option" where
  "ownedRun k = inplaceReconcile (nodeClaimControllers samplePlane) joinedClaim (planeCluster (ownedStart k))"

text \<open>What a run leaves in the log: the owners that replies show, and those that updates write.\<close>

definition ownersIn :: "log \<Rightarrow> string list list" where
  "ownersIn l = List.map_filter (\<lambda>ev. case ev of GotInstance n li \<Rightarrow> Some (owners (LiTags li))
     | Sent (UpdateInstanceReq n ts) ok \<Rightarrow> Some (owners ts) | _ \<Rightarrow> None) l"

definition greedyKube :: mem_kube where
  "greedyKube = sampleKube\<lparr>mkClasses := [readyClass\<lparr>Spec := (Spec readyClass)\<lparr>SpecTags := [''karpenter.sh/nodeclaim=other'']\<rparr>\<rparr>]\<rparr>"

lemma ownedRun_evaluates:
  "map_option (\<lambda>(e, st). (e, ownersIn (logOf (nodeState st)), length (logOf (nodeState st)))) (ownedRun sampleKube) =
     Some (None, [[''web''], [''web'']], 2)"
  by code_simp

lemma greedy_class_takes_instance:
  "map_option (\<lambda>(e, st). (e, ownersIn (logOf (nodeState st)))) (ownedRun greedyKube) = Some (None, [[''web''], [''other'']])"
  by code_simp

definition othersQuiet :: "mem_kube \<times> (fake_world \<times> log) sample_state \<Rightarrow> mem_kube \<times> (fake_world \<times> log) sample_state \<Rightarrow> bool" where
  "othersQuiet x y \<longleftrightarrow> logOf (snd y) = logOf (snd x)"

lemma ownership_respected_witness:
  "\<exists>s' l. plane_step samplePlane othersQuiet (unowned lineJson) (ownedStart sampleKube) s' \<and>
     logOf (nodeState (planeCluster s')) = l \<and> leaves_owners None l \<and> ownersIn l = [[''web''], [''web'']]"
proof -
  obtain st where run: "ownedRun sampleKube = Some (None, st)" "ownersIn (logOf (nodeState st)) = [[''web''], [''web'']]"
    using ownedRun_evaluates by (cases "ownedRun sampleKube") auto
  let ?s' = "(ownedStart sampleKube)\<lparr>planeCluster := st\<rparr>"
  have json: "planeJson samplePlane = lineJson" by (simp add: samplePlane_def)
  have "unowned lineJson joinedClaim readyClass" by code_simp
  moreover have "classNamed sampleKube name = Some nodeClass \<Longrightarrow> nodeClass = readyClass" for name nodeClass
    by (auto simp: classNamed_def sampleKube_def split: if_splits)
  ultimately have "unowned lineJson joinedClaim nodeClass"
    if "KGetNodeClass memKube name (kubeOf (ownedStart sampleKube)) = (Inr nodeClass, k')" for name nodeClass k'
    using that by (auto simp: memKube_def foundOr_def ownedStart_def planeWith_def split: option.splits)
  then have step: "plane_step samplePlane othersQuiet (unowned (planeJson samplePlane)) (ownedStart sampleKube) ?s'"
    using run(1) by (intro plane_step.in_place) (auto simp: ownedRun_def json samplePlane_wired)
  have "nodeProvider (planeCloud samplePlane) = lkeProvider (onLog recordedLke fakeClient fakeRuntime)"
    by (simp add: samplePlane_def recordedLke_onLog [symmetric])
  moreover have "range_ok (rangeOrder recordedLke)" "range_ok (planeRange samplePlane)"
    by (simp_all add: samplePlane_def range_ok_id)
  moreover have "unlogged samplePlane othersQuiet"
    by (simp add: unlogged_def othersQuiet_def samplePlane_def logOf_def)
  moreover have "logOf (nodeState (planeCluster (ownedStart sampleKube))) = []"
    by (simp add: ownedStart_def logOf_def)
  ultimately have "leaves_owners None (logOf (nodeState (planeCluster ?s')))"
    using ownership_respected [of samplePlane recordedLke fakeClient fakeRuntime othersQuiet "ownedStart sampleKube" ?s'] step by auto
  with step run(2) show ?thesis unfolding json by (intro exI [of _ ?s']) auto
qed

end
