(* ===== verification/Spec2Isabelle.thy ===== *)
theory Spec2Isabelle
  imports PoolListing ControllerSample ClassSample ProviderSample OperatorSample PoolLockSample MetricsController FakeSample Watches Flags Idempotence OwnershipSample
begin

text \<open>
  The Karpenter provider for Linode, modelled from its Go sources, with the theorems that make it correct. All paths
  below are under src/.

  \<^bold>\<open>The program.\<close> Karpenter asks a cloud provider (pkg/cloudprovider) for instance types and for machines. The
  provider runs in one of two modes: in instance mode it creates plain Linode instances (pkg/providers/instance), in LKE
  mode it grows node pools of a managed cluster and claims their nodes by a tag (pkg/providers/lke). Both implement the
  interface \<open>instance.Provider\<close> and talk to the Linode API through the interface \<open>LinodeAPI\<close> of pkg/linode/sdk.go. The
  instance types, their offerings and what real nodes were seen to have come from pkg/providers/instancetype; launches
  that failed for lack of capacity are marked in pkg/cache, and the marks hide offerings. Controllers (pkg/controllers)
  validate NodeClasses, stamp their hashes, tag instances, collect instances without a NodeClaim, refresh instance types
  and publish gauges. pkg/operator parses the options and builds all of it; pkg/fake is an in-memory Linode service.

  \<^bold>\<open>How it is modelled.\<close> A Go struct is a record with the fields the code reads or writes, a pointer an option, a Go
  map an association list with distinct keys. A function that returns a value and an error has the type
  \<open>'a res = err + 'a\<close>; an error alone is \<open>nilerr = err option\<close>, with \<open>errors.Is\<close> and \<open>errors.As\<close> on error values
  that keep what they wrap (GoErrors). State is passed explicitly: \<open>lke_state\<close>, \<open>ip_state\<close>, the provider of
  instance types and the operator each have a record, whose world component is the state of everything outside. Code that
  is not under src/ is a parameter: the Linode API is the record \<open>linode_api\<close> of operations on an abstract world, the
  Kubernetes client and event recorder likewise (Kube), Karpenter's scheduling functions are the record \<open>sched\<close>, the
  cache library is \<open>cache_ops\<close> with its documented laws \<open>cache_ok\<close>, JSON, hashes, quantity and float parsers and
  the error helpers of libraries are functions of the records that use them. A nil dereference and a panic are
  the value \<open>None\<close>; \<open>Option.bind\<close> and \<open>case\<close> propagate it. Durations and times are integers in nanoseconds; the
  64-bit products of the backoff wrap around as Go's do (\<open>wrap64\<close>). The order in which Go ranges over a map is a
  parameter wherever it can be seen (\<open>rangeOrder\<close>, \<open>oRange\<close>), and a theorem holds for every order that is one.

  \<^bold>\<open>The theories.\<close>
  \<^item> Prelude, GoErrors, GoCache, Float64: vocabulary shared by all; Float64 is the rounding of Go's float64 on the
    rational values the code computes, and the range it has.
  \<^item> Labels, ApiTypes, LinodeApi, Kube: label keys, the LinodeNodeClass and the Kubernetes objects, the Linode API and the
    recorder \<open>logged\<close> that theorems about requests are stated with, the Kubernetes client and the events.
  \<^item> Tags, TagViews, ClaimTags, ProviderIds (pkg/utils/utils.go): tag lists and maps, their abstract view, the ownership
    tag of a NodeClaim (bounded by the tag limit, read back exactly), provider ids.
  \<^item> Backoff (\<open>BackoffTracker\<close>): locale \<open>backoff_gate\<close>; the delay after the k-th consecutive failure, the independence of
    keys. Unavailable (pkg/cache/unavailableofferings.go): the sequence numbers tell every change of the marks.
  \<^item> InstanceSelection (utils, instance/filter, instance/types.go): the compatible-available filter and the cheapest type.
  \<^item> LkePools, LkeCreate, LkeInstances (pkg/providers/lke/lke.go, in this order): the steps of an attempt, the loop of
    \<open>Create\<close>, then Get, List, Delete and tags. LkeCreateAudit, ClaimProps and LkeCreateProps: every request is justified by
    the replies before it, the tags a claim writes, that Create returns, its backoff. PoolListing: under the contract
    \<open>pool_listing\<close> a Create grows the cluster at most once, and what happens without it. PoolLock: the
    attempts under the lock of a pool, of any NodeClaims, claim different instances. Idempotence: under the contract
    \<open>tag_index\<close> a repeated Create changes nothing and finds the first instance that carries its tag. EphemeralTaints: the startup taints.
  \<^item> InstanceProvider, InstanceProps (pkg/providers/instance/instance.go): the operations of instance mode, the launch, the
    delete and the tag requests. NodeProvider: the interface, as the locales \<open>node_provider\<close> and
    \<open>class_keeping_provider\<close>, interpreted by both providers; what the cloud provider and the controllers send is proved
    inside the locales, for either mode.
  \<^item> CloudProvider, CloudProps, Drift (pkg/cloudprovider): Create only for a ready, reconciled NodeClass, ids that lead back,
    drift exactly when the hashed spec has changed.
  \<^item> NodeClassHash, InPlaceTags, ClaimControllers, GarbageCollection, NodeClassValidation, NodeClassController,
    MetricsController, Watches (pkg/controllers): one section per controller, \<open>Reconcile\<close> whole; Watches has the event filters
    of the \<open>Register\<close> methods.
  \<^item> ControlPlane, Ownership (pkg/controllers/controllers.go): all controllers on one API server and one node provider. The
    inductive relation \<open>plane_step\<close> makes one step of each reconcile, of each call of Karpenter and of each change by others,
    with objects as old as one likes, and two steps, with anything between them, of the reconcile of a deleted NodeClass: the
    listing of its NodeClaims (\<open>listUsers\<close>) and the patch (\<open>releaseClass\<close>). The locales \<open>kube_view\<close>, \<open>class_view\<close>, \<open>claim_view\<close> and
    \<open>node_order\<close> carry what a component leaves alone through its clients. Over every run, the finalizer of a NodeClass goes
    only after a moment at which nothing used it, and a NodeClaim that uses it when it goes was created by others since (which
    happens: \<open>late_claim_loses_class\<close>); and no tag update takes an instance from the NodeClaim that owns it, with the one
    exception modelling showed.
  \<^item> InstanceTypes, InstanceTypeProps, LabelRegistry (pkg/providers/instancetype/types.go, dynamicresources.go,
    nvidiagpu.go; the \<open>init\<close> of labels.go): the Karpenter instance type of a plan: capacity, reservations, GPUs, labels.
  \<^item> Offerings, TypeProvider, OfferingsFresh, CapacityProps (offering/offering.go, instancetype.go and two controllers): the
    listing with its caches, that it is never stale whatever happened before, and the discovered capacity in all that Get
    and List answer, over any registrations and listings (\<open>type_event\<close>).
  \<^item> Operator, Flags (pkg/operator): options, discovery of the cluster, construction of the providers, flags.
  \<^item> FakeApi, FakeStore (pkg/fake): the in-memory service, an instance of \<open>linode_api\<close>, and the invariant of its store,
    carried by the locale \<open>kept_world\<close> through every operation of both providers.
  \<^item> LkeSample, MemKube and the theories named Sample: concrete inputs. Each theorem with hypotheses has a lemma
    of its name with the suffix \<open>_witness\<close> that applies it where they hold, mostly on the in-memory service.

  \<^bold>\<open>Loops.\<close> \<open>createLoop\<close> and \<open>verifyLoop\<close> repeat until a deadline and are partial functions into option;
  \<open>Create_returns\<close> proves that they return when the clock does not run backwards and the delay of a retry is positive,
  which is what the options default to. All other loops range over lists and are structural. No fuel is used anywhere.

  \<^bold>\<open>Concurrency.\<close> Each operation is a sequential program. The pool lock makes the attempts on one pool a
  sequence (\<open>pool_history\<close>); the workers of the garbage collector run in an order that is a parameter; the other locks
  protect single reads and writes and do nothing in one thread. The controllers and Karpenter interleave in any order, one
  reconcile or call at a time (\<open>plane_step\<close>), that of a deleted NodeClass in its two halves, so that its listing may be as old
  as the cache of the manager makes it; what others do to the API server and to Linode is the parameter \<open>env\<close>, and what
  an in-place update may work with is the parameter \<open>meets\<close>. A NodeClass that changes while a reconcile runs is the
  outdated object the reconcile was started with, and the patches that matter carry the resource version.

  \<^bold>\<open>Not modelled.\<close> pkg/apis/v1alpha1/zz_generated.deepcopy.go is generated. The network interface options of
  linodenodeclass.go (from \<open>LinodeInterfaceCreateOptions\<close> on) are declared but no field of the spec and no code uses
  them; doc.go and the scheme parts of apis.go register types. cmd/controller/main.go passes values from
  one constructor to another; \<open>Name\<close> and the builder calls of \<open>Register\<close> do the same, and of controllers.go the status
  controller of operatorpkg is left out, which only publishes conditions. The
  declarations of gauges (metrics.go) and log messages change no state that the program reads; pkg/errors is empty. \<open>KubeDNSIP\<close> returns an address that is only logged. The HTTP client of sdk.go is I/O; the random
  names of fake/utils.go have no specification; pkg/test holds fixtures of the tests. Of Karpenter's own
  state only the fields the code touches are there. Of the float64 values NaN and the infinities are left out: where an operation
  would give one, the model says so (\<open>computeEvictionSignal\<close>), and the memory overhead, a flag that can be set to NaN or
  infinity, is taken to be a finite number.
\<close>

end
